(* ===== verification/Bot_Prelude.thy ===== *)
theory Bot_Prelude
  imports Main "HOL-Library.Word" "HOL-Library.Char_ord" "HOL-Library.List_Lexorder"
    "HOL-Library.Product_Lexorder"
begin

section \<open>Prelude: results, rows, time, Python strings\<close>

text \<open>
  What every component of the bot shares:
  \<^item> the exceptions of the program as a datatype and the binding of results, with the
    collection \<open>res_simps\<close> that takes a chain of bindings apart;
  \<^item> rows of a table as a list in insertion order, looked up and updated by a key
    (collection \<open>row_simps\<close>), and \<open>ORDER BY\<close> as a stable sort;
  \<^item> instants of time as microseconds (Python's \<open>datetime\<close> resolution) and the range check
    of \<open>datetime\<close> arithmetic.
\<close>

named_theorems res_simps \<open>inversion of results and their bindings\<close>
named_theorems row_simps \<open>lookup after update and insertion\<close>

subsection \<open>Exceptions and results\<close>

datatype exn =
    PermanentProvisioningError string
  | RetryableProvisioningError string
  | IntegrityError
  | MultipleResultsFound
  | OverflowError
  | ValueError
  | KeyError
  | IndexError
  | TypeError
  | AttributeError
  | TelegramError
  | OSError string

text \<open>\<open>str(e)\<close>: the message of a provisioning error; the other exceptions are named.\<close>

fun exn_str :: "exn \<Rightarrow> string" where
  "exn_str (PermanentProvisioningError m) = m"
| "exn_str (RetryableProvisioningError m) = m"
| "exn_str (OSError m) = m"
| "exn_str IntegrityError = ''IntegrityError''"
| "exn_str MultipleResultsFound = ''MultipleResultsFound''"
| "exn_str OverflowError = ''OverflowError''"
| "exn_str ValueError = ''ValueError''"
| "exn_str KeyError = ''KeyError''"
| "exn_str IndexError = ''IndexError''"
| "exn_str TypeError = ''TypeError''"
| "exn_str AttributeError = ''AttributeError''"
| "exn_str TelegramError = ''TelegramError''"

definition bind_res :: "'e + 'a \<Rightarrow> ('a \<Rightarrow> 'e + 'b) \<Rightarrow> 'e + 'b" where
  "bind_res r f = (case r of Inl e \<Rightarrow> Inl e | Inr x \<Rightarrow> f x)"

lemma bind_res_simps [simp]:
  "bind_res (Inl e) f = Inl e"
  "bind_res (Inr x) f = f x"
  by (simp_all add: bind_res_def)

lemma bind_res_eq_Inr [res_simps]:
  "bind_res r f = Inr y \<longleftrightarrow> (\<exists>x. r = Inr x \<and> f x = Inr y)"
  by (cases r) auto

lemma bind_res_eq_Inl [res_simps]:
  "bind_res r f = Inl e \<longleftrightarrow> r = Inl e \<or> (\<exists>x. r = Inr x \<and> f x = Inl e)"
  by (cases r) auto

subsection \<open>Attempts\<close>

text \<open>An attempt changes a state and returns or raises; what it did before it raised stays done.
  The errors are \<open>exn\<close> in the bot and its services, and the script's own on the VPN host.\<close>

definition act_bind ::
  "('s \<Rightarrow> ('e + 'a) \<times> 's) \<Rightarrow> ('a \<Rightarrow> 's \<Rightarrow> ('e + 'b) \<times> 's) \<Rightarrow> 's \<Rightarrow> ('e + 'b) \<times> 's" where
  "act_bind m f s = (case m s of (Inl e, s1) \<Rightarrow> (Inl e, s1) | (Inr x, s1) \<Rightarrow> f x s1)"

definition return_act :: "'a \<Rightarrow> 's \<Rightarrow> ('e + 'a) \<times> 's" where
  "return_act x s = (Inr x, s)"

definition done_act :: "'s \<Rightarrow> ('e + unit) \<times> 's" where
  "done_act s = (Inr (), s)"

definition raise_act :: "'e \<Rightarrow> 's \<Rightarrow> ('e + 'a) \<times> 's" where
  "raise_act e s = (Inl e, s)"

lemma act_bind_Inr:
  assumes "act_bind m f s = (Inr y, s')"
  obtains x s1 where "m s = (Inr x, s1)" "f x s1 = (Inr y, s')"
  using assms by (auto simp: act_bind_def split: prod.splits sum.splits)

subsection \<open>Rows\<close>

definition find_row :: "('r \<Rightarrow> 'k) \<Rightarrow> 'k \<Rightarrow> 'r list \<Rightarrow> 'r option" where
  "find_row key k rs = find (\<lambda>r. key r = k) rs"

definition update_row :: "('r \<Rightarrow> 'k) \<Rightarrow> 'k \<Rightarrow> ('r \<Rightarrow> 'r) \<Rightarrow> 'r list \<Rightarrow> 'r list" where
  "update_row key k f rs = map (\<lambda>r. if key r = k then f r else r) rs"

lemma find_row_Nil [simp]: "find_row key k [] = None"
  by (simp add: find_row_def)

lemma find_row_Cons [simp]:
  "find_row key k (r # rs) = (if key r = k then Some r else find_row key k rs)"
  by (simp add: find_row_def)

lemma find_row_Some: "find_row key k rs = Some r \<Longrightarrow> r \<in> set rs \<and> key r = k"
  by (induction rs) (auto split: if_splits)

lemma find_row_None: "find_row key k rs = None \<longleftrightarrow> k \<notin> key ` set rs"
  by (induction rs) auto

lemma find_row_append [row_simps]:
  "find_row key k (rs @ qs) =
     (case find_row key k rs of None \<Rightarrow> find_row key k qs | Some r \<Rightarrow> Some r)"
  by (induction rs) auto

lemma find_row_distinct:
  "distinct (map key rs) \<Longrightarrow> find_row key k rs = Some r \<longleftrightarrow> r \<in> set rs \<and> key r = k"
  by (induction rs) (auto simp: image_iff)

lemma update_row_Nil [simp]: "update_row key k f [] = []"
  by (simp add: update_row_def)

lemma update_row_Cons [simp]:
  "update_row key k f (r # rs) = (if key r = k then f r else r) # update_row key k f rs"
  by (simp add: update_row_def)

lemma length_update_row [simp]: "length (update_row key k f rs) = length rs"
  by (simp add: update_row_def)

lemma find_update_row [row_simps]:
  "(\<And>r. key (f r) = key r) \<Longrightarrow>
   find_row key i (update_row key k f rs) =
     (if i = k then map_option f (find_row key i rs) else find_row key i rs)"
  by (induction rs) auto

lemma find_row_map:
  "(\<And>r. key (f r) = key r) \<Longrightarrow> find_row key k (map f rs) = map_option f (find_row key k rs)"
  by (induction rs) auto

lemma map_update_row:
  "(\<And>r. g (f r) = g r) \<Longrightarrow> map g (update_row key k f rs) = map g rs"
  by (induction rs) auto

lemma mem_update_row:
  "x \<in> set (update_row key k f rs) \<longleftrightarrow>
     (\<exists>r \<in> set rs. x = (if key r = k then f r else r))"
  by (induction rs) auto

lemma update_row_idle: "k \<notin> key ` set rs \<Longrightarrow> update_row key k f rs = rs"
  by (induction rs) auto

lemma update_row_none: "find_row key k rs = None \<Longrightarrow> update_row key k f rs = rs"
  by (simp add: find_row_None update_row_idle)

text \<open>A nullable unique column: SQL lets any number of rows hold NULL.\<close>

definition distinct_opt :: "'a option list \<Rightarrow> bool" where
  "distinct_opt xs = distinct (filter (\<lambda>x. x \<noteq> None) xs)"

lemma distinct_opt_append_None [simp]: "distinct_opt (xs @ [None]) = distinct_opt xs"
  by (simp add: distinct_opt_def)

lemma distinct_opt_append_Some [simp]:
  "distinct_opt (xs @ [Some x]) \<longleftrightarrow> Some x \<notin> set xs \<and> distinct_opt xs"
  by (auto simp: distinct_opt_def)

text \<open>\<open>ORDER BY\<close>: ascending and descending on an integer or ordered key.\<close>

definition order_by :: "('r \<Rightarrow> 'k::linorder) \<Rightarrow> 'r list \<Rightarrow> 'r list" where
  "order_by key rs = sort_key key rs"

definition order_by_desc :: "('r \<Rightarrow> int) \<Rightarrow> 'r list \<Rightarrow> 'r list" where
  "order_by_desc key rs = sort_key (\<lambda>r. - key r) rs"

lemma set_order_by [simp]: "set (order_by key rs) = set rs"
  by (simp add: order_by_def)

lemma set_order_by_desc [simp]: "set (order_by_desc key rs) = set rs"
  by (simp add: order_by_desc_def)

lemma length_order_by [simp]: "length (order_by key rs) = length rs"
  by (simp add: order_by_def)

lemma length_order_by_desc [simp]: "length (order_by_desc key rs) = length rs"
  by (simp add: order_by_desc_def)

lemma sorted_order_by: "sorted (map key (order_by key rs))"
  by (simp add: order_by_def)

lemma distinct_map_order_by: "distinct (map f rs) \<Longrightarrow> distinct (map f (order_by key rs))"
  by (metis order_by_def distinct_map distinct_sort set_sort)

subsection \<open>Time\<close>

text \<open>
  An instant is the number of microseconds since the epoch, UTC. SQLite hands back naive
  datetimes, which the code reads as UTC (\<open>_aware\<close>, \<open>_to_utc\<close>), so an instant read back is
  the one stored. Adding a \<open>timedelta\<close> raises \<open>OverflowError\<close> outside the years 1 to 9999,
  and \<open>timedelta(days=n)\<close> does so for more than 999999999 days.
\<close>

type_synonym datetime = int

definition second :: int where "second = 1000000"
definition minute :: int where "minute = 60 * second"
definition hour :: int where "hour = 60 * minute"
definition day :: int where "day = 24 * hour"

lemmas time_units = second_def minute_def hour_def day_def

definition min_datetime :: datetime where "min_datetime = - 62135596800000000"
definition max_datetime :: datetime where "max_datetime = 253402300799999999"

definition timedelta_days :: "int \<Rightarrow> exn + int" where
  "timedelta_days n = (if \<bar>n\<bar> \<le> 999999999 then Inr (n * day) else Inl OverflowError)"

definition dt_add :: "datetime \<Rightarrow> int \<Rightarrow> exn + datetime" where
  "dt_add t \<delta> = (if min_datetime \<le> t + \<delta> \<and> t + \<delta> \<le> max_datetime then Inr (t + \<delta>)
                 else Inl OverflowError)"

definition add_days :: "datetime \<Rightarrow> int \<Rightarrow> exn + datetime" where
  "add_days t n = bind_res (timedelta_days n) (dt_add t)"

lemma add_days_eq_Inr [res_simps]:
  "add_days t n = Inr t' \<longleftrightarrow>
     t' = t + n * day \<and> \<bar>n\<bar> \<le> 999999999 \<and> min_datetime \<le> t' \<and> t' \<le> max_datetime"
  by (auto simp: add_days_def timedelta_days_def dt_add_def)

lemma day_pos [simp]: "0 < day"
  by (simp add: time_units)

end
