(* ===== verification/Py_Text.thy ===== *)
theory Py_Text
  imports Bot_Prelude
begin

section \<open>Python text and UUIDs\<close>

text \<open>
  The \<open>str\<close> methods the program calls, on strings of code points below 256 (one \<open>char\<close> per
  code point; \<open>lower\<close> and \<open>upper\<close> change ASCII letters only), the decimal form of an
  integer, and \<open>uuid.UUID\<close>: a 128-bit word, \<open>.hex\<close>, \<open>str()\<close> and the constructor from a
  string, with the round trip that the button data relies on.
\<close>

subsection \<open>str methods\<close>

definition py_lower_char :: "char \<Rightarrow> char" where
  "py_lower_char c =
     (let n = of_char c :: nat in if 65 \<le> n \<and> n \<le> 90 then char_of (n + 32) else c)"

definition py_lower :: "string \<Rightarrow> string" where
  "py_lower s = map py_lower_char s"

definition py_upper_char :: "char \<Rightarrow> char" where
  "py_upper_char c =
     (let n = of_char c :: nat in if 97 \<le> n \<and> n \<le> 122 then char_of (n - 32) else c)"

definition py_upper :: "string \<Rightarrow> string" where
  "py_upper s = map py_upper_char s"

text \<open>\<open>str.isspace\<close> on these code points: tab to carriage return, the four separators,
  space, next line and no-break space.\<close>

definition is_space :: "char \<Rightarrow> bool" where
  "is_space c =
     (let n = of_char c :: nat
      in (9 \<le> n \<and> n \<le> 13) \<or> (28 \<le> n \<and> n \<le> 32) \<or> n = 133 \<or> n = 160)"

definition py_lstrip :: "string \<Rightarrow> string" where
  "py_lstrip s = dropWhile is_space s"

definition py_rstrip :: "string \<Rightarrow> string" where
  "py_rstrip s = rev (dropWhile is_space (rev s))"

definition py_strip :: "string \<Rightarrow> string" where
  "py_strip s = py_rstrip (py_lstrip s)"

fun starts_with :: "string \<Rightarrow> string \<Rightarrow> bool" where
  "starts_with s [] = True"
| "starts_with [] (p # ps) = False"
| "starts_with (c # s) (p # ps) = (c = p \<and> starts_with s ps)"

text \<open>\<open>sub in s\<close> for strings.\<close>

fun contains_str :: "string \<Rightarrow> string \<Rightarrow> bool" where
  "contains_str [] sub = (sub = [])"
| "contains_str (c # s) sub = (starts_with (c # s) sub \<or> contains_str s sub)"

text \<open>\<open>s.split(sep)\<close> for a separator of one character, and \<open>s.split(sep, n)\<close>.\<close>

fun split_char :: "char \<Rightarrow> string \<Rightarrow> string list" where
  "split_char sep [] = [[]]"
| "split_char sep (c # s) =
     (if c = sep then [] # split_char sep s
      else (case split_char sep s of [] \<Rightarrow> [[c]] | w # ws \<Rightarrow> (c # w) # ws))"

fun split_char_max :: "char \<Rightarrow> nat \<Rightarrow> string \<Rightarrow> string list" where
  "split_char_max sep 0 s = [s]"
| "split_char_max sep (Suc n) [] = [[]]"
| "split_char_max sep (Suc n) (c # s) =
     (if c = sep then [] # split_char_max sep n s
      else (case split_char_max sep (Suc n) s of [] \<Rightarrow> [[c]] | w # ws \<Rightarrow> (c # w) # ws))"

text \<open>\<open>sep.join(ws)\<close>.\<close>

fun py_join :: "string \<Rightarrow> string list \<Rightarrow> string" where
  "py_join sep [] = []"
| "py_join sep [w] = w"
| "py_join sep (w # v # ws) = w @ sep @ py_join sep (v # ws)"

lemma split_char_not_Nil [simp]: "split_char sep s \<noteq> []"
  by (cases s) (auto split: list.split)

lemma split_char_word: "sep \<notin> set w \<Longrightarrow> split_char sep w = [w]"
  by (induction w) auto

lemma split_char_append:
  "sep \<notin> set w \<Longrightarrow> split_char sep (w @ sep # s) = w # split_char sep s"
  by (induction w) auto

lemma split_char_join:
  "ws \<noteq> [] \<Longrightarrow> \<forall>w \<in> set ws. sep \<notin> set w \<Longrightarrow> split_char sep (py_join [sep] ws) = ws"
  by (induction "[sep]" ws rule: py_join.induct) (auto simp: split_char_word split_char_append)

lemma split_char_max_word: "sep \<notin> set w \<Longrightarrow> split_char_max sep n w = [w]"
  by (induction w; cases n) auto

lemma split_char_max_append:
  "sep \<notin> set w \<Longrightarrow> split_char_max sep (Suc n) (w @ sep # s) = w # split_char_max sep n s"
  by (induction w) auto

text \<open>\<open>s.split()\<close>: maximal runs without white space.\<close>

fun split_ws_from :: "string \<Rightarrow> string \<Rightarrow> string list" where
  "split_ws_from w [] = (if w = [] then [] else [rev w])"
| "split_ws_from w (c # s) =
     (if is_space c then (if w = [] then split_ws_from [] s else rev w # split_ws_from [] s)
      else split_ws_from (c # w) s)"

definition split_ws :: "string \<Rightarrow> string list" where
  "split_ws s = split_ws_from [] s"

text \<open>\<open>s.split(sep)\<close> for a longer separator: cut at the first occurrence, then go on after
  it. The separators of the program are not empty (Python raises on an empty one).\<close>

function split_str :: "string \<Rightarrow> string \<Rightarrow> string \<Rightarrow> string list" where
  "split_str sep w [] = [rev w]"
| "split_str sep w (c # s) =
     (if sep \<noteq> [] \<and> starts_with (c # s) sep
      then rev w # split_str sep [] (drop (length sep) (c # s))
      else split_str sep (c # w) s)"
  by pat_completeness auto
termination
  by (relation "measure (\<lambda>(sep, w, s). length s)") (auto simp: neq_Nil_conv)

text \<open>\<open>str.isdigit\<close>: not empty and every code point a digit, the superscripts two, three
  and one (178, 179, 185) included; \<open>int(s)\<close> takes only the decimal digits among them.\<close>

definition is_decimal :: "char \<Rightarrow> bool" where
  "is_decimal c = (let n = of_char c :: nat in 48 \<le> n \<and> n \<le> 57)"

definition is_digit_char :: "char \<Rightarrow> bool" where
  "is_digit_char c = (is_decimal c \<or> (of_char c :: nat) \<in> {178, 179, 185})"

definition py_isdigit :: "string \<Rightarrow> bool" where
  "py_isdigit s = (s \<noteq> [] \<and> list_all is_digit_char s)"

definition digit_val :: "char \<Rightarrow> nat" where
  "digit_val c = (of_char c :: nat) - 48"

definition dec_value :: "string \<Rightarrow> nat" where
  "dec_value s = foldl (\<lambda>a c. 10 * a + digit_val c) 0 s"

text \<open>\<open>int(s)\<close> for an optional sign and digits (the forms that reach it here; white space
  around the number and underscores between digits are not modelled).\<close>

definition py_int :: "string \<Rightarrow> exn + int" where
  "py_int s =
     (let (neg, ds) = (case s of [] \<Rightarrow> (False, [])
                        | c # r \<Rightarrow> if c = CHR ''-'' then (True, r)
                                   else if c = CHR ''+'' then (False, r) else (False, s))
      in if ds \<noteq> [] \<and> list_all is_decimal ds
         then Inr (if neg then - int (dec_value ds) else int (dec_value ds))
         else Inl ValueError)"

subsection \<open>Decimal form of integers\<close>

definition digit_char :: "nat \<Rightarrow> char" where
  "digit_char d = char_of (48 + d)"

fun show_nat :: "nat \<Rightarrow> string" where
  "show_nat n = (if n < 10 then [digit_char n] else show_nat (n div 10) @ [digit_char (n mod 10)])"

declare show_nat.simps [simp del]

definition show_int :: "int \<Rightarrow> string" where
  "show_int z = (if z < 0 then CHR ''-'' # show_nat (nat (- z)) else show_nat (nat z))"

lemma of_char_digit: "d < 10 \<Longrightarrow> (of_char (digit_char d) :: nat) = 48 + d"
  by (simp add: digit_char_def)

lemma digit_val_digit [simp]: "d < 10 \<Longrightarrow> digit_val (digit_char d) = d"
  by (simp add: digit_val_def of_char_digit)

lemma is_decimal_digit [simp]: "d < 10 \<Longrightarrow> is_decimal (digit_char d)"
  by (simp add: is_decimal_def of_char_digit)

lemma dec_value_snoc: "dec_value (s @ [c]) = 10 * dec_value s + digit_val c"
  by (simp add: dec_value_def)

lemma dec_value_show_nat: "dec_value (show_nat n) = n"
proof (induction n rule: show_nat.induct)
  case (1 n)
  show ?case
  proof (cases "n < 10")
    case True
    then show ?thesis
      by (subst show_nat.simps) (simp add: dec_value_def)
  next
    case False
    with 1 have "dec_value (show_nat (n div 10)) = n div 10"
      by simp
    with False show ?thesis
      by (subst show_nat.simps) (simp add: dec_value_snoc)
  qed
qed

lemma show_nat_inj: "show_nat m = show_nat n \<longleftrightarrow> m = n"
  by (metis dec_value_show_nat)

lemma show_nat_decimal: "list_all is_decimal (show_nat n)"
proof (induction n rule: show_nat.induct)
  case (1 n)
  then show ?case
    by (subst show_nat.simps) simp
qed

lemma show_nat_not_Nil [simp]: "show_nat n \<noteq> []"
  by (subst show_nat.simps) simp

lemma show_nat_zero: "show_nat n = CHR ''0'' # s \<Longrightarrow> s = []"
proof (induction n arbitrary: s rule: show_nat.induct)
  case (1 n)
  show ?case
  proof (cases "n < 10")
    case True
    then show ?thesis
      using 1(2) by (subst (asm) show_nat.simps) simp
  next
    case False
    then have split: "show_nat n = show_nat (n div 10) @ [digit_char (n mod 10)]"
      by (subst show_nat.simps) simp
    obtain s' where s': "show_nat (n div 10) = CHR ''0'' # s'"
      using 1(2) split by (cases "show_nat (n div 10)") auto
    with 1(1) [OF False] have "show_nat (n div 10) = ''0''"
      by simp
    moreover have "n div 10 \<noteq> 0"
      using False by simp
    ultimately show ?thesis
      using dec_value_show_nat [of "n div 10"] by (simp add: dec_value_def digit_val_def)
  qed
qed

lemma minus_not_decimal [simp]: "\<not> is_decimal (CHR ''-'')" "\<not> is_decimal (CHR ''+'')"
  by (simp_all add: is_decimal_def)

text \<open>Printing an integer and reading it back gives the integer.\<close>

lemma py_int_show_int: "py_int (show_int z) = Inr z"
proof -
  obtain c r where cr: "show_nat (nat z) = c # r"
    by (meson neq_Nil_conv show_nat_not_Nil)
  with show_nat_decimal [of "nat z"] have "is_decimal c" "list_all is_decimal r"
    by simp_all
  then have "c \<noteq> CHR ''-''" "c \<noteq> CHR ''+''"
    using minus_not_decimal by metis+
  then show ?thesis
    using cr \<open>is_decimal c\<close> \<open>list_all is_decimal r\<close> dec_value_show_nat [of "nat z"]
    by (cases "z < 0")
      (simp_all add: py_int_def show_int_def show_nat_decimal dec_value_show_nat)
qed

lemma show_int_inj: "show_int a = show_int b \<longleftrightarrow> a = b"
  by (metis py_int_show_int sum.inject(2))

subsection \<open>UUIDs\<close>

type_synonym uuid = "128 word"

definition hex_char :: "nat \<Rightarrow> char" where
  "hex_char d = char_of (if d < 10 then 48 + d else 87 + d)"

definition hex_val :: "char \<Rightarrow> nat option" where
  "hex_val c =
     (let n = of_char c :: nat
      in if 48 \<le> n \<and> n \<le> 57 then Some (n - 48)
         else if 97 \<le> n \<and> n \<le> 102 then Some (n - 87)
         else if 65 \<le> n \<and> n \<le> 70 then Some (n - 55)
         else None)"

fun hex_digits :: "nat \<Rightarrow> nat \<Rightarrow> string" where
  "hex_digits 0 n = []"
| "hex_digits (Suc k) n = hex_digits k (n div 16) @ [hex_char (n mod 16)]"

fun hex_value :: "nat \<Rightarrow> string \<Rightarrow> nat option" where
  "hex_value a [] = Some a"
| "hex_value a (c # s) =
     (case hex_val c of None \<Rightarrow> None | Some d \<Rightarrow> hex_value (16 * a + d) s)"

text \<open>\<open>u.hex\<close> and \<open>str(u)\<close>.\<close>

definition uuid_hex :: "uuid \<Rightarrow> string" where
  "uuid_hex u = hex_digits 32 (unat u)"

definition uuid_str :: "uuid \<Rightarrow> string" where
  "uuid_str u =
     (let h = uuid_hex u
      in take 8 h @ ''-'' @ take 4 (drop 8 h) @ ''-'' @ take 4 (drop 12 h) @ ''-''
         @ take 4 (drop 16 h) @ ''-'' @ drop 20 h)"

text \<open>
  \<open>uuid.UUID(s)\<close> and \<open>uuid.UUID(hex=s)\<close>: the prefixes \<open>urn:\<close> and \<open>uuid:\<close> are deleted, braces
  are stripped from the ends, hyphens are deleted, and the remaining 32 characters are read
  as a hexadecimal number. (\<open>int(_, 16)\<close> would also take a sign, white space or underscores
  among the 32 characters; those spellings are not modelled and count as invalid.)
\<close>

definition delete_str :: "string \<Rightarrow> string \<Rightarrow> string" where
  "delete_str sub s = concat (split_str sub [] s)"

definition is_brace :: "char \<Rightarrow> bool" where
  "is_brace c = (c = CHR ''{'' \<or> c = CHR ''}'')"

definition strip_braces :: "string \<Rightarrow> string" where
  "strip_braces s = rev (dropWhile is_brace (rev (dropWhile is_brace s)))"

definition parse_uuid :: "string \<Rightarrow> exn + uuid" where
  "parse_uuid s =
     (let h = filter (\<lambda>c. c \<noteq> CHR ''-'')
                (strip_braces (delete_str ''uuid:'' (delete_str ''urn:'' s)))
      in if length h = 32
         then (case hex_value 0 h of None \<Rightarrow> Inl ValueError | Some n \<Rightarrow> Inr (of_nat n))
         else Inl ValueError)"

lemma hex_val_char [simp]: "d < 16 \<Longrightarrow> hex_val (hex_char d) = Some d"
  by (simp add: hex_val_def hex_char_def Let_def)

lemma length_hex_digits [simp]: "length (hex_digits k n) = k"
  by (induction k n rule: hex_digits.induct) simp_all

lemma hex_value_append:
  "hex_value a (s @ t) = Option.bind (hex_value a s) (\<lambda>b. hex_value b t)"
  by (induction a s rule: hex_value.induct) (auto split: option.splits)

lemma hex_value_digits: "n < 16 ^ k \<Longrightarrow> hex_value 0 (hex_digits k n) = Some n"
proof (induction k n rule: hex_digits.induct)
  case (1 n)
  then show ?case by simp
next
  case (2 k n)
  then have "n div 16 < 16 ^ k"
    by (simp add: less_mult_imp_div_less mult.commute)
  with 2 show ?case
    by (simp add: hex_value_append)
qed

definition is_hex_char :: "char \<Rightarrow> bool" where
  "is_hex_char c = (hex_val c \<noteq> None)"

lemma hex_digits_hex: "list_all is_hex_char (hex_digits k n)"
  by (induction k n rule: hex_digits.induct) (simp_all add: is_hex_char_def)

lemma hex_char_distinct:
  assumes "is_hex_char c"
  shows "c \<noteq> CHR ''-''" "c \<noteq> CHR ''u''" "\<not> is_brace c"
  using assms by (auto simp: is_hex_char_def hex_val_def is_brace_def)

lemma list_all_hex_filter:
  "list_all is_hex_char s \<Longrightarrow> filter (\<lambda>c. c \<noteq> CHR ''-'') s = s"
  by (induction s) (auto dest: hex_char_distinct)

lemma list_all_take: "list_all P s \<Longrightarrow> list_all P (take n s)"
  by (simp add: list_all_length)

lemma list_all_drop: "list_all P s \<Longrightarrow> list_all P (drop n s)"
  by (simp add: list_all_length)

text \<open>A string without the letter u holds neither prefix, so nothing is deleted.\<close>

lemma split_str_absent:
  assumes "CHR ''u'' \<notin> set s"
  shows "split_str (CHR ''u'' # sep) w s = [rev w @ s]"
  using assms
  by (induction "CHR ''u'' # sep" w s rule: split_str.induct) auto

lemma delete_str_absent:
  "CHR ''u'' \<notin> set s \<Longrightarrow> delete_str (CHR ''u'' # sep) s = s"
  by (simp add: delete_str_def split_str_absent)

lemma strip_braces_absent: "(\<And>c. c \<in> set s \<Longrightarrow> \<not> is_brace c) \<Longrightarrow> strip_braces s = s"
  by (metis strip_braces_def dropWhile_eq_self_iff hd_in_set rev_is_Nil_conv rev_rev_ident
      set_rev)

definition uuid_text :: "string \<Rightarrow> bool" where
  "uuid_text s = list_all (\<lambda>c. is_hex_char c \<or> c = CHR ''-'') s"

lemma parse_uuid_text:
  assumes "uuid_text s"
  shows "parse_uuid s =
    (let h = filter (\<lambda>c. c \<noteq> CHR ''-'') s
     in if length h = 32
        then (case hex_value 0 h of None \<Rightarrow> Inl ValueError | Some n \<Rightarrow> Inr (of_nat n))
        else Inl ValueError)"
proof -
  have hex: "is_hex_char c \<or> c = CHR ''-''" if "c \<in> set s" for c
    using assms that by (simp add: uuid_text_def list_all_iff)
  have u: "CHR ''u'' \<notin> set s"
  proof
    assume "CHR ''u'' \<in> set s"
    from hex [OF this] show False
      using hex_char_distinct(2) by force
  qed
  have b: "\<not> is_brace c" if "c \<in> set s" for c
    using hex [OF that] hex_char_distinct(3) [of c] by (auto simp: is_brace_def)
  have "delete_str ''urn:'' s = s" "delete_str ''uuid:'' s = s"
    by (rule delete_str_absent [OF u])+
  moreover have "strip_braces s = s"
    by (rule strip_braces_absent [OF b])
  ultimately show ?thesis
    unfolding parse_uuid_def by simp
qed

lemma unat_uuid_bound: "unat (u :: uuid) < 16 ^ 32"
proof -
  have "unat u < 2 ^ LENGTH(128)" by (rule unsigned_less)
  then show ?thesis by simp
qed

lemma hex_value_uuid_hex: "hex_value 0 (uuid_hex u) = Some (unat u)"
  unfolding uuid_hex_def by (rule hex_value_digits [OF unat_uuid_bound])

lemma uuid_hex_hex: "list_all is_hex_char (uuid_hex u)"
  by (simp add: uuid_hex_def hex_digits_hex)

lemma length_uuid_hex [simp]: "length (uuid_hex u) = 32"
  by (simp add: uuid_hex_def)

lemma parse_uuid_hex: "parse_uuid (uuid_hex u) = Inr u"
proof -
  have "uuid_text (uuid_hex u)"
    using uuid_hex_hex [of u] by (auto simp: uuid_text_def list_all_iff)
  then show ?thesis
    by (simp add: parse_uuid_text list_all_hex_filter [OF uuid_hex_hex] hex_value_uuid_hex)
qed

lemma take_drop_step: "take n (drop m xs) @ drop (n + m) xs = drop m xs"
  by (metis append_take_drop_id drop_drop)

lemma uuid_str_dehyphen: "filter (\<lambda>c. c \<noteq> CHR ''-'') (uuid_str u) = uuid_hex u"
proof -
  let ?h = "uuid_hex u"
  have f: "filter (\<lambda>c. c \<noteq> CHR ''-'') (take n (drop m ?h)) = take n (drop m ?h)" for m n
    by (intro list_all_hex_filter list_all_take list_all_drop uuid_hex_hex)
  have g: "filter (\<lambda>c. c \<noteq> CHR ''-'') (drop m ?h) = drop m ?h" for m
    by (intro list_all_hex_filter list_all_drop uuid_hex_hex)
  have "filter (\<lambda>c. c \<noteq> CHR ''-'') (uuid_str u) =
      take 8 ?h @ take 4 (drop 8 ?h) @ take 4 (drop 12 ?h) @ take 4 (drop 16 ?h) @ drop 20 ?h"
    using f [of 8 0] f [of 4 8] f [of 4 12] f [of 4 16] g [of 20]
    by (simp add: uuid_str_def Let_def)
  also have "\<dots> = ?h"
    using take_drop_step [of 4 16 ?h] take_drop_step [of 4 12 ?h] take_drop_step [of 4 8 ?h]
    by simp
  finally show ?thesis .
qed

lemma uuid_text_str: "uuid_text (uuid_str u)"
proof -
  have "is_hex_char c \<or> c = CHR ''-''" if "c \<in> set (uuid_str u)" for c
  proof (cases "c = CHR ''-''")
    case False
    with that have "c \<in> set (uuid_hex u)"
      by (auto simp flip: uuid_str_dehyphen)
    then show ?thesis
      using uuid_hex_hex by (simp add: list_all_iff)
  qed simp
  then show ?thesis
    by (simp add: uuid_text_def list_all_iff)
qed

lemma parse_uuid_str: "parse_uuid (uuid_str u) = Inr u"
  by (simp add: parse_uuid_text uuid_text_str uuid_str_dehyphen hex_value_uuid_hex)

lemma uuid_str_inj: "uuid_str u = uuid_str v \<longleftrightarrow> u = v"
  by (metis parse_uuid_str sum.inject(2))

lemma uuid_hex_inj: "uuid_hex u = uuid_hex v \<longleftrightarrow> u = v"
  by (metis parse_uuid_hex sum.inject(2))

end
