(* ===== verification/Bot_Db.thy ===== *)
theory Bot_Db
  imports Py_Text
begin

section \<open>The database: enumerations, rows, tables, constraints\<close>

text \<open>
  \<open>src/app/db/models\<close>: one datatype per enumeration with the string its column holds
  (\<open>EnumString\<close>), one record per table, and the database as the lists of their rows in
  insertion order. \<open>flush\<close> sends pending changes to the database, which refuses them with
  \<open>IntegrityError\<close> when a primary key or a UNIQUE column would repeat; the constraints are
  \<open>db_unique\<close>. Foreign keys are not checked (SQLite, the documented database, does not
  enforce them unless asked). Monetary amounts are kept in hundredths (\<open>Numeric(10, 2)\<close>).
  \<open>updated_at\<close> is kept for jobs only, the one table whose \<open>updated_at\<close> is read.
\<close>

subsection \<open>Enumerations\<close>

datatype order_status =
    DRAFT | AWAITING_RECEIPT | RECEIPT_SUBMITTED | APPROVED | REJECTED
  | O_PROVISIONING | FULFILLED | O_FAILED | CANCELLED

datatype subscription_status =
    S_PROVISIONING | ACTIVE | S_EXPIRED | DISABLED | S_FAILED | REVOKED

datatype job_type =
    CREATE_PEER | DISABLE_PEER | REMOVE_PEER | ENABLE_PEER | REDELIVER_CONFIG

datatype job_status =
    PENDING | PROCESSING | SUCCEEDED | RETRYABLE_FAILURE | PERMANENT_FAILURE

datatype notification_type =
    ORDER_RECEIVED | ORDER_APPROVED | ORDER_REJECTED | CONFIG_DELIVERED | EXPIRES_7D
  | EXPIRES_3D | EXPIRES_1D | N_EXPIRED | SUPPORT_REPLY

datatype ticket_status = OPEN | WAITING_FOR_ADMIN | WAITING_FOR_CUSTOMER | CLOSED

datatype sender_type = S_CUSTOMER | S_ADMIN | S_SYSTEM

datatype actor_type = A_CUSTOMER | A_ADMIN | A_SYSTEM

fun order_status_value :: "order_status \<Rightarrow> string" where
  "order_status_value DRAFT = ''draft''"
| "order_status_value AWAITING_RECEIPT = ''awaiting_receipt''"
| "order_status_value RECEIPT_SUBMITTED = ''receipt_submitted''"
| "order_status_value APPROVED = ''approved''"
| "order_status_value REJECTED = ''rejected''"
| "order_status_value O_PROVISIONING = ''provisioning''"
| "order_status_value FULFILLED = ''fulfilled''"
| "order_status_value O_FAILED = ''failed''"
| "order_status_value CANCELLED = ''cancelled''"

fun subscription_status_value :: "subscription_status \<Rightarrow> string" where
  "subscription_status_value S_PROVISIONING = ''provisioning''"
| "subscription_status_value ACTIVE = ''active''"
| "subscription_status_value S_EXPIRED = ''expired''"
| "subscription_status_value DISABLED = ''disabled''"
| "subscription_status_value S_FAILED = ''failed''"
| "subscription_status_value REVOKED = ''revoked''"

fun job_type_value :: "job_type \<Rightarrow> string" where
  "job_type_value CREATE_PEER = ''create_peer''"
| "job_type_value DISABLE_PEER = ''disable_peer''"
| "job_type_value REMOVE_PEER = ''remove_peer''"
| "job_type_value ENABLE_PEER = ''enable_peer''"
| "job_type_value REDELIVER_CONFIG = ''redeliver_config''"

fun job_status_value :: "job_status \<Rightarrow> string" where
  "job_status_value PENDING = ''pending''"
| "job_status_value PROCESSING = ''processing''"
| "job_status_value SUCCEEDED = ''succeeded''"
| "job_status_value RETRYABLE_FAILURE = ''retryable_failure''"
| "job_status_value PERMANENT_FAILURE = ''permanent_failure''"

fun notification_type_value :: "notification_type \<Rightarrow> string" where
  "notification_type_value ORDER_RECEIVED = ''order_received''"
| "notification_type_value ORDER_APPROVED = ''order_approved''"
| "notification_type_value ORDER_REJECTED = ''order_rejected''"
| "notification_type_value CONFIG_DELIVERED = ''config_delivered''"
| "notification_type_value EXPIRES_7D = ''expires_7d''"
| "notification_type_value EXPIRES_3D = ''expires_3d''"
| "notification_type_value EXPIRES_1D = ''expires_1d''"
| "notification_type_value N_EXPIRED = ''expired''"
| "notification_type_value SUPPORT_REPLY = ''support_reply''"

fun ticket_status_value :: "ticket_status \<Rightarrow> string" where
  "ticket_status_value OPEN = ''open''"
| "ticket_status_value WAITING_FOR_ADMIN = ''waiting_for_admin''"
| "ticket_status_value WAITING_FOR_CUSTOMER = ''waiting_for_customer''"
| "ticket_status_value CLOSED = ''closed''"

fun sender_type_value :: "sender_type \<Rightarrow> string" where
  "sender_type_value S_CUSTOMER = ''customer''"
| "sender_type_value S_ADMIN = ''admin''"
| "sender_type_value S_SYSTEM = ''system''"

fun actor_type_value :: "actor_type \<Rightarrow> string" where
  "actor_type_value A_CUSTOMER = ''customer''"
| "actor_type_value A_ADMIN = ''admin''"
| "actor_type_value A_SYSTEM = ''system''"

text \<open>
  \<open>EnumString\<close>: the column holds the member's value, and reading it looks the member up
  (\<open>enum_cls(value)\<close> raises \<open>ValueError\<close> for a string that is no member's value).
\<close>

definition process_bind_param :: "('e \<Rightarrow> string) \<Rightarrow> 'e option \<Rightarrow> string option" where
  "process_bind_param col e = map_option col e"

definition process_result_value ::
  "('e \<Rightarrow> string) \<Rightarrow> 'e list \<Rightarrow> string option \<Rightarrow> exn + 'e option" where
  "process_result_value col members s =
     (case s of
        None \<Rightarrow> Inr None
      | Some v \<Rightarrow> (case find (\<lambda>e. col e = v) members of
                    None \<Rightarrow> Inl ValueError
                  | Some e \<Rightarrow> Inr (Some e)))"

locale enum_column =
  fixes col :: "'e \<Rightarrow> string" and members :: "'e list"
  assumes value_inj: "col a = col b \<Longrightarrow> a = b"
    and members_all: "e \<in> set members"
begin

lemma find_member: "find (\<lambda>a. col a = col e) members = Some e"
proof -
  have "find (\<lambda>a. col a = col e) members \<noteq> None"
    using members_all [of e] by (auto simp: find_None_iff)
  then obtain a where a: "find (\<lambda>a. col a = col e) members = Some a"
    by blast
  then have "col a = col e"
    by (auto simp: find_Some_iff)
  with a show ?thesis
    using value_inj by simp
qed

lemma column_roundtrip:
  "process_result_value col members (process_bind_param col e) = Inr e"
  by (cases e) (simp_all add: process_result_value_def process_bind_param_def find_member)

end

definition order_statuses :: "order_status list" where
  "order_statuses = [DRAFT, AWAITING_RECEIPT, RECEIPT_SUBMITTED, APPROVED, REJECTED,
     O_PROVISIONING, FULFILLED, O_FAILED, CANCELLED]"

definition subscription_statuses :: "subscription_status list" where
  "subscription_statuses = [S_PROVISIONING, ACTIVE, S_EXPIRED, DISABLED, S_FAILED, REVOKED]"

definition job_types :: "job_type list" where
  "job_types = [CREATE_PEER, DISABLE_PEER, REMOVE_PEER, ENABLE_PEER, REDELIVER_CONFIG]"

definition job_statuses :: "job_status list" where
  "job_statuses = [PENDING, PROCESSING, SUCCEEDED, RETRYABLE_FAILURE, PERMANENT_FAILURE]"

definition notification_types :: "notification_type list" where
  "notification_types = [ORDER_RECEIVED, ORDER_APPROVED, ORDER_REJECTED, CONFIG_DELIVERED,
     EXPIRES_7D, EXPIRES_3D, EXPIRES_1D, N_EXPIRED, SUPPORT_REPLY]"

definition ticket_statuses :: "ticket_status list" where
  "ticket_statuses = [OPEN, WAITING_FOR_ADMIN, WAITING_FOR_CUSTOMER, CLOSED]"

interpretation order_status_col: enum_column order_status_value order_statuses
proof
  fix a b :: order_status
  show "order_status_value a = order_status_value b \<Longrightarrow> a = b"
    by (cases a; cases b; simp)
  show "a \<in> set order_statuses"
    by (cases a) (simp_all add: order_statuses_def)
qed

interpretation subscription_status_col:
  enum_column subscription_status_value subscription_statuses
proof
  fix a b :: subscription_status
  show "subscription_status_value a = subscription_status_value b \<Longrightarrow> a = b"
    by (cases a; cases b; simp)
  show "a \<in> set subscription_statuses"
    by (cases a) (simp_all add: subscription_statuses_def)
qed

interpretation job_type_col: enum_column job_type_value job_types
proof
  fix a b :: job_type
  show "job_type_value a = job_type_value b \<Longrightarrow> a = b"
    by (cases a; cases b; simp)
  show "a \<in> set job_types"
    by (cases a) (simp_all add: job_types_def)
qed

interpretation job_status_col: enum_column job_status_value job_statuses
proof
  fix a b :: job_status
  show "job_status_value a = job_status_value b \<Longrightarrow> a = b"
    by (cases a; cases b; simp)
  show "a \<in> set job_statuses"
    by (cases a) (simp_all add: job_statuses_def)
qed

interpretation notification_type_col: enum_column notification_type_value notification_types
proof
  fix a b :: notification_type
  show "notification_type_value a = notification_type_value b \<Longrightarrow> a = b"
    by (cases a; cases b; simp)
  show "a \<in> set notification_types"
    by (cases a) (simp_all add: notification_types_def)
qed

interpretation ticket_status_col: enum_column ticket_status_value ticket_statuses
proof
  fix a b :: ticket_status
  show "ticket_status_value a = ticket_status_value b \<Longrightarrow> a = b"
    by (cases a; cases b; simp)
  show "a \<in> set ticket_statuses"
    by (cases a) (simp_all add: ticket_statuses_def)
qed

subsection \<open>Rows\<close>

text \<open>A JSON column: the values the program stores in payloads and audit metadata.\<close>

datatype json = JStr string | JInt int | JBool bool | JNull

type_synonym json_object = "(string \<times> json) list"

record user =
  user_id :: uuid
  user_telegram_id :: int
  user_username :: "string option"
  user_first_name :: "string option"
  user_last_name :: "string option"
  user_language_code :: "string option"
  user_is_blocked :: bool
  user_created_at :: datetime

record vpn_server =
  srv_id :: uuid
  srv_slug :: string
  srv_display_name :: string
  srv_country_code :: string
  srv_country_name :: string
  srv_enabled :: bool
  srv_paused :: bool
  srv_sort_order :: int
  srv_provisioner_type :: string
  srv_host :: string
  srv_max_active :: "int option"

record product =
  prod_id :: uuid
  prod_code :: string
  prod_title :: string
  prod_duration_days :: int
  prod_device_limit :: int
  prod_price_amount :: int
  prod_price_currency :: string
  prod_enabled :: bool
  prod_sort_order :: int

record order =
  ord_id :: uuid
  ord_code :: string
  ord_user_id :: uuid
  ord_server_id :: uuid
  ord_product_id :: uuid
  ord_renews :: "uuid option"
  ord_price_amount :: int
  ord_currency :: string
  ord_instructions :: string
  ord_status :: order_status
  ord_receipt_file_id :: "string option"
  ord_receipt_message_id :: "int option"
  ord_receipt_chat_id :: "int option"
  ord_receipt_media_type :: "string option"
  ord_receipt_note :: "string option"
  ord_submitted_at :: "datetime option"
  ord_reviewed_by :: "int option"
  ord_reviewed_at :: "datetime option"
  ord_rejection_reason :: "string option"
  ord_created_at :: datetime

record subscription =
  sub_id :: uuid
  sub_user_id :: uuid
  sub_order_id :: uuid
  sub_server_id :: uuid
  sub_product_id :: uuid
  sub_status :: subscription_status
  sub_peer_external_id :: "string option"
  sub_peer_label :: "string option"
  sub_delivery_status :: string
  sub_redelivery_count :: int
  sub_starts_at :: datetime
  sub_expires_at :: datetime
  sub_disabled_at :: "datetime option"
  sub_removed_at :: "datetime option"
  sub_created_at :: datetime

record job =
  job_id :: uuid
  job_job_type :: job_type
  job_aggregate_type :: string
  job_aggregate_id :: uuid
  job_status :: job_status
  job_attempt_count :: int
  job_available_at :: datetime
  job_locked_at :: "datetime option"
  job_locked_by :: "string option"
  job_payload :: json_object
  job_last_error :: "string option"
  job_updated_at :: datetime

record notification =
  ntf_id :: uuid
  ntf_user_id :: uuid
  ntf_subscription_id :: "uuid option"
  ntf_type :: notification_type
  ntf_key :: string
  ntf_status :: string

record ticket =
  tck_id :: uuid
  tck_code :: string
  tck_user_id :: uuid
  tck_status :: ticket_status
  tck_subject :: "string option"
  tck_closed_at :: "datetime option"
  tck_created_at :: datetime

record support_message =
  msg_id :: uuid
  msg_ticket_id :: uuid
  msg_sender_type :: sender_type
  msg_sender_telegram_id :: "int option"
  msg_body :: "string option"
  msg_chat_id :: "int option"
  msg_message_id :: "int option"
  msg_attachment_file_id :: "string option"
  msg_attachment_type :: "string option"

record audit_event =
  aud_id :: uuid
  aud_actor_type :: actor_type
  aud_actor_telegram_id :: "int option"
  aud_event_type :: string
  aud_entity_type :: string
  aud_entity_id :: "uuid option"
  aud_metadata :: json_object
  aud_created_at :: datetime

record db =
  users :: "user list"
  servers :: "vpn_server list"
  products :: "product list"
  orders :: "order list"
  subs :: "subscription list"
  jobs :: "job list"
  notifications :: "notification list"
  tickets :: "ticket list"
  messages :: "support_message list"
  audits :: "audit_event list"

definition empty_db :: db where
  "empty_db = \<lparr>users = [], servers = [], products = [], orders = [], subs = [], jobs = [],
     notifications = [], tickets = [], messages = [], audits = []\<rparr>"

text \<open>\<open>VPNServer.on_sale\<close>.\<close>

definition on_sale :: "vpn_server \<Rightarrow> bool" where
  "on_sale s = (srv_enabled s \<and> \<not> srv_paused s)"

subsection \<open>Constraints and flush\<close>

definition db_unique :: "db \<Rightarrow> bool" where
  "db_unique d \<longleftrightarrow>
     distinct (map user_id (users d)) \<and> distinct (map user_telegram_id (users d)) \<and>
     distinct (map srv_id (servers d)) \<and> distinct (map srv_slug (servers d)) \<and>
     distinct (map prod_id (products d)) \<and> distinct (map prod_code (products d)) \<and>
     distinct (map ord_id (orders d)) \<and> distinct (map ord_code (orders d)) \<and>
     distinct (map sub_id (subs d)) \<and> distinct (map sub_order_id (subs d)) \<and>
     distinct_opt (map sub_peer_external_id (subs d)) \<and>
     distinct_opt (map sub_peer_label (subs d)) \<and>
     distinct (map job_id (jobs d)) \<and>
     distinct (map ntf_id (notifications d)) \<and> distinct (map ntf_key (notifications d)) \<and>
     distinct (map tck_id (tickets d)) \<and> distinct (map tck_code (tickets d)) \<and>
     distinct (map msg_id (messages d)) \<and> distinct (map aud_id (audits d))"

definition flush :: "db \<Rightarrow> exn + db" where
  "flush d = (if db_unique d then Inr d else Inl IntegrityError)"

lemma flush_eq_Inr [res_simps]: "flush d = Inr d' \<longleftrightarrow> d' = d \<and> db_unique d"
  by (auto simp: flush_def)

lemma flush_ok [simp]: "db_unique d \<Longrightarrow> flush d = Inr d"
  by (simp add: flush_def)

subsection \<open>Tables\<close>

text \<open>
  A table of the database: its rows, how to replace them, and the primary key. The laws are
  those of a lens; the lemmas say what a query sees after an update or an insertion.
\<close>

locale db_table =
  fixes rows :: "db \<Rightarrow> 'r list" and set_rows :: "('r list \<Rightarrow> 'r list) \<Rightarrow> db \<Rightarrow> db"
    and key :: "'r \<Rightarrow> uuid"
  assumes rows_set_rows: "rows (set_rows f d) = f (rows d)"
    and unique_key: "db_unique d \<Longrightarrow> distinct (map key (rows d))"
begin

lemma find_after_update:
  assumes "\<And>r. key (f r) = key r"
  shows "find_row key i (rows (set_rows (update_row key k f) d)) =
    (if i = k then map_option f (find_row key i (rows d)) else find_row key i (rows d))"
  using assms by (simp add: rows_set_rows find_update_row)

lemma find_after_insert:
  assumes "key r \<notin> key ` set (rows d)"
  shows "find_row key i (rows (set_rows (\<lambda>rs. rs @ [r]) d)) =
    (if i = key r then Some r else find_row key i (rows d))"
proof -
  have "find_row key (key r) (rows d) = None"
    using assms by (simp add: find_row_None)
  then show ?thesis
    by (auto simp: rows_set_rows find_row_append split: option.split)
qed

lemma fresh_key:
  assumes "db_unique (set_rows (\<lambda>rs. rs @ [r]) d)"
  shows "key r \<notin> key ` set (rows d)"
  using unique_key [OF assms] by (simp add: rows_set_rows)

lemma find_row_iff:
  assumes "db_unique d"
  shows "find_row key i (rows d) = Some r \<longleftrightarrow> r \<in> set (rows d) \<and> key r = i"
  using find_row_distinct [OF unique_key [OF assms]] .

end

interpretation users_tab: db_table users users_update user_id
  by standard (auto simp: db_unique_def)

interpretation servers_tab: db_table servers servers_update srv_id
  by standard (auto simp: db_unique_def)

interpretation products_tab: db_table products products_update prod_id
  by standard (auto simp: db_unique_def)

interpretation orders_tab: db_table orders orders_update ord_id
  by standard (auto simp: db_unique_def)

interpretation subs_tab: db_table subs subs_update sub_id
  by standard (auto simp: db_unique_def)

interpretation jobs_tab: db_table jobs jobs_update job_id
  by standard (auto simp: db_unique_def)

interpretation notifications_tab: db_table notifications notifications_update ntf_id
  by standard (auto simp: db_unique_def)

interpretation tickets_tab: db_table tickets tickets_update tck_id
  by standard (auto simp: db_unique_def)

interpretation messages_tab: db_table messages messages_update msg_id
  by standard (auto simp: db_unique_def)

interpretation audits_tab: db_table audits audits_update aud_id
  by standard (auto simp: db_unique_def)

text \<open>\<open>session.get\<close> and \<open>select ... where id = ...\<close> on each table.\<close>

abbreviation get_user :: "uuid \<Rightarrow> db \<Rightarrow> user option" where
  "get_user i d \<equiv> find_row user_id i (users d)"
abbreviation get_server :: "uuid \<Rightarrow> db \<Rightarrow> vpn_server option" where
  "get_server i d \<equiv> find_row srv_id i (servers d)"
abbreviation get_product :: "uuid \<Rightarrow> db \<Rightarrow> product option" where
  "get_product i d \<equiv> find_row prod_id i (products d)"
abbreviation get_order :: "uuid \<Rightarrow> db \<Rightarrow> order option" where
  "get_order i d \<equiv> find_row ord_id i (orders d)"
abbreviation get_sub :: "uuid \<Rightarrow> db \<Rightarrow> subscription option" where
  "get_sub i d \<equiv> find_row sub_id i (subs d)"
abbreviation get_job :: "uuid \<Rightarrow> db \<Rightarrow> job option" where
  "get_job i d \<equiv> find_row job_id i (jobs d)"
abbreviation get_ticket :: "uuid \<Rightarrow> db \<Rightarrow> ticket option" where
  "get_ticket i d \<equiv> find_row tck_id i (tickets d)"

text \<open>An assignment to attributes of a loaded row.\<close>

abbreviation upd_user :: "uuid \<Rightarrow> (user \<Rightarrow> user) \<Rightarrow> db \<Rightarrow> db" where
  "upd_user i f \<equiv> users_update (update_row user_id i f)"
abbreviation upd_server :: "uuid \<Rightarrow> (vpn_server \<Rightarrow> vpn_server) \<Rightarrow> db \<Rightarrow> db" where
  "upd_server i f \<equiv> servers_update (update_row srv_id i f)"
abbreviation upd_product :: "uuid \<Rightarrow> (product \<Rightarrow> product) \<Rightarrow> db \<Rightarrow> db" where
  "upd_product i f \<equiv> products_update (update_row prod_id i f)"
abbreviation upd_order :: "uuid \<Rightarrow> (order \<Rightarrow> order) \<Rightarrow> db \<Rightarrow> db" where
  "upd_order i f \<equiv> orders_update (update_row ord_id i f)"
abbreviation upd_sub :: "uuid \<Rightarrow> (subscription \<Rightarrow> subscription) \<Rightarrow> db \<Rightarrow> db" where
  "upd_sub i f \<equiv> subs_update (update_row sub_id i f)"
abbreviation upd_job :: "uuid \<Rightarrow> (job \<Rightarrow> job) \<Rightarrow> db \<Rightarrow> db" where
  "upd_job i f \<equiv> jobs_update (update_row job_id i f)"
abbreviation upd_ticket :: "uuid \<Rightarrow> (ticket \<Rightarrow> ticket) \<Rightarrow> db \<Rightarrow> db" where
  "upd_ticket i f \<equiv> tickets_update (update_row tck_id i f)"

text \<open>Updates that leave the unique columns alone cannot be refused.\<close>

named_theorems unique_simps \<open>updates that keep the unique columns\<close>

lemma db_unique_upd_job [unique_simps]:
  "(\<And>j. job_id (f j) = job_id j) \<Longrightarrow> db_unique (upd_job i f d) = db_unique d"
  by (simp add: db_unique_def map_update_row)

lemma db_unique_upd_order [unique_simps]:
  "(\<And>r. ord_id (f r) = ord_id r) \<Longrightarrow> (\<And>r. ord_code (f r) = ord_code r) \<Longrightarrow>
   db_unique (upd_order i f d) = db_unique d"
  by (simp add: db_unique_def map_update_row)

lemma db_unique_upd_sub [unique_simps]:
  "(\<And>r. sub_id (f r) = sub_id r) \<Longrightarrow> (\<And>r. sub_order_id (f r) = sub_order_id r) \<Longrightarrow>
   (\<And>r. sub_peer_external_id (f r) = sub_peer_external_id r) \<Longrightarrow>
   (\<And>r. sub_peer_label (f r) = sub_peer_label r) \<Longrightarrow>
   db_unique (upd_sub i f d) = db_unique d"
  by (simp add: db_unique_def map_update_row)

lemma db_unique_upd_user [unique_simps]:
  "(\<And>r. user_id (f r) = user_id r) \<Longrightarrow> (\<And>r. user_telegram_id (f r) = user_telegram_id r) \<Longrightarrow>
   db_unique (upd_user i f d) = db_unique d"
  by (simp add: db_unique_def map_update_row)

lemma db_unique_upd_server [unique_simps]:
  "(\<And>r. srv_id (f r) = srv_id r) \<Longrightarrow> (\<And>r. srv_slug (f r) = srv_slug r) \<Longrightarrow>
   db_unique (upd_server i f d) = db_unique d"
  by (simp add: db_unique_def map_update_row)

lemma db_unique_upd_product [unique_simps]:
  "(\<And>r. prod_id (f r) = prod_id r) \<Longrightarrow> (\<And>r. prod_code (f r) = prod_code r) \<Longrightarrow>
   db_unique (upd_product i f d) = db_unique d"
  by (simp add: db_unique_def map_update_row)

lemma db_unique_upd_ticket [unique_simps]:
  "(\<And>r. tck_id (f r) = tck_id r) \<Longrightarrow> (\<And>r. tck_code (f r) = tck_code r) \<Longrightarrow>
   db_unique (upd_ticket i f d) = db_unique d"
  by (simp add: db_unique_def map_update_row)

lemma db_unique_empty: "db_unique empty_db"
  by (simp add: db_unique_def empty_db_def distinct_opt_def)

end
