(* ===== verification/Bot_Samples.thy ===== *)
theory Bot_Samples
  imports Bot_Db
begin

section \<open>Sample rows\<close>

text \<open>
  Concrete rows and databases at which the witnesses of the components evaluate the
  definitions: one customer, one server, one plan, an order with a submitted receipt, and the
  rows later stages add. Times are in microseconds; \<open>noon\<close> is the reference instant.
\<close>

definition noon :: datetime where "noon = 1700000000000000"

definition sample_user :: user where
  "sample_user = \<lparr>user_id = 1, user_telegram_id = 5001, user_username = Some ''ann'',
     user_first_name = None, user_last_name = None, user_language_code = Some ''en'',
     user_is_blocked = False, user_created_at = 0\<rparr>"

definition sample_server :: vpn_server where
  "sample_server = \<lparr>srv_id = 2, srv_slug = ''de-1'', srv_display_name = ''Germany'',
     srv_country_code = ''DE'', srv_country_name = ''Germany'', srv_enabled = True,
     srv_paused = False, srv_sort_order = 0, srv_provisioner_type = ''vpnctl'',
     srv_host = ''localhost'', srv_max_active = Some 2\<rparr>"

definition sample_product :: product where
  "sample_product = \<lparr>prod_id = 3, prod_code = ''vpn-1m'', prod_title = ''1 Month'',
     prod_duration_days = 30, prod_device_limit = 1, prod_price_amount = 500,
     prod_price_currency = ''EUR'', prod_enabled = True, prod_sort_order = 1\<rparr>"

definition sample_order :: order where
  "sample_order = \<lparr>ord_id = 4, ord_code = ''ORD-AAAAAA'', ord_user_id = 1, ord_server_id = 2,
     ord_product_id = 3, ord_renews = None, ord_price_amount = 500, ord_currency = ''EUR'',
     ord_instructions = ''pay'', ord_status = RECEIPT_SUBMITTED,
     ord_receipt_file_id = Some ''f1'', ord_receipt_message_id = Some 7,
     ord_receipt_chat_id = Some 5001, ord_receipt_media_type = Some ''photo'',
     ord_receipt_note = None, ord_submitted_at = Some 10, ord_reviewed_by = None,
     ord_reviewed_at = None, ord_rejection_reason = None, ord_created_at = 5\<rparr>"

definition sample_sub :: subscription where
  "sample_sub = \<lparr>sub_id = 6, sub_user_id = 1, sub_order_id = 4, sub_server_id = 2,
     sub_product_id = 3, sub_status = ACTIVE, sub_peer_external_id = Some ''p6'',
     sub_peer_label = Some ''p6'', sub_delivery_status = ''delivered'',
     sub_redelivery_count = 0, sub_starts_at = 20, sub_expires_at = noon,
     sub_disabled_at = None, sub_removed_at = None, sub_created_at = 20\<rparr>"

definition sample_job :: job where
  "sample_job = \<lparr>job_id = 8, job_job_type = CREATE_PEER, job_aggregate_type = ''subscription'',
     job_aggregate_id = 6, job_status = PENDING, job_attempt_count = 0, job_available_at = 30,
     job_locked_at = None, job_locked_by = None, job_payload = [], job_last_error = None,
     job_updated_at = 30\<rparr>"

lemmas sample_defs = noon_def sample_user_def sample_server_def sample_product_def
  sample_order_def sample_sub_def sample_job_def

text \<open>The catalogue, a customer and a submitted order; then with its subscription; then with
  a job.\<close>

definition order_db :: db where
  "order_db = empty_db\<lparr>users := [sample_user], servers := [sample_server],
     products := [sample_product], orders := [sample_order]\<rparr>"

definition sub_db :: db where
  "sub_db = order_db\<lparr>subs := [sample_sub]\<rparr>"

definition job_db :: db where
  "job_db = sub_db\<lparr>jobs := [sample_job, sample_job\<lparr>job_id := 9, job_available_at := 25\<rparr>]\<rparr>"

lemmas sample_db_defs = order_db_def sub_db_def job_db_def empty_db_def sample_defs

lemma order_db_unique: "db_unique order_db"
  by (simp add: db_unique_def distinct_opt_def sample_db_defs)

lemma sub_db_unique: "db_unique sub_db"
  by (simp add: db_unique_def distinct_opt_def sample_db_defs)

lemma job_db_unique: "db_unique job_db"
  by (simp add: db_unique_def distinct_opt_def sample_db_defs)

end
