(* ===== verification/Job_Queue.thy ===== *)
theory Job_Queue
  imports Bot_Samples
begin

section \<open>The job queue\<close>

text \<open>
  \<open>src/app/db/repositories/job_repo.py\<close>: the outbox of provisioning jobs. One definition
  per method of \<open>JobRepository\<close>; \<open>utc_now()\<close> is the argument \<open>now\<close>, the UUID drawn for a new
  row is an argument. A method that writes no unique column returns the database directly,
  because its flush cannot be refused (\<open>unique_simps\<close>); \<open>enqueue_job\<close> inserts, so it flushes.
  The lemmas state who can claim a job, that a claim excludes every other for five minutes,
  the retry schedule, and what each method leaves alone.
\<close>

definition set_job_status :: "job_status \<Rightarrow> datetime \<Rightarrow> job \<Rightarrow> job" where
  "set_job_status st now j = j\<lparr>job_status := st, job_updated_at := now\<rparr>"

definition new_job ::
  "datetime \<Rightarrow> uuid \<Rightarrow> job_type \<Rightarrow> string \<Rightarrow> uuid \<Rightarrow> json_object \<Rightarrow> datetime option \<Rightarrow> job" where
  "new_job now jid ty agg_ty agg payload available_at =
     \<lparr>job_id = jid, job_job_type = ty, job_aggregate_type = agg_ty, job_aggregate_id = agg,
      job_status = PENDING, job_attempt_count = 0,
      job_available_at = (case available_at of None \<Rightarrow> now | Some t \<Rightarrow> t),
      job_locked_at = None, job_locked_by = None, job_payload = payload,
      job_last_error = None, job_updated_at = now\<rparr>"

definition enqueue_job ::
  "datetime \<Rightarrow> uuid \<Rightarrow> job_type \<Rightarrow> string \<Rightarrow> uuid \<Rightarrow> json_object \<Rightarrow> datetime option \<Rightarrow> db
     \<Rightarrow> exn + job \<times> db" where
  "enqueue_job now jid ty agg_ty agg payload available_at d =
     (let j = new_job now jid ty agg_ty agg payload available_at
      in bind_res (flush (jobs_update (\<lambda>js. js @ [j]) d)) (\<lambda>d'. Inr (j, d')))"

definition open_statuses :: "job_status list" where
  "open_statuses = [PENDING, PROCESSING, RETRYABLE_FAILURE]"

definition has_open_job :: "job_type \<Rightarrow> uuid \<Rightarrow> db \<Rightarrow> bool" where
  "has_open_job ty agg d =
     list_ex (\<lambda>j. job_job_type j = ty \<and> job_aggregate_id j = agg
                 \<and> job_status j \<in> set open_statuses) (jobs d)"

text \<open>
  \<open>_claimable\<close>. A comparison with a NULL \<open>locked_at\<close> is not true in SQL.
\<close>

definition stale_lock :: "datetime \<Rightarrow> job \<Rightarrow> bool" where
  "stale_lock now j =
     (job_status j = PROCESSING \<and>
      (case job_locked_at j of None \<Rightarrow> False | Some t \<Rightarrow> t < now - 5 * minute))"

definition claimable :: "datetime \<Rightarrow> job \<Rightarrow> bool" where
  "claimable now j =
     ((job_status j \<in> {PENDING, RETRYABLE_FAILURE} \<or> stale_lock now j)
      \<and> job_available_at j \<le> now)"

definition lock_job :: "string \<Rightarrow> datetime \<Rightarrow> job \<Rightarrow> job" where
  "lock_job worker now j =
     j\<lparr>job_status := PROCESSING, job_locked_at := Some now, job_locked_by := Some worker,
       job_updated_at := now\<rparr>"

text \<open>
  \<open>claim_one\<close>: one UPDATE whose WHERE repeats the test; the result is \<open>rowcount == 1\<close>.
\<close>

definition claim_matches :: "uuid \<Rightarrow> datetime \<Rightarrow> job \<Rightarrow> bool" where
  "claim_matches jid now j = (job_id j = jid \<and> claimable now j)"

definition claim_one :: "uuid \<Rightarrow> string \<Rightarrow> datetime \<Rightarrow> db \<Rightarrow> bool \<times> db" where
  "claim_one jid worker now d =
     (length (filter (claim_matches jid now) (jobs d)) = 1,
      jobs_update (map (\<lambda>j. if claim_matches jid now j then lock_job worker now j else j)) d)"

text \<open>The list comprehension of \<open>claim_pending_jobs\<close> over the candidate ids.\<close>

fun claim_each :: "string \<Rightarrow> datetime \<Rightarrow> uuid list \<Rightarrow> db \<Rightarrow> uuid list \<times> db" where
  "claim_each worker now [] d = ([], d)"
| "claim_each worker now (i # is) d =
     (let (ok, d1) = claim_one i worker now d; (rest, d2) = claim_each worker now is d1
      in (if ok then i # rest else rest, d2))"

definition claim_pending_jobs :: "string \<Rightarrow> nat \<Rightarrow> datetime \<Rightarrow> db \<Rightarrow> job list \<times> db" where
  "claim_pending_jobs worker limit now d =
     (let candidates = take limit
            (map job_id (order_by job_available_at (filter (claimable now) (jobs d))));
          (claimed, d') = claim_each worker now candidates d
      in if claimed = [] then ([], d')
         else (order_by job_available_at (filter (\<lambda>j. job_id j \<in> set claimed) (jobs d')), d'))"

definition complete_job :: "datetime \<Rightarrow> job \<Rightarrow> job" where
  "complete_job now j =
     j\<lparr>job_status := SUCCEEDED, job_locked_at := None, job_locked_by := None,
       job_updated_at := now\<rparr>"

definition mark_completed :: "uuid \<Rightarrow> datetime \<Rightarrow> db \<Rightarrow> job option \<times> db" where
  "mark_completed jid now d =
     (case get_job jid d of
        None \<Rightarrow> (None, d)
      | Some j \<Rightarrow> (Some (complete_job now j), upd_job jid (complete_job now) d))"

definition backoff_seconds :: "int \<Rightarrow> int" where
  "backoff_seconds attempts = 10 * 3 ^ nat (attempts - 1)"

definition fail_job :: "string \<Rightarrow> bool \<Rightarrow> int \<Rightarrow> datetime \<Rightarrow> job \<Rightarrow> job" where
  "fail_job error_message is_retryable max_retries now j =
     (let n = job_attempt_count j + 1;
          j' = j\<lparr>job_attempt_count := n, job_last_error := Some error_message,
                 job_locked_at := None, job_locked_by := None, job_updated_at := now\<rparr>
      in if is_retryable \<and> n < max_retries
         then j'\<lparr>job_status := RETRYABLE_FAILURE,
                 job_available_at := now + backoff_seconds n * second\<rparr>
         else j'\<lparr>job_status := PERMANENT_FAILURE\<rparr>)"

definition mark_failed ::
  "uuid \<Rightarrow> string \<Rightarrow> bool \<Rightarrow> int \<Rightarrow> datetime \<Rightarrow> db \<Rightarrow> job option \<times> db" where
  "mark_failed jid error_message is_retryable max_retries now d =
     (case get_job jid d of
        None \<Rightarrow> (None, d)
      | Some j \<Rightarrow>
          (Some (fail_job error_message is_retryable max_retries now j),
           upd_job jid (fail_job error_message is_retryable max_retries now) d))"

definition default_max_retries :: int where
  "default_max_retries = 5"

definition list_permanent_failures :: "nat \<Rightarrow> db \<Rightarrow> job list" where
  "list_permanent_failures limit d =
     take limit (order_by_desc job_updated_at
       (filter (\<lambda>j. job_status j = PERMANENT_FAILURE) (jobs d)))"

definition requeued :: "datetime \<Rightarrow> job \<Rightarrow> job" where
  "requeued now j =
     j\<lparr>job_status := PENDING, job_attempt_count := 0, job_available_at := now,
       job_locked_at := None, job_locked_by := None, job_last_error := None,
       job_updated_at := now\<rparr>"

definition requeue :: "uuid \<Rightarrow> datetime \<Rightarrow> db \<Rightarrow> db" where
  "requeue jid now d = upd_job jid (requeued now) d"

subsection \<open>Fields the updates keep\<close>

named_theorems job_fields \<open>fields of a job an update keeps\<close>

lemma lock_job_fields [job_fields, simp]:
  "job_id (lock_job w now j) = job_id j"
  "job_job_type (lock_job w now j) = job_job_type j"
  "job_aggregate_id (lock_job w now j) = job_aggregate_id j"
  "job_payload (lock_job w now j) = job_payload j"
  "job_attempt_count (lock_job w now j) = job_attempt_count j"
  "job_available_at (lock_job w now j) = job_available_at j"
  "job_status (lock_job w now j) = PROCESSING"
  "job_locked_at (lock_job w now j) = Some now"
  "job_locked_by (lock_job w now j) = Some w"
  by (simp_all add: lock_job_def)

lemma complete_job_fields [job_fields, simp]:
  "job_id (complete_job now j) = job_id j"
  "job_job_type (complete_job now j) = job_job_type j"
  "job_aggregate_id (complete_job now j) = job_aggregate_id j"
  "job_payload (complete_job now j) = job_payload j"
  "job_status (complete_job now j) = SUCCEEDED"
  by (simp_all add: complete_job_def)

lemma fail_job_fields [job_fields, simp]:
  "job_id (fail_job e r m now j) = job_id j"
  "job_job_type (fail_job e r m now j) = job_job_type j"
  "job_aggregate_id (fail_job e r m now j) = job_aggregate_id j"
  "job_payload (fail_job e r m now j) = job_payload j"
  "job_attempt_count (fail_job e r m now j) = job_attempt_count j + 1"
  "job_locked_at (fail_job e r m now j) = None"
  by (simp_all add: fail_job_def Let_def)

lemma fail_job_status [simp]:
  "job_status (fail_job e r m now j) =
     (if r \<and> job_attempt_count j + 1 < m then RETRYABLE_FAILURE else PERMANENT_FAILURE)"
  by (simp add: fail_job_def Let_def)

lemma requeued_fields [job_fields, simp]:
  "job_id (requeued now j) = job_id j"
  "job_job_type (requeued now j) = job_job_type j"
  "job_aggregate_id (requeued now j) = job_aggregate_id j"
  "job_payload (requeued now j) = job_payload j"
  "job_status (requeued now j) = PENDING"
  "job_attempt_count (requeued now j) = 0"
  "job_available_at (requeued now j) = now"
  by (simp_all add: requeued_def)

lemma new_job_fields [job_fields, simp]:
  "job_id (new_job now jid ty aty agg p av) = jid"
  "job_job_type (new_job now jid ty aty agg p av) = ty"
  "job_aggregate_id (new_job now jid ty aty agg p av) = agg"
  "job_payload (new_job now jid ty aty agg p av) = p"
  "job_status (new_job now jid ty aty agg p av) = PENDING"
  "job_attempt_count (new_job now jid ty aty agg p av) = 0"
  by (simp_all add: new_job_def)

subsection \<open>Claiming\<close>

lemma lock_not_claimable:
  assumes "now' \<le> now + 5 * minute"
  shows "\<not> claimable now' (lock_job w now j)"
  using assms by (simp add: claimable_def stale_lock_def)

lemma claim_one_as_update:
  "snd (claim_one jid w now d) =
     upd_job jid (\<lambda>j. if claimable now j then lock_job w now j else j) d"
  by (simp add: claim_one_def claim_matches_def update_row_def cong: if_cong)

lemma claim_matches_unique:
  assumes "distinct (map job_id js)"
  shows "length (filter (claim_matches jid now) js) =
    (case find_row job_id jid js of None \<Rightarrow> 0 | Some j \<Rightarrow> if claimable now j then 1 else 0)"
  using assms
proof (induction js)
  case (Cons j js)
  show ?case
  proof (cases "job_id j = jid")
    case True
    with Cons.prems have "find_row job_id jid js = None"
      by (auto simp: find_row_None)
    with Cons True show ?thesis
      by (simp add: claim_matches_def)
  next
    case False
    with Cons show ?thesis
      by (simp add: claim_matches_def)
  qed
qed simp

lemma claim_one_result:
  assumes "db_unique d"
  shows "fst (claim_one jid w now d) \<longleftrightarrow> (\<exists>j. get_job jid d = Some j \<and> claimable now j)"
  using claim_matches_unique [OF jobs_tab.unique_key [OF assms], of jid now]
  by (simp add: claim_one_def split: option.splits)

lemma claim_one_unique [unique_simps]: "db_unique (snd (claim_one jid w now d)) = db_unique d"
  by (simp add: claim_one_as_update unique_simps)

lemma get_job_claim_one [row_simps]:
  "get_job i (snd (claim_one jid w now d)) =
     (if i = jid
      then map_option (\<lambda>j. if claimable now j then lock_job w now j else j) (get_job i d)
      else get_job i d)"
  unfolding claim_one_as_update by (rule jobs_tab.find_after_update) simp

text \<open>
  Any interleaving of workers is a sequence of single UPDATEs, each an attempt of some worker
  on some job at some time.
\<close>

type_synonym attempt = "uuid \<times> string \<times> datetime"

fun run_claims :: "attempt list \<Rightarrow> db \<Rightarrow> bool list \<times> db" where
  "run_claims [] d = ([], d)"
| "run_claims ((i, w, t) # as) d =
     (let (ok, d1) = claim_one i w t d; (oks, d2) = run_claims as d1 in (ok # oks, d2))"

definition wins :: "uuid \<Rightarrow> attempt list \<Rightarrow> bool list \<Rightarrow> nat" where
  "wins jid as oks = length (filter (\<lambda>(a, ok). ok \<and> fst a = jid) (zip as oks))"

definition held :: "uuid \<Rightarrow> datetime \<Rightarrow> db \<Rightarrow> bool" where
  "held jid t0 d =
     (case get_job jid d of None \<Rightarrow> True
      | Some j \<Rightarrow> job_status j = PROCESSING \<and>
          (case job_locked_at j of None \<Rightarrow> False | Some t \<Rightarrow> t0 \<le> t))"

lemma held_not_claimable:
  assumes "held jid t0 d" "get_job jid d = Some j" "t \<le> t0 + 5 * minute"
  shows "\<not> claimable t j"
  using assms by (auto simp: held_def claimable_def stale_lock_def split: option.splits)

lemma held_after_claim:
  assumes "held jid t0 d" "t \<le> t0 + 5 * minute"
  shows "held jid t0 (snd (claim_one i w t d))"
proof (cases "get_job jid d")
  case None
  then show ?thesis by (auto simp: held_def get_job_claim_one)
next
  case (Some j)
  with assms show ?thesis
    using held_not_claimable [OF assms(1) Some assms(2)]
    by (auto simp: held_def get_job_claim_one)
qed

lemma held_after_win:
  assumes "db_unique d" "fst (claim_one jid w t d)" "t0 \<le> t"
  shows "held jid t0 (snd (claim_one jid w t d))"
  using assms by (auto simp: claim_one_result held_def get_job_claim_one)

lemma held_no_wins:
  assumes "db_unique d" "held jid t0 d" "\<forall>(i, w, t) \<in> set as. t \<le> t0 + 5 * minute"
  shows "wins jid as (fst (run_claims as d)) = 0"
  using assms
proof (induction as arbitrary: d)
  case Nil
  then show ?case by (simp add: wins_def)
next
  case (Cons a as)
  obtain i w t where a: "a = (i, w, t)" by (cases a)
  let ?d = "snd (claim_one i w t d)"
  from Cons.prems a have t: "t \<le> t0 + 5 * minute" by simp
  have "wins jid as (fst (run_claims as ?d)) = 0"
    using Cons.prems t by (intro Cons.IH) (auto simp: claim_one_unique held_after_claim)
  moreover have "\<not> fst (claim_one jid w t d)"
    using Cons.prems(1,2) held_not_claimable [OF Cons.prems(2) _ t]
    by (auto simp: claim_one_result)
  ultimately show ?case
    by (auto simp: a wins_def Let_def split_def)
qed

lemma wins_Cons:
  "wins jid (a # as) (ok # oks) = (if ok \<and> fst a = jid then 1 else 0) + wins jid as oks"
  by (auto simp: wins_def)

text \<open>C4. Each claim is one UPDATE, so however the claims of any number of workers interleave
  within five minutes, every job goes to at most one of them (the promise of
  docs/ARCHITECTURE.md: if two workers ever run, only one of them gets a job).\<close>

theorem claims_exclusive:
  assumes "db_unique d" "\<forall>(i, w, t) \<in> set as. t0 \<le> t \<and> t \<le> t0 + 5 * minute"
  shows "wins jid as (fst (run_claims as d)) \<le> 1"
  using assms
proof (induction as arbitrary: d)
  case Nil
  then show ?case by (simp add: wins_def)
next
  case (Cons a as)
  obtain i w t where a: "a = (i, w, t)" by (cases a)
  let ?c = "claim_one i w t d"
  from Cons.prems a have t: "t0 \<le> t" by simp
  have u: "db_unique (snd ?c)"
    using Cons.prems(1) by (simp add: claim_one_unique)
  have split: "wins jid (a # as) (fst (run_claims (a # as) d)) =
      (if fst ?c \<and> i = jid then 1 else 0) + wins jid as (fst (run_claims as (snd ?c)))"
    by (simp add: a wins_Cons Let_def split_def)
  show ?case
  proof (cases "fst ?c \<and> i = jid")
    case True
    then have "held jid t0 (snd ?c)"
      using held_after_win Cons.prems(1) t by blast
    then have "wins jid as (fst (run_claims as (snd ?c))) = 0"
      using u Cons.prems(2) by (intro held_no_wins) auto
    with True split show ?thesis by simp
  next
    case False
    with split Cons.IH [OF u] Cons.prems(2) show ?thesis by simp
  qed
qed

text \<open>Two workers racing for the sample job within the five minutes.\<close>

theorem claims_exclusive_witness:
  "wins 8 [(8, ''w1'', 40), (9, ''w2'', 41), (8, ''w2'', 42)]
     (fst (run_claims [(8, ''w1'', 40), (9, ''w2'', 41), (8, ''w2'', 42)] job_db)) \<le> 1
   \<and> fst (run_claims [(8, ''w1'', 40), (9, ''w2'', 41), (8, ''w2'', 42)] job_db) =
       [True, True, False]"
proof
  show "wins 8 [(8, ''w1'', 40), (9, ''w2'', 41), (8, ''w2'', 42)]
     (fst (run_claims [(8, ''w1'', 40), (9, ''w2'', 41), (8, ''w2'', 42)] job_db)) \<le> 1"
    by (rule claims_exclusive [OF job_db_unique, where ?t0.0 = 40]) (simp add: time_units)
  show "fst (run_claims [(8, ''w1'', 40), (9, ''w2'', 41), (8, ''w2'', 42)] job_db) =
       [True, True, False]"
    by (simp add: sample_db_defs claim_one_def claim_matches_def claimable_def stale_lock_def
        lock_job_def time_units)
qed

subsection \<open>A poll of the worker\<close>

lemma claim_each_spec:
  assumes "db_unique d" "distinct is"
  shows "claim_each w now is d =
    (filter (\<lambda>i. \<exists>j. get_job i d = Some j \<and> claimable now j) is,
     jobs_update (map (\<lambda>j. if job_id j \<in> set is \<and> claimable now j then lock_job w now j else j)) d)"
  using assms
proof (induction "is" arbitrary: d)
  case Nil
  then show ?case by simp
next
  case (Cons i "is")
  let ?c = "claim_one i w now d"
  have IH: "claim_each w now is (snd ?c) =
    (filter (\<lambda>i. \<exists>j. get_job i (snd ?c) = Some j \<and> claimable now j) is,
     jobs_update (map (\<lambda>j. if job_id j \<in> set is \<and> claimable now j then lock_job w now j else j))
       (snd ?c))"
    using Cons.prems by (intro Cons.IH) (simp_all add: claim_one_unique)
  have "filter (\<lambda>k. \<exists>j. get_job k (snd ?c) = Some j \<and> claimable now j) is =
        filter (\<lambda>k. \<exists>j. get_job k d = Some j \<and> claimable now j) is"
    using Cons.prems(2) by (intro filter_cong) (auto simp: get_job_claim_one)
  moreover have "(\<lambda>j. if job_id j \<in> set is \<and> claimable now j then lock_job w now j else j) \<circ>
      (\<lambda>j. if claim_matches i now j then lock_job w now j else j) =
    (\<lambda>j. if job_id j \<in> set (i # is) \<and> claimable now j then lock_job w now j else j)"
    using Cons.prems(2) by (auto simp: fun_eq_iff claim_matches_def)
  then have "jobs_update
      (map (\<lambda>j. if job_id j \<in> set is \<and> claimable now j then lock_job w now j else j)) (snd ?c) =
    jobs_update (map (\<lambda>j. if job_id j \<in> set (i # is) \<and> claimable now j
                          then lock_job w now j else j)) d"
    by (simp add: claim_one_def)
  ultimately show ?case
    using claim_one_result [OF Cons.prems(1), of i w now] IH
    by (simp add: Let_def split_def)
qed

lemma filter_take_id:
  assumes "distinct (map f xs)"
  shows "filter (\<lambda>x. f x \<in> f ` set (take n xs)) xs = take n xs"
proof -
  have d: "f ` set (take n xs) \<inter> f ` set (drop n xs) = {}"
    using assms by (metis append_take_drop_id distinct_append map_append set_map)
  have "filter (\<lambda>x. f x \<in> f ` set (take n xs)) (take n xs @ drop n xs) = take n xs"
    unfolding filter_append using d by (auto simp: filter_empty_conv filter_id_conv)
  then show ?thesis by simp
qed

lemma insort_key_map:
  "(\<And>x. f (g x) = f x) \<Longrightarrow> insort_key f (g x) (map g ys) = map g (insort_key f x ys)"
  by (induction ys) auto

lemma order_by_map:
  "(\<And>x. f (g x) = f x) \<Longrightarrow> order_by f (map g xs) = map g (order_by f xs)"
  unfolding order_by_def by (induction xs) (simp_all add: insort_key_map)

definition due_jobs :: "datetime \<Rightarrow> db \<Rightarrow> job list" where
  "due_jobs now d = order_by job_available_at (filter (claimable now) (jobs d))"

lemma set_due_jobs [simp]: "set (due_jobs now d) = {j \<in> set (jobs d). claimable now j}"
  by (auto simp: due_jobs_def)

lemma distinct_due_jobs: "db_unique d \<Longrightarrow> distinct (map job_id (due_jobs now d))"
  unfolding due_jobs_def
  by (intro distinct_map_order_by distinct_map_filter jobs_tab.unique_key)

lemma job_id_inj:
  assumes "db_unique d" "a \<in> set (jobs d)" "b \<in> set (jobs d)" "job_id a = job_id b"
  shows "a = b"
  using jobs_tab.unique_key [OF assms(1)] assms(2-4) by (auto simp: distinct_map inj_on_def)

lemma claim_pending_jobs_result:
  assumes "db_unique d"
  shows "claim_pending_jobs w limit now d =
    (map (lock_job w now) (take limit (due_jobs now d)),
     jobs_update (map (\<lambda>j. if j \<in> set (take limit (due_jobs now d))
                           then lock_job w now j else j)) d)"
proof -
  let ?due = "take limit (due_jobs now d)"
  let ?ids = "map job_id ?due"
  let ?F = "\<lambda>j. if job_id j \<in> set ?ids \<and> claimable now j then lock_job w now j else j"
  have due: "j \<in> set (jobs d) \<and> claimable now j" if "j \<in> set ?due" for j
    using that by (auto dest!: in_set_takeD)
  have mem: "job_id j \<in> set ?ids \<longleftrightarrow> j \<in> set ?due" if "j \<in> set (jobs d)" for j
  proof
    assume "job_id j \<in> set ?ids"
    then obtain k where k: "k \<in> set ?due" "job_id k = job_id j" by auto
    with due have "k \<in> set (jobs d)" by blast
    from job_id_inj [OF assms this that k(2)] k(1) show "j \<in> set ?due" by simp
  qed simp
  have dist: "distinct ?ids"
    using distinct_due_jobs [OF assms, of now] by (simp add: take_map [symmetric] distinct_take)
  have each: "claim_each w now ?ids d = (?ids, jobs_update (map ?F) d)"
  proof -
    have "filter (\<lambda>i. \<exists>j. get_job i d = Some j \<and> claimable now j) ?ids = ?ids"
      using due by (auto simp: filter_id_conv jobs_tab.find_row_iff [OF assms])
    then show ?thesis
      using claim_each_spec [OF assms dist, of w now] by simp
  qed
  have upd: "map ?F (jobs d) = map (\<lambda>j. if j \<in> set ?due then lock_job w now j else j) (jobs d)"
    using mem due by (intro map_cong) auto
  have sel: "filter (\<lambda>j. job_id j \<in> set ?ids) (map ?F (jobs d)) =
      map (lock_job w now) (filter (\<lambda>j. job_id j \<in> set ?ids) (jobs d))"
  proof -
    have id: "job_id (?F j) = job_id j" for j by simp
    have F: "?F j = lock_job w now j" if "j \<in> set (jobs d)" "job_id j \<in> set ?ids" for j
      using that mem [OF that(1)] due by presburger
    have "filter (\<lambda>j. job_id j \<in> set ?ids) (map ?F (jobs d)) =
        map ?F (filter (\<lambda>j. job_id j \<in> set ?ids) (jobs d))"
      unfolding filter_map o_def id ..
    also have "\<dots> = map (lock_job w now) (filter (\<lambda>j. job_id j \<in> set ?ids) (jobs d))"
      using F by (intro map_cong) auto
    finally show ?thesis .
  qed
  have "filter (\<lambda>j. job_id j \<in> set ?ids) (jobs d) =
      filter (\<lambda>j. job_id j \<in> set ?ids) (filter (claimable now) (jobs d))"
    using mem due by (auto simp: filter_filter intro!: filter_cong)
  then have "order_by job_available_at (filter (\<lambda>j. job_id j \<in> set ?ids) (jobs d)) =
      filter (\<lambda>j. job_id j \<in> job_id ` set ?due) (due_jobs now d)"
    by (simp add: order_by_def due_jobs_def filter_sort)
  also have "\<dots> = ?due"
    using filter_take_id [OF distinct_due_jobs [OF assms]] by blast
  finally have "order_by job_available_at (filter (\<lambda>j. job_id j \<in> set ?ids) (map ?F (jobs d))) =
      map (lock_job w now) ?due"
    unfolding sel by (simp add: order_by_map)
  then have "order_by job_available_at (filter (\<lambda>j. job_id j \<in> set ?ids)
      (map (\<lambda>j. if j \<in> set ?due then lock_job w now j else j) (jobs d))) =
      map (lock_job w now) ?due"
    unfolding upd .
  moreover have "jobs_update (map ?F) d =
      jobs_update (map (\<lambda>j. if j \<in> set ?due then lock_job w now j else j)) d"
    using upd by (cases d) simp
  ultimately show ?thesis
    unfolding claim_pending_jobs_def due_jobs_def [symmetric] take_map Let_def each by simp
qed

text \<open>C24. What one poll claims: the due jobs in the order they became available, at most
  \<open>limit\<close> of them, each returned as the UPDATE left it (processing, locked by this worker
  now); every other row is untouched.\<close>

theorem claim_pending_jobs_spec:
  assumes "db_unique d"
  shows "claim_pending_jobs w limit now d =
    (map (lock_job w now) (take limit (due_jobs now d)),
     jobs_update (map (\<lambda>j. if j \<in> set (take limit (due_jobs now d))
                           then lock_job w now j else j)) d)"
  by (rule claim_pending_jobs_result [OF assms])

theorem claim_pending_jobs_spec_witness:
  "map job_id (fst (claim_pending_jobs ''w1'' 1 40 job_db)) = [9]"
  unfolding claim_pending_jobs_spec [OF job_db_unique]
  by (simp add: due_jobs_def order_by_def claimable_def stale_lock_def sample_db_defs)

text \<open>Crash recovery: a job some worker left in processing more than five minutes ago is
  claimed again by the next poll that has room for all due jobs, and then belongs to the
  polling worker.\<close>

theorem stale_job_reclaimed:
  assumes "db_unique d" "get_job jid d = Some j"
    and "job_status j = PROCESSING" "job_locked_at j = Some t" "t + 5 * minute < now"
    and "job_available_at j \<le> now" "length (due_jobs now d) \<le> limit"
  shows "\<exists>j' \<in> set (fst (claim_pending_jobs w limit now d)).
    job_id j' = jid \<and> job_locked_by j' = Some w \<and> job_locked_at j' = Some now"
proof -
  have "claimable now j"
    using assms(3-6) by (simp add: claimable_def stale_lock_def)
  with assms(1,2) have "j \<in> set (due_jobs now d)" "job_id j = jid"
    by (simp_all add: jobs_tab.find_row_iff)
  with assms(7) show ?thesis
    unfolding claim_pending_jobs_result [OF assms(1)] by (auto intro!: bexI [of _ "lock_job w now j"])
qed

definition stuck_db :: db where
  "stuck_db = sub_db\<lparr>jobs := [lock_job ''dead'' 40 sample_job]\<rparr>"

theorem stale_job_reclaimed_witness:
  "\<exists>j' \<in> set (fst (claim_pending_jobs ''w2'' 10 (41 + 5 * minute) stuck_db)).
    job_id j' = 8 \<and> job_locked_by j' = Some ''w2'' \<and> job_locked_at j' = Some (41 + 5 * minute)"
proof (rule stale_job_reclaimed [where t = 40])
  show "db_unique stuck_db"
    by (simp add: stuck_db_def lock_job_def db_unique_def distinct_opt_def sample_db_defs)
  show "get_job 8 stuck_db = Some (lock_job ''dead'' 40 sample_job)"
    by (simp add: stuck_db_def lock_job_def sample_db_defs)
qed (simp_all add: stuck_db_def due_jobs_def lock_job_def sample_db_defs time_units)

subsection \<open>Failing, retrying, requeueing\<close>

definition fail_times :: "string \<Rightarrow> datetime list \<Rightarrow> job \<Rightarrow> job" where
  "fail_times e ts j = foldl (\<lambda>j t. fail_job e True default_max_retries t j) j ts"

lemma fail_times_attempts:
  "job_attempt_count (fail_times e ts j) = job_attempt_count j + int (length ts)"
  unfolding fail_times_def by (induction ts rule: rev_induct) simp_all

text \<open>The retry schedule: a new job whose k-th attempt fails at time t for a reason worth
  retrying waits 10 * 3^(k-1) seconds (10, 30, 90, 270) while k is below five, and the fifth
  such failure is final.\<close>

theorem retry_schedule:
  "fail_times e (ts @ [t]) (new_job now jid ty aty agg p av) = j \<Longrightarrow>
   job_attempt_count j = int (length ts) + 1 \<and>
   (if length ts < 4
    then job_status j = RETRYABLE_FAILURE \<and>
         job_available_at j = t + 10 * 3 ^ length ts * second
    else job_status j = PERMANENT_FAILURE)"
proof -
  let ?j = "fail_times e ts (new_job now jid ty aty agg p av)"
  have n: "job_attempt_count ?j = int (length ts)"
    by (simp add: fail_times_attempts)
  moreover assume "fail_times e (ts @ [t]) (new_job now jid ty aty agg p av) = j"
  then have "j = fail_job e True 5 t ?j"
    by (simp add: fail_times_def default_max_retries_def)
  ultimately show ?thesis
    by (auto simp: fail_job_def Let_def backoff_seconds_def)
qed

theorem retry_schedule_witness:
  "job_available_at (fail_times ''x'' ([100, 200] @ [300])
     (new_job 0 8 CREATE_PEER ''subscription'' 6 [] None)) = 300 + 90 * second"
  using retry_schedule [where ts = "[100, 200]", OF refl, of "''x''" 300 0 8 CREATE_PEER]
  by simp

text \<open>A failed attempt frees the job for nobody too early: after a retryable failure no
  worker can claim it before the backoff is over, and after a final one no worker can claim
  it at all, at any later time.\<close>

theorem failed_job_not_claimable:
  assumes "get_job jid d = Some j" "mark_failed jid msg r mx now d = (res, d')"
  shows "\<exists>j'. res = Some j' \<and> get_job jid d' = Some j' \<and>
    (\<forall>t. claimable t j' \<longrightarrow>
       r \<and> job_attempt_count j + 1 < mx \<and>
       now + backoff_seconds (job_attempt_count j + 1) * second \<le> t)"
proof -
  let ?j' = "fail_job msg r mx now j"
  have "get_job jid d' = Some ?j'" "res = Some ?j'"
    using assms by (auto simp: mark_failed_def find_update_row)
  moreover have "r \<and> job_attempt_count j + 1 < mx \<and>
       now + backoff_seconds (job_attempt_count j + 1) * second \<le> t" if "claimable t ?j'" for t
    using that by (auto simp: claimable_def stale_lock_def fail_job_def Let_def split: if_splits)
  ultimately show ?thesis by blast
qed

theorem failed_job_not_claimable_witness:
  "\<exists>j'. fst (mark_failed 8 ''x'' True 5 50 job_db) = Some j' \<and>
    get_job 8 (snd (mark_failed 8 ''x'' True 5 50 job_db)) = Some j' \<and>
    (\<forall>t. claimable t j' \<longrightarrow> 50 + backoff_seconds 1 * second \<le> t)"
proof -
  have j: "get_job 8 job_db = Some sample_job"
    by (simp add: sample_db_defs)
  have "job_attempt_count sample_job = 0"
    by (simp add: sample_defs)
  then show ?thesis
    using failed_job_not_claimable [OF j surjective_pairing, of "''x''" True 5 50] by simp
qed

end
