(* ===== verification/Redaction.thy ===== *)
theory Redaction
  imports Py_Text
begin

section \<open>Redaction of secrets\<close>

text \<open>
  \<open>src/app/utils/logging.py\<close>: \<open>redact_sensitive_text\<close> applies eight regular-expression
  substitutions to a text before it is logged or stored in the audit log. A pattern is a
  sequence of atoms over character classes, matched as Python's \<open>re\<close> does: greedy repetition
  tries the longest run first and backtracks, a lazy one the shortest. \<open>Mark\<close> records a
  position, which gives the text of a group. \<open>re_sub\<close> is \<open>pattern.sub\<close>: the leftmost match is
  replaced and the search goes on behind it.
\<close>

datatype atom =
    One "char \<Rightarrow> bool"
  | Many "char \<Rightarrow> bool"
  | Lazy "char \<Rightarrow> bool"
  | Opt "char \<Rightarrow> bool"
  | Mark

fun match_atoms :: "atom list \<Rightarrow> string \<Rightarrow> (string \<times> string list) option" where
  "match_atoms [] s = Some (s, [])"
| "match_atoms (One p # as) [] = None"
| "match_atoms (One p # as) (c # s) = (if p c then match_atoms as s else None)"
| "match_atoms (Many p # as) [] = match_atoms as []"
| "match_atoms (Many p # as) (c # s) =
     (if p c
      then (case match_atoms (Many p # as) s of
              None \<Rightarrow> match_atoms as (c # s)
            | Some r \<Rightarrow> Some r)
      else match_atoms as (c # s))"
| "match_atoms (Lazy p # as) [] = match_atoms as []"
| "match_atoms (Lazy p # as) (c # s) =
     (case match_atoms as (c # s) of
        None \<Rightarrow> (if p c then match_atoms (Lazy p # as) s else None)
      | Some r \<Rightarrow> Some r)"
| "match_atoms (Opt p # as) [] = match_atoms as []"
| "match_atoms (Opt p # as) (c # s) =
     (if p c
      then (case match_atoms as s of None \<Rightarrow> match_atoms as (c # s) | Some r \<Rightarrow> Some r)
      else match_atoms as (c # s))"
| "match_atoms (Mark # as) s =
     (case match_atoms as s of None \<Rightarrow> None | Some (r, ms) \<Rightarrow> Some (r, s # ms))"

lemma match_atoms_suffix: "match_atoms as s = Some (r, ms) \<Longrightarrow> length r \<le> length s"
  by (induction as s arbitrary: r ms rule: match_atoms.induct)
    (fastforce split: if_splits option.splits)+

text \<open>The patterns match no empty text, so a match that consumed nothing counts as none.\<close>

function re_sub :: "atom list \<Rightarrow> (string \<Rightarrow> string list \<Rightarrow> string) \<Rightarrow> string \<Rightarrow> string" where
  "re_sub as rep [] = []"
| "re_sub as rep (c # s) =
     (case match_atoms as (c # s) of
        None \<Rightarrow> c # re_sub as rep s
      | Some (r, ms) \<Rightarrow>
          if length r < length (c # s) then rep r ms @ re_sub as rep r else c # re_sub as rep s)"
  by pat_completeness auto
termination
  by (relation "measure (\<lambda>(as, rep, s). length s)") auto

definition literal :: "string \<Rightarrow> atom list" where
  "literal s = map (\<lambda>c. One (\<lambda>x. x = c)) s"

text \<open>\<open>re.IGNORECASE\<close>.\<close>

definition literal_ci :: "string \<Rightarrow> atom list" where
  "literal_ci s = map (\<lambda>c. One (\<lambda>x. py_lower_char x = py_lower_char c)) s"

definition many1 :: "(char \<Rightarrow> bool) \<Rightarrow> atom list" where
  "many1 p = [One p, Many p]"

definition is_upper :: "char \<Rightarrow> bool" where
  "is_upper c = (let n = of_char c :: nat in 65 \<le> n \<and> n \<le> 90)"

definition is_alnum :: "char \<Rightarrow> bool" where
  "is_alnum c = (let n = of_char c :: nat
     in (48 \<le> n \<and> n \<le> 57) \<or> (65 \<le> n \<and> n \<le> 90) \<or> (97 \<le> n \<and> n \<le> 122))"

definition is_url_char :: "char \<Rightarrow> bool" where
  "is_url_char c = (is_alnum c \<or> c = CHR ''_'' \<or> c = CHR ''-'')"

definition is_b64_char :: "char \<Rightarrow> bool" where
  "is_b64_char c = (is_alnum c \<or> c = CHR ''+'' \<or> c = CHR ''/'' \<or> c = CHR ''='')"

definition is_pem_word :: "char \<Rightarrow> bool" where
  "is_pem_word c = (is_upper c \<or> c = CHR '' '')"

definition const_rep :: "string \<Rightarrow> string \<Rightarrow> string list \<Rightarrow> string" where
  "const_rep t r ms = t"

definition quote :: "char" where
  "quote = CHR 0x22"

definition bot_token_pat :: "atom list" where
  "bot_token_pat = literal_ci ''bot'' @ many1 is_decimal @ literal '':'' @ many1 is_url_char"

definition pem_pat :: "atom list" where
  "pem_pat = literal ''-----BEGIN '' @ many1 is_pem_word @ literal '' PRIVATE KEY-----''
     @ [One (\<lambda>c. True), Lazy (\<lambda>c. True)] @ literal ''-----END '' @ many1 is_pem_word
     @ literal '' PRIVATE KEY-----''"

definition key_pat :: "string \<Rightarrow> atom list" where
  "key_pat name = literal_ci name @ [Many is_space] @ literal ''='' @ [Many is_space]
     @ many1 is_b64_char"

definition config_b64_pat :: "atom list" where
  "config_b64_pat = literal (quote # ''config_b64'' @ [quote]) @ [Many is_space] @ literal '':''
     @ [Many is_space] @ literal [quote] @ [Many (\<lambda>c. c \<noteq> quote), Opt (\<lambda>c. c = quote)]"

definition vpn_pat :: "atom list" where
  "vpn_pat = literal ''vpn://'' @ many1 is_url_char"

definition password_pat :: "atom list" where
  "password_pat = literal_ci ''password='' @ many1 (\<lambda>c. \<not> is_space c \<and> c \<noteq> CHR ''&'')"

definition userinfo_pat :: "atom list" where
  "userinfo_pat = literal ''://'' @ [Mark] @ many1 (\<lambda>c. c \<noteq> CHR '':'') @ [Mark]
     @ literal '':'' @ many1 (\<lambda>c. c \<noteq> CHR ''@'') @ literal ''@''"

text \<open>The replacement with \<open>\1\<close>, the text between the two marks.\<close>

definition userinfo_rep :: "string \<Rightarrow> string list \<Rightarrow> string" where
  "userinfo_rep r ms =
     (case ms of
        [a, b] \<Rightarrow> ''://'' @ take (length a - length b) a @ '':[REDACTED]@''
      | _ \<Rightarrow> [])"

definition sensitive_patterns ::
  "(atom list \<times> (string \<Rightarrow> string list \<Rightarrow> string)) list" where
  "sensitive_patterns =
     [(bot_token_pat, const_rep ''bot[REDACTED_TOKEN]''),
      (pem_pat, const_rep ''[REDACTED_PRIVATE_KEY]''),
      (key_pat ''PrivateKey'', const_rep ''PrivateKey = [REDACTED]''),
      (key_pat ''PresharedKey'', const_rep ''PresharedKey = [REDACTED]''),
      (config_b64_pat, const_rep (quote # ''config_b64'' @ quote # '': '' @ quote #
                         ''[REDACTED]'' @ [quote])),
      (vpn_pat, const_rep ''vpn://[REDACTED]''),
      (password_pat, const_rep ''password=[REDACTED]''),
      (userinfo_pat, userinfo_rep)]"

definition redact_sensitive_text :: "string \<Rightarrow> string" where
  "redact_sensitive_text text =
     foldl (\<lambda>t (as, rep). re_sub as rep t) text sensitive_patterns"

end
