(* ===== verification/Audit_Log.thy ===== *)
theory Audit_Log
  imports Bot_Samples Redaction_Safe
begin

section \<open>Audit events and notifications\<close>

text \<open>
  \<open>src/app/db/repositories/audit_repo.py\<close>: the audit log, whose metadata is sanitised before
  it is stored (a value under a key that names a secret is replaced, every other string is
  redacted), and the notification table, whose unique idempotency key makes each reminder go
  out once. \<open>clean_event\<close> says, apart from the code, what an event may hold; the lemmas: every
  event recorded is clean and keeps what is no secret, and creating a notification twice
  creates it once. That the whole log stays clean, the events \<open>order_repo.py\<close> writes past this
  repository included, is proved in \<open>Audit_Safe\<close>.
\<close>

subsection \<open>AuditRepository\<close>

definition secret_terms :: "string list" where
  "secret_terms = [''secret'', ''token'', ''password'', ''key'', ''private'']"

definition names_secret :: "string \<Rightarrow> bool" where
  "names_secret k = list_ex (\<lambda>term. contains_str (py_lower k) term) secret_terms"

fun sanitize_value :: "string \<Rightarrow> json \<Rightarrow> json" where
  "sanitize_value k (JStr v) =
     (if names_secret k then JStr ''[REDACTED]'' else JStr (redact_sensitive_text v))"
| "sanitize_value k v = (if names_secret k then JStr ''[REDACTED]'' else v)"

definition sanitize_metadata :: "json_object \<Rightarrow> json_object" where
  "sanitize_metadata m = map (\<lambda>(k, v). (k, sanitize_value k v)) m"

definition new_audit ::
  "datetime \<Rightarrow> uuid \<Rightarrow> actor_type \<Rightarrow> int option \<Rightarrow> string \<Rightarrow> string \<Rightarrow> uuid option \<Rightarrow> json_object
     \<Rightarrow> audit_event" where
  "new_audit now aid actor tg ev ent ent_id meta =
     \<lparr>aud_id = aid, aud_actor_type = actor, aud_actor_telegram_id = tg, aud_event_type = ev,
      aud_entity_type = ent, aud_entity_id = ent_id, aud_metadata = meta,
      aud_created_at = now\<rparr>"

definition add_audit :: "audit_event \<Rightarrow> db \<Rightarrow> db" where
  "add_audit e d = audits_update (\<lambda>es. es @ [e]) d"

definition record_event ::
  "datetime \<Rightarrow> uuid \<Rightarrow> actor_type \<Rightarrow> int option \<Rightarrow> string \<Rightarrow> string \<Rightarrow> uuid option \<Rightarrow> json_object
     \<Rightarrow> db \<Rightarrow> exn + db" where
  "record_event now aid actor tg ev ent ent_id meta d =
     flush (add_audit (new_audit now aid actor tg ev ent ent_id (sanitize_metadata meta)) d)"

definition list_for_entity :: "string \<Rightarrow> uuid \<Rightarrow> db \<Rightarrow> audit_event list" where
  "list_for_entity ent ent_id d =
     order_by_desc aud_created_at
       (filter (\<lambda>e. aud_entity_type e = ent \<and> aud_entity_id e = Some ent_id) (audits d))"

lemma record_event_eq_Inr [res_simps]:
  "record_event now aid actor tg ev ent ent_id meta d = Inr d' \<longleftrightarrow>
     d' = add_audit (new_audit now aid actor tg ev ent ent_id (sanitize_metadata meta)) d
     \<and> db_unique d'"
  by (auto simp: record_event_def res_simps)

lemma add_audit_tables [simp]:
  "users (add_audit e d) = users d" "servers (add_audit e d) = servers d"
  "products (add_audit e d) = products d" "orders (add_audit e d) = orders d"
  "subs (add_audit e d) = subs d" "jobs (add_audit e d) = jobs d"
  "notifications (add_audit e d) = notifications d" "tickets (add_audit e d) = tickets d"
  "messages (add_audit e d) = messages d" "audits (add_audit e d) = audits d @ [e]"
  by (simp_all add: add_audit_def)

subsection \<open>What an audit event may hold\<close>

text \<open>A key that names a secret, said without the code: one of the five words stands somewhere in
  it, each letter small or capital.\<close>

definition same_letter :: "char \<Rightarrow> char \<Rightarrow> bool" where
  "same_letter c x \<longleftrightarrow> c = x \<or>
     (97 \<le> (of_char x :: nat) \<and> of_char x \<le> (122 :: nat) \<and> of_char c + 32 = (of_char x :: nat))"

definition holds_word :: "string \<Rightarrow> string \<Rightarrow> bool" where
  "holds_word w k \<longleftrightarrow> (\<exists>a u b. k = a @ u @ b \<and> list_all2 same_letter u w)"

definition secret_key :: "string \<Rightarrow> bool" where
  "secret_key k \<longleftrightarrow> holds_word ''secret'' k \<or> holds_word ''token'' k \<or> holds_word ''password'' k \<or>
     holds_word ''key'' k \<or> holds_word ''private'' k"

text \<open>An event without secrets: nothing is left under a key that names one, and no text holds the
  link of a config.\<close>

definition clean_event :: "audit_event \<Rightarrow> bool" where
  "clean_event e \<longleftrightarrow> (\<forall>(k, v) \<in> set (aud_metadata e).
     (secret_key k \<longrightarrow> v = JStr ''[REDACTED]'') \<and> (\<forall>t. v = JStr t \<longrightarrow> \<not> has_link t))"

lemma lower_same:
  assumes "\<not> (65 \<le> (of_char x :: nat) \<and> of_char x \<le> (90 :: nat))"
  shows "py_lower_char c = x \<longleftrightarrow> same_letter c x"
proof -
  have "char_of (n :: nat) = x \<longleftrightarrow> n = of_char x" if "n < 256" for n
  proof
    assume "char_of n = x"
    then have "(of_char x :: nat) = of_char (char_of n)" by simp
    with that show "n = of_char x" by simp
  qed simp
  then show ?thesis
    using assms by (auto simp: py_lower_char_def same_letter_def Let_def)
qed

lemma lower_word:
  assumes "list_all (\<lambda>x. \<not> (65 \<le> (of_char x :: nat) \<and> of_char x \<le> (90 :: nat))) w"
  shows "contains_str (py_lower k) w \<longleftrightarrow> holds_word w k"
proof -
  have "starts_with s w \<longleftrightarrow> (\<exists>b. s = w @ b)" for s
    by (induction s w rule: starts_with.induct) auto
  then have sub: "contains_str s w \<longleftrightarrow> (\<exists>a b. s = a @ w @ b)" for s
  proof (induction s)
    case (Cons c s)
    then have "contains_str (c # s) w \<longleftrightarrow> (\<exists>b. c # s = w @ b) \<or> (\<exists>a b. s = a @ w @ b)"
      by simp
    also have "\<dots> \<longleftrightarrow> (\<exists>a b. c # s = a @ w @ b)"
      by (metis append_Cons append_Nil list.sel(3) neq_Nil_conv)
    finally show ?case .
  qed simp
  have word: "map py_lower_char u = w \<longleftrightarrow> list_all2 same_letter u w" for u
  proof -
    have "py_lower_char (u ! i) = w ! i \<longleftrightarrow> same_letter (u ! i) (w ! i)" if "i < length w" for i
      using assms that by (intro lower_same) (simp add: list_all_length)
    then show ?thesis
      by (auto simp: list_eq_iff_nth_eq list_all2_conv_all_nth)
  qed
  show ?thesis
  proof
    assume "contains_str (py_lower k) w"
    then obtain a b where "map py_lower_char k = a @ w @ b"
      by (auto simp: sub py_lower_def)
    then obtain a' r where "k = a' @ r" "w @ b = map py_lower_char r"
      by (auto simp: map_eq_append_conv)
    moreover from this(2) [symmetric] obtain u b' where "r = u @ b'" "map py_lower_char u = w"
      by (auto simp: map_eq_append_conv)
    ultimately show "holds_word w k"
      using word by (auto simp: holds_word_def)
  next
    assume "holds_word w k"
    then obtain a u b where "k = a @ u @ b" "map py_lower_char u = w"
      using word by (auto simp: holds_word_def)
    then show "contains_str (py_lower k) w"
      by (auto simp: sub py_lower_def)
  qed
qed

lemma names_secret_iff: "names_secret k \<longleftrightarrow> secret_key k"
  by (simp add: names_secret_def secret_terms_def secret_key_def lower_word)

text \<open>How a stored entry comes from the one given: the key is kept, and so is the value when the
  key names no secret, but for the redaction of a text.\<close>

fun stored_entry :: "string \<times> json \<Rightarrow> string \<times> json \<Rightarrow> bool" where
  "stored_entry (k, v) (k', v') \<longleftrightarrow> k' = k \<and>
     v' = (if secret_key k then JStr ''[REDACTED]''
           else case v of JStr t \<Rightarrow> JStr (redact_sensitive_text t) | _ \<Rightarrow> v)"

lemma sanitized_value: "stored_entry (k, v) (k, sanitize_value k v)"
  by (cases v) (simp_all add: names_secret_iff)

lemma sanitized_stored: "list_all2 stored_entry m (sanitize_metadata m)"
  using sanitized_value by (auto simp: sanitize_metadata_def list_all2_map2 intro!: list_all2_refl)

lemma sanitized_clean: "clean_event (new_audit now aid a tg ev ent i (sanitize_metadata m))"
proof -
  have "(secret_key k \<longrightarrow> sanitize_value k v = JStr ''[REDACTED]'') \<and>
      (\<forall>t. sanitize_value k v = JStr t \<longrightarrow> \<not> has_link t)" for k v
    using no_colon_no_link [of "''[REDACTED]''"]
    by (cases v) (auto simp: names_secret_iff redacted_no_link simp del: has_link.simps)
  then show ?thesis
    by (auto simp: clean_event_def new_audit_def sanitize_metadata_def)
qed

lemma record_event_stores:
  assumes "record_event now aid a tg ev ent i meta d = Inr d'"
  shows "\<exists>e. audits d' = audits d @ [e] \<and> list_all2 stored_entry meta (aud_metadata e) \<and> clean_event e"
  using assms sanitized_stored sanitized_clean
  by (auto simp: record_event_eq_Inr) (auto simp: new_audit_def)

subsection \<open>NotificationRepository\<close>

definition get_by_idempotency_key :: "string \<Rightarrow> db \<Rightarrow> notification option" where
  "get_by_idempotency_key k d = find_row ntf_key k (notifications d)"

definition new_notification ::
  "uuid \<Rightarrow> uuid \<Rightarrow> uuid option \<Rightarrow> notification_type \<Rightarrow> string \<Rightarrow> notification" where
  "new_notification nid uid sid ty k =
     \<lparr>ntf_id = nid, ntf_user_id = uid, ntf_subscription_id = sid, ntf_type = ty, ntf_key = k,
      ntf_status = ''pending''\<rparr>"

definition create_notification_if_not_exists ::
  "uuid \<Rightarrow> uuid \<Rightarrow> notification_type \<Rightarrow> string \<Rightarrow> uuid option \<Rightarrow> db \<Rightarrow> exn + bool \<times> db" where
  "create_notification_if_not_exists nid uid ty k sid d =
     (case get_by_idempotency_key k d of
        Some _ \<Rightarrow> Inr (False, d)
      | None \<Rightarrow>
          bind_res (flush (notifications_update (\<lambda>ns. ns @ [new_notification nid uid sid ty k]) d))
            (\<lambda>d'. Inr (True, d')))"

lemma create_notification_eq_Inr [res_simps]:
  "create_notification_if_not_exists nid uid ty k sid d = Inr (created, d') \<longleftrightarrow>
     (if k \<in> ntf_key ` set (notifications d) then \<not> created \<and> d' = d
      else created \<and>
        d' = notifications_update (\<lambda>ns. ns @ [new_notification nid uid sid ty k]) d \<and>
        db_unique d')"
  by (auto simp: create_notification_if_not_exists_def get_by_idempotency_key_def res_simps
      find_row_None split: option.splits dest: find_row_Some)

lemma new_notification_fields [simp]:
  "ntf_key (new_notification nid uid sid ty k) = k"
  "ntf_id (new_notification nid uid sid ty k) = nid"
  "ntf_user_id (new_notification nid uid sid ty k) = uid"
  by (simp_all add: new_notification_def)

end
