(* ===== verification/Subscriptions.thy ===== *)
theory Subscriptions
  imports Bot_Samples
begin

section \<open>Subscriptions\<close>

text \<open>
  \<open>src/app/db/repositories/subscription_repo.py\<close>: queries and state changes of a
  subscription, one definition per method of \<open>SubscriptionRepository\<close>. A select on a UNIQUE
  column returns at most one row, so it is the lookup of that row. The lemmas state which
  fields each change writes, that adding days never loses paid time, and how the three
  queries of the scheduler split the active subscriptions.
\<close>

definition get_by_order_id :: "uuid \<Rightarrow> db \<Rightarrow> subscription option" where
  "get_by_order_id oid d = find_row sub_order_id oid (subs d)"

definition get_active_by_user_id :: "uuid \<Rightarrow> db \<Rightarrow> subscription list" where
  "get_active_by_user_id uid d =
     order_by_desc sub_expires_at
       (filter (\<lambda>s. sub_user_id s = uid \<and> sub_status s = ACTIVE) (subs d))"

definition get_all_by_user_id :: "uuid \<Rightarrow> db \<Rightarrow> subscription list" where
  "get_all_by_user_id uid d =
     order_by_desc sub_created_at (filter (\<lambda>s. sub_user_id s = uid) (subs d))"

definition list_expiring_soon :: "datetime \<Rightarrow> datetime \<Rightarrow> db \<Rightarrow> subscription list" where
  "list_expiring_soon before_time now d =
     order_by sub_expires_at
       (filter (\<lambda>s. sub_status s = ACTIVE \<and> sub_expires_at s \<le> before_time
                   \<and> now < sub_expires_at s) (subs d))"

definition list_expired_unprocessed :: "datetime \<Rightarrow> db \<Rightarrow> subscription list" where
  "list_expired_unprocessed now d =
     order_by sub_expires_at
       (filter (\<lambda>s. sub_status s = ACTIVE \<and> sub_expires_at s \<le> now) (subs d))"

definition activated :: "string \<Rightarrow> string \<Rightarrow> subscription \<Rightarrow> subscription" where
  "activated ext label s =
     s\<lparr>sub_status := ACTIVE, sub_peer_external_id := Some ext, sub_peer_label := Some label,
       sub_delivery_status := ''delivered''\<rparr>"

text \<open>\<open>mark_active\<close> writes two UNIQUE columns, so its flush can be refused.\<close>

definition mark_active ::
  "uuid \<Rightarrow> string \<Rightarrow> string \<Rightarrow> db \<Rightarrow> exn + subscription option \<times> db" where
  "mark_active sid ext label d =
     (case get_sub sid d of
        None \<Rightarrow> Inr (None, d)
      | Some s \<Rightarrow> bind_res (flush (upd_sub sid (activated ext label) d))
                   (\<lambda>d'. Inr (Some (activated ext label s), d')))"

definition disabled :: "datetime \<Rightarrow> subscription \<Rightarrow> subscription" where
  "disabled now s = s\<lparr>sub_status := DISABLED, sub_disabled_at := Some now\<rparr>"

definition mark_disabled :: "uuid \<Rightarrow> datetime \<Rightarrow> db \<Rightarrow> subscription option \<times> db" where
  "mark_disabled sid now d =
     (case get_sub sid d of
        None \<Rightarrow> (None, d)
      | Some s \<Rightarrow> (Some (disabled now s), upd_sub sid (disabled now) d))"

definition removed :: "datetime \<Rightarrow> subscription \<Rightarrow> subscription" where
  "removed now s = s\<lparr>sub_status := S_EXPIRED, sub_removed_at := Some now\<rparr>"

definition mark_removed :: "uuid \<Rightarrow> datetime \<Rightarrow> db \<Rightarrow> subscription option \<times> db" where
  "mark_removed sid now d =
     (case get_sub sid d of
        None \<Rightarrow> (None, d)
      | Some s \<Rightarrow> (Some (removed now s), upd_sub sid (removed now) d))"

definition get_by_peer_label :: "string \<Rightarrow> db \<Rightarrow> subscription option" where
  "get_by_peer_label label d = find_row sub_peer_label (Some label) (subs d)"

text \<open>\<open>extend_subscription\<close>: the new row, or \<open>OverflowError\<close> from the date arithmetic.\<close>

definition extended :: "int \<Rightarrow> datetime \<Rightarrow> subscription \<Rightarrow> exn + subscription" where
  "extended days now s =
     bind_res (add_days (if days > 0 then max (sub_expires_at s) now else sub_expires_at s) days)
       (\<lambda>t. let s' = s\<lparr>sub_expires_at := t\<rparr>
            in Inr (if days > 0 \<and> sub_status s \<in> {DISABLED, S_EXPIRED}
                    then s'\<lparr>sub_status := ACTIVE, sub_disabled_at := None\<rparr> else s'))"

definition extend_subscription ::
  "uuid \<Rightarrow> int \<Rightarrow> datetime \<Rightarrow> db \<Rightarrow> exn + subscription option \<times> db" where
  "extend_subscription sid days now d =
     (case get_sub sid d of
        None \<Rightarrow> Inr (None, d)
      | Some s \<Rightarrow> bind_res (extended days now s)
                   (\<lambda>s'. Inr (Some s', upd_sub sid (\<lambda>_. s') d)))"

definition redelivered :: "subscription \<Rightarrow> subscription" where
  "redelivered s = s\<lparr>sub_redelivery_count := sub_redelivery_count s + 1\<rparr>"

definition increment_redelivery_count :: "uuid \<Rightarrow> db \<Rightarrow> int \<times> db" where
  "increment_redelivery_count sid d =
     (case get_sub sid d of
        None \<Rightarrow> (0, d)
      | Some s \<Rightarrow> (sub_redelivery_count s + 1, upd_sub sid redelivered d))"

subsection \<open>Fields the changes keep\<close>

definition same_identity :: "subscription \<Rightarrow> subscription \<Rightarrow> bool" where
  "same_identity s s' \<longleftrightarrow>
     sub_id s' = sub_id s \<and> sub_user_id s' = sub_user_id s \<and>
     sub_order_id s' = sub_order_id s \<and> sub_server_id s' = sub_server_id s \<and>
     sub_product_id s' = sub_product_id s \<and> sub_starts_at s' = sub_starts_at s"

named_theorems sub_fields \<open>fields of a subscription an update keeps\<close>

lemma activated_fields [sub_fields, simp]:
  "sub_id (activated e l s) = sub_id s"
  "sub_user_id (activated e l s) = sub_user_id s"
  "sub_order_id (activated e l s) = sub_order_id s"
  "sub_server_id (activated e l s) = sub_server_id s"
  "sub_expires_at (activated e l s) = sub_expires_at s"
  "sub_status (activated e l s) = ACTIVE"
  "sub_peer_external_id (activated e l s) = Some e"
  "sub_peer_label (activated e l s) = Some l"
  by (simp_all add: activated_def)

lemma disabled_fields [sub_fields, simp]:
  "sub_id (disabled t s) = sub_id s"
  "sub_user_id (disabled t s) = sub_user_id s"
  "sub_order_id (disabled t s) = sub_order_id s"
  "sub_server_id (disabled t s) = sub_server_id s"
  "sub_expires_at (disabled t s) = sub_expires_at s"
  "sub_peer_external_id (disabled t s) = sub_peer_external_id s"
  "sub_peer_label (disabled t s) = sub_peer_label s"
  "sub_status (disabled t s) = DISABLED"
  "sub_disabled_at (disabled t s) = Some t"
  "sub_removed_at (disabled t s) = sub_removed_at s"
  by (simp_all add: disabled_def)

lemma removed_fields [sub_fields, simp]:
  "sub_id (removed t s) = sub_id s"
  "sub_user_id (removed t s) = sub_user_id s"
  "sub_order_id (removed t s) = sub_order_id s"
  "sub_server_id (removed t s) = sub_server_id s"
  "sub_expires_at (removed t s) = sub_expires_at s"
  "sub_peer_external_id (removed t s) = sub_peer_external_id s"
  "sub_peer_label (removed t s) = sub_peer_label s"
  "sub_status (removed t s) = S_EXPIRED"
  "sub_removed_at (removed t s) = Some t"
  by (simp_all add: removed_def)

lemma redelivered_fields [sub_fields, simp]:
  "sub_id (redelivered s) = sub_id s"
  "sub_user_id (redelivered s) = sub_user_id s"
  "sub_order_id (redelivered s) = sub_order_id s"
  "sub_peer_external_id (redelivered s) = sub_peer_external_id s"
  "sub_peer_label (redelivered s) = sub_peer_label s"
  "sub_status (redelivered s) = sub_status s"
  "sub_expires_at (redelivered s) = sub_expires_at s"
  "sub_redelivery_count (redelivered s) = sub_redelivery_count s + 1"
  by (simp_all add: redelivered_def)

lemma extended_fields:
  assumes "extended n now s = Inr s'"
  shows "same_identity s s'" "sub_peer_external_id s' = sub_peer_external_id s"
    "sub_peer_label s' = sub_peer_label s" "sub_removed_at s' = sub_removed_at s"
  using assms by (auto simp: extended_def same_identity_def Let_def res_simps)

lemma get_sub_id: "get_sub i d = Some s \<Longrightarrow> sub_id s = i"
  by (rule find_row_Some [THEN conjunct2])

text \<open>Replacing a row by one computed from it, as the in-place update of a loaded row.\<close>

lemma find_row_replace [row_simps]:
  assumes "key r' = k"
  shows "find_row key i (update_row key k (\<lambda>_. r') rs) =
    (if i = k then map_option (\<lambda>_. r') (find_row key k rs) else find_row key i rs)"
  using assms by (induction rs) auto

subsection \<open>Extending\<close>

text \<open>Adding days never takes paid time away: when it succeeds, the subscription runs at
  least the given number of days from now and from its old end, a subscription that had been
  disabled or had expired is active again with no disabled date, any other status is kept,
  and no other subscription changes.\<close>

theorem extend_subscription_adds_time:
  assumes "extend_subscription sid days now d = Inr (Some s', d')" "get_sub sid d = Some s"
    and "0 < days"
  shows "sub_expires_at s' = max (sub_expires_at s) now + days * day \<and>
    (if sub_status s \<in> {DISABLED, S_EXPIRED}
     then sub_status s' = ACTIVE \<and> sub_disabled_at s' = None
     else sub_status s' = sub_status s) \<and>
    get_sub sid d' = Some s' \<and> (\<forall>i. i \<noteq> sid \<longrightarrow> get_sub i d' = get_sub i d)"
proof -
  from assms have ext: "extended days now s = Inr s'" and d': "d' = upd_sub sid (\<lambda>_. s') d"
    by (auto simp: extend_subscription_def res_simps)
  have "sub_id s' = sid"
    using extended_fields(1) [OF ext] get_sub_id [OF assms(2)] by (simp add: same_identity_def)
  then have "get_sub sid d' = Some s'" "\<forall>i. i \<noteq> sid \<longrightarrow> get_sub i d' = get_sub i d"
    using assms(2) by (simp_all add: d' find_row_replace)
  moreover have "sub_expires_at s' = max (sub_expires_at s) now + days * day"
    and "if sub_status s \<in> {DISABLED, S_EXPIRED}
     then sub_status s' = ACTIVE \<and> sub_disabled_at s' = None
     else sub_status s' = sub_status s"
    using ext assms(3) by (auto simp: extended_def Let_def res_simps split: if_splits)
  ultimately show ?thesis by blast
qed

theorem extend_subscription_adds_time_witness:
  "sub_expires_at (sample_sub\<lparr>sub_status := ACTIVE, sub_disabled_at := None,
       sub_expires_at := noon + 3 * day + 30 * day\<rparr>) =
     max (sub_expires_at (sample_sub\<lparr>sub_status := DISABLED\<rparr>)) (noon + 3 * day) + 30 * day"
proof -
  let ?d = "order_db\<lparr>subs := [sample_sub\<lparr>sub_status := DISABLED\<rparr>]\<rparr>"
  let ?s = "sample_sub\<lparr>sub_status := ACTIVE, sub_disabled_at := None,
       sub_expires_at := noon + 3 * day + 30 * day\<rparr>"
  have "extend_subscription 6 30 (noon + 3 * day) ?d = Inr (Some ?s, order_db\<lparr>subs := [?s]\<rparr>)"
    by (simp add: extend_subscription_def extended_def add_days_def timedelta_days_def dt_add_def
        min_datetime_def max_datetime_def sample_db_defs time_units)
  moreover have "get_sub 6 ?d = Some (sample_sub\<lparr>sub_status := DISABLED\<rparr>)"
    by (simp add: sample_db_defs)
  ultimately show ?thesis
    using extend_subscription_adds_time [of 6 30 "noon + 3 * day" ?d ?s] by auto
qed

text \<open>Taking days away undoes adding them: on a subscription that had not run out,
  \<open>/extend\<close> by n days and then by minus n gives back the same end date.\<close>

theorem extend_roundtrip:
  assumes "extended n now s = Inr s1" "0 < n" "now \<le> sub_expires_at s"
    and "extended (- n) later s1 = Inr s2"
  shows "sub_expires_at s2 = sub_expires_at s"
  using assms by (auto simp: extended_def Let_def res_simps split: if_splits)

theorem extend_roundtrip_witness:
  "\<exists>s1 s2. extended 30 0 sample_sub = Inr s1 \<and> extended (- 30) 99 s1 = Inr s2 \<and>
     sub_expires_at s1 = noon + 30 * day \<and> sub_expires_at s2 = noon"
proof -
  let ?s1 = "sample_sub\<lparr>sub_expires_at := noon + 30 * day\<rparr>"
  have 1: "extended 30 0 sample_sub = Inr ?s1"
    by (simp add: extended_def add_days_def timedelta_days_def dt_add_def min_datetime_def
        max_datetime_def sample_defs time_units)
  have 2: "\<exists>s2. extended (- 30) 99 ?s1 = Inr s2"
    by (simp add: extended_def add_days_def timedelta_days_def dt_add_def min_datetime_def
        max_datetime_def sample_defs time_units)
  then obtain s2 where s2: "extended (- 30) 99 ?s1 = Inr s2" by blast
  have "0 \<le> sub_expires_at sample_sub" and noon: "sub_expires_at sample_sub = noon"
    by (simp_all add: sample_defs)
  from extend_roundtrip [OF 1 _ this(1) s2] noon have "sub_expires_at s2 = noon"
    by simp
  with 1 s2 show ?thesis by (intro exI [of _ ?s1] exI [of _ s2]) simp
qed

subsection \<open>The queries of the scheduler\<close>

text \<open>The scheduler's two queries over active subscriptions never overlap, and together
  they return exactly the active subscriptions that end within the window: whatever is due a
  reminder is not yet expired, and nothing that ends in the window is missed.\<close>

theorem expiry_queries_partition:
  assumes "now \<le> before_time"
  shows "set (list_expiring_soon before_time now d) \<inter> set (list_expired_unprocessed now d) = {} \<and>
    set (list_expiring_soon before_time now d) \<union> set (list_expired_unprocessed now d) =
      {s \<in> set (subs d). sub_status s = ACTIVE \<and> sub_expires_at s \<le> before_time}"
  using assms by (auto simp: list_expiring_soon_def list_expired_unprocessed_def)

theorem expiry_queries_partition_witness:
  "set (list_expiring_soon (noon + day) (noon - day) sub_db)
     \<union> set (list_expired_unprocessed (noon - day) sub_db) = {sample_sub}"
  by (subst expiry_queries_partition [THEN conjunct2]) (auto simp: sample_db_defs time_units)

end
