(* ===== verification/Orders.thy ===== *)
theory Orders
  imports Job_Queue Audit_Log Subscriptions
begin

section \<open>Orders\<close>

text \<open>
  \<open>src/app/db/repositories/order_repo.py\<close>: creating an order, submitting its receipt,
  approving it (a new subscription with its \<open>create_peer\<close> job, or the extension of an
  existing one with an \<open>enable_peer\<close> job when it was off) and rejecting it. Every method is
  one function from the database to a result and the new database, or the exception it
  raises; on an exception nothing of the method is kept, since the handlers commit after it.
  The random draws of an order code and the UUIDs of new rows are arguments.
\<close>

definition order_code_alphabet :: string where
  "order_code_alphabet = ''ABCDEFGHIJKLMNOPQRSTUVWXYZ0123456789''"

text \<open>\<open>secrets.choice\<close>, six times: any number drawn is brought below the length of the alphabet.\<close>

definition generate_order_code :: "nat list \<Rightarrow> string" where
  "generate_order_code draws = ''ORD-'' @ map (\<lambda>n. order_code_alphabet ! (n mod length order_code_alphabet)) draws"

definition get_by_code :: "string \<Rightarrow> db \<Rightarrow> order option" where
  "get_by_code code d = find_row ord_code (py_strip (py_upper code)) (orders d)"

definition new_order ::
  "datetime \<Rightarrow> uuid \<Rightarrow> nat list \<Rightarrow> uuid \<Rightarrow> uuid \<Rightarrow> uuid \<Rightarrow> int \<Rightarrow> string \<Rightarrow> string \<Rightarrow> uuid option
     \<Rightarrow> order" where
  "new_order now oid draws uid srv prd price currency instructions renews =
     \<lparr>ord_id = oid, ord_code = generate_order_code draws, ord_user_id = uid,
      ord_server_id = srv, ord_product_id = prd, ord_renews = renews,
      ord_price_amount = price, ord_currency = currency, ord_instructions = instructions,
      ord_status = AWAITING_RECEIPT, ord_receipt_file_id = None, ord_receipt_message_id = None,
      ord_receipt_chat_id = None, ord_receipt_media_type = None, ord_receipt_note = None,
      ord_submitted_at = None, ord_reviewed_by = None, ord_reviewed_at = None,
      ord_rejection_reason = None, ord_created_at = now\<rparr>"

definition create_order ::
  "datetime \<Rightarrow> uuid \<Rightarrow> nat list \<Rightarrow> uuid \<Rightarrow> uuid \<Rightarrow> uuid \<Rightarrow> int \<Rightarrow> string \<Rightarrow> string \<Rightarrow> uuid option
     \<Rightarrow> db \<Rightarrow> exn + order \<times> db" where
  "create_order now oid draws uid srv prd price currency instructions renews d =
     (let r = new_order now oid draws uid srv prd price currency instructions renews
      in bind_res (flush (orders_update (\<lambda>os. os @ [r]) d)) (\<lambda>d'. Inr (r, d')))"

definition with_receipt ::
  "string \<Rightarrow> int \<Rightarrow> int \<Rightarrow> string \<Rightarrow> string option \<Rightarrow> datetime \<Rightarrow> order \<Rightarrow> order" where
  "with_receipt file_id message_id chat_id media_type note now r =
     r\<lparr>ord_receipt_file_id := Some file_id, ord_receipt_message_id := Some message_id,
       ord_receipt_chat_id := Some chat_id, ord_receipt_media_type := Some media_type,
       ord_receipt_note := note, ord_submitted_at := Some now,
       ord_status := RECEIPT_SUBMITTED\<rparr>"

definition submit_receipt ::
  "uuid \<Rightarrow> string \<Rightarrow> int \<Rightarrow> int \<Rightarrow> string \<Rightarrow> string option \<Rightarrow> datetime \<Rightarrow> db \<Rightarrow> order option \<times> db"
where
  "submit_receipt oid file_id message_id chat_id media_type note now d =
     (case get_order oid d of
        None \<Rightarrow> (None, d)
      | Some r \<Rightarrow>
          (Some (with_receipt file_id message_id chat_id media_type note now r),
           upd_order oid (with_receipt file_id message_id chat_id media_type note now) d))"

subsection \<open>Approval\<close>

definition approved_statuses :: "order_status list" where
  "approved_statuses = [APPROVED, O_PROVISIONING, FULFILLED]"

text \<open>\<open>not sub.peer_external_id\<close>: no value, or an empty one.\<close>

definition has_peer :: "subscription \<Rightarrow> bool" where
  "has_peer s = (case sub_peer_external_id s of None \<Rightarrow> False | Some p \<Rightarrow> p \<noteq> [])"

definition renewable_subscription :: "order \<Rightarrow> db \<Rightarrow> subscription option" where
  "renewable_subscription r d =
     (case ord_renews r of
        None \<Rightarrow> None
      | Some sid \<Rightarrow>
          (case get_sub sid d of
             None \<Rightarrow> None
           | Some s \<Rightarrow>
               if sub_user_id s \<noteq> ord_user_id r \<or> sub_server_id s \<noteq> ord_server_id r
                  \<or> \<not> has_peer s \<or> sub_removed_at s \<noteq> None
               then None else Some s))"

definition reviewed :: "int \<Rightarrow> datetime \<Rightarrow> order \<Rightarrow> order" where
  "reviewed admin now r = r\<lparr>ord_reviewed_by := Some admin, ord_reviewed_at := Some now\<rparr>"

definition renewal_audit ::
  "datetime \<Rightarrow> uuid \<Rightarrow> int \<Rightarrow> order \<Rightarrow> uuid \<Rightarrow> int \<Rightarrow> audit_event" where
  "renewal_audit now aid admin r sid days =
     new_audit now aid A_ADMIN (Some admin) ''order.approved'' ''order'' (Some (ord_id r))
       [(''order_code'', JStr (ord_code r)),
        (''renewed_subscription_id'', JStr (uuid_str sid)),
        (''days_added'', JInt days)]"

text \<open>
  \<open>_approve_renewal\<close>. Its result: the renewed subscription, the enable job when the
  subscription was not active, and the database.
\<close>

definition renewed_row :: "datetime \<Rightarrow> subscription \<Rightarrow> subscription" where
  "renewed_row t s = s\<lparr>sub_expires_at := t, sub_status := ACTIVE, sub_disabled_at := None\<rparr>"

definition enable_job :: "datetime \<Rightarrow> uuid \<Rightarrow> uuid \<Rightarrow> uuid \<Rightarrow> job" where
  "enable_job now jid sid oid =
     new_job now jid ENABLE_PEER ''subscription'' sid
       [(''subscription_id'', JStr (uuid_str sid)), (''order_id'', JStr (uuid_str oid))] None"

definition approve_renewal ::
  "datetime \<Rightarrow> uuid \<Rightarrow> uuid \<Rightarrow> order \<Rightarrow> subscription \<Rightarrow> int \<Rightarrow> int \<Rightarrow> db
     \<Rightarrow> exn + (subscription \<times> job option) \<times> db" where
  "approve_renewal now jid aid r s days admin d =
     bind_res (add_days (max (sub_expires_at s) now) days) (\<lambda>t.
       let was_disabled = (sub_status s \<noteq> ACTIVE);
           job = (if was_disabled then Some (enable_job now jid (sub_id s) (ord_id r)) else None);
           d1 = upd_sub (sub_id s) (renewed_row t) d;
           d2 = upd_order (ord_id r) (\<lambda>q. (reviewed admin now q)\<lparr>ord_status := FULFILLED\<rparr>) d1;
           d3 = (case job of None \<Rightarrow> d2 | Some j \<Rightarrow> jobs_update (\<lambda>js. js @ [j]) d2);
           d4 = add_audit (renewal_audit now aid admin r (sub_id s) days) d3
       in bind_res (flush d4) (\<lambda>d'. Inr ((renewed_row t s, job), d')))"

definition new_subscription :: "datetime \<Rightarrow> uuid \<Rightarrow> order \<Rightarrow> datetime \<Rightarrow> subscription" where
  "new_subscription now sid r expires =
     \<lparr>sub_id = sid, sub_user_id = ord_user_id r, sub_order_id = ord_id r,
      sub_server_id = ord_server_id r, sub_product_id = ord_product_id r,
      sub_status = S_PROVISIONING, sub_peer_external_id = None, sub_peer_label = None,
      sub_delivery_status = ''pending'', sub_redelivery_count = 0, sub_starts_at = now,
      sub_expires_at = expires, sub_disabled_at = None, sub_removed_at = None,
      sub_created_at = now\<rparr>"

definition create_peer_job ::
  "datetime \<Rightarrow> uuid \<Rightarrow> uuid \<Rightarrow> order \<Rightarrow> vpn_server \<Rightarrow> int \<Rightarrow> job" where
  "create_peer_job now jid sid r srv days =
     new_job now jid CREATE_PEER ''subscription'' sid
       [(''subscription_id'', JStr (uuid_str sid)), (''order_id'', JStr (uuid_str (ord_id r))),
        (''user_id'', JStr (uuid_str (ord_user_id r))), (''server_id'', JStr (uuid_str (srv_id srv))),
        (''server_slug'', JStr (srv_slug srv)), (''duration_days'', JInt days)] None"

definition approval_audit :: "datetime \<Rightarrow> uuid \<Rightarrow> int \<Rightarrow> order \<Rightarrow> uuid \<Rightarrow> audit_event" where
  "approval_audit now aid admin r sid =
     new_audit now aid A_ADMIN (Some admin) ''order.approved'' ''order'' (Some (ord_id r))
       [(''order_code'', JStr (ord_code r)), (''subscription_id'', JStr (uuid_str sid))]"

text \<open>The tail of \<open>approve_order_atomic\<close>: subscription, flush, job and audit, flush.\<close>

definition approve_new ::
  "datetime \<Rightarrow> uuid \<Rightarrow> uuid \<Rightarrow> uuid \<Rightarrow> order \<Rightarrow> vpn_server \<Rightarrow> int \<Rightarrow> int \<Rightarrow> db
     \<Rightarrow> exn + (subscription \<times> job) \<times> db" where
  "approve_new now sid jid aid r srv days admin d =
     bind_res (add_days now days) (\<lambda>t.
       let s = new_subscription now sid r t;
           j = create_peer_job now jid sid r srv days;
           d1 = upd_order (ord_id r) (\<lambda>q. (reviewed admin now q)\<lparr>ord_status := O_PROVISIONING\<rparr>) d
       in bind_res (flush (subs_update (\<lambda>ss. ss @ [s]) d1)) (\<lambda>d2.
          bind_res (flush (add_audit (approval_audit now aid admin r sid)
                            (jobs_update (\<lambda>js. js @ [j]) d2))) (\<lambda>d'.
          Inr ((s, j), d'))))"

type_synonym approval = "bool \<times> subscription option \<times> job option"

definition approve_order_atomic ::
  "datetime \<Rightarrow> uuid \<Rightarrow> uuid \<Rightarrow> uuid \<Rightarrow> uuid \<Rightarrow> int \<Rightarrow> db \<Rightarrow> exn + approval \<times> db" where
  "approve_order_atomic now sid jid aid oid admin d =
     (case get_order oid d of
        None \<Rightarrow> Inr ((False, None, None), d)
      | Some r \<Rightarrow>
          let existing_sub = get_by_order_id oid d
          in if existing_sub \<noteq> None \<or> ord_status r \<in> set approved_statuses
             then Inr ((False, existing_sub, None), d)
             else case (get_product (ord_product_id r) d, get_server (ord_server_id r) d) of
               (Some p, Some srv) \<Rightarrow>
                 (case renewable_subscription r d of
                    Some s \<Rightarrow>
                      bind_res (approve_renewal now jid aid r s (prod_duration_days p) admin d)
                        (\<lambda>((s', job), d'). Inr ((True, Some s', job), d'))
                  | None \<Rightarrow>
                      bind_res (approve_new now sid jid aid r srv (prod_duration_days p) admin d)
                        (\<lambda>((s', job), d'). Inr ((True, Some s', Some job), d')))
             | _ \<Rightarrow> Inr ((False, None, None), d))"

subsection \<open>Rejection and lists\<close>

definition rejected_row :: "int \<Rightarrow> datetime \<Rightarrow> string option \<Rightarrow> order \<Rightarrow> order" where
  "rejected_row admin now reason r =
     (reviewed admin now r)\<lparr>ord_status := REJECTED, ord_rejection_reason := reason\<rparr>"

definition rejection_audit ::
  "datetime \<Rightarrow> uuid \<Rightarrow> int \<Rightarrow> order \<Rightarrow> string option \<Rightarrow> audit_event" where
  "rejection_audit now aid admin r reason =
     new_audit now aid A_ADMIN (Some admin) ''order.rejected'' ''order'' (Some (ord_id r))
       [(''order_code'', JStr (ord_code r)),
        (''reason'', JStr (case reason of None \<Rightarrow> [] | Some t \<Rightarrow> t))]"

definition reject_order ::
  "datetime \<Rightarrow> uuid \<Rightarrow> uuid \<Rightarrow> int \<Rightarrow> string option \<Rightarrow> db \<Rightarrow> exn + (bool \<times> order option) \<times> db"
where
  "reject_order now aid oid admin reason d =
     (case get_order oid d of
        None \<Rightarrow> Inr ((False, None), d)
      | Some r \<Rightarrow>
          if ord_status r \<in> set approved_statuses then Inr ((False, Some r), d)
          else bind_res
            (flush (add_audit (rejection_audit now aid admin r reason)
                      (upd_order oid (rejected_row admin now reason) d)))
            (\<lambda>d'. Inr ((True, Some (rejected_row admin now reason r)), d')))"

text \<open>A NULL \<open>submitted_at\<close> sorts last in descending order, as SQLite does.\<close>

definition list_pending_orders :: "db \<Rightarrow> order list" where
  "list_pending_orders d =
     order_by_desc (\<lambda>r. case ord_submitted_at r of None \<Rightarrow> min_datetime - 1 | Some t \<Rightarrow> t)
       (filter (\<lambda>r. ord_status r = RECEIPT_SUBMITTED) (orders d))"

definition list_recent_orders :: "nat \<Rightarrow> db \<Rightarrow> order list" where
  "list_recent_orders limit d = take limit (order_by_desc ord_created_at (orders d))"

subsection \<open>What an approval changes\<close>

lemma get_order_id: "get_order i d = Some r \<Longrightarrow> ord_id r = i"
  by (rule find_row_Some [THEN conjunct2])

lemma get_order_after:
  assumes "get_order i d = Some r" "orders d' = update_row ord_id i f (orders d)"
    and "\<And>q. ord_id (f q) = ord_id q"
  shows "get_order i d' = Some (f r)"
  using assms by (simp add: find_update_row)

lemma approve_new_Inr:
  assumes "approve_new now sid jid aid r srv days admin d = Inr ((s, j), d')"
  shows "\<exists>t. add_days now days = Inr t \<and> s = new_subscription now sid r t \<and>
      j = create_peer_job now jid sid r srv days"
    and "orders d' = update_row ord_id (ord_id r)
        (\<lambda>q. (reviewed admin now q)\<lparr>ord_status := O_PROVISIONING\<rparr>) (orders d)"
    and "subs d' = subs d @ [s]" and "jobs d' = jobs d @ [j]"
    and "audits d' = audits d @ [approval_audit now aid admin r sid]"
    and "users d' = users d" "servers d' = servers d" "products d' = products d"
      "notifications d' = notifications d" "tickets d' = tickets d" "messages d' = messages d"
    and "db_unique d'"
  using assms by (auto simp: approve_new_def Let_def res_simps)

lemma approve_renewal_Inr:
  assumes "approve_renewal now jid aid r s days admin d = Inr ((s', jo), d')"
  shows "\<exists>t. add_days (max (sub_expires_at s) now) days = Inr t \<and> s' = renewed_row t s \<and>
      subs d' = update_row sub_id (sub_id s) (renewed_row t) (subs d)"
    and "jo = (if sub_status s \<noteq> ACTIVE then Some (enable_job now jid (sub_id s) (ord_id r)) else None)"
    and "jobs d' = jobs d @ (case jo of None \<Rightarrow> [] | Some j \<Rightarrow> [j])"
    and "orders d' = update_row ord_id (ord_id r)
        (\<lambda>q. (reviewed admin now q)\<lparr>ord_status := FULFILLED\<rparr>) (orders d)"
    and "audits d' = audits d @ [renewal_audit now aid admin r (sub_id s) days]"
    and "users d' = users d" "servers d' = servers d" "products d' = products d"
      "notifications d' = notifications d" "tickets d' = tickets d" "messages d' = messages d"
    and "db_unique d'"
  using assms
  by (auto simp: approve_renewal_def Let_def res_simps split: option.splits if_splits)

lemma approve_cases [consumes 1]:
  assumes "approve_order_atomic now sid jid aid oid admin d = Inr ((ok, so, jo), d')"
  obtains (refused) "\<not> ok" "jo = None" "d' = d"
  | (renewed) r p srv s s' where "ok" "get_order oid d = Some r" "get_by_order_id oid d = None"
      "ord_status r \<notin> set approved_statuses" "get_product (ord_product_id r) d = Some p"
      "get_server (ord_server_id r) d = Some srv" "renewable_subscription r d = Some s"
      "so = Some s'"
      "approve_renewal now jid aid r s (prod_duration_days p) admin d = Inr ((s', jo), d')"
  | (created) r p srv s j where "ok" "get_order oid d = Some r" "get_by_order_id oid d = None"
      "ord_status r \<notin> set approved_statuses" "get_product (ord_product_id r) d = Some p"
      "get_server (ord_server_id r) d = Some srv" "renewable_subscription r d = None"
      "so = Some s" "jo = Some j"
      "approve_new now sid jid aid r srv (prod_duration_days p) admin d = Inr ((s, j), d')"
proof (cases "get_order oid d")
  case None
  with assms show ?thesis
    using refused by (simp add: approve_order_atomic_def)
next
  case r: (Some r)
  show ?thesis
  proof (cases "get_by_order_id oid d \<noteq> None \<or> ord_status r \<in> set approved_statuses")
    case True
    with assms r show ?thesis
      using refused by (simp add: approve_order_atomic_def Let_def)
  next
    case new: False
    show ?thesis
    proof (cases "get_product (ord_product_id r) d = None \<or> get_server (ord_server_id r) d = None")
      case True
      with assms r new show ?thesis
        using refused by (auto simp: approve_order_atomic_def Let_def split: option.splits)
    next
      case False
      then obtain p srv where ps: "get_product (ord_product_id r) d = Some p"
        "get_server (ord_server_id r) d = Some srv" by auto
      show ?thesis
      proof (cases "renewable_subscription r d")
        case None
        with assms r new ps obtain s j where
          "approve_new now sid jid aid r srv (prod_duration_days p) admin d = Inr ((s, j), d')"
          "ok" "so = Some s" "jo = Some j"
          by (auto simp: approve_order_atomic_def Let_def res_simps)
        with r new ps None show ?thesis using created by blast
      next
        case (Some s)
        with assms r new ps obtain s' where
          "approve_renewal now jid aid r s (prod_duration_days p) admin d = Inr ((s', jo), d')"
          "ok" "so = Some s'"
          by (auto simp: approve_order_atomic_def Let_def res_simps)
        with r new ps Some show ?thesis using renewed by blast
      qed
    qed
  qed
qed

lemma renewable_fields:
  assumes "renewable_subscription r d = Some s"
  shows "\<exists>sid. ord_renews r = Some sid \<and> get_sub sid d = Some s \<and> sub_id s = sid"
    and "sub_user_id s = ord_user_id r" "sub_server_id s = ord_server_id r"
    and "has_peer s" "sub_removed_at s = None"
proof -
  from assms obtain sid where sid: "ord_renews r = Some sid" "get_sub sid d = Some s"
    and rest: "sub_user_id s = ord_user_id r \<and> sub_server_id s = ord_server_id r \<and> has_peer s
      \<and> sub_removed_at s = None"
    unfolding renewable_subscription_def by (simp split: option.splits if_splits)
  from sid get_sub_id [OF sid(2)]
  show "\<exists>sid. ord_renews r = Some sid \<and> get_sub sid d = Some s \<and> sub_id s = sid" by blast
  from rest show "sub_user_id s = ord_user_id r" "sub_server_id s = ord_server_id r"
    "has_peer s" "sub_removed_at s = None" by blast+
qed

lemma renewed_row_fields [sub_fields, simp]:
  "sub_id (renewed_row t s) = sub_id s"
  "sub_user_id (renewed_row t s) = sub_user_id s"
  "sub_order_id (renewed_row t s) = sub_order_id s"
  "sub_server_id (renewed_row t s) = sub_server_id s"
  "sub_peer_external_id (renewed_row t s) = sub_peer_external_id s"
  "sub_peer_label (renewed_row t s) = sub_peer_label s"
  "sub_removed_at (renewed_row t s) = sub_removed_at s"
  "sub_status (renewed_row t s) = ACTIVE"
  "sub_expires_at (renewed_row t s) = t"
  "sub_disabled_at (renewed_row t s) = None"
  by (simp_all add: renewed_row_def)

lemma new_subscription_fields [simp]:
  "sub_id (new_subscription now sid r t) = sid"
  "sub_order_id (new_subscription now sid r t) = ord_id r"
  "sub_user_id (new_subscription now sid r t) = ord_user_id r"
  "sub_server_id (new_subscription now sid r t) = ord_server_id r"
  "sub_status (new_subscription now sid r t) = S_PROVISIONING"
  "sub_expires_at (new_subscription now sid r t) = t"
  "sub_peer_external_id (new_subscription now sid r t) = None"
  by (simp_all add: new_subscription_def)

lemma enable_job_fields [job_fields, simp]:
  "job_id (enable_job now jid sid oid) = jid"
  "job_job_type (enable_job now jid sid oid) = ENABLE_PEER"
  "job_aggregate_id (enable_job now jid sid oid) = sid"
  "job_status (enable_job now jid sid oid) = PENDING"
  by (simp_all add: enable_job_def)

lemma create_peer_job_fields [job_fields, simp]:
  "job_id (create_peer_job now jid sid r srv n) = jid"
  "job_job_type (create_peer_job now jid sid r srv n) = CREATE_PEER"
  "job_aggregate_id (create_peer_job now jid sid r srv n) = sid"
  "job_status (create_peer_job now jid sid r srv n) = PENDING"
  by (simp_all add: create_peer_job_def)

lemma reviewed_fields [simp]:
  "ord_id (reviewed a t r) = ord_id r" "ord_code (reviewed a t r) = ord_code r"
  "ord_user_id (reviewed a t r) = ord_user_id r" "ord_renews (reviewed a t r) = ord_renews r"
  "ord_status (reviewed a t r) = ord_status r"
  by (simp_all add: reviewed_def)

lemma rejected_row_fields [simp]:
  "ord_id (rejected_row a t w r) = ord_id r" "ord_code (rejected_row a t w r) = ord_code r"
  "ord_status (rejected_row a t w r) = REJECTED"
  by (simp_all add: rejected_row_def)

lemma with_receipt_fields [simp]:
  "ord_id (with_receipt f m c t n now r) = ord_id r"
  "ord_code (with_receipt f m c t n now r) = ord_code r"
  "ord_status (with_receipt f m c t n now r) = RECEIPT_SUBMITTED"
  by (simp_all add: with_receipt_def)

subsection \<open>Idempotence\<close>

text \<open>C5. Approval is idempotent: once an order has been approved, approving it again (by any
  admin, at any time) is refused, changes nothing, and reports the subscription the first
  approval created for the order, if it created one.\<close>

theorem approve_idempotent:
  assumes "approve_order_atomic now sid jid aid oid admin d = Inr ((True, so, jo), d')"
  shows "approve_order_atomic now2 sid2 jid2 aid2 oid admin2 d' =
    Inr ((False, get_by_order_id oid d', None), d')"
  using assms
proof (cases rule: approve_cases)
  case refused
  then show ?thesis by simp
next
  case (renewed r p srv s s')
  note upd = approve_renewal_Inr(4) [OF renewed(9), unfolded get_order_id [OF renewed(2)]]
  have "get_order oid d' = Some ((reviewed admin now r)\<lparr>ord_status := FULFILLED\<rparr>)"
    using get_order_after [OF renewed(2) upd] by simp
  then show ?thesis
    by (simp add: approve_order_atomic_def Let_def approved_statuses_def)
next
  case (created r p srv s j)
  note upd = approve_new_Inr(2) [OF created(10), unfolded get_order_id [OF created(2)]]
  have "get_order oid d' = Some ((reviewed admin now r)\<lparr>ord_status := O_PROVISIONING\<rparr>)"
    using get_order_after [OF created(2) upd] by simp
  then show ?thesis
    by (simp add: approve_order_atomic_def Let_def approved_statuses_def)
qed

text \<open>The sample order approved, and a renewal of the sample subscription.\<close>

definition renewal_order :: order where
  "renewal_order = sample_order\<lparr>ord_id := 14, ord_code := ''ORD-BBBBBB'', ord_renews := Some 6\<rparr>"

definition renewal_db :: db where
  "renewal_db = sub_db\<lparr>orders := [sample_order\<lparr>ord_status := FULFILLED\<rparr>, renewal_order],
     subs := [sample_sub\<lparr>sub_status := DISABLED, sub_disabled_at := Some (noon + 60)\<rparr>]\<rparr>"

lemmas approve_defs = approve_order_atomic_def approve_new_def approve_renewal_def
  renewable_subscription_def has_peer_def approved_statuses_def get_by_order_id_def
  add_days_def timedelta_days_def dt_add_def min_datetime_def max_datetime_def
  new_subscription_def create_peer_job_def enable_job_def new_job_def reviewed_def
  renewed_row_def approval_audit_def renewal_audit_def new_audit_def add_audit_def flush_def
  db_unique_def distinct_opt_def

lemma sample_approval:
  "\<exists>s j d'. approve_order_atomic 40 6 8 90 4 777 order_db = Inr ((True, Some s, Some j), d')
     \<and> sub_status s = S_PROVISIONING \<and> sub_order_id s = 4 \<and> subs d' = [s] \<and> jobs d' = [j]"
  by (simp add: approve_defs sample_db_defs time_units Let_def)

lemma renewal_db_unique: "db_unique renewal_db"
  by (simp add: renewal_db_def renewal_order_def db_unique_def distinct_opt_def sample_db_defs)

lemma sample_renewal:
  "\<exists>s j d'. approve_order_atomic (noon + day) 16 18 90 14 777 renewal_db =
       Inr ((True, Some s, Some j), d')
     \<and> sub_expires_at s = noon + 31 * day \<and> job_job_type j = ENABLE_PEER"
  by (simp add: approve_defs renewal_db_def renewal_order_def sample_db_defs time_units Let_def)

theorem approve_idempotent_witness:
  "\<exists>s j d'. approve_order_atomic 40 6 8 90 4 777 order_db = Inr ((True, Some s, Some j), d') \<and>
     approve_order_atomic 50 16 18 91 4 778 d' = Inr ((False, Some s, None), d')"
proof -
  obtain s j d' where a:
    "approve_order_atomic 40 6 8 90 4 777 order_db = Inr ((True, Some s, Some j), d')"
    "subs d' = [s]" "sub_order_id s = 4"
    using sample_approval by blast
  then have "get_by_order_id 4 d' = Some s"
    by (simp add: get_by_order_id_def)
  with approve_idempotent [OF a(1)] a(1) show ?thesis by auto
qed

text \<open>C26. Approving an order that starts a subscription is one transaction: exactly one
  subscription for this order, waiting for its peer, and exactly one pending
  \<open>create_peer\<close> job for it are added (so an approval never loses its job), the order is in
  provisioning with its reviewer, one audit event is written, the paid days run from now, and
  no other row of any table changes.\<close>

theorem approve_new_transaction:
  assumes "approve_order_atomic now sid jid aid oid admin d = Inr ((True, Some s, jo), d')"
    and "get_order oid d = Some r" "renewable_subscription r d = None"
  shows "\<exists>p j. get_product (ord_product_id r) d = Some p \<and> jo = Some j \<and>
    subs d' = subs d @ [s] \<and> jobs d' = jobs d @ [j] \<and>
    sub_order_id s = oid \<and> sub_status s = S_PROVISIONING \<and>
    sub_expires_at s = now + prod_duration_days p * day \<and>
    job_job_type j = CREATE_PEER \<and> job_aggregate_id j = sub_id s \<and> job_status j = PENDING \<and>
    orders d' = update_row ord_id oid
      (\<lambda>q. (reviewed admin now q)\<lparr>ord_status := O_PROVISIONING\<rparr>) (orders d) \<and>
    (\<exists>a. audits d' = audits d @ [a] \<and> aud_event_type a = ''order.approved'' \<and>
      aud_actor_telegram_id a = Some admin \<and> aud_entity_id a = Some oid) \<and>
    users d' = users d \<and> servers d' = servers d \<and> products d' = products d \<and>
    notifications d' = notifications d \<and> tickets d' = tickets d \<and> messages d' = messages d"
  using assms(1)
proof (cases rule: approve_cases)
  case (created r' p srv s' j)
  with assms(2) have "r' = r" "s' = s" by simp_all
  with approve_new_Inr [OF created(10)] get_order_id [OF assms(2)] created(5,9)
  show ?thesis
    by (auto simp: approval_audit_def new_audit_def add_days_eq_Inr)
qed (use assms in auto)

theorem approve_new_transaction_witness:
  "\<exists>s j d'. approve_order_atomic 40 6 8 90 4 777 order_db = Inr ((True, Some s, Some j), d') \<and>
     sub_status s = S_PROVISIONING \<and> job_aggregate_id j = sub_id s \<and>
     sub_expires_at s = 40 + 30 * day"
proof -
  obtain s j d' where a:
    "approve_order_atomic 40 6 8 90 4 777 order_db = Inr ((True, Some s, Some j), d')"
    using sample_approval by blast
  have r: "get_order 4 order_db = Some sample_order" "get_product 3 order_db = Some sample_product"
    and n: "renewable_subscription sample_order order_db = None"
    by (simp_all add: renewable_subscription_def sample_db_defs)
  have f: "ord_product_id sample_order = 3" "prod_duration_days sample_product = 30"
    by (simp_all add: sample_defs)
  from approve_new_transaction [OF a r(1) n] a r(2) f show ?thesis by auto
qed

subsection \<open>Renewal\<close>

lemma approve_renewal_result:
  assumes "approve_order_atomic now sid jid aid oid admin d = Inr ((True, Some s', jo), d')"
    and "get_order oid d = Some r" "renewable_subscription r d = Some s"
  shows "\<exists>p. get_product (ord_product_id r) d = Some p \<and>
    sub_expires_at s' = max (sub_expires_at s) now + prod_duration_days p * day \<and>
    sub_status s' = ACTIVE \<and> sub_disabled_at s' = None \<and>
    sub_peer_external_id s' = sub_peer_external_id s \<and> sub_peer_label s' = sub_peer_label s \<and>
    get_sub (sub_id s) d' = Some s' \<and> map sub_id (subs d') = map sub_id (subs d) \<and>
    (\<forall>i. i \<noteq> sub_id s \<longrightarrow> get_sub i d' = get_sub i d) \<and>
    (if sub_status s = ACTIVE then jo = None \<and> jobs d' = jobs d
     else \<exists>j. jo = Some j \<and> jobs d' = jobs d @ [j] \<and> job_job_type j = ENABLE_PEER \<and>
       job_aggregate_id j = sub_id s \<and> job_status j = PENDING)"
  using assms(1)
proof (cases rule: approve_cases)
  case (renewed r' p srv q q')
  with assms(2,3) have eq: "r' = r" "q = s" "q' = s'" by simp_all
  note ren = approve_renewal_Inr [OF renewed(9), unfolded eq]
  from ren(1) obtain t where t: "add_days (max (sub_expires_at s) now) (prod_duration_days p) = Inr t"
    "s' = renewed_row t s" "subs d' = update_row sub_id (sub_id s) (renewed_row t) (subs d)"
    by blast
  have "get_sub (sub_id s) d = Some s"
    using renewable_fields(1) [OF assms(3)] by auto
  then have "get_sub (sub_id s) d' = Some s'" "\<forall>i. i \<noteq> sub_id s \<longrightarrow> get_sub i d' = get_sub i d"
    by (simp_all add: t(2,3) find_update_row)
  moreover have "map sub_id (subs d') = map sub_id (subs d)"
    by (simp add: t(3) map_update_row)
  moreover have "sub_expires_at s' = max (sub_expires_at s) now + prod_duration_days p * day"
    using t(1) by (simp add: t(2) add_days_eq_Inr)
  moreover have "if sub_status s = ACTIVE then jo = None \<and> jobs d' = jobs d
     else \<exists>j. jo = Some j \<and> jobs d' = jobs d @ [j] \<and> job_job_type j = ENABLE_PEER \<and>
       job_aggregate_id j = sub_id s \<and> job_status j = PENDING"
    using ren(2,3) by simp
  moreover have "get_product (ord_product_id r) d = Some p"
    using renewed(5) eq by simp
  ultimately show ?thesis
    unfolding t(2) by (intro exI [of _ p]) (simp only: renewed_row_fields simp_thms)
qed (use assms in auto)

text \<open>C27. Approving a renewal extends the subscription it names and creates nothing else: the
  plan's days are added to the later of its end and now, it is active again, its peer and
  label are kept, and an \<open>enable_peer\<close> job is queued exactly when it was not active.\<close>

theorem approve_renewal_extends:
  assumes "approve_order_atomic now sid jid aid oid admin d = Inr ((True, Some s', jo), d')"
    and "get_order oid d = Some r" "renewable_subscription r d = Some s"
  shows "\<exists>p. get_product (ord_product_id r) d = Some p \<and>
    sub_expires_at s' = max (sub_expires_at s) now + prod_duration_days p * day \<and>
    sub_status s' = ACTIVE \<and> sub_disabled_at s' = None \<and>
    sub_peer_external_id s' = sub_peer_external_id s \<and> sub_peer_label s' = sub_peer_label s \<and>
    get_sub (sub_id s) d' = Some s' \<and> map sub_id (subs d') = map sub_id (subs d) \<and>
    (\<forall>i. i \<noteq> sub_id s \<longrightarrow> get_sub i d' = get_sub i d) \<and>
    (if sub_status s = ACTIVE then jo = None \<and> jobs d' = jobs d
     else \<exists>j. jo = Some j \<and> jobs d' = jobs d @ [j] \<and> job_job_type j = ENABLE_PEER \<and>
       job_aggregate_id j = sub_id s \<and> job_status j = PENDING)"
  by (rule approve_renewal_result [OF assms])

theorem approve_renewal_extends_witness:
  "\<exists>s' j d'. approve_order_atomic (noon + day) 16 18 90 14 777 renewal_db =
       Inr ((True, Some s', Some j), d') \<and>
     sub_expires_at s' = noon + 31 * day \<and> sub_status s' = ACTIVE \<and> job_job_type j = ENABLE_PEER"
proof -
  obtain s' j d' where a: "approve_order_atomic (noon + day) 16 18 90 14 777 renewal_db =
       Inr ((True, Some s', Some j), d')"
    using sample_renewal by blast
  let ?s = "sample_sub\<lparr>sub_status := DISABLED, sub_disabled_at := Some (noon + 60)\<rparr>"
  have r: "get_order 14 renewal_db = Some renewal_order"
    "get_product (ord_product_id renewal_order) renewal_db = Some sample_product"
    and n: "renewable_subscription renewal_order renewal_db = Some ?s"
    by (simp_all add: renewable_subscription_def has_peer_def renewal_db_def renewal_order_def
        sample_db_defs)
  have f: "sub_expires_at ?s = noon" "prod_duration_days sample_product = 30"
    "sub_status ?s = DISABLED"
    by (simp_all add: sample_defs)
  have "max noon (noon + day) + 30 * day = noon + 31 * day"
    by (simp add: time_units)
  with approve_renewal_extends [OF a r(1) n] a r(2) f show ?thesis by auto
qed

lemma get_by_order_id_renewed:
  assumes "subs d' = update_row sub_id i (renewed_row t) (subs d)"
  shows "get_by_order_id oid d' = None \<longleftrightarrow> get_by_order_id oid d = None"
proof -
  have "map sub_order_id (subs d') = map sub_order_id (subs d)"
    by (simp add: assms map_update_row)
  then have "sub_order_id ` set (subs d') = sub_order_id ` set (subs d)"
    by (metis set_map)
  then show ?thesis
    by (simp add: get_by_order_id_def find_row_None)
qed

text \<open>The docstring of \<open>approve_order_atomic\<close> promises \<open>(False, existing_sub, None)\<close> for an
  order already processed. For a renewal the second approval reports no subscription at all:
  the one it extended belongs to an older order, and only a subscription created by this
  order is looked up.\<close>

theorem renewal_reapproval_reports_none:
  assumes "approve_order_atomic now sid jid aid oid admin d = Inr ((True, so, jo), d')"
    and "get_order oid d = Some r" "renewable_subscription r d \<noteq> None"
  shows "approve_order_atomic now2 sid2 jid2 aid2 oid admin2 d' = Inr ((False, None, None), d')"
proof -
  have "get_by_order_id oid d' = None"
    using assms(1)
  proof (cases rule: approve_cases)
    case (renewed r' p srv q q')
    with approve_renewal_Inr(1) [OF renewed(9)] show ?thesis
      using get_by_order_id_renewed by blast
  qed (use assms in auto)
  moreover obtain r' where "get_order oid d' = Some r'" "ord_status r' = FULFILLED"
    using assms(1)
  proof (cases rule: approve_cases)
    case (renewed r' p srv q q')
    note upd = approve_renewal_Inr(4) [OF renewed(9), unfolded get_order_id [OF renewed(2)]]
    show ?thesis
      using get_order_after [OF renewed(2) upd] that by simp
  qed (use assms in auto)
  ultimately show ?thesis
    by (simp add: approve_order_atomic_def approved_statuses_def)
qed

theorem renewal_reapproval_reports_none_witness:
  "\<exists>s' j d'. approve_order_atomic (noon + day) 16 18 90 14 777 renewal_db =
       Inr ((True, Some s', Some j), d') \<and>
     approve_order_atomic (noon + day) 26 28 91 14 777 d' = Inr ((False, None, None), d')"
proof -
  obtain s' j d' where a: "approve_order_atomic (noon + day) 16 18 90 14 777 renewal_db =
       Inr ((True, Some s', Some j), d')"
    using sample_renewal by blast
  have "get_order 14 renewal_db = Some renewal_order"
    and "renewable_subscription renewal_order renewal_db \<noteq> None"
    by (simp_all add: renewable_subscription_def has_peer_def renewal_db_def renewal_order_def
        sample_db_defs)
  from renewal_reapproval_reports_none [OF a this] a show ?thesis by blast
qed

subsection \<open>Rejection\<close>

text \<open>A rejection never undoes an approval: an order that is approved, in provisioning or
  fulfilled is left as it is together with the whole database; any other order becomes
  rejected with its reviewer and reason, and neither subscriptions nor jobs change.\<close>

theorem reject_order_spec:
  assumes "reject_order now aid oid admin reason d = Inr ((ok, ro), d')"
    and "get_order oid d = Some r"
  shows "(ok \<longleftrightarrow> ord_status r \<notin> set approved_statuses) \<and> (\<not> ok \<longrightarrow> d' = d \<and> ro = Some r) \<and>
    (ok \<longrightarrow> get_order oid d' = Some (rejected_row admin now reason r) \<and>
       ord_status (rejected_row admin now reason r) = REJECTED \<and>
       subs d' = subs d \<and> jobs d' = jobs d \<and>
       (\<exists>a. audits d' = audits d @ [a] \<and> aud_event_type a = ''order.rejected''))"
proof (cases "ord_status r \<in> set approved_statuses")
  case True
  with assms show ?thesis by (simp add: reject_order_def)
next
  case False
  with assms have "ok" and
    d': "d' = add_audit (rejection_audit now aid admin r reason)
      (upd_order oid (rejected_row admin now reason) d)"
    by (auto simp: reject_order_def res_simps)
  with False assms(2) show ?thesis
    by (simp add: d' find_update_row rejection_audit_def new_audit_def)
qed

theorem reject_order_spec_witness:
  "\<exists>ro d'. reject_order 40 90 4 777 (Some ''bad'') order_db = Inr ((True, ro), d') \<and>
     ord_status (rejected_row 777 40 (Some ''bad'') sample_order) = REJECTED \<and>
     subs d' = subs order_db"
proof -
  have "\<exists>ro d'. reject_order 40 90 4 777 (Some ''bad'') order_db = Inr ((True, ro), d')"
    by (simp add: reject_order_def rejected_row_def rejection_audit_def approve_defs
        sample_db_defs)
  then obtain ro d' where
    a: "reject_order 40 90 4 777 (Some ''bad'') order_db = Inr ((True, ro), d')"
    by blast
  have "get_order 4 order_db = Some sample_order"
    by (simp add: sample_db_defs)
  from reject_order_spec [OF a this] a show ?thesis by auto
qed

end
