(* ===== verification/Settings.thy ===== *)
theory Settings
  imports Py_Text
begin

section \<open>Settings\<close>

text \<open>
  \<open>src/app/config/settings.py\<close>: how the environment becomes the configuration. A variable
  \<open>VPN_SERVER_<NAME>_<FIELD>\<close> is split into the server's slug and the field by trying the
  underscores from the left; the fields of one slug are collected into a server
  configuration. The lists of admin ids and reminder days and the provisioner mode have
  parsers of their own. The environment is a list of variables in the order of the merged
  dictionary (file, then process environment); pydantic's own validation of the other fields
  is not modelled.
\<close>

subsection \<open>Modes and lists of numbers\<close>

datatype provisioner_mode = MOCK | VPNCTL

fun provisioner_mode_value :: "provisioner_mode \<Rightarrow> string" where
  "provisioner_mode_value MOCK = ''mock''"
| "provisioner_mode_value VPNCTL = ''vpnctl''"

definition provisioner_mode_aliases :: "(string \<times> string) list" where
  "provisioner_mode_aliases = [(''local'', ''vpnctl''), (''ssh'', ''vpnctl'')]"

definition parse_provisioner_mode :: "string \<Rightarrow> exn + provisioner_mode" where
  "parse_provisioner_mode s =
     (let v = py_lower s;
          w = (case map_of provisioner_mode_aliases v of None \<Rightarrow> v | Some a \<Rightarrow> a)
      in if w = ''mock'' then Inr MOCK else if w = ''vpnctl'' then Inr VPNCTL
         else Inl ValueError)"

text \<open>What pydantic-settings hands to a validator: a number or list when the variable is valid
  JSON of that form, the string itself otherwise.\<close>

datatype raw_ids = RInt int | RStr string | RList "int list" | ROther

fun map_res :: "('a \<Rightarrow> exn + 'b) \<Rightarrow> 'a list \<Rightarrow> exn + 'b list" where
  "map_res f [] = Inr []"
| "map_res f (x # xs) = bind_res (f x) (\<lambda>y. bind_res (map_res f xs) (\<lambda>ys. Inr (y # ys)))"

definition parse_int_list :: "string \<Rightarrow> exn + int list" where
  "parse_int_list v = map_res py_int (filter (\<lambda>p. p \<noteq> []) (map py_strip (split_char CHR '','' v)))"

fun parse_admin_telegram_ids :: "raw_ids \<Rightarrow> exn + int list" where
  "parse_admin_telegram_ids (RInt n) = Inr [n]"
| "parse_admin_telegram_ids (RStr v) = parse_int_list v"
| "parse_admin_telegram_ids (RList ns) = Inr ns"
| "parse_admin_telegram_ids ROther = Inr []"

fun parse_reminder_days :: "raw_ids \<Rightarrow> exn + int list" where
  "parse_reminder_days (RInt n) = Inr [n]"
| "parse_reminder_days (RStr v) = parse_int_list v"
| "parse_reminder_days (RList ns) = Inr ns"
| "parse_reminder_days ROther = Inr [7, 3, 1]"

subsection \<open>Servers from the environment\<close>

definition server_fields :: "string list" where
  "server_fields = [''enabled'', ''slug'', ''country_code'', ''display_name'', ''host'',
     ''vpnctl_port'', ''max_active_subscriptions'']"

definition legacy_server_fields :: "string list" where
  "legacy_server_fields = [''port'', ''username'', ''ssh_private_key_path'',
     ''ssh_known_hosts_path'']"

datatype server_key = Field string string | Legacy | No_Field

definition candidate_slug :: "string list \<Rightarrow> string" where
  "candidate_slug ps =
     map (\<lambda>c. if c = CHR ''_'' then CHR ''-'' else c) (py_lower (py_join ''_'' ps))"

definition field_name :: "string list \<Rightarrow> string" where
  "field_name ps = py_lower (py_join ''_'' ps)"

text \<open>The loop over the split positions: the words before the position, and those after it.\<close>

fun split_key :: "string list \<Rightarrow> string list \<Rightarrow> server_key" where
  "split_key before [] = No_Field"
| "split_key before (p # ps) =
     (if before \<noteq> [] \<and> field_name (p # ps) \<in> set legacy_server_fields then Legacy
      else if before \<noteq> [] \<and> field_name (p # ps) \<in> set server_fields
      then Field (candidate_slug before) (field_name (p # ps))
      else split_key (before @ [p]) ps)"

definition server_prefix :: string where
  "server_prefix = ''VPN_SERVER_''"

definition parse_server_key :: "string \<Rightarrow> server_key" where
  "parse_server_key key =
     (if starts_with key server_prefix
      then split_key [] (split_char CHR ''_'' (drop (length server_prefix) key))
      else No_Field)"

text \<open>\<open>server_dict\<close>: the fields seen so far. \<open>ServerConfig\<close> fills in the defaults.\<close>

record server_dict =
  sd_slug :: string
  sd_enabled :: "bool option"
  sd_country_code :: "string option"
  sd_display_name :: "string option"
  sd_host :: "string option"
  sd_vpnctl_port :: "int option"
  sd_max_active :: "int option option"

record server_config =
  cfg_slug :: string
  cfg_enabled :: bool
  cfg_country_code :: string
  cfg_display_name :: string
  cfg_host :: string
  cfg_vpnctl_port :: int
  cfg_max_active :: "int option"

definition new_server_dict :: "string \<Rightarrow> server_dict" where
  "new_server_dict slug = \<lparr>sd_slug = slug, sd_enabled = None, sd_country_code = None,
     sd_display_name = None, sd_host = None, sd_vpnctl_port = None, sd_max_active = None\<rparr>"

definition set_field :: "string \<Rightarrow> string \<Rightarrow> server_dict \<Rightarrow> exn + server_dict" where
  "set_field f v sd =
     (if f = ''enabled''
      then Inr (sd\<lparr>sd_enabled := Some (py_lower v \<in> {''true'', ''1'', ''yes''})\<rparr>)
      else if f = ''vpnctl_port''
      then (if v = [] then Inr (sd\<lparr>sd_vpnctl_port := Some 7391\<rparr>)
            else bind_res (py_int v) (\<lambda>n. Inr (sd\<lparr>sd_vpnctl_port := Some n\<rparr>)))
      else if f = ''max_active_subscriptions''
      then (if v = [] then Inr (sd\<lparr>sd_max_active := Some None\<rparr>)
            else bind_res (py_int v) (\<lambda>n. Inr (sd\<lparr>sd_max_active := Some (Some n)\<rparr>)))
      else if f = ''slug'' then Inr (sd\<lparr>sd_slug := v\<rparr>)
      else if f = ''country_code'' then Inr (sd\<lparr>sd_country_code := Some v\<rparr>)
      else if f = ''display_name'' then Inr (sd\<lparr>sd_display_name := Some v\<rparr>)
      else Inr (sd\<lparr>sd_host := Some v\<rparr>))"

text \<open>A dictionary as an association list in insertion order.\<close>

fun dict_put :: "'k \<Rightarrow> 'v \<Rightarrow> ('k \<times> 'v) list \<Rightarrow> ('k \<times> 'v) list" where
  "dict_put k v [] = [(k, v)]"
| "dict_put k v ((j, w) # xs) = (if j = k then (k, v) # xs else (j, w) # dict_put k v xs)"

lemma map_of_dict_put: "map_of (dict_put k v m) = (map_of m)(k \<mapsto> v)"
  by (induction m) auto

definition read_variable ::
  "string \<times> string \<Rightarrow> (string \<times> server_dict) list \<times> string list
     \<Rightarrow> exn + (string \<times> server_dict) list \<times> string list" where
  "read_variable kv acc =
     (case (kv, acc) of ((key, v), (servers, ignored)) \<Rightarrow>
        (case parse_server_key key of
           No_Field \<Rightarrow> Inr (servers, ignored)
         | Legacy \<Rightarrow> Inr (servers, ignored @ [key])
         | Field slug f \<Rightarrow>
             (let sd = (case map_of servers slug of None \<Rightarrow> new_server_dict slug | Some sd \<Rightarrow> sd)
              in bind_res (set_field f v sd) (\<lambda>sd'. Inr (dict_put slug sd' servers, ignored)))))"

fun read_variables ::
  "(string \<times> string) list \<Rightarrow> (string \<times> server_dict) list \<times> string list
     \<Rightarrow> exn + (string \<times> server_dict) list \<times> string list" where
  "read_variables [] acc = Inr acc"
| "read_variables (kv # kvs) acc = bind_res (read_variable kv acc) (read_variables kvs)"

definition server_config_of :: "server_dict \<Rightarrow> server_config option" where
  "server_config_of sd =
     (case (sd_country_code sd, sd_display_name sd) of
        (Some cc, Some dn) \<Rightarrow> Some
          \<lparr>cfg_slug = sd_slug sd,
           cfg_enabled = (case sd_enabled sd of None \<Rightarrow> True | Some b \<Rightarrow> b),
           cfg_country_code = cc, cfg_display_name = dn,
           cfg_host = (case sd_host sd of None \<Rightarrow> ''localhost'' | Some h \<Rightarrow> h),
           cfg_vpnctl_port = (case sd_vpnctl_port sd of None \<Rightarrow> 7391 | Some p \<Rightarrow> p),
           cfg_max_active = (case sd_max_active sd of None \<Rightarrow> None | Some m \<Rightarrow> m)\<rparr>
      | _ \<Rightarrow> None)"

fun final_servers :: "(string \<times> server_dict) list \<Rightarrow> (string \<times> server_config) list
    \<Rightarrow> (string \<times> server_config) list" where
  "final_servers [] acc = acc"
| "final_servers ((s, sd) # rest) acc =
     final_servers rest
       (case server_config_of sd of None \<Rightarrow> acc | Some c \<Rightarrow> dict_put (cfg_slug c) c acc)"

text \<open>\<open>extract_vpn_servers\<close>: the servers by slug, and the ignored settings, sorted and without
  repetitions. \<open>vpnctl_command\<close>: whether VPNCTL_COMMAND is set.\<close>

definition extract_vpn_servers ::
  "bool \<Rightarrow> (string \<times> string) list \<Rightarrow> exn + (string \<times> server_config) list \<times> string list" where
  "extract_vpn_servers vpnctl_command source =
     bind_res (read_variables source ([], if vpnctl_command then [''VPNCTL_COMMAND''] else []))
       (\<lambda>(servers, ignored). Inr (final_servers servers [], sort (remdups ignored)))"

subsection \<open>The settings the components read\<close>

record settings =
  st_admin_telegram_ids :: "int list"
  st_admin_chat_id :: int
  st_provisioner_mode :: provisioner_mode
  st_vpnctl_socket :: string
  st_vpnctl_dev_command :: string
  st_vpnctl_token :: string
  st_poll_seconds :: int
  st_expiry_interval :: int
  st_reminder_days :: "int list"
  st_redelivery_limit :: int
  st_grace_days :: int
  st_payment_en :: string
  st_payment_fa :: string
  st_servers :: "(string \<times> server_config) list"

definition default_settings :: settings where
  "default_settings = \<lparr>st_admin_telegram_ids = [], st_admin_chat_id = 0,
     st_provisioner_mode = MOCK, st_vpnctl_socket = ''/run/vpnctl/vpnctl.sock'',
     st_vpnctl_dev_command = [], st_vpnctl_token = [], st_poll_seconds = 5,
     st_expiry_interval = 300, st_reminder_days = [7, 3, 1], st_redelivery_limit = 3,
     st_grace_days = 30,
     st_payment_en = ''Please transfer payment to the account and upload your receipt photo/document.'',
     st_payment_fa = ''fa'', st_servers = []\<rparr>"

subsection \<open>Splitting a variable's name\<close>

lemma py_lower_append: "py_lower (s @ t) = py_lower s @ py_lower t"
  by (simp add: py_lower_def)

definition not_upper :: "char \<Rightarrow> bool" where
  "not_upper c = (let n = of_char c :: nat in n < 65 \<or> 90 < n)"

lemma upper_char_code:
  assumes "97 \<le> (of_char c :: nat)" "(of_char c :: nat) \<le> 122"
  shows "(of_char (py_upper_char c) :: nat) = of_char c - 32"
  using assms by (auto simp: py_upper_char_def intro!: mod_less)

lemma upper_char_same:
  "\<not> (97 \<le> (of_char c :: nat) \<and> (of_char c :: nat) \<le> 122) \<Longrightarrow> py_upper_char c = c"
  by (auto simp: py_upper_char_def Let_def)

lemma py_lower_upper_char: "not_upper c \<Longrightarrow> py_lower_char (py_upper_char c) = c"
proof (cases "97 \<le> (of_char c :: nat) \<and> (of_char c :: nat) \<le> 122")
  case True
  then have "(of_char (py_upper_char c) :: nat) = of_char c - 32"
    using upper_char_code by blast
  moreover from True have "65 \<le> (of_char c :: nat) - 32" "(of_char c :: nat) - 32 \<le> 90"
    "(of_char c :: nat) - 32 + 32 = of_char c" by arith+
  ultimately show ?thesis by (simp add: py_lower_char_def Let_def)
next
  case False
  moreover assume "not_upper c"
  ultimately show ?thesis
    by (simp add: upper_char_same) (auto simp: py_lower_char_def Let_def not_upper_def)
qed

lemma py_lower_upper: "list_all not_upper w \<Longrightarrow> py_lower (py_upper w) = w"
  by (induction w) (simp_all add: py_lower_def py_upper_def py_lower_upper_char)

lemma py_join_map_lower: "py_lower (py_join ''_'' ws) = py_join ''_'' (map py_lower ws)"
  by (induction "''_''" ws rule: py_join.induct)
    (simp_all add: py_lower_def py_lower_char_def)

lemma py_join_append:
  "ws \<noteq> [] \<Longrightarrow> vs \<noteq> [] \<Longrightarrow> py_join sep (ws @ vs) = py_join sep ws @ sep @ py_join sep vs"
proof (induction sep ws rule: py_join.induct)
  case (2 sep w)
  then show ?case by (cases vs) simp_all
qed simp_all

lemma underscore_upper: "CHR ''_'' \<in> set (py_upper w) \<longleftrightarrow> CHR ''_'' \<in> set w"
proof -
  have "py_upper_char c = CHR ''_'' \<longleftrightarrow> c = CHR ''_''" for c
  proof (cases "97 \<le> (of_char c :: nat) \<and> (of_char c :: nat) \<le> 122")
    case True
    then have "(of_char (py_upper_char c) :: nat) \<noteq> 95" "(of_char c :: nat) \<noteq> 95"
      using upper_char_code [of c] by arith+
    moreover have "(of_char CHR ''_'' :: nat) = 95" by simp
    ultimately show ?thesis by metis
  qed (simp add: upper_char_same)
  then have "CHR ''_'' = py_upper_char c \<longleftrightarrow> CHR ''_'' = c" for c by metis
  then show ?thesis by (induction w) (simp_all only: py_upper_def list.map list.set insert_iff)
qed

text \<open>A word of a slug as it appears in a variable's name: no capital, no underscore.\<close>

definition slug_word :: "string \<Rightarrow> bool" where
  "slug_word w = (list_all not_upper w \<and> CHR ''_'' \<notin> set w)"

definition server_variable :: "string list \<Rightarrow> string \<Rightarrow> string" where
  "server_variable ws f =
     server_prefix @ py_join ''_'' (map py_upper (ws @ split_char CHR ''_'' f))"

definition ends_with :: "string \<Rightarrow> string \<Rightarrow> bool" where
  "ends_with s t = starts_with (rev s) (rev t)"

lemma starts_with_append: "starts_with (p @ s) p"
  by (induction p) simp_all

lemma ends_with_append: "ends_with (s @ p) p"
  by (simp add: ends_with_def starts_with_append)

lemma no_field_ends_with_field:
  "list_all (\<lambda>g. list_all (\<lambda>f. \<not> ends_with g (CHR ''_'' # f)) server_fields)
     (server_fields @ legacy_server_fields)"
  by code_simp

lemma field_words:
  "list_all (\<lambda>f. list_all slug_word (split_char CHR ''_'' f) \<and>
      py_join ''_'' (split_char CHR ''_'' f) = f) server_fields"
  by code_simp

lemma field_not_legacy: "f \<in> set server_fields \<Longrightarrow> f \<notin> set legacy_server_fields"
  by (auto simp: server_fields_def legacy_server_fields_def)

lemma map_lower_upper: "list_all slug_word ws \<Longrightarrow> map py_lower (map py_upper ws) = ws"
  by (induction ws) (simp_all add: slug_word_def py_lower_upper)

lemma split_key_field:
  assumes "list_all slug_word ws" "list_all slug_word bs" "f \<in> set server_fields"
    and "bs @ ws \<noteq> []" "fs = split_char CHR ''_'' f"
  shows "split_key (map py_upper bs) (map py_upper (ws @ fs)) =
    Field (candidate_slug (map py_upper (bs @ ws))) f"
  using assms
proof (induction ws arbitrary: bs)
  case Nil
  have fw: "list_all slug_word fs" "py_join ''_'' fs = f"
    using field_words Nil.prems(3,5) by (simp_all add: list_all_iff)
  then have "field_name (map py_upper fs) = f"
    by (simp add: field_name_def py_join_map_lower map_lower_upper del: map_map)
  moreover obtain p ps where "fs = p # ps"
    using Nil.prems(5) split_char_not_Nil by (metis neq_Nil_conv)
  ultimately show ?case
    using Nil.prems field_not_legacy [OF Nil.prems(3)] by simp
next
  case (Cons w ws)
  have fw: "list_all slug_word fs" "py_join ''_'' fs = f" "fs \<noteq> []"
    using field_words Cons.prems(3,5) by (simp_all add: list_all_iff)
  have "field_name (map py_upper (w # ws @ fs)) = py_join ''_'' ((w # ws) @ fs)"
    using Cons.prems(1) fw(1)
    by (simp add: field_name_def py_join_map_lower map_lower_upper del: map_map map_append list.map)
  also have "\<dots> = py_join ''_'' (w # ws) @ CHR ''_'' # f"
    using fw by (simp add: py_join_append del: append_Cons)
  finally have "ends_with (field_name (map py_upper (w # ws @ fs))) (CHR ''_'' # f)"
    using ends_with_append by simp
  then have "field_name (map py_upper (w # ws @ fs)) \<notin> set (server_fields @ legacy_server_fields)"
    using no_field_ends_with_field Cons.prems(3) unfolding list_all_iff by blast
  then have "split_key (map py_upper bs) (map py_upper (w # ws @ fs)) =
      split_key (map py_upper (bs @ [w])) (map py_upper (ws @ fs))"
    by simp
  with Cons.IH [of "bs @ [w]"] Cons.prems show ?case by simp
qed

text \<open>Every variable \<open>VPN_SERVER_<NAME>_<FIELD>\<close> of a current field reaches that field of
  that server, however many words the name has: no slug can make the splitting stop early at
  another field, although slugs and fields share the underscore.\<close>

theorem server_variable_parsed:
  assumes "ws \<noteq> []" "list_all slug_word ws" "f \<in> set server_fields"
  shows "parse_server_key (server_variable ws f) =
    Field (map (\<lambda>c. if c = CHR ''_'' then CHR ''-'' else c) (py_join ''_'' ws)) f"
proof -
  let ?fs = "split_char CHR ''_'' f"
  have fw: "list_all slug_word ?fs"
    using field_words assms(3) by (simp add: list_all_iff)
  have "\<forall>w \<in> set (map py_upper (ws @ ?fs)). CHR ''_'' \<notin> set w"
    using assms(2) fw by (auto simp: underscore_upper slug_word_def list_all_iff)
  then have "split_char CHR ''_'' (py_join ''_'' (map py_upper (ws @ ?fs))) = map py_upper (ws @ ?fs)"
    by (intro split_char_join) simp_all
  moreover have "starts_with (server_variable ws f) server_prefix"
    by (simp add: server_variable_def starts_with_append)
  moreover have "drop (length server_prefix) (server_variable ws f) =
      py_join ''_'' (map py_upper (ws @ ?fs))"
    by (simp add: server_variable_def)
  ultimately have "parse_server_key (server_variable ws f) = split_key [] (map py_upper (ws @ ?fs))"
    by (simp add: parse_server_key_def)
  also have "\<dots> = Field (candidate_slug (map py_upper ws)) f"
    using split_key_field [of ws "[]" f] assms by simp
  also have "candidate_slug (map py_upper ws) =
      map (\<lambda>c. if c = CHR ''_'' then CHR ''-'' else c) (py_join ''_'' ws)"
    by (simp add: candidate_slug_def py_join_map_lower map_lower_upper [OF assms(2)] del: map_map)
  finally show ?thesis .
qed

theorem server_variable_parsed_witness:
  "parse_server_key (server_variable [''de'', ''fra''] ''vpnctl_port'') = Field ''de-fra'' ''vpnctl_port''"
proof -
  have "[''de'', ''fra''] \<noteq> []" by simp
  moreover have "list_all slug_word [''de'', ''fra'']" by code_simp
  moreover have "''vpnctl_port'' \<in> set server_fields" by (simp add: server_fields_def)
  ultimately have "parse_server_key (server_variable [''de'', ''fra''] ''vpnctl_port'') =
      Field (map (\<lambda>c. if c = CHR ''_'' then CHR ''-'' else c) (py_join ''_'' [''de'', ''fra'']))
        ''vpnctl_port''"
    by (rule server_variable_parsed)
  then show ?thesis by simp
qed

end
