(* ===== verification/Catalog.thy ===== *)
theory Catalog
  imports Bot_Samples Settings
begin

section \<open>Users, servers, plans\<close>

text \<open>
  \<open>user_repo.py\<close>, \<open>server_repo.py\<close> and \<open>product_repo.py\<close> of \<open>src/app/db/repositories\<close>, and
  \<open>init_data\<close> of \<open>src/app/bot/main.py\<close>, which copies the configured servers into the
  database at every start of the bot and creates the default plans when none is enabled. A
  lookup by a UNIQUE column is the lookup of that row. The lemmas: what a repeated contact of
  a customer may change, that restarting the bot keeps every pause, and which servers the
  buy menu offers.
\<close>

subsection \<open>UserRepository\<close>

definition get_by_telegram_id :: "int \<Rightarrow> db \<Rightarrow> user option" where
  "get_by_telegram_id tg d = find_row user_telegram_id tg (users d)"

text \<open>\<open>language_code or ""\<close>, lower case, a prefix: the first contact picks Farsi or English.\<close>

definition first_language :: "string option \<Rightarrow> string" where
  "first_language lc =
     (if starts_with (py_lower (case lc of None \<Rightarrow> [] | Some l \<Rightarrow> l)) ''fa'' then ''fa'' else ''en'')"

definition new_user ::
  "datetime \<Rightarrow> uuid \<Rightarrow> int \<Rightarrow> string option \<Rightarrow> string option \<Rightarrow> string option \<Rightarrow> string option \<Rightarrow> user"
where
  "new_user now uid tg username fname lname lc =
     \<lparr>user_id = uid, user_telegram_id = tg, user_username = username, user_first_name = fname,
      user_last_name = lname, user_language_code = Some (first_language lc),
      user_is_blocked = False, user_created_at = now\<rparr>"

definition or_keep :: "'a option \<Rightarrow> 'a option \<Rightarrow> 'a option" where
  "or_keep new old = (case new of None \<Rightarrow> old | Some v \<Rightarrow> Some v)"

definition refreshed_user ::
  "string option \<Rightarrow> string option \<Rightarrow> string option \<Rightarrow> user \<Rightarrow> user" where
  "refreshed_user username fname lname u =
     u\<lparr>user_username := or_keep username (user_username u),
       user_first_name := or_keep fname (user_first_name u),
       user_last_name := or_keep lname (user_last_name u)\<rparr>"

definition upsert_user ::
  "datetime \<Rightarrow> uuid \<Rightarrow> int \<Rightarrow> string option \<Rightarrow> string option \<Rightarrow> string option \<Rightarrow> string option
     \<Rightarrow> db \<Rightarrow> exn + user \<times> db" where
  "upsert_user now uid tg username fname lname lc d =
     (case get_by_telegram_id tg d of
        None \<Rightarrow>
          (let u = new_user now uid tg username fname lname lc
           in bind_res (flush (users_update (\<lambda>us. us @ [u]) d)) (\<lambda>d'. Inr (u, d')))
      | Some u \<Rightarrow>
          Inr (refreshed_user username fname lname u,
               upd_user (user_id u) (refreshed_user username fname lname) d))"

definition block_user :: "bool \<Rightarrow> user \<Rightarrow> user" where
  "block_user blocked u = u\<lparr>user_is_blocked := blocked\<rparr>"

definition set_blocked :: "int \<Rightarrow> bool \<Rightarrow> db \<Rightarrow> bool \<times> db" where
  "set_blocked tg blocked d =
     (case get_by_telegram_id tg d of
        None \<Rightarrow> (False, d)
      | Some u \<Rightarrow> (True, upd_user (user_id u) (block_user blocked) d))"

subsection \<open>ServerRepository\<close>

definition get_by_slug :: "string \<Rightarrow> db \<Rightarrow> vpn_server option" where
  "get_by_slug slug d = find_row srv_slug slug (servers d)"

definition list_all_servers :: "db \<Rightarrow> vpn_server list" where
  "list_all_servers d = order_by (\<lambda>s. (srv_sort_order s, srv_slug s)) (servers d)"

definition list_on_sale :: "db \<Rightarrow> vpn_server list" where
  "list_on_sale d = order_by (\<lambda>s. (srv_sort_order s, srv_slug s)) (filter on_sale (servers d))"

definition pause_server :: "bool \<Rightarrow> vpn_server \<Rightarrow> vpn_server" where
  "pause_server paused s = s\<lparr>srv_paused := paused\<rparr>"

definition set_paused :: "string \<Rightarrow> bool \<Rightarrow> db \<Rightarrow> vpn_server option \<times> db" where
  "set_paused slug paused d =
     (case get_by_slug slug d of
        None \<Rightarrow> (None, d)
      | Some s \<Rightarrow> (Some (pause_server paused s), upd_server (srv_id s) (pause_server paused) d))"

text \<open>The arguments of \<open>create_or_update\<close> beside the slug.\<close>

record server_args =
  sa_display_name :: string
  sa_country_code :: string
  sa_country_name :: string
  sa_host :: string
  sa_enabled :: bool
  sa_sort_order :: int
  sa_provisioner_type :: string
  sa_max_active :: "int option"

definition new_server :: "uuid \<Rightarrow> string \<Rightarrow> server_args \<Rightarrow> vpn_server" where
  "new_server sid slug a =
     \<lparr>srv_id = sid, srv_slug = slug, srv_display_name = sa_display_name a,
      srv_country_code = sa_country_code a, srv_country_name = sa_country_name a,
      srv_enabled = sa_enabled a, srv_paused = False, srv_sort_order = sa_sort_order a,
      srv_provisioner_type = sa_provisioner_type a, srv_host = sa_host a,
      srv_max_active = sa_max_active a\<rparr>"

definition update_server :: "server_args \<Rightarrow> vpn_server \<Rightarrow> vpn_server" where
  "update_server a s =
     s\<lparr>srv_display_name := sa_display_name a, srv_country_code := sa_country_code a,
       srv_country_name := sa_country_name a, srv_host := sa_host a, srv_enabled := sa_enabled a,
       srv_sort_order := sa_sort_order a, srv_provisioner_type := sa_provisioner_type a,
       srv_max_active := sa_max_active a\<rparr>"

definition create_or_update_server ::
  "uuid \<Rightarrow> string \<Rightarrow> server_args \<Rightarrow> db \<Rightarrow> exn + vpn_server \<times> db" where
  "create_or_update_server sid slug a d =
     (case get_by_slug slug d of
        None \<Rightarrow>
          (let s = new_server sid slug a
           in bind_res (flush (servers_update (\<lambda>ss. ss @ [s]) d)) (\<lambda>d'. Inr (s, d')))
      | Some s \<Rightarrow> Inr (update_server a s, upd_server (srv_id s) (update_server a) d))"

definition count_active_subscriptions :: "uuid \<Rightarrow> db \<Rightarrow> int" where
  "count_active_subscriptions sid d =
     int (length (filter (\<lambda>s. sub_server_id s = sid \<and> sub_status s \<in> {ACTIVE, S_PROVISIONING})
       (subs d)))"

text \<open>\<open>not server.max_active_subscriptions\<close> holds for no limit and for a limit of zero.\<close>

definition has_room :: "vpn_server \<Rightarrow> db \<Rightarrow> bool" where
  "has_room s d =
     (case srv_max_active s of
        None \<Rightarrow> True
      | Some n \<Rightarrow> if n = 0 then True else count_active_subscriptions (srv_id s) d < n)"

definition list_for_sale :: "db \<Rightarrow> vpn_server list" where
  "list_for_sale d = filter (\<lambda>s. has_room s d) (list_on_sale d)"

subsection \<open>ProductRepository\<close>

definition get_product_by_code :: "string \<Rightarrow> db \<Rightarrow> product option" where
  "get_product_by_code code d = find_row prod_code code (products d)"

definition list_enabled :: "db \<Rightarrow> product list" where
  "list_enabled d =
     order_by (\<lambda>p. (prod_sort_order p, prod_duration_days p)) (filter prod_enabled (products d))"

record product_args =
  pa_title :: string
  pa_duration_days :: int
  pa_price_amount :: int
  pa_price_currency :: string
  pa_device_limit :: int
  pa_enabled :: bool
  pa_sort_order :: int

definition new_product :: "uuid \<Rightarrow> string \<Rightarrow> product_args \<Rightarrow> product" where
  "new_product pid code a =
     \<lparr>prod_id = pid, prod_code = code, prod_title = pa_title a,
      prod_duration_days = pa_duration_days a, prod_device_limit = pa_device_limit a,
      prod_price_amount = pa_price_amount a, prod_price_currency = pa_price_currency a,
      prod_enabled = pa_enabled a, prod_sort_order = pa_sort_order a\<rparr>"

definition update_product :: "product_args \<Rightarrow> product \<Rightarrow> product" where
  "update_product a p =
     p\<lparr>prod_title := pa_title a, prod_duration_days := pa_duration_days a,
       prod_device_limit := pa_device_limit a, prod_price_amount := pa_price_amount a,
       prod_price_currency := pa_price_currency a, prod_enabled := pa_enabled a,
       prod_sort_order := pa_sort_order a\<rparr>"

definition create_or_update_product ::
  "uuid \<Rightarrow> string \<Rightarrow> product_args \<Rightarrow> db \<Rightarrow> exn + product \<times> db" where
  "create_or_update_product pid code a d =
     (case get_product_by_code code d of
        None \<Rightarrow>
          (let p = new_product pid code a
           in bind_res (flush (products_update (\<lambda>ps. ps @ [p]) d)) (\<lambda>d'. Inr (p, d')))
      | Some p \<Rightarrow> Inr (update_product a p, upd_product (prod_id p) (update_product a) d))"

subsection \<open>Seeding at start\<close>

definition config_args :: "provisioner_mode \<Rightarrow> server_config \<Rightarrow> server_args" where
  "config_args mode c =
     \<lparr>sa_display_name = cfg_display_name c, sa_country_code = cfg_country_code c,
      sa_country_name = cfg_display_name c, sa_host = cfg_host c, sa_enabled = cfg_enabled c,
      sa_sort_order = 0, sa_provisioner_type = provisioner_mode_value mode,
      sa_max_active = cfg_max_active c\<rparr>"

text \<open>The loop over the configured servers, each with the UUID a new row would get.\<close>

fun sync_servers :: "provisioner_mode \<Rightarrow> (uuid \<times> server_config) list \<Rightarrow> db \<Rightarrow> exn + db" where
  "sync_servers mode [] d = Inr d"
| "sync_servers mode ((i, c) # cs) d =
     bind_res (create_or_update_server i (cfg_slug c) (config_args mode c) d)
       (\<lambda>(s, d'). sync_servers mode cs d')"

definition default_plans :: "(string \<times> product_args) list" where
  "default_plans =
     [(''vpn-1m'', \<lparr>pa_title = ''1 Month (1 User)'', pa_duration_days = 30, pa_price_amount = 500,
        pa_price_currency = ''EUR'', pa_device_limit = 1, pa_enabled = True, pa_sort_order = 1\<rparr>),
      (''vpn-3m'', \<lparr>pa_title = ''3 Months (2 Users)'', pa_duration_days = 90,
        pa_price_amount = 1200, pa_price_currency = ''EUR'', pa_device_limit = 2,
        pa_enabled = True, pa_sort_order = 2\<rparr>),
      (''vpn-6m'', \<lparr>pa_title = ''6 Months (3 Users)'', pa_duration_days = 180,
        pa_price_amount = 2000, pa_price_currency = ''EUR'', pa_device_limit = 3,
        pa_enabled = True, pa_sort_order = 3\<rparr>)]"

fun seed_products :: "(uuid \<times> string \<times> product_args) list \<Rightarrow> db \<Rightarrow> exn + db" where
  "seed_products [] d = Inr d"
| "seed_products ((i, code, a) # ps) d =
     bind_res (create_or_update_product i code a d) (\<lambda>(p, d'). seed_products ps d')"

definition init_data ::
  "provisioner_mode \<Rightarrow> (uuid \<times> server_config) list \<Rightarrow> uuid list \<Rightarrow> db \<Rightarrow> exn + db" where
  "init_data mode configs pids d =
     bind_res (sync_servers mode configs d) (\<lambda>d1.
       if list_enabled d1 = [] then seed_products (zip pids default_plans) d1 else Inr d1)"

subsection \<open>Lemmas\<close>

lemma refreshed_user_fields [simp]:
  "user_id (refreshed_user a b c u) = user_id u"
  "user_telegram_id (refreshed_user a b c u) = user_telegram_id u"
  "user_language_code (refreshed_user a b c u) = user_language_code u"
  "user_is_blocked (refreshed_user a b c u) = user_is_blocked u"
  by (simp_all add: refreshed_user_def)

lemma block_user_fields [simp]:
  "user_id (block_user b u) = user_id u"
  "user_telegram_id (block_user b u) = user_telegram_id u"
  "user_is_blocked (block_user b u) = b"
  by (simp_all add: block_user_def)

lemma update_server_fields [simp]:
  "srv_id (update_server a s) = srv_id s" "srv_slug (update_server a s) = srv_slug s"
  "srv_paused (update_server a s) = srv_paused s"
  "srv_enabled (update_server a s) = sa_enabled a"
  by (simp_all add: update_server_def)

lemma pause_server_fields [simp]:
  "srv_id (pause_server b s) = srv_id s" "srv_slug (pause_server b s) = srv_slug s"
  "srv_paused (pause_server b s) = b" "srv_enabled (pause_server b s) = srv_enabled s"
  by (simp_all add: pause_server_def)

lemma new_server_fields [simp]:
  "srv_id (new_server i slug a) = i" "srv_slug (new_server i slug a) = slug"
  "srv_paused (new_server i slug a) = False"
  by (simp_all add: new_server_def)

lemma get_by_telegram_id_Some:
  "get_by_telegram_id tg d = Some u \<Longrightarrow> u \<in> set (users d) \<and> user_telegram_id u = tg"
  unfolding get_by_telegram_id_def by (rule find_row_Some)

text \<open>A later contact of a customer updates the names Telegram reports and nothing else:
  the language the customer chose and an admin's block survive every message, no other
  customer's row changes, and the customer still has one row.\<close>

theorem upsert_keeps_choice:
  assumes "upsert_user now uid tg username fname lname lc d = Inr (u', d')"
    and "get_by_telegram_id tg d = Some u" "db_unique d"
  shows "user_language_code u' = user_language_code u \<and> user_is_blocked u' = user_is_blocked u \<and>
    user_id u' = user_id u \<and> get_by_telegram_id tg d' = Some u' \<and>
    (\<forall>t. t \<noteq> tg \<longrightarrow> get_by_telegram_id t d' = get_by_telegram_id t d) \<and>
    map user_id (users d') = map user_id (users d)"
proof -
  let ?f = "refreshed_user username fname lname"
  have u': "u' = ?f u" and d': "d' = upd_user (user_id u) ?f d"
    using assms(1,2) by (auto simp: upsert_user_def)
  have by_id: "user_id v = user_id u \<longleftrightarrow> user_telegram_id v = tg" if "v \<in> set (users d)" for v
    using that get_by_telegram_id_Some [OF assms(2)] assms(3)
    by (auto simp: db_unique_def distinct_map inj_on_def)
  have "update_row user_id (user_id u) ?f (users d) = update_row user_telegram_id tg ?f (users d)"
    using by_id by (simp add: update_row_def)
  then have "get_by_telegram_id t d' =
      (if t = tg then map_option ?f (get_by_telegram_id t d) else get_by_telegram_id t d)" for t
    by (simp add: d' get_by_telegram_id_def find_update_row)
  then show ?thesis
    using assms(2) by (simp add: u' d' map_update_row)
qed

theorem upsert_keeps_choice_witness:
  "\<exists>u' d'. upsert_user 99 77 5001 (Some ''bob'') None None (Some ''fa'') order_db = Inr (u', d') \<and>
     user_language_code u' = Some ''en'' \<and> user_username u' = Some ''bob''"
proof -
  obtain u' d' where
    a: "upsert_user 99 77 5001 (Some ''bob'') None None (Some ''fa'') order_db = Inr (u', d')"
    and n: "user_username u' = Some ''bob''"
    by (simp add: upsert_user_def get_by_telegram_id_def refreshed_user_def or_keep_def
        sample_db_defs)
  have u: "get_by_telegram_id 5001 order_db = Some sample_user"
    by (simp add: get_by_telegram_id_def sample_db_defs)
  have "user_language_code sample_user = Some ''en''"
    by (simp add: sample_defs)
  with upsert_keeps_choice [OF a u order_db_unique] a n show ?thesis by auto
qed

lemma get_by_slug_Some: "get_by_slug slug d = Some s \<Longrightarrow> s \<in> set (servers d) \<and> srv_slug s = slug"
  unfolding get_by_slug_def by (rule find_row_Some)

lemma update_by_slug:
  assumes "db_unique d" "get_by_slug slug d = Some s" "\<And>r. srv_slug (f r) = srv_slug r"
  shows "get_by_slug x (upd_server (srv_id s) f d) =
    (if x = slug then map_option f (get_by_slug x d) else get_by_slug x d)"
proof -
  have "srv_id v = srv_id s \<longleftrightarrow> srv_slug v = slug" if "v \<in> set (servers d)" for v
    using that get_by_slug_Some [OF assms(2)] assms(1)
    by (auto simp: db_unique_def distinct_map inj_on_def)
  then have "update_row srv_id (srv_id s) f (servers d) = update_row srv_slug slug f (servers d)"
    by (simp add: update_row_def)
  then show ?thesis
    by (simp add: get_by_slug_def find_update_row assms(3))
qed

definition paused_slug :: "string \<Rightarrow> db \<Rightarrow> bool" where
  "paused_slug slug d = (case get_by_slug slug d of None \<Rightarrow> False | Some s \<Rightarrow> srv_paused s)"

lemma create_or_update_server_step:
  assumes "create_or_update_server i slug a d = Inr (s, d')" "db_unique d"
  shows "db_unique d' \<and> paused_slug x d' = paused_slug x d \<and> products d' = products d"
proof (cases "get_by_slug slug d")
  case None
  then have "d' = servers_update (\<lambda>ss. ss @ [new_server i slug a]) d" "db_unique d'"
    using assms(1) by (auto simp: create_or_update_server_def Let_def res_simps)
  then show ?thesis
    using None by (auto simp: paused_slug_def get_by_slug_def find_row_append split: option.splits)
next
  case (Some q)
  then have "d' = upd_server (srv_id q) (update_server a) d"
    using assms(1) by (simp add: create_or_update_server_def)
  then show ?thesis
    using Some assms(2) update_by_slug [OF assms(2) Some, of "update_server a" x]
    by (auto simp: paused_slug_def unique_simps split: option.splits)
qed

lemma sync_servers_keeps:
  "sync_servers mode cs d = Inr d' \<Longrightarrow> db_unique d \<Longrightarrow>
   db_unique d' \<and> paused_slug x d' = paused_slug x d \<and> products d' = products d"
proof (induction mode cs d rule: sync_servers.induct)
  case (2 mode i c cs d)
  from 2(2) obtain s d1 where
    1: "create_or_update_server i (cfg_slug c) (config_args mode c) d = Inr (s, d1)"
    and r: "sync_servers mode cs d1 = Inr d'"
    by (auto simp: res_simps)
  from create_or_update_server_step [OF 1 2(3), of x] 2(1) [OF r] show ?case by simp
qed simp

lemma seed_products_servers:
  "seed_products ps d = Inr d' \<Longrightarrow> servers d' = servers d"
proof (induction ps d rule: seed_products.induct)
  case (2 i code a ps d)
  from 2(2) obtain p d1 where
    1: "create_or_update_product i code a d = Inr (p, d1)" and r: "seed_products ps d1 = Inr d'"
    by (auto simp: res_simps)
  have "servers d1 = servers d"
    using 1 by (auto simp: create_or_update_product_def Let_def res_simps split: option.splits)
  with 2(1) [OF r] show ?case by simp
qed simp

text \<open>A pause set by an admin stays after a restart: seeding the database again from any
  configuration leaves the pause of every server as it was (a new server starts unpaused),
  and never touches an existing set of plans.\<close>

theorem restart_keeps_pauses:
  assumes "init_data mode configs pids d = Inr d'" "db_unique d"
  shows "paused_slug slug d' = paused_slug slug d \<and>
    (list_enabled d \<noteq> [] \<longrightarrow> products d' = products d)"
proof -
  from assms(1) obtain d1 where 1: "sync_servers mode configs d = Inr d1"
    and 2: "(if list_enabled d1 = [] then seed_products (zip pids default_plans) d1 else Inr d1)
      = Inr d'"
    by (auto simp: init_data_def res_simps)
  have d1: "paused_slug slug d1 = paused_slug slug d" "products d1 = products d"
    using sync_servers_keeps [OF 1 assms(2)] by simp_all
  have "servers d' = servers d1" "list_enabled d1 \<noteq> [] \<longrightarrow> d' = d1"
    using 2 seed_products_servers by (auto split: if_splits)
  then show ?thesis
    using d1 by (simp add: paused_slug_def get_by_slug_def list_enabled_def)
qed

definition sample_config :: server_config where
  "sample_config = \<lparr>cfg_slug = ''de-1'', cfg_enabled = True, cfg_country_code = ''DE'',
     cfg_display_name = ''Berlin'', cfg_host = ''localhost'', cfg_vpnctl_port = 7391,
     cfg_max_active = None\<rparr>"

definition paused_db :: db where
  "paused_db = order_db\<lparr>servers := [sample_server\<lparr>srv_paused := True\<rparr>]\<rparr>"

theorem restart_keeps_pauses_witness:
  "\<exists>d'. init_data VPNCTL [(70, sample_config)] [71, 72, 73] paused_db = Inr d' \<and>
     paused_slug ''de-1'' d' \<and> products d' = [sample_product]"
proof -
  obtain d' where a: "init_data VPNCTL [(70, sample_config)] [71, 72, 73] paused_db = Inr d'"
    by (simp add: init_data_def create_or_update_server_def get_by_slug_def list_enabled_def
        paused_db_def order_by_def sample_config_def sample_db_defs)
  have u: "db_unique paused_db"
    by (simp add: db_unique_def distinct_opt_def paused_db_def sample_db_defs)
  have "paused_slug ''de-1'' paused_db" "list_enabled paused_db \<noteq> []"
    "products paused_db = [sample_product]"
    by (simp_all add: paused_slug_def get_by_slug_def list_enabled_def order_by_def paused_db_def
        sample_db_defs)
  with restart_keeps_pauses [OF a u] a show ?thesis by auto
qed

text \<open>What the buy menu offers: exactly the servers that are enabled, not paused and below
  their limit of slots taken by active or provisioning subscriptions, in the order of the
  catalogue. A limit of zero counts as no limit.\<close>

theorem list_for_sale_spec:
  "set (list_for_sale d) = {s \<in> set (servers d). srv_enabled s \<and> \<not> srv_paused s \<and>
       (case srv_max_active s of None \<Rightarrow> True | Some n \<Rightarrow>
          n = 0 \<or> int (card {i. i < length (subs d) \<and> sub_server_id (subs d ! i) = srv_id s \<and>
                       (sub_status (subs d ! i) = ACTIVE \<or>
                        sub_status (subs d ! i) = S_PROVISIONING)}) < n)}
   \<and> sorted (map (\<lambda>s. (srv_sort_order s, srv_slug s)) (list_for_sale d))"
proof -
  have "sorted (map (\<lambda>s. (srv_sort_order s, srv_slug s)) (list_on_sale d))"
    unfolding list_on_sale_def by (rule sorted_order_by)
  then have "sorted (map (\<lambda>s. (srv_sort_order s, srv_slug s)) (list_for_sale d))"
    unfolding list_for_sale_def by (rule sorted_filter)
  moreover have "has_room s d \<longleftrightarrow> (case srv_max_active s of None \<Rightarrow> True | Some n \<Rightarrow>
          n = 0 \<or> int (card {i. i < length (subs d) \<and> sub_server_id (subs d ! i) = srv_id s \<and>
                       (sub_status (subs d ! i) = ACTIVE \<or>
                        sub_status (subs d ! i) = S_PROVISIONING)}) < n)" for s
    by (auto simp: has_room_def count_active_subscriptions_def length_filter_conv_card
        split: option.split)
  ultimately show ?thesis
    by (auto simp: list_for_sale_def list_on_sale_def on_sale_def)
qed

end
