(* ===== verification/Bot_Ui.thy ===== *)
theory Bot_Ui
  imports Catalog
begin

section \<open>Texts, buttons and what the bot sends\<close>

text \<open>
  What the handlers and the background services say: \<open>locales/strings.py\<close> (a text is its key,
  the language it is shown in and its arguments; the translations are data), the button data
  of \<open>keyboards/customer_keyboards.py\<close>, \<open>ui.py\<close>, and the dates of \<open>strftime\<close>. A literal
  English text of the admin handlers is \<open>Lit\<close> without its markup and emoji. The actions the
  bot takes towards Telegram are recorded in order as a list of \<open>out\<close> values. The lemmas: the
  data a button carries is read back by the handler of its press.
\<close>

subsection \<open>Dates\<close>

text \<open>\<open>strftime\<close> on a UTC instant: the proleptic Gregorian calendar from the number of days
  since the epoch, computed in 400-year eras that start on the first of March.\<close>

definition days_of :: "datetime \<Rightarrow> int" where
  "days_of t = t div day"

definition civil :: "int \<Rightarrow> int \<times> int \<times> int" where
  "civil days =
     (let z = days + 719468; era = z div 146097; doe = z mod 146097;
          yoe = (doe - doe div 1460 + doe div 36524 - doe div 146096) div 365;
          doy = doe - (365 * yoe + yoe div 4 - yoe div 100);
          mp = (5 * doy + 2) div 153;
          d = doy - (153 * mp + 2) div 5 + 1;
          m = (if mp < 10 then mp + 3 else mp - 9)
      in (yoe + era * 400 + (if m \<le> 2 then 1 else 0), m, d))"

definition pad2 :: "int \<Rightarrow> string" where
  "pad2 n = (if 0 \<le> n \<and> n < 10 then CHR ''0'' # show_int n else show_int n)"

text \<open>\<open>%Y-%m-%d %H:%M UTC\<close> and \<open>%Y%m%d\<close>.\<close>

definition strftime_minutes :: "datetime \<Rightarrow> string" where
  "strftime_minutes t =
     (case civil (days_of t) of (y, m, d) \<Rightarrow>
        show_int y @ ''-'' @ pad2 m @ ''-'' @ pad2 d @ '' '' @ pad2 ((t mod day) div hour) @ '':''
        @ pad2 ((t mod hour) div minute) @ '' UTC'')"

definition strftime_day :: "datetime \<Rightarrow> string" where
  "strftime_day t = (case civil (days_of t) of (y, m, d) \<Rightarrow> show_int y @ pad2 m @ pad2 d)"

lemma strftime_noon: "strftime_minutes noon = ''2023-11-14 22:13 UTC'' \<and> strftime_day noon = ''20231114''"
  by code_simp

subsection \<open>Texts\<close>

text \<open>A localised argument that has no ASCII form: the Farsi name of a country, and a Farsi
  plan title, made from a number of months or days and of devices. \<open>Joined\<close> is one text after
  another.\<close>

datatype arg =
    Plain string
  | Fa_Country string
  | Fa_Plan bool int "int option"
  | Text_Arg msg_text
and msg_text =
    Txt string string "(string \<times> arg) list"
  | Lit string "(string \<times> arg) list"
  | Joined msg_text msg_text

text \<open>\<open>normalize_lang\<close> of an optional language code.\<close>

definition normalize_lang :: "string option \<Rightarrow> string" where
  "normalize_lang l =
     (let v = (case l of None \<Rightarrow> ''en'' | Some s \<Rightarrow> if s = [] then ''en'' else s)
      in if starts_with (py_lower v) ''fa'' then ''fa'' else ''en'')"

definition country_names_fa :: "string list" where
  "country_names_fa = [''DE'', ''TR'', ''US'', ''NL'', ''FI'', ''GB'', ''FR'', ''AE'', ''AM'', ''SE'']"

definition server_name :: "vpn_server \<Rightarrow> string option \<Rightarrow> arg" where
  "server_name s l =
     (if normalize_lang l = ''fa'' \<and> py_upper (srv_country_code s) \<in> set country_names_fa
      then Fa_Country (py_upper (srv_country_code s)) else Plain (srv_display_name s))"

definition product_title :: "product \<Rightarrow> string option \<Rightarrow> arg" where
  "product_title p l =
     (if normalize_lang l \<noteq> ''fa'' then Plain (prod_title p)
      else let days = prod_duration_days p;
               devices = (if prod_device_limit p = 0 then None else Some (prod_device_limit p))
           in if days mod 30 = 0 then Fa_Plan True (days div 30) devices
              else Fa_Plan False days devices)"

definition get_text :: "string \<Rightarrow> string option \<Rightarrow> (string \<times> arg) list \<Rightarrow> msg_text" where
  "get_text key l args = Txt key (normalize_lang l) args"

text \<open>Prices are kept in hundredths; \<open>str(Decimal)\<close> of a \<open>Numeric(10, 2)\<close> value.\<close>

definition show_price :: "int \<Rightarrow> string" where
  "show_price c = show_int (c div 100) @ ''.'' @ pad2 (c mod 100)"

subsection \<open>Actions towards Telegram\<close>

text \<open>A keyboard is the list of its buttons' data. \<open>Answer\<close> replies to a message, \<open>Toast\<close>
  answers a button press with an alert and \<open>Ack\<close> without one, \<open>Show\<close> replaces the text and
  the keyboard of the message a button was on, \<open>Edit\<close> edits the text or caption of
  a message, the others send to a chat: a text, a new file (name and content), or a photo or
  document Telegram already has (its kind and id).\<close>

type_synonym keyboard = "string list"

datatype out =
    Answer msg_text keyboard
  | Toast msg_text
  | Ack
  | Show msg_text keyboard
  | Edit msg_text
  | Send int msg_text keyboard
  | Send_File int string string msg_text keyboard
  | Send_Media int string string msg_text keyboard

subsection \<open>Button data\<close>

definition main_menu_keyboard :: keyboard where
  "main_menu_keyboard = [''menu_buy'', ''menu_subs'', ''menu_support'', ''menu_lang'']"

definition language_keyboard :: keyboard where
  "language_keyboard = [''lang_en'', ''lang_fa'']"

definition server_data :: "vpn_server \<Rightarrow> string" where
  "server_data s = ''srv_'' @ srv_slug s"

definition servers_keyboard :: "vpn_server list \<Rightarrow> keyboard" where
  "servers_keyboard ss = map server_data ss @ [''cancel_order'']"

definition plan_data :: "string \<Rightarrow> uuid option \<Rightarrow> product \<Rightarrow> string" where
  "plan_data slug renew p =
     (case renew of
        Some sid \<Rightarrow> ''rnw_'' @ uuid_hex sid @ ''_'' @ prod_code p
      | None \<Rightarrow> ''plan_'' @ slug @ ''_'' @ prod_code p)"

definition products_keyboard :: "string \<Rightarrow> product list \<Rightarrow> uuid option \<Rightarrow> keyboard" where
  "products_keyboard slug ps renew =
     map (plan_data slug renew) ps
     @ [case renew of Some sid \<Rightarrow> ''sub_view_'' @ uuid_str sid | None \<Rightarrow> ''menu_buy'']"

definition cancel_keyboard :: keyboard where
  "cancel_keyboard = [''cancel_order'']"

definition subscriptions_keyboard :: "subscription list \<Rightarrow> keyboard" where
  "subscriptions_keyboard ss = map (\<lambda>s. ''sub_view_'' @ uuid_str (sub_id s)) ss @ [''main_menu'']"

definition subscription_detail_keyboard :: "string \<Rightarrow> bool \<Rightarrow> keyboard" where
  "subscription_detail_keyboard sid active =
     (if active then [''sub_dl_'' @ sid, ''sub_redeliver_'' @ sid] else [])
     @ [''renew_'' @ sid, ''menu_subs'']"

definition retry_prefix :: string where
  "retry_prefix = ''adm_rty_''"

definition retry_button :: "uuid \<Rightarrow> keyboard" where
  "retry_button jid = [retry_prefix @ uuid_hex jid]"

text \<open>\<open>data.split(prefix)[1]\<close>: the text after the first occurrence of the prefix, up to its
  next occurrence; \<open>IndexError\<close> when there is none.\<close>

definition after_prefix :: "string \<Rightarrow> string \<Rightarrow> exn + string" where
  "after_prefix pre s =
     (case split_str pre [] s of a # b # _ \<Rightarrow> Inr b | _ \<Rightarrow> Inl IndexError)"

text \<open>The id in the data of a button made with \<open>str(id)\<close>.\<close>

definition uuid_after :: "string \<Rightarrow> string \<Rightarrow> exn + uuid" where
  "uuid_after pre s = bind_res (after_prefix pre s) parse_uuid"

subsection \<open>Reading button data back\<close>

lemma split_str_prefix:
  assumes "sep \<noteq> []"
  shows "split_str sep w (sep @ s) = rev w # split_str sep [] s"
proof -
  obtain c ps where sep: "sep = c # ps" using assms by (cases sep) auto
  have "starts_with (c # (ps @ s)) (c # ps)"
    using starts_with_append [of sep s] by (simp add: sep)
  then have "split_str sep w (c # (ps @ s)) = rev w # split_str sep [] (drop (length sep) (c # (ps @ s)))"
    unfolding sep by (subst split_str.simps(2)) simp
  then show ?thesis by (simp add: sep)
qed

lemma starts_with_set: "starts_with t sep \<Longrightarrow> set sep \<subseteq> set t"
  by (induction t sep rule: starts_with.induct) auto

lemma split_str_no_underscore:
  "CHR ''_'' \<in> set sep \<Longrightarrow> CHR ''_'' \<notin> set s \<Longrightarrow> split_str sep w s = [rev w @ s]"
proof (induction s arbitrary: w)
  case (Cons c s)
  have "\<not> starts_with (c # s) sep"
    using Cons.prems starts_with_set by blast
  then have "split_str sep w (c # s) = split_str sep (c # w) s"
    by (subst split_str.simps(2)) simp
  with Cons show ?case by simp
qed simp

lemma after_prefix_append:
  assumes "CHR ''_'' \<in> set pre" "CHR ''_'' \<notin> set s"
  shows "after_prefix pre (pre @ s) = Inr s"
proof -
  have "pre \<noteq> []" using assms(1) by auto
  from split_str_prefix [OF this, of "[]" s] show ?thesis
    by (simp add: after_prefix_def split_str_no_underscore [OF assms])
qed

lemma uuid_hex_no_underscore: "CHR ''_'' \<notin> set (uuid_hex u)"
proof -
  have "\<not> is_hex_char CHR ''_''" by (simp add: is_hex_char_def hex_val_def)
  then show ?thesis
    using uuid_hex_hex [of u] by (auto simp: list_all_iff)
qed

lemma uuid_str_no_underscore: "CHR ''_'' \<notin> set (uuid_str u)"
proof -
  have "\<not> is_hex_char CHR ''_''" by (simp add: is_hex_char_def hex_val_def)
  then show ?thesis
    using uuid_text_str [of u] by (auto simp: uuid_text_def list_all_iff)
qed

lemma uuid_after_button:
  "CHR ''_'' \<in> set pre \<Longrightarrow> uuid_after pre (pre @ uuid_str u) = Inr u"
  by (simp add: uuid_after_def after_prefix_append uuid_str_no_underscore parse_uuid_str)

end
