(* ===== verification/Codec.thy ===== *)
theory Codec
  imports Py_Text
begin

section \<open>vpn:// links\<close>

text \<open>
  \<open>src/app/utils/amnezia_codec.py\<close>: a configuration text becomes UTF-8, is compressed with
  zlib behind a four-byte length (Qt's \<open>qCompress\<close>), and is written in URL-safe base64
  without padding behind \<open>vpn://\<close>. zlib is a parameter: a compressor and a decompressor that
  fails with \<open>None\<close>. Texts are lists of code points, bytes are numbers below 256. Base64
  decoding follows Python's lenient decoder, which skips foreign characters and stops at
  complete padding.
\<close>

type_synonym bytes = "nat list"

definition is_bytes :: "bytes \<Rightarrow> bool" where
  "is_bytes bs = list_all (\<lambda>b. b < 256) bs"

subsection \<open>UTF-8\<close>

definition code_point :: "nat \<Rightarrow> bool" where
  "code_point c = (c < 1114112 \<and> \<not> (55296 \<le> c \<and> c < 57344))"

definition utf8_char :: "nat \<Rightarrow> bytes" where
  "utf8_char c =
     (if c < 128 then [c]
      else if c < 2048 then [192 + c div 64, 128 + c mod 64]
      else if c < 65536 then [224 + c div 4096, 128 + c div 64 mod 64, 128 + c mod 64]
      else [240 + c div 262144, 128 + c div 4096 mod 64, 128 + c div 64 mod 64, 128 + c mod 64])"

definition utf8_encode :: "nat list \<Rightarrow> bytes" where
  "utf8_encode cs = concat (map utf8_char cs)"

definition cont :: "nat \<Rightarrow> bool" where
  "cont b = (128 \<le> b \<and> b < 192)"

text \<open>Strict decoding: over-long forms, surrogates and code points beyond Unicode are errors.\<close>

fun utf8_decode :: "bytes \<Rightarrow> nat list option" where
  "utf8_decode [] = Some []"
| "utf8_decode (b # bs) =
     (if b < 128 then map_option ((#) b) (utf8_decode bs)
      else if 192 \<le> b \<and> b < 224
      then (case bs of
              b1 # r \<Rightarrow>
                (let c = (b - 192) * 64 + (b1 - 128)
                 in if cont b1 \<and> 128 \<le> c then map_option ((#) c) (utf8_decode r) else None)
            | _ \<Rightarrow> None)
      else if 224 \<le> b \<and> b < 240
      then (case bs of
              b1 # b2 # r \<Rightarrow>
                (let c = (b - 224) * 4096 + (b1 - 128) * 64 + (b2 - 128)
                 in if cont b1 \<and> cont b2 \<and> 2048 \<le> c \<and> code_point c
                    then map_option ((#) c) (utf8_decode r) else None)
            | _ \<Rightarrow> None)
      else if 240 \<le> b \<and> b < 248
      then (case bs of
              b1 # b2 # b3 # r \<Rightarrow>
                (let c = (b - 240) * 262144 + (b1 - 128) * 4096 + (b2 - 128) * 64 + (b3 - 128)
                 in if cont b1 \<and> cont b2 \<and> cont b3 \<and> 65536 \<le> c \<and> code_point c
                    then map_option ((#) c) (utf8_decode r) else None)
            | _ \<Rightarrow> None)
      else None)"

declare utf8_decode.simps(2) [simp del]

subsection \<open>Base64\<close>

definition sextet_char :: "nat \<Rightarrow> char" where
  "sextet_char n =
     (if n < 26 then char_of (65 + n) else if n < 52 then char_of (71 + n)
      else if n < 62 then char_of (n - 4) else if n = 62 then CHR ''-'' else CHR ''_'')"

text \<open>The table of \<open>a2b_base64\<close> behind the translation of \<open>-_\<close> to \<open>+/\<close>.\<close>

definition char_sextet :: "char \<Rightarrow> nat option" where
  "char_sextet c =
     (let n = of_char c :: nat
      in if 65 \<le> n \<and> n \<le> 90 then Some (n - 65)
         else if 97 \<le> n \<and> n \<le> 122 then Some (n - 71)
         else if 48 \<le> n \<and> n \<le> 57 then Some (n + 4)
         else if c = CHR ''-'' \<or> c = CHR ''+'' then Some 62
         else if c = CHR ''_'' \<or> c = CHR ''/'' then Some 63
         else None)"

fun sextets :: "bytes \<Rightarrow> nat list" where
  "sextets [] = []"
| "sextets [a] = [a div 4, a mod 4 * 16]"
| "sextets [a, b] = [a div 4, a mod 4 * 16 + b div 16, b mod 16 * 4]"
| "sextets (a # b # c # r) =
     [a div 4, a mod 4 * 16 + b div 16, b mod 16 * 4 + c div 64, c mod 64] @ sextets r"

definition padding :: "nat \<Rightarrow> string" where
  "padding n = replicate ((4 - n mod 4) mod 4) CHR ''=''"

definition urlsafe_b64encode :: "bytes \<Rightarrow> string" where
  "urlsafe_b64encode bs =
     (let s = map sextet_char (sextets bs) in s @ padding (length s))"

text \<open>\<open>a2b_base64\<close>: position in the group of four, bits left over, pad characters in a row.\<close>

fun a2b :: "nat \<Rightarrow> nat \<Rightarrow> nat \<Rightarrow> string \<Rightarrow> bytes option" where
  "a2b pos left pads [] = (if pos = 0 then Some [] else None)"
| "a2b pos left pads (c # s) =
     (if c = CHR ''=''
      then (if 2 \<le> pos then (if 4 \<le> pos + (pads + 1) then Some [] else a2b pos left (pads + 1) s)
            else a2b pos left pads s)
      else (case char_sextet c of
              None \<Rightarrow> a2b pos left pads s
            | Some v \<Rightarrow>
                (if pos = 0 then a2b 1 v 0 s
                 else if pos = 1
                 then map_option ((#) (left * 4 + v div 16)) (a2b 2 (v mod 16) 0 s)
                 else if pos = 2
                 then map_option ((#) (left * 16 + v div 4)) (a2b 3 (v mod 4) 0 s)
                 else map_option ((#) (left * 64 + v)) (a2b 0 0 0 s))))"

definition urlsafe_b64decode :: "string \<Rightarrow> bytes option" where
  "urlsafe_b64decode s = a2b 0 0 0 s"

subsection \<open>The codec\<close>

text \<open>\<open>struct.pack(">I", n)\<close> raises for a length of 32 bits or more.\<close>

definition be32 :: "nat \<Rightarrow> bytes" where
  "be32 n = [n div 16777216, n div 65536 mod 256, n div 256 mod 256, n mod 256]"

definition q_compress :: "(bytes \<Rightarrow> bytes) \<Rightarrow> bytes \<Rightarrow> exn + bytes" where
  "q_compress zc data =
     (if length data < 4294967296 then Inr (be32 (length data) @ zc data) else Inl ValueError)"

definition q_uncompress :: "(bytes \<Rightarrow> bytes option) \<Rightarrow> bytes \<Rightarrow> bytes" where
  "q_uncompress zd data =
     (case data of
        a # b # c # d # compressed \<Rightarrow>
          (case zd compressed of
             None \<Rightarrow> []
           | Some u \<Rightarrow>
               if length u = a * 16777216 + b * 65536 + c * 256 + d then u else [])
      | _ \<Rightarrow> [])"

definition rstrip_eq :: "string \<Rightarrow> string" where
  "rstrip_eq s = rev (dropWhile (\<lambda>c. c = CHR ''='') (rev s))"

definition encode_vpn_url :: "(bytes \<Rightarrow> bytes) \<Rightarrow> nat list \<Rightarrow> exn + string" where
  "encode_vpn_url zc config_text =
     bind_res (q_compress zc (utf8_encode config_text))
       (\<lambda>compressed. Inr (''vpn://'' @ rstrip_eq (urlsafe_b64encode compressed)))"

definition decode_vpn_url :: "(bytes \<Rightarrow> bytes option) \<Rightarrow> string \<Rightarrow> nat list option" where
  "decode_vpn_url zd vpn_url =
     (let raw = py_strip vpn_url;
          raw' = (if starts_with raw ''vpn://'' then drop 6 raw else raw)
      in if list_all (\<lambda>c. (of_char c :: nat) < 128) raw'
         then (case urlsafe_b64decode (raw' @ padding (length raw')) of
                 None \<Rightarrow> None
               | Some data \<Rightarrow>
                   (let u = q_uncompress zd data in if u = [] then None else utf8_decode u))
         else None)"

subsection \<open>Round trips\<close>

definition is_url_text :: "char \<Rightarrow> bool" where
  "is_url_text c = ((of_char c :: nat) < 128 \<and> \<not> is_space c)"

lemma div_mod_join: "(c::nat) div (n * m) * m + c div n mod m = c div n"
  by (simp add: div_mult2_eq)

lemma utf8_decode_char:
  assumes "code_point c"
  shows "utf8_decode (utf8_char c @ bs) = map_option ((#) c) (utf8_decode bs)"
proof -
  consider "c < 128" | "128 \<le> c" "c < 2048" | "2048 \<le> c" "c < 65536" | "65536 \<le> c" "c < 1114112"
    using assms by (fastforce simp: code_point_def)
  then show ?thesis
  proof cases
    case 1
    then show ?thesis by (simp add: utf8_char_def utf8_decode.simps(2))
  next
    case 2
    define q r where qr: "q = c div 64" "r = c mod 64"
    have u: "utf8_char c = [192 + q, 128 + r]"
      using 2 by (simp add: utf8_char_def qr)
    have b: "q < 32" "r < 64" "q * 64 + r = c" "2 \<le> q"
      using 2 by (auto simp: qr)
    with 2 show ?thesis
      by (simp add: u utf8_decode.simps(2) cont_def Let_def)
  next
    case 3
    define q r s where qrs: "q = c div 4096" "r = c div 64 mod 64" "s = c mod 64"
    have u: "utf8_char c = [224 + q, 128 + r, 128 + s]"
      using 3 by (simp add: utf8_char_def qrs)
    have "q * 4096 + r * 64 + s = c"
      using div_mod_join [of c 64 64, simplified] div_mult_mod_eq [of c 64]
      unfolding qrs by linarith
    moreover have "q < 16" "r < 64" "s < 64"
      using 3 by (auto simp: qrs)
    ultimately show ?thesis
      using 3 assms by (simp add: u utf8_decode.simps(2) cont_def Let_def)
  next
    case 4
    define q r s t where qrst: "q = c div 262144" "r = c div 4096 mod 64" "s = c div 64 mod 64"
      "t = c mod 64"
    have u: "utf8_char c = [240 + q, 128 + r, 128 + s, 128 + t]"
      using 4 by (simp add: utf8_char_def qrst)
    have "q * 262144 + r * 4096 + s * 64 + t = c"
      using div_mod_join [of c 64 64, simplified] div_mod_join [of c 4096 64, simplified]
        div_mult_mod_eq [of c 64]
      unfolding qrst by linarith
    moreover have "q < 8" "r < 64" "s < 64" "t < 64"
      using 4 by (auto simp: qrst)
    ultimately show ?thesis
      using 4 assms by (simp add: u utf8_decode.simps(2) cont_def Let_def)
  qed
qed

lemma utf8_roundtrip: "list_all code_point cs \<Longrightarrow> utf8_decode (utf8_encode cs) = Some cs"
  by (induction cs) (simp_all add: utf8_encode_def utf8_decode_char)

lemma sextet_char_code:
  assumes "n < 64"
  shows "(of_char (sextet_char n) :: nat) =
    (if n < 26 then 65 + n else if n < 52 then 71 + n else if n < 62 then n - 4
     else if n = 62 then 45 else 95)"
  using assms by (auto simp: sextet_char_def)

lemma char_sextet_char: "n < 64 \<Longrightarrow> char_sextet (sextet_char n) = Some n"
proof -
  assume "n < 64"
  then consider "n < 62" | "n = 62" | "n = 63" by fastforce
  then show ?thesis
  proof cases
    case 1
    then show ?thesis by (auto simp: char_sextet_def Let_def sextet_char_code)
  qed (simp_all add: char_sextet_def sextet_char_def)
qed

lemma sextet_char_not_eq: "n < 64 \<Longrightarrow> sextet_char n \<noteq> CHR ''=''"
proof
  assume n: "n < 64" and "sextet_char n = CHR ''=''"
  then have "(of_char (sextet_char n) :: nat) = 61" by simp
  with n show False by (auto simp: sextet_char_code split: if_splits)
qed

lemma a2b_sextet:
  assumes "v < 64"
  shows "a2b pos left pads (sextet_char v # s) =
    (if pos = 0 then a2b 1 v 0 s
     else if pos = 1 then map_option ((#) (left * 4 + v div 16)) (a2b 2 (v mod 16) 0 s)
     else if pos = 2 then map_option ((#) (left * 16 + v div 4)) (a2b 3 (v mod 4) 0 s)
     else map_option ((#) (left * 64 + v)) (a2b 0 0 0 s))"
  using assms by (simp add: char_sextet_char sextet_char_not_eq)

lemma sextets_bound: "is_bytes bs \<Longrightarrow> list_all (\<lambda>v. v < 64) (sextets bs)"
  by (induction bs rule: sextets.induct) (auto simp: is_bytes_def)

lemma padding_mod: "m mod 4 = n mod 4 \<Longrightarrow> padding m = padding n"
  by (simp add: padding_def)

lemma a2b_sextets:
  "is_bytes bs \<Longrightarrow>
   a2b 0 0 0 (map sextet_char (sextets bs) @ padding (length (sextets bs))) = Some bs"
proof (induction bs rule: sextets.induct)
  case 1
  then show ?case by (simp add: padding_def)
next
  case (2 a)
  then have "a div 4 < 64" "a mod 4 * 16 < 64" "a div 4 * 4 + a mod 4 = a"
    by (auto simp: is_bytes_def)
  then show ?case
    by (simp add: a2b_sextet padding_def numeral_2_eq_2 del: a2b.simps) simp
next
  case (3 a b)
  then have "a div 4 < 64" "a mod 4 * 16 + b div 16 < 64" "b mod 16 * 4 < 64" "b div 16 < 16"
    by (auto simp: is_bytes_def)
  then show ?case
    by (simp add: a2b_sextet padding_def del: a2b.simps) simp
next
  case (4 a b c r)
  then have b: "a div 4 < 64" "a mod 4 * 16 + b div 16 < 64" "b mod 16 * 4 + c div 64 < 64"
    "c mod 64 < 64" "b div 16 < 16" "c div 64 < 4" "is_bytes r"
    by (auto simp: is_bytes_def)
  then have IH: "a2b 0 0 0 (map sextet_char (sextets r) @ padding (length (sextets r))) = Some r"
    using 4 by simp
  have "padding (length (sextets (a # b # c # r))) = padding (length (sextets r))"
    by (rule padding_mod) simp
  with b IH show ?case
    by (simp add: a2b_sextet del: a2b.simps)
qed

lemma dropWhile_replicate_append:
  "list_all (\<lambda>c. \<not> P c) s \<Longrightarrow> P x \<Longrightarrow> dropWhile P (replicate n x @ s) = s"
  by (induction n) (cases s; simp)+

lemma rstrip_padding:
  assumes "list_all (\<lambda>c. c \<noteq> CHR ''='') s"
  shows "rstrip_eq (s @ padding n) = s"
  using assms by (simp add: rstrip_eq_def padding_def dropWhile_replicate_append list_all_rev)

lemma b64_roundtrip:
  assumes "is_bytes bs"
  shows "urlsafe_b64decode (rstrip_eq (urlsafe_b64encode bs)
      @ padding (length (rstrip_eq (urlsafe_b64encode bs)))) = Some bs"
proof -
  have "list_all (\<lambda>c. c \<noteq> CHR ''='') (map sextet_char (sextets bs))"
    using sextets_bound [OF assms] sextet_char_not_eq by (auto simp: list_all_iff)
  then have "rstrip_eq (urlsafe_b64encode bs) = map sextet_char (sextets bs)"
    by (simp add: urlsafe_b64encode_def Let_def rstrip_padding)
  with a2b_sextets [OF assms] show ?thesis
    by (simp add: urlsafe_b64decode_def)
qed

lemma url_chars:
  assumes "is_bytes bs"
  shows "list_all is_url_text (rstrip_eq (urlsafe_b64encode bs))"
proof -
  have "list_all (\<lambda>c. c \<noteq> CHR ''='') (map sextet_char (sextets bs))"
    using sextets_bound [OF assms] sextet_char_not_eq by (auto simp: list_all_iff)
  then have r: "rstrip_eq (urlsafe_b64encode bs) = map sextet_char (sextets bs)"
    by (simp add: urlsafe_b64encode_def Let_def rstrip_padding)
  have "is_url_text (sextet_char v)" if "v < 64" for v
    using that by (auto simp: is_url_text_def sextet_char_code is_space_def Let_def)
  then show ?thesis
    unfolding r using sextets_bound [OF assms] by (simp add: list_all_iff)
qed

lemma utf8_char_bytes: "c < 1114112 \<Longrightarrow> list_all (\<lambda>b. b < 256) (utf8_char c)"
proof -
  assume c: "c < 1114112"
  have "c < 2048 \<Longrightarrow> 192 + c div 64 < 256" "c < 65536 \<Longrightarrow> 224 + c div 4096 < 256"
    "240 + c div 262144 < 256" "128 + m mod 64 < 256" for m :: nat
    using c by auto
  then show ?thesis by (simp add: utf8_char_def)
qed

lemma is_bytes_utf8: "list_all code_point cs \<Longrightarrow> is_bytes (utf8_encode cs)"
proof (induction cs)
  case (Cons c cs)
  then have "list_all (\<lambda>b. b < 256) (utf8_char c)"
    by (intro utf8_char_bytes) (simp add: code_point_def)
  with Cons show ?case by (simp add: is_bytes_def utf8_encode_def)
qed (simp add: is_bytes_def utf8_encode_def)

lemma utf8_encode_Nil: "utf8_encode cs = [] \<longleftrightarrow> cs = []"
  by (cases cs) (simp_all add: utf8_encode_def utf8_char_def)

lemma be32_value:
  assumes "n < (4294967296 :: nat)"
  shows "n div 16777216 * 16777216 + n div 65536 mod 256 * 65536 + n div 256 mod 256 * 256
      + n mod 256 = n"
  using div_mod_join [of n 256 256, simplified] div_mod_join [of n 65536 256, simplified]
    div_mult_mod_eq [of n 256] by linarith

lemma is_bytes_be32: "n < 4294967296 \<Longrightarrow> is_bytes (be32 n)"
  by (auto simp: be32_def is_bytes_def)

lemma q_roundtrip:
  assumes "zd (zc data) = Some data" "q_compress zc data = Inr out"
  shows "q_uncompress zd out = data"
proof -
  have "length data < 4294967296" "out = be32 (length data) @ zc data"
    using assms(2) by (auto simp: q_compress_def split: if_splits)
  with be32_value [OF this(1)] assms(1) show ?thesis
    by (simp add: q_uncompress_def be32_def)
qed

lemma strip_id: "list_all (\<lambda>c. \<not> is_space c) s \<Longrightarrow> py_strip s = s"
proof -
  have "dropWhile is_space t = t" if "list_all (\<lambda>c. \<not> is_space c) t" for t
    using that by (cases t) simp_all
  then show "list_all (\<lambda>c. \<not> is_space c) s \<Longrightarrow> ?thesis"
    by (simp add: py_strip_def py_lstrip_def py_rstrip_def list_all_rev)
qed

text \<open>C28. A customer's link holds the whole configuration: for a zlib whose decompressor
  inverts its compressor, every configuration text that is not empty is read back from its
  own \<open>vpn://\<close> link.\<close>

theorem vpn_url_roundtrip:
  assumes "\<And>bs. is_bytes bs \<Longrightarrow> zd (zc bs) = Some bs" "\<And>bs. is_bytes bs \<Longrightarrow> is_bytes (zc bs)"
    and "list_all code_point cs" "cs \<noteq> []" "encode_vpn_url zc cs = Inr url"
  shows "decode_vpn_url zd url = Some cs"
proof -
  let ?data = "utf8_encode cs"
  obtain out where out: "q_compress zc ?data = Inr out"
    and url: "url = ''vpn://'' @ rstrip_eq (urlsafe_b64encode out)"
    using assms(5) by (auto simp: encode_vpn_url_def res_simps)
  have data: "is_bytes ?data" using is_bytes_utf8 [OF assms(3)] .
  have "is_bytes out"
    using out is_bytes_be32 assms(2) [OF data]
    by (auto simp: q_compress_def is_bytes_def split: if_splits)
  note b64 = b64_roundtrip [OF this] and chars = url_chars [OF this]
  let ?raw = "rstrip_eq (urlsafe_b64encode out)"
  have "list_all (\<lambda>c. \<not> is_space c) url" "list_all (\<lambda>c. (of_char c :: nat) < 128) ?raw"
    using chars by (auto simp: url is_url_text_def list_all_iff is_space_def)
  moreover have "starts_with url ''vpn://''"
    unfolding url by simp
  moreover have "q_uncompress zd out = ?data"
    using q_roundtrip [OF _ out] assms(1) [OF data] by blast
  ultimately show ?thesis
    using b64 utf8_roundtrip [OF assms(3)] assms(4)
    by (simp add: decode_vpn_url_def strip_id url utf8_encode_Nil)
qed

text \<open>zlib replaced by the stored form: a marker byte before the data.\<close>

definition stored :: "bytes \<Rightarrow> bytes" where
  "stored bs = 120 # bs"

definition unstored :: "bytes \<Rightarrow> bytes option" where
  "unstored bs = (case bs of [] \<Rightarrow> None | b # r \<Rightarrow> if b = 120 then Some r else None)"

theorem vpn_url_roundtrip_witness:
  "\<exists>url. encode_vpn_url stored [91, 8217, 93] = Inr url \<and>
     decode_vpn_url unstored url = Some [91, 8217, 93]"
proof -
  obtain url where e: "encode_vpn_url stored [91, 8217, 93] = Inr url"
    by (simp add: encode_vpn_url_def q_compress_def utf8_encode_def utf8_char_def)
  have "decode_vpn_url unstored url = Some [91, 8217, 93]"
    by (rule vpn_url_roundtrip [OF _ _ _ _ e])
      (simp_all add: stored_def unstored_def is_bytes_def code_point_def)
  with e show ?thesis by blast
qed

end
