(* ===== verification/Provisioner.thy ===== *)
theory Provisioner
  imports Bot_Ui Codec
begin

section \<open>The provisioner interface and its mock\<close>

text \<open>
  \<open>src/app/integrations/provisioning\<close>: \<open>base.py\<close> declares what the worker asks of a VPN
  server; an implementation is a record of operations over its own state, each returning a
  result or an exception together with the new state, which an exception does not undo. The
  locale \<open>peer_service\<close> states the contract: which peers are on after each operation that
  succeeded. \<open>mock_provisioner.py\<close> implements it in memory and is its interpretation here; its
  random draws are a function of the number of the call.
\<close>

subsection \<open>base.py\<close>

record provisioned_peer =
  pp_external_id :: string
  pp_label :: string
  pp_filename :: string
  pp_config :: string
  pp_created_at :: datetime
  pp_vpn_url :: "string option"

record peer_status =
  ps_exists :: bool
  ps_active :: bool
  ps_last_handshake :: "datetime option"
  ps_received :: int
  ps_sent :: int
  ps_raw :: "string option"

type_synonym ('a, 'p) provisioning = "'p \<Rightarrow> (exn + 'a) \<times> 'p"

record 'p provisioner =
  pv_create :: "vpn_server \<Rightarrow> uuid \<Rightarrow> int \<Rightarrow> (provisioned_peer, 'p) provisioning"
  pv_disable :: "vpn_server \<Rightarrow> string \<Rightarrow> (unit, 'p) provisioning"
  pv_enable :: "vpn_server \<Rightarrow> string \<Rightarrow> (unit, 'p) provisioning"
  pv_remove :: "vpn_server \<Rightarrow> string \<Rightarrow> (unit, 'p) provisioning"
  pv_status :: "vpn_server \<Rightarrow> string \<Rightarrow> (peer_status, 'p) provisioning"
  pv_config :: "vpn_server \<Rightarrow> string \<Rightarrow> (string, 'p) provisioning"

text \<open>The contract the worker and the scheduler count on, for the peers that are known to the
  server and those that are on, as long as the server is in order (\<open>invar\<close>) and for names it
  takes (\<open>ids\<close>). An operation that fails may have done its work (the answer was lost), but
  touches no other peer; creating a peer that is there changes nothing.\<close>

locale peer_service =
  fixes P :: "'p provisioner" and invar :: "'p \<Rightarrow> bool" and ids :: "string set"
    and known :: "'p \<Rightarrow> string set" and peers_on :: "'p \<Rightarrow> string set"
  assumes on_known: "invar p \<Longrightarrow> peers_on p \<subseteq> known p"
    and create_invar: "invar p \<Longrightarrow> invar (snd (pv_create P srv sid tg p))"
    and disable_invar: "invar p \<Longrightarrow> invar (snd (pv_disable P srv x p))"
    and enable_invar: "invar p \<Longrightarrow> invar (snd (pv_enable P srv x p))"
    and remove_invar: "invar p \<Longrightarrow> invar (snd (pv_remove P srv x p))"
    and status_same: "known (snd (pv_status P srv x p)) = known p \<and>
      peers_on (snd (pv_status P srv x p)) = peers_on p"
    and create_on: "invar p \<Longrightarrow> pv_create P srv sid tg p = (Inr peer, p') \<Longrightarrow>
      pp_external_id peer \<in> ids \<Longrightarrow>
      known p' = insert (pp_external_id peer) (known p) \<and>
        peers_on p' = insert (pp_external_id peer) (peers_on p) \<or>
      known p' = known p \<and> peers_on p' = peers_on p"
    and disable_off: "invar p \<Longrightarrow> x \<in> ids \<Longrightarrow> pv_disable P srv x p = (Inr u, p') \<Longrightarrow>
      peers_on p' = peers_on p - {x} \<and> known p' = known p"
    and enable_on: "invar p \<Longrightarrow> x \<in> ids \<Longrightarrow> pv_enable P srv x p = (Inr u, p') \<Longrightarrow>
      peers_on p' = (if x \<in> known p then insert x (peers_on p) else peers_on p) \<and> known p' = known p"
    and remove_gone: "invar p \<Longrightarrow> x \<in> ids \<Longrightarrow> pv_remove P srv x p = (Inr u, p') \<Longrightarrow>
      peers_on p' = peers_on p - {x} \<and> known p' = known p - {x}"
    and disable_frame: "invar p \<Longrightarrow> x \<in> ids \<Longrightarrow> peers_on (snd (pv_disable P srv x p)) - {x} = peers_on p - {x}"
    and enable_frame: "invar p \<Longrightarrow> x \<in> ids \<Longrightarrow> peers_on (snd (pv_enable P srv x p)) - {x} = peers_on p - {x}"
    and remove_frame: "invar p \<Longrightarrow> x \<in> ids \<Longrightarrow> peers_on (snd (pv_remove P srv x p)) - {x} = peers_on p - {x}"
begin

lemma disable_enable:
  assumes "invar p" "x \<in> ids" "pv_disable P srv x p = (Inr u, p1)"
    "pv_enable P srv' x p1 = (Inr v, p2)" "x \<in> peers_on p"
  shows "peers_on p2 = peers_on p"
  using disable_off [OF assms(1-3)] enable_on [OF _ assms(2,4)] disable_invar [OF assms(1), of srv x]
    on_known [OF assms(1)] assms(3,5) by auto

text \<open>A failed attempt, whatever it did, and a second one that succeeds.\<close>

lemma disable_retried:
  assumes "invar p" "x \<in> ids" "pv_disable P srv x p = (Inl e, p1)" "pv_disable P srv x p1 = (Inr u, p2)"
  shows "peers_on p2 = peers_on p - {x}"
  using disable_off [OF _ assms(2,4)] disable_frame [OF assms(1,2), of srv] disable_invar [OF assms(1), of srv x]
    assms(3) by simp

lemma remove_retried:
  assumes "invar p" "x \<in> ids" "pv_remove P srv x p = (Inl e, p1)" "pv_remove P srv x p1 = (Inr u, p2)"
  shows "peers_on p2 = peers_on p - {x} \<and> x \<notin> known p2"
  using remove_gone [OF _ assms(2,4)] remove_frame [OF assms(1,2), of srv] remove_invar [OF assms(1), of srv x]
    assms(3) by simp

lemma remove_stays_off:
  assumes "invar p" "x \<in> ids" "pv_remove P srv x p = (Inr u, p1)" "pv_enable P srv x p1 = (Inr v, p2)"
  shows "x \<notin> peers_on p2"
  using remove_gone [OF assms(1-3)] enable_on [OF _ assms(2,4)] remove_invar [OF assms(1), of srv x]
    assms(3) by simp

end

subsection \<open>MockProvisioner\<close>

record mock_draws =
  dr_hex :: string
  dr_private_key :: string
  dr_psk :: string
  dr_server_key :: string
  dr_address :: nat
  dr_header_key :: string
  dr_now :: datetime

record mock_peer =
  mp_label :: string
  mp_filename :: string
  mp_config :: string
  mp_active :: bool
  mp_created_at :: datetime
  mp_vpn_url :: "string option"

record mock_state =
  mk_peers :: "(string \<times> mock_peer) list"
  mk_calls :: nat

definition nl :: char where
  "nl = CHR 0x0A"

definition unlines :: "string list \<Rightarrow> string" where
  "unlines ls = concat (map (\<lambda>l. l @ [nl]) ls)"

definition mock_config :: "mock_draws \<Rightarrow> vpn_server \<Rightarrow> string" where
  "mock_config r srv = unlines
     [''[Interface]'', ''PrivateKey = '' @ dr_private_key r,
      ''Address = 10.66.66.'' @ show_nat (dr_address r + 2) @ ''/32'',
      ''DNS = 1.1.1.1, 9.9.9.9'', ''MTU = 1280'', ''Jc = 6'', ''Jmin = 96'', ''Jmax = 512'',
      ''S1 = 15'', ''S2 = 15'', ''S3 = 15'', ''S4 = 15'', ''H1 = 1'', ''H2 = 2'', ''H3 = 3'',
      ''H4 = 4'', ''I1 = <r 64><t><rc 12>'', ''HeaderProtectionKey = '' @ dr_header_key r,
      ''RandomTrailers = 1'', ''DisableCookies = 1'', '''', ''[Peer]'',
      ''PublicKey = '' @ dr_server_key r, ''PresharedKey = '' @ dr_psk r,
      ''AllowedIPs = 0.0.0.0/0, ::/0'', ''Endpoint = '' @ srv_host srv @ '':51820'',
      ''PersistentKeepalive = 25'']"

definition mock_label :: "int \<Rightarrow> vpn_server \<Rightarrow> string" where
  "mock_label tg srv = ''user_'' @ show_int tg @ ''_'' @ srv_slug srv"

text \<open>\<open>encode_vpn_url\<close> of a text, the zlib compressor given; it does not raise for a text of
  less than 4 GB.\<close>

definition link_of :: "(bytes \<Rightarrow> bytes) \<Rightarrow> string \<Rightarrow> string option" where
  "link_of zc s =
     (case encode_vpn_url zc (map of_char s) of Inl _ \<Rightarrow> None | Inr url \<Rightarrow> Some url)"

definition mock_create_peer ::
  "(nat \<Rightarrow> mock_draws) \<Rightarrow> (bytes \<Rightarrow> bytes) \<Rightarrow> vpn_server \<Rightarrow> uuid \<Rightarrow> int
     \<Rightarrow> (provisioned_peer, mock_state) provisioning" where
  "mock_create_peer draws zc srv sid tg p =
     (let r = draws (mk_calls p);
          ext = ''peer_'' @ dr_hex r;
          label = mock_label tg srv;
          config = mock_config r srv;
          peer = \<lparr>mp_label = label, mp_filename = label @ ''.conf'', mp_config = config,
                  mp_active = True, mp_created_at = dr_now r, mp_vpn_url = link_of zc config\<rparr>
      in (Inr \<lparr>pp_external_id = ext, pp_label = label, pp_filename = label @ ''.conf'',
               pp_config = config, pp_created_at = dr_now r, pp_vpn_url = link_of zc config\<rparr>,
          \<lparr>mk_peers = dict_put ext peer (mk_peers p), mk_calls = mk_calls p + 1\<rparr>))"

text \<open>\<open>self._peers[id]["is_active"] = b\<close> for a known peer.\<close>

definition mock_set_active :: "bool \<Rightarrow> vpn_server \<Rightarrow> string \<Rightarrow> (unit, mock_state) provisioning" where
  "mock_set_active b srv x p =
     (Inr (), p\<lparr>mk_peers := map (\<lambda>(k, v). (k, if k = x then v\<lparr>mp_active := b\<rparr> else v)) (mk_peers p)\<rparr>)"

definition mock_remove_peer :: "vpn_server \<Rightarrow> string \<Rightarrow> (unit, mock_state) provisioning" where
  "mock_remove_peer srv x p =
     (Inr (), p\<lparr>mk_peers := filter (\<lambda>(k, v). k \<noteq> x) (mk_peers p)\<rparr>)"

definition mock_get_peer_status ::
  "(nat \<Rightarrow> mock_draws) \<Rightarrow> vpn_server \<Rightarrow> string \<Rightarrow> (peer_status, mock_state) provisioning" where
  "mock_get_peer_status draws srv x p =
     (Inr (case map_of (mk_peers p) x of
             None \<Rightarrow> \<lparr>ps_exists = False, ps_active = False, ps_last_handshake = None,
                      ps_received = 0, ps_sent = 0, ps_raw = None\<rparr>
           | Some v \<Rightarrow> \<lparr>ps_exists = True, ps_active = mp_active v,
                        ps_last_handshake = Some (dr_now (draws (mk_calls p))),
                        ps_received = 1024 * 1024 * 50, ps_sent = 1024 * 1024 * 120,
                        ps_raw = Some ''mock_online''\<rparr>), p)"

definition mock_get_peer_config :: "vpn_server \<Rightarrow> string \<Rightarrow> (string, mock_state) provisioning" where
  "mock_get_peer_config srv x p =
     (case map_of (mk_peers p) x of None \<Rightarrow> Inl KeyError | Some v \<Rightarrow> Inr (mp_config v), p)"

definition mock_provisioner :: "(nat \<Rightarrow> mock_draws) \<Rightarrow> (bytes \<Rightarrow> bytes) \<Rightarrow> mock_state provisioner" where
  "mock_provisioner draws zc =
     \<lparr>pv_create = mock_create_peer draws zc, pv_disable = mock_set_active False,
      pv_enable = mock_set_active True, pv_remove = mock_remove_peer,
      pv_status = mock_get_peer_status draws, pv_config = mock_get_peer_config\<rparr>"

subsection \<open>The mock keeps the contract\<close>

definition mock_known :: "mock_state \<Rightarrow> string set" where
  "mock_known p = set (map fst (mk_peers p))"

definition mock_on :: "mock_state \<Rightarrow> string set" where
  "mock_on p = {x. \<exists>v. (x, v) \<in> set (mk_peers p) \<and> mp_active v}"

lemma set_dict_put:
  "(x, v) \<in> set (dict_put k w m) \<Longrightarrow> (x, v) = (k, w) \<or> (x, v) \<in> set m"
  by (induction m) (auto split: if_splits)

lemma dict_put_new: "(k, w) \<in> set (dict_put k w m)"
  by (induction m) auto

lemma dict_put_old: "(x, v) \<in> set m \<Longrightarrow> x \<noteq> k \<Longrightarrow> (x, v) \<in> set (dict_put k w m)"
  by (induction m) auto

lemma mock_put:
  assumes "mk_peers p' = dict_put k v (mk_peers p)" "mp_active v"
  shows "mock_on p' = insert k (mock_on p)" "mock_known p' = insert k (mock_known p)"
proof -
  have k: "k \<in> mock_on p'"
    using dict_put_new [of k v "mk_peers p"] assms(2) unfolding mock_on_def assms(1) by fast
  moreover have "mock_on p \<subseteq> mock_on p'"
  proof
    fix x assume "x \<in> mock_on p"
    then show "x \<in> mock_on p'"
      using k dict_put_old [of x _ "mk_peers p" k v] by (cases "x = k") (auto simp: mock_on_def assms(1))
  qed
  moreover have "mock_on p' \<subseteq> insert k (mock_on p)"
    by (auto simp: mock_on_def assms(1) dest!: set_dict_put)
  ultimately show "mock_on p' = insert k (mock_on p)"
    by blast
  have "fst ` set (dict_put k v m) = insert k (fst ` set m)" for m :: "(string \<times> mock_peer) list"
  proof (induction m)
    case (Cons e m)
    then show ?case by (cases e) (simp add: insert_commute)
  qed simp
  then show "mock_known p' = insert k (mock_known p)"
    by (simp add: mock_known_def assms(1))
qed

lemma mock_set_active_peers:
  "mock_on (snd (mock_set_active b srv x p)) =
     (if b \<and> x \<in> mock_known p then insert x (mock_on p) else mock_on p - {x})" if "\<not> b \<or> x \<in> mock_known p"
  using that by (force simp: mock_set_active_def mock_on_def mock_known_def image_iff split: if_splits)

lemma mock_set_active_unknown: "x \<notin> mock_known p \<Longrightarrow> mock_on (snd (mock_set_active b srv x p)) = mock_on p"
  by (auto simp: mock_set_active_def mock_on_def mock_known_def image_iff split: if_splits) force+

lemma mock_set_active_known: "mock_known (snd (mock_set_active b srv x p)) = mock_known p"
  by (force simp: mock_set_active_def mock_known_def image_iff)

lemma mock_remove_peers:
  "mock_on (snd (mock_remove_peer srv x p)) = mock_on p - {x}"
  "mock_known (snd (mock_remove_peer srv x p)) = mock_known p - {x}"
  by (auto simp: mock_remove_peer_def mock_on_def mock_known_def)

lemma mock_on_known: "mock_on p \<subseteq> mock_known p"
  by (force simp: mock_on_def mock_known_def)

lemma mock_create_peers:
  "mock_create_peer draws zc srv sid tg p = (Inr peer, p') \<Longrightarrow>
   mock_on p' = insert (pp_external_id peer) (mock_on p) \<and>
   mock_known p' = insert (pp_external_id peer) (mock_known p)"
  by (auto simp: mock_create_peer_def Let_def intro!: mock_put)

lemma mock_disable_peers:
  "mock_set_active False srv x p = (Inr u, p') \<Longrightarrow>
   mock_on p' = mock_on p - {x} \<and> mock_known p' = mock_known p"
  using mock_set_active_peers [of False x p srv] mock_set_active_known [of False srv x p] by simp

lemma mock_enable_peers:
  "mock_set_active True srv x p = (Inr u, p') \<Longrightarrow>
   mock_on p' = (if x \<in> mock_known p then insert x (mock_on p) else mock_on p) \<and>
   mock_known p' = mock_known p"
  using mock_set_active_peers [of True x p srv] mock_set_active_unknown [of x p True srv]
    mock_set_active_known [of True srv x p] by auto

lemma mock_frame:
  "mock_on (snd (mock_set_active b srv x p)) - {x} = mock_on p - {x}"
  "mock_on (snd (mock_remove_peer srv x p)) - {x} = mock_on p - {x}"
proof -
  show "mock_on (snd (mock_set_active b srv x p)) - {x} = mock_on p - {x}"
  proof (cases "\<not> b \<or> x \<in> mock_known p")
    case True
    then show ?thesis by (subst mock_set_active_peers) auto
  next
    case False
    then show ?thesis by (subst mock_set_active_unknown) auto
  qed
qed (simp add: mock_remove_peers)

lemma mock_removed:
  "mock_remove_peer srv x p = (Inr u, p') \<Longrightarrow>
   mock_on p' = mock_on p - {x} \<and> mock_known p' = mock_known p - {x}"
  using mock_remove_peers [of srv x p] by simp

interpretation mock_peers:
  peer_service "mock_provisioner draws zc" "\<lambda>p. True" UNIV mock_known mock_on
  by unfold_locales
    (use mock_on_known in \<open>auto simp: mock_provisioner_def mock_get_peer_status_def mock_frame
      dest!: mock_create_peers mock_disable_peers mock_enable_peers mock_removed
      split: if_splits\<close>)

end
