(* ===== verification/Sessions.thy ===== *)
theory Sessions
  imports Provisioner
begin

section \<open>Sessions\<close>

text \<open>
  The background services do a piece of work in a session: the database as changed so far,
  the state of the VPN servers, and the log of what was sent with whether Telegram took it.
  An exception stops the work; what becomes of the three parts is up to the caller (a rollback
  undoes the database only). An action is a function of the session to a result or exception
  and the new session. The locale \<open>session_frame\<close> proves, rule by rule, that an action keeps a
  relation between the database before and after.
\<close>

subsection \<open>Sessions\<close>

record 'p session =
  s_db :: db
  s_peers :: 'p
  s_out :: "(out \<times> bool) list"

text \<open>An \<open>act\<close> is an attempt on a session.\<close>

type_synonym ('a, 's) attempt = "'s \<Rightarrow> (exn + 'a) \<times> 's"
type_synonym ('a, 'p) act = "('a, 'p session) attempt"

text \<open>A database operation that can be refused, one that cannot, and a provisioning call.\<close>

definition db_act :: "(db \<Rightarrow> exn + 'a \<times> db) \<Rightarrow> ('a, 'p) act" where
  "db_act f s = (case f (s_db s) of Inl e \<Rightarrow> (Inl e, s) | Inr (x, d) \<Rightarrow> (Inr x, s\<lparr>s_db := d\<rparr>))"

definition set_act :: "(db \<Rightarrow> db) \<Rightarrow> (unit, 'p) act" where
  "set_act f s = (Inr (), s\<lparr>s_db := f (s_db s)\<rparr>)"

definition peer_act :: "('a, 'p) provisioning \<Rightarrow> ('a, 'p) act" where
  "peer_act f s = (case f (s_peers s) of (r, p) \<Rightarrow> (r, s\<lparr>s_peers := p\<rparr>))"

text \<open>A call to Telegram; \<open>tg n\<close> says whether the n-th one succeeds. The caller catches the
  exception of one that does not.\<close>

definition tg_send :: "(nat \<Rightarrow> bool) \<Rightarrow> out \<Rightarrow> (bool, 'p) act" where
  "tg_send tg m s =
     (let ok = tg (length (s_out s)) in (Inr ok, s\<lparr>s_out := s_out s @ [(m, ok)]\<rparr>))"

text \<open>A loop over a list that adds up what each round counts, and a transaction, whose
  database changes are kept when it ends without an exception.\<close>

fun sum_act :: "('x \<Rightarrow> (int, 'p) act) \<Rightarrow> 'x list \<Rightarrow> (int, 'p) act" where
  "sum_act f [] s = (Inr 0, s)"
| "sum_act f (x # xs) s =
     act_bind (f x) (\<lambda>n. act_bind (sum_act f xs) (\<lambda>m t. (Inr (n + m), t))) s"

definition in_transaction :: "('a, 'p) act \<Rightarrow> ('a, 'p) act" where
  "in_transaction m s =
     (case m s of (Inl e, s1) \<Rightarrow> (Inl e, s1\<lparr>s_db := s_db s\<rparr>) | (Inr x, s1) \<Rightarrow> (Inr x, s1))"

lemma sum_act_Cons:
  assumes "sum_act f (x # xs) s = (Inr n, s')"
  obtains k m s1 where "f x s = (Inr k, s1)" "sum_act f xs s1 = (Inr m, s')" "n = k + m"
  using assms by (auto simp: act_bind_def split: prod.splits sum.splits)

lemma in_transaction_Inr: "in_transaction m s = (Inr x, s') \<longleftrightarrow> m s = (Inr x, s')"
  by (auto simp: in_transaction_def split: prod.splits sum.splits)

subsection \<open>What an action keeps\<close>

text \<open>A reflexive and transitive relation between the database before and after, kept by an
  action whatever its outcome.\<close>

locale session_frame =
  fixes Q :: "db \<Rightarrow> db \<Rightarrow> bool"
  assumes Q_refl: "Q d d" and Q_trans: "Q a b \<Longrightarrow> Q b c \<Longrightarrow> Q a c"
begin

definition keeps :: "('a, 'p) act \<Rightarrow> bool" where
  "keeps m \<longleftrightarrow> (\<forall>s r s'. m s = (r, s') \<longrightarrow> Q (s_db s) (s_db s'))"

lemma keepsD: "keeps m \<Longrightarrow> m s = (r, s') \<Longrightarrow> Q (s_db s) (s_db s')"
  by (simp add: keeps_def)

text \<open>An action that reads the session first and then is one that keeps the relation.\<close>

lemma keeps_at: "(\<And>s. keeps (g s)) \<Longrightarrow> (\<And>s. f s = g s s) \<Longrightarrow> keeps f"
  by (simp add: keeps_def)

lemma keeps_bind: "keeps m \<Longrightarrow> (\<And>x. keeps (f x)) \<Longrightarrow> keeps (act_bind m f)"
  unfolding keeps_def act_bind_def
  by (auto split: prod.splits sum.splits) (blast intro: Q_trans)+

lemma keeps_same: "(\<And>s. s_db (snd (m s)) = s_db s) \<Longrightarrow> keeps m"
  unfolding keeps_def by (metis Q_refl snd_conv)

lemma keeps_done: "keeps done_act"
  by (simp add: keeps_same done_act_def)

lemma keeps_raise: "keeps (raise_act e)"
  by (simp add: keeps_same raise_act_def)

lemma keeps_return: "keeps (\<lambda>s. (Inr x, s))"
  by (simp add: keeps_same)

lemma keeps_peer: "keeps (peer_act f)"
  by (simp add: keeps_same peer_act_def split: prod.split)

lemma keeps_send: "keeps (tg_send tg m)"
  by (simp add: keeps_same tg_send_def Let_def)

lemma keeps_read: "keeps (\<lambda>s. (g (s_db s), s))"
  by (simp add: keeps_same)

lemma keeps_db: "(\<And>d x d'. f d = Inr (x, d') \<Longrightarrow> Q d d') \<Longrightarrow> keeps (db_act f)"
  unfolding keeps_def db_act_def using Q_refl by (auto split: sum.splits prod.splits)

lemma keeps_set: "(\<And>d. Q d (f d)) \<Longrightarrow> keeps (set_act f)"
  unfolding keeps_def set_act_def by auto

lemma keeps_transaction: "keeps m \<Longrightarrow> keeps (in_transaction m)"
  unfolding keeps_def in_transaction_def using Q_refl
  by (auto split: prod.splits sum.splits)

lemma keeps_sum: "(\<And>x. keeps (f x)) \<Longrightarrow> keeps (sum_act f xs)"
proof (induction xs)
  case Nil
  show ?case by (simp add: keeps_same)
next
  case (Cons x xs)
  have "keeps (act_bind (f x) (\<lambda>n. act_bind (sum_act f xs) (\<lambda>m t. (Inr (n + m), t))))"
    using Cons by (intro keeps_bind keeps_return) auto
  then show ?case by (simp add: keeps_def)
qed

end

end
