(* ===== verification/Worker.thy ===== *)
theory Worker
  imports Orders Sessions
begin

section \<open>The worker\<close>

text \<open>
  \<open>src/app/worker/engine.py\<close>: a poll claims due jobs, commits the claim, and runs each job in
  a transaction of its own: provisioning, database changes, Telegram messages. An exception
  rolls the database back (not the VPN server, and not what was sent) and records the failure
  on the job. A job runs in a session: the database it has changed so far, the state of the
  VPN servers, and the log of what was sent with whether Telegram took it. \<open>we_tg n\<close> says
  whether the n-th call to Telegram succeeds; \<open>now\<close> is the time of all \<open>utc_now()\<close> calls of one
  job, and the identifier drawn for its audit event is an argument.
\<close>

subsection \<open>The environment\<close>

record 'p worker_env =
  we_prov :: "'p provisioner"
  we_tg :: "nat \<Rightarrow> bool"
  we_link :: "string \<Rightarrow> string option"
  we_admin_chat_id :: int
  we_worker_id :: string

fun is_permanent :: "exn \<Rightarrow> bool" where
  "is_permanent (PermanentProvisioningError m) = True"
| "is_permanent _ = False"

subsection \<open>Sending\<close>

text \<open>\<open>_deliver_config\<close>: the file, then the link as a message of its own.\<close>

definition deliver_config ::
  "'p worker_env \<Rightarrow> int \<Rightarrow> string \<Rightarrow> string \<Rightarrow> msg_text \<Rightarrow> string option \<Rightarrow> string option
     \<Rightarrow> (bool, 'p) act" where
  "deliver_config env chat config filename caption vpn_url lang =
     act_bind (tg_send (we_tg env) (Send_File chat filename config caption [])) (\<lambda>sent.
       if \<not> sent then (\<lambda>s. (Inr False, s))
       else case vpn_url of
              None \<Rightarrow> (\<lambda>s. (Inr True, s))
            | Some url \<Rightarrow>
                if url = [] then (\<lambda>s. (Inr True, s))
                else act_bind (tg_send (we_tg env)
                         (Send chat (get_text ''vpn_key'' lang [(''vpn_url'', Plain url)]) []))
                       (\<lambda>_ s. (Inr True, s)))"

definition alert_admin :: "'p worker_env \<Rightarrow> msg_text \<Rightarrow> uuid option \<Rightarrow> (unit, 'p) act" where
  "alert_admin env message retry_job =
     (if we_admin_chat_id env \<noteq> 0
      then act_bind (tg_send (we_tg env) (Send (we_admin_chat_id env) message
               (case retry_job of None \<Rightarrow> [] | Some j \<Rightarrow> retry_button j))) (\<lambda>_. done_act)
      else done_act)"

subsection \<open>Jobs\<close>

definition expiry_reasons :: "string list" where
  "expiry_reasons = [''subscription_expired'', ''grace_period_expired'']"

definition renewed :: "datetime \<Rightarrow> subscription \<Rightarrow> job \<Rightarrow> bool" where
  "renewed now s j =
     (map_of (job_payload j) ''reason'' \<in> (\<lambda>r. Some (JStr r)) ` set expiry_reasons
      \<and> sub_status s = ACTIVE \<and> now < sub_expires_at s)"

definition system_event ::
  "datetime \<Rightarrow> uuid \<Rightarrow> string \<Rightarrow> uuid \<Rightarrow> json_object \<Rightarrow> (unit, 'p) act" where
  "system_event now aid ev sid meta =
     db_act (\<lambda>d. bind_res (record_event now aid A_SYSTEM None ev ''subscription'' (Some sid) meta d)
                  (\<lambda>d'. Inr ((), d')))"

definition with_order_status :: "order_status \<Rightarrow> order \<Rightarrow> order" where
  "with_order_status st r = r\<lparr>ord_status := st\<rparr>"

definition with_delivery :: "string \<Rightarrow> subscription \<Rightarrow> subscription" where
  "with_delivery v s = s\<lparr>sub_delivery_status := v\<rparr>"

definition create_caption :: "vpn_server \<Rightarrow> subscription \<Rightarrow> string option \<Rightarrow> msg_text" where
  "create_caption srv s lang =
     get_text ''config_ready'' lang
       [(''server_name'', server_name srv lang),
        (''expires_at'', Plain (strftime_minutes (sub_expires_at s)))]"

definition undelivered_alert :: "provisioned_peer \<Rightarrow> user \<Rightarrow> msg_text" where
  "undelivered_alert peer u =
     Lit ''Peer was created but its config could not be sent''
       [(''peer'', Plain (pp_external_id peer)), (''user'', Plain (show_int (user_telegram_id u)))]"

text \<open>The rows a create job needs, or the exception it raises.\<close>

definition create_rows :: "job \<Rightarrow> db \<Rightarrow> exn + subscription \<times> vpn_server \<times> user" where
  "create_rows j d =
     (case get_sub (job_aggregate_id j) d of
        None \<Rightarrow> Inl (PermanentProvisioningError
                     (''Subscription '' @ uuid_str (job_aggregate_id j) @ '' not found''))
      | Some sub \<Rightarrow>
          (case (get_server (sub_server_id sub) d, get_user (sub_user_id sub) d) of
             (Some srv, Some u) \<Rightarrow> Inr (sub, srv, u)
           | _ \<Rightarrow> Inl (PermanentProvisioningError ''Server or User missing for subscription'')))"

text \<open>The updates after the peer was made: subscription, order, audit event.\<close>

definition activate_rows ::
  "datetime \<Rightarrow> uuid \<Rightarrow> subscription \<Rightarrow> vpn_server \<Rightarrow> provisioned_peer \<Rightarrow> (unit, 'p) act" where
  "activate_rows now aid sub srv peer =
     act_bind (db_act (mark_active (sub_id sub) (pp_external_id peer) (pp_label peer))) (\<lambda>_.
     act_bind (set_act (upd_order (sub_order_id sub) (with_order_status FULFILLED))) (\<lambda>_.
       system_event now aid ''subscription.activated'' (sub_id sub)
         [(''peer_id'', JStr (pp_external_id peer)), (''server_slug'', JStr (srv_slug srv))]))"

definition deliver_new_peer ::
  "'p worker_env \<Rightarrow> subscription \<Rightarrow> vpn_server \<Rightarrow> user \<Rightarrow> provisioned_peer \<Rightarrow> (unit, 'p) act" where
  "deliver_new_peer env sub srv u peer =
     act_bind (deliver_config env (user_telegram_id u) (pp_config peer) (pp_filename peer)
         (create_caption srv sub (user_language_code u)) (pp_vpn_url peer) (user_language_code u))
       (\<lambda>delivered.
         act_bind (set_act (upd_sub (sub_id sub)
             (with_delivery (if delivered then ''delivered'' else ''failed''))))
           (\<lambda>_. if delivered then done_act
                else alert_admin env (undelivered_alert peer u) None))"

definition create_peer_step :: "'p worker_env \<Rightarrow> datetime \<Rightarrow> uuid \<Rightarrow> job \<Rightarrow> (unit, 'p) act" where
  "create_peer_step env now aid j =
     act_bind (\<lambda>s. (create_rows j (s_db s), s)) (\<lambda>(sub, srv, u).
     act_bind (peer_act (pv_create (we_prov env) srv (sub_id sub) (user_telegram_id u))) (\<lambda>peer.
     act_bind (activate_rows now aid sub srv peer) (\<lambda>_.
       deliver_new_peer env sub srv u peer)))"

text \<open>Disable and remove: skipped for a renewed subscription and for one without a peer; the
  VPN server is asked only when its row exists.\<close>

definition peer_off_step ::
  "datetime \<Rightarrow> job \<Rightarrow> (vpn_server \<Rightarrow> string \<Rightarrow> (unit, 'p) provisioning) \<Rightarrow> (uuid \<Rightarrow> db \<Rightarrow> db)
     \<Rightarrow> uuid \<Rightarrow> string \<Rightarrow> (unit, 'p) act" where
  "peer_off_step now j call mark aid ev s =
     (case get_sub (job_aggregate_id j) (s_db s) of
        None \<Rightarrow> done_act s
      | Some sub \<Rightarrow>
          if renewed now sub j \<or> \<not> has_peer sub then done_act s
          else act_bind
            (case get_server (sub_server_id sub) (s_db s) of
               None \<Rightarrow> done_act
             | Some srv \<Rightarrow> peer_act (call srv (the (sub_peer_external_id sub))))
            (\<lambda>_. act_bind (set_act (mark (sub_id sub))) (\<lambda>_.
               system_event now aid ev (sub_id sub) [])) s)"

definition disable_peer_step :: "'p worker_env \<Rightarrow> datetime \<Rightarrow> uuid \<Rightarrow> job \<Rightarrow> (unit, 'p) act" where
  "disable_peer_step env now aid j =
     peer_off_step now j (pv_disable (we_prov env)) (\<lambda>sid d. snd (mark_disabled sid now d)) aid
       ''subscription.disabled''"

definition remove_peer_step :: "'p worker_env \<Rightarrow> datetime \<Rightarrow> uuid \<Rightarrow> job \<Rightarrow> (unit, 'p) act" where
  "remove_peer_step env now aid j =
     peer_off_step now j (pv_remove (we_prov env)) (\<lambda>sid d. snd (mark_removed sid now d)) aid
       ''subscription.removed''"

definition enable_peer_step :: "'p worker_env \<Rightarrow> datetime \<Rightarrow> uuid \<Rightarrow> job \<Rightarrow> (unit, 'p) act" where
  "enable_peer_step env now aid j s =
     (case get_sub (job_aggregate_id j) (s_db s) of
        None \<Rightarrow> done_act s
      | Some sub \<Rightarrow>
          if \<not> has_peer sub then done_act s
          else act_bind
            (case get_server (sub_server_id sub) (s_db s) of
               None \<Rightarrow> done_act
             | Some srv \<Rightarrow> peer_act (pv_enable (we_prov env) srv (the (sub_peer_external_id sub))))
            (\<lambda>_. system_event now aid ''subscription.enabled'' (sub_id sub) []) s)"

definition redelivery_filename :: "subscription \<Rightarrow> string" where
  "redelivery_filename sub =
     (case sub_peer_label sub of
        None \<Rightarrow> ''amneziawg''
      | Some l \<Rightarrow> if l = [] then ''amneziawg'' else l) @ ''.conf''"

definition redeliver_to ::
  "'p worker_env \<Rightarrow> subscription \<Rightarrow> vpn_server \<Rightarrow> user \<Rightarrow> (unit, 'p) act" where
  "redeliver_to env sub srv u =
     act_bind (peer_act (pv_config (we_prov env) srv (the (sub_peer_external_id sub)))) (\<lambda>config.
     act_bind (deliver_config env (user_telegram_id u) config (redelivery_filename sub)
         (get_text ''config_redelivery'' (user_language_code u)
            [(''server_name'', server_name srv (user_language_code u))])
         (we_link env config) (user_language_code u)) (\<lambda>delivered.
       if delivered
       then set_act (\<lambda>d. snd (increment_redelivery_count (sub_id sub)
              (upd_sub (sub_id sub) (with_delivery ''delivered'') d)))
       else raise_act (RetryableProvisioningError
              (''Could not send config to user '' @ show_int (user_telegram_id u)))))"

definition redeliver_step :: "'p worker_env \<Rightarrow> job \<Rightarrow> (unit, 'p) act" where
  "redeliver_step env j s =
     (case get_sub (job_aggregate_id j) (s_db s) of
        None \<Rightarrow> done_act s
      | Some sub \<Rightarrow>
          if \<not> has_peer sub then done_act s
          else (case (get_server (sub_server_id sub) (s_db s), get_user (sub_user_id sub) (s_db s)) of
             (Some srv, Some u) \<Rightarrow> redeliver_to env sub srv u s
           | _ \<Rightarrow> done_act s))"

fun process_step :: "'p worker_env \<Rightarrow> datetime \<Rightarrow> uuid \<Rightarrow> job \<Rightarrow> job_type \<Rightarrow> (unit, 'p) act" where
  "process_step env now aid j CREATE_PEER = create_peer_step env now aid j"
| "process_step env now aid j DISABLE_PEER = disable_peer_step env now aid j"
| "process_step env now aid j REMOVE_PEER = remove_peer_step env now aid j"
| "process_step env now aid j ENABLE_PEER = enable_peer_step env now aid j"
| "process_step env now aid j REDELIVER_CONFIG = redeliver_step env j"

text \<open>\<open>_process_job\<close>; the attribute of a job that is gone raises \<open>AttributeError\<close>.\<close>

definition process_job :: "'p worker_env \<Rightarrow> datetime \<Rightarrow> uuid \<Rightarrow> job option \<Rightarrow> (unit, 'p) act" where
  "process_job env now aid jo =
     (case jo of
        None \<Rightarrow> raise_act AttributeError
      | Some j \<Rightarrow> process_step env now aid j (job_job_type j))"

subsection \<open>A batch\<close>

definition failure_alert :: "job \<Rightarrow> exn \<Rightarrow> msg_text" where
  "failure_alert j e =
     Lit ''Provisioning job failed for good''
       [(''type'', Plain (job_type_value (job_job_type j))), (''job'', Plain (uuid_str (job_id j))),
        (''attempts'', Plain (show_int (job_attempt_count j))), (''error'', Plain (exn_str e))]"

text \<open>One job of the batch: the state holds the committed database before and after.\<close>

definition run_job :: "'p worker_env \<Rightarrow> datetime \<Rightarrow> uuid \<Rightarrow> uuid \<Rightarrow> 'p session \<Rightarrow> 'p session" where
  "run_job env now aid jid s =
     (case process_job env now aid (get_job jid (s_db s)) s of
        (Inr _, s1) \<Rightarrow> s1\<lparr>s_db := snd (mark_completed jid now (s_db s1))\<rparr>
      | (Inl e, s1) \<Rightarrow>
          (case mark_failed jid (exn_str e) (\<not> is_permanent e) default_max_retries now (s_db s) of
             (failed, d) \<Rightarrow>
               (let s2 = s1\<lparr>s_db := d\<rparr>
                in case failed of
                     None \<Rightarrow> s2
                   | Some j \<Rightarrow>
                       if job_status j = PERMANENT_FAILURE
                       then snd (alert_admin env (failure_alert j e) (Some jid) s2)
                       else s2)))"

text \<open>The times and audit identifiers of the jobs of a batch, by job.\<close>

fun run_jobs ::
  "'p worker_env \<Rightarrow> (uuid \<Rightarrow> datetime) \<Rightarrow> (uuid \<Rightarrow> uuid) \<Rightarrow> uuid list \<Rightarrow> 'p session \<Rightarrow> 'p session" where
  "run_jobs env clock aids [] s = s"
| "run_jobs env clock aids (i # is) s =
     run_jobs env clock aids is (run_job env (clock i) (aids i) i s)"

definition run_single_batch ::
  "'p worker_env \<Rightarrow> nat \<Rightarrow> datetime \<Rightarrow> (uuid \<Rightarrow> datetime) \<Rightarrow> (uuid \<Rightarrow> uuid) \<Rightarrow> 'p session
     \<Rightarrow> nat \<times> 'p session" where
  "run_single_batch env limit now clock aids s =
     (case claim_pending_jobs (we_worker_id env) limit now (s_db s) of
        (claimed, d) \<Rightarrow>
          (length claimed, run_jobs env clock aids (map job_id claimed) (s\<lparr>s_db := d\<rparr>)))"

definition default_batch :: nat where
  "default_batch = 10"

subsection \<open>What a job keeps\<close>

text \<open>The tables a job never writes, and the constraints.\<close>

definition worker_frame :: "db \<Rightarrow> db \<Rightarrow> bool" where
  "worker_frame d d' \<longleftrightarrow>
     jobs d' = jobs d \<and> users d' = users d \<and> servers d' = servers d \<and>
     products d' = products d \<and> notifications d' = notifications d \<and> tickets d' = tickets d \<and>
     messages d' = messages d \<and> map sub_id (subs d') = map sub_id (subs d) \<and>
     map ord_id (orders d') = map ord_id (orders d) \<and> (db_unique d \<longrightarrow> db_unique d')"

lemma with_delivery_fields [sub_fields, simp]:
  "sub_id (with_delivery v s) = sub_id s" "sub_order_id (with_delivery v s) = sub_order_id s"
  "sub_peer_external_id (with_delivery v s) = sub_peer_external_id s"
  "sub_peer_label (with_delivery v s) = sub_peer_label s"
  "sub_status (with_delivery v s) = sub_status s"
  "sub_expires_at (with_delivery v s) = sub_expires_at s"
  "sub_delivery_status (with_delivery v s) = v"
  by (simp_all add: with_delivery_def)

lemma with_order_status_fields [simp]:
  "ord_id (with_order_status st r) = ord_id r" "ord_code (with_order_status st r) = ord_code r"
  "ord_status (with_order_status st r) = st"
  by (simp_all add: with_order_status_def)

text \<open>The writes a job is made of; a relation that each of them keeps is kept by every job,
  whether it succeeds or raises.\<close>

locale job_writes = session_frame +
  assumes W_event: "record_event now aid A_SYSTEM None ev ent ei meta d = Inr d' \<Longrightarrow> Q d d'"
    and W_active: "mark_active sid e l d = Inr (x, d') \<Longrightarrow> Q d d'"
    and W_order: "Q d (upd_order i (with_order_status st) d)"
    and W_delivery: "Q d (upd_sub i (with_delivery v) d)"
    and W_disabled: "Q d (snd (mark_disabled i t d))"
    and W_removed: "Q d (snd (mark_removed i t d))"
    and W_redelivered: "Q d (snd (increment_redelivery_count i d))"
begin

lemma keeps_deliver: "keeps (deliver_config env c b f t u l)"
  unfolding deliver_config_def
  by (intro keeps_bind keeps_send)
    (auto intro!: keeps_return keeps_bind keeps_send split: option.split)

lemma keeps_alert: "keeps (alert_admin env t j)"
  unfolding alert_admin_def by (auto intro!: keeps_bind keeps_send keeps_done)

lemma keeps_event: "keeps (system_event now aid ev sid meta)"
  unfolding system_event_def by (rule keeps_db) (auto simp: bind_res_eq_Inr intro: W_event)

lemma keeps_active: "keeps (db_act (mark_active sid e l))"
  by (rule keeps_db) (rule W_active)

lemma keeps_create: "keeps (create_peer_step env now aid j)"
  unfolding create_peer_step_def activate_rows_def deliver_new_peer_def
  by (intro keeps_bind keeps_read)
    (auto intro!: keeps_bind keeps_peer keeps_active keeps_event keeps_deliver keeps_set
      W_order W_delivery keeps_done keeps_alert)

lemma keeps_off:
  assumes "\<And>i d. Q d (mark i d)"
  shows "keeps (peer_off_step now j call mark aid ev)"
  by (rule keeps_at [where g = "\<lambda>s. case get_sub (job_aggregate_id j) (s_db s) of
        None \<Rightarrow> done_act
      | Some sub \<Rightarrow>
          if renewed now sub j \<or> \<not> has_peer sub then done_act
          else act_bind
            (case get_server (sub_server_id sub) (s_db s) of
               None \<Rightarrow> done_act
             | Some srv \<Rightarrow> peer_act (call srv (the (sub_peer_external_id sub))))
            (\<lambda>_. act_bind (set_act (mark (sub_id sub))) (\<lambda>_.
               system_event now aid ev (sub_id sub) []))"])
    (auto intro!: keeps_bind keeps_peer keeps_set assms keeps_event keeps_done
      simp: peer_off_step_def split: option.splits)

lemma keeps_enable: "keeps (enable_peer_step env now aid j)"
  by (rule keeps_at [where g = "\<lambda>s. case get_sub (job_aggregate_id j) (s_db s) of
        None \<Rightarrow> done_act
      | Some sub \<Rightarrow>
          if \<not> has_peer sub then done_act
          else act_bind
            (case get_server (sub_server_id sub) (s_db s) of
               None \<Rightarrow> done_act
             | Some srv \<Rightarrow> peer_act (pv_enable (we_prov env) srv (the (sub_peer_external_id sub))))
            (\<lambda>_. system_event now aid ''subscription.enabled'' (sub_id sub) [])"])
    (auto intro!: keeps_bind keeps_peer keeps_event keeps_done
      simp: enable_peer_step_def split: option.splits)

lemma keeps_redeliver_to: "keeps (redeliver_to env sub srv u)"
  unfolding redeliver_to_def
  by (intro keeps_bind keeps_peer keeps_deliver)
    (auto intro!: keeps_raise keeps_set Q_trans [OF W_delivery W_redelivered])

lemma keeps_redeliver: "keeps (redeliver_step env j)"
  by (rule keeps_at [where g = "\<lambda>s. case get_sub (job_aggregate_id j) (s_db s) of
        None \<Rightarrow> done_act
      | Some sub \<Rightarrow>
          if \<not> has_peer sub then done_act
          else (case (get_server (sub_server_id sub) (s_db s), get_user (sub_user_id sub) (s_db s)) of
             (Some srv, Some u) \<Rightarrow> redeliver_to env sub srv u
           | _ \<Rightarrow> done_act)"])
    (auto simp: keeps_redeliver_to keeps_done redeliver_step_def split: option.splits)

lemma process_keeps:
  assumes "process_job env now aid jo s = (r, s')"
  shows "Q (s_db s) (s_db s')"
proof -
  have step: "keeps (process_step env now aid j ty)" for j ty
    by (cases ty) (simp_all add: keeps_create disable_peer_step_def remove_peer_step_def keeps_off
        W_disabled W_removed keeps_enable keeps_redeliver)
  have "keeps (process_job env now aid jo)"
    unfolding process_job_def by (cases jo) (simp_all add: keeps_raise step)
  from keepsD [OF this assms] show ?thesis .
qed

end

lemma frame_upd_sub:
  assumes "\<And>s. sub_id (f s) = sub_id s" "\<And>s. sub_order_id (f s) = sub_order_id s"
    "\<And>s. sub_peer_external_id (f s) = sub_peer_external_id s"
    "\<And>s. sub_peer_label (f s) = sub_peer_label s"
  shows "worker_frame d (upd_sub i f d)"
  using assms by (simp add: worker_frame_def map_update_row unique_simps)

lemma worker_frame_refl: "worker_frame d d"
  by (simp add: worker_frame_def)

interpretation job_frame: job_writes worker_frame
proof unfold_locales
  fix d d' :: db and x and sid :: uuid and e l :: string
  show "mark_active sid e l d = Inr (x, d') \<Longrightarrow> worker_frame d d'"
    by (auto simp: worker_frame_def mark_active_def res_simps map_update_row split: option.splits)
qed (auto simp: worker_frame_def record_event_eq_Inr map_update_row unique_simps mark_disabled_def
    mark_removed_def increment_redelivery_count_def split: option.split)

subsection \<open>One job\<close>

lemma get_job_mark_completed [row_simps]:
  "get_job k (snd (mark_completed i t d)) =
     (if k = i then map_option (complete_job t) (get_job k d) else get_job k d)"
  by (simp add: mark_completed_def find_update_row split: option.split)

lemma get_job_mark_failed [row_simps]:
  "get_job k (snd (mark_failed i m r mx t d)) =
     (if k = i then map_option (fail_job m r mx t) (get_job k d) else get_job k d)"
  by (simp add: mark_failed_def find_update_row split: option.split)

lemma mark_unique [unique_simps]:
  "db_unique (snd (mark_completed i t d)) = db_unique d"
  "db_unique (snd (mark_failed i m r mx t d)) = db_unique d"
  by (simp_all add: mark_completed_def mark_failed_def unique_simps split: option.split)

lemma alert_admin_same:
  "s_db (snd (alert_admin env t j s)) = s_db s" "s_peers (snd (alert_admin env t j s)) = s_peers s"
  by (simp_all add: alert_admin_def act_bind_def tg_send_def done_act_def Let_def)

lemma run_job_Inr:
  assumes "process_job env now aid (get_job jid (s_db s)) s = (Inr u, s1)"
  shows "run_job env now aid jid s = s1\<lparr>s_db := snd (mark_completed jid now (s_db s1))\<rparr>"
  using assms by (simp add: run_job_def)

lemma run_job_Inl:
  assumes "process_job env now aid (get_job jid (s_db s)) s = (Inl e, s1)"
  shows "s_db (run_job env now aid jid s) =
      snd (mark_failed jid (exn_str e) (\<not> is_permanent e) default_max_retries now (s_db s))"
    and "s_peers (run_job env now aid jid s) = s_peers s1"
  using assms
  by (auto simp: run_job_def alert_admin_same Let_def split: prod.split option.split)

lemma failed_job_result:
  assumes "get_job jid (s_db s) = Some j" "process_job env now aid (Some j) s = (Inl e, s1)"
  shows "s_db (run_job env now aid jid s) =
      upd_job jid (fail_job (exn_str e) (\<not> is_permanent e) 5 now) (s_db s) \<and>
    s_peers (run_job env now aid jid s) = s_peers s1 \<and>
    (\<exists>j'. get_job jid (s_db (run_job env now aid jid s)) = Some j' \<and>
       job_attempt_count j' = job_attempt_count j + 1 \<and>
       job_last_error j' = Some (exn_str e) \<and>
       job_status j' = (if is_permanent e \<or> 5 \<le> job_attempt_count j + 1
                        then PERMANENT_FAILURE else RETRYABLE_FAILURE))"
proof -
  have p: "process_job env now aid (get_job jid (s_db s)) s = (Inl e, s1)"
    using assms by simp
  have "s_db (run_job env now aid jid s) =
      upd_job jid (fail_job (exn_str e) (\<not> is_permanent e) 5 now) (s_db s)"
    unfolding run_job_Inl(1) [OF p] by (simp add: mark_failed_def assms(1) default_max_retries_def)
  moreover from this have "get_job jid (s_db (run_job env now aid jid s)) =
      Some (fail_job (exn_str e) (\<not> is_permanent e) 5 now j)"
    by (simp add: find_update_row assms(1))
  moreover have "job_last_error (fail_job (exn_str e) (\<not> is_permanent e) 5 now j) = Some (exn_str e)"
    by (simp add: fail_job_def Let_def)
  ultimately show ?thesis
    using run_job_Inl(2) [OF p] by auto
qed

text \<open>C29. A job that fails leaves no trace in the database but its own failure: whatever it
  had already changed (the subscription, the order, the audit log) is rolled back, the job
  records the error and counts the attempt, is retried later unless the error was permanent
  or it was the fifth attempt, and only the VPN server keeps what was done there.\<close>

theorem failed_job_rolls_back:
  assumes "get_job jid (s_db s) = Some j" "process_job env now aid (Some j) s = (Inl e, s1)"
  shows "s_db (run_job env now aid jid s) =
      upd_job jid (fail_job (exn_str e) (\<not> is_permanent e) 5 now) (s_db s) \<and>
    s_peers (run_job env now aid jid s) = s_peers s1 \<and>
    (\<exists>j'. get_job jid (s_db (run_job env now aid jid s)) = Some j' \<and>
       job_attempt_count j' = job_attempt_count j + 1 \<and>
       job_last_error j' = Some (exn_str e) \<and>
       job_status j' = (if is_permanent e \<or> 5 \<le> job_attempt_count j + 1
                        then PERMANENT_FAILURE else RETRYABLE_FAILURE))"
  by (rule failed_job_result [OF assms])

subsection \<open>A batch\<close>

definition settled :: "job \<Rightarrow> job option \<Rightarrow> bool" where
  "settled j jo \<longleftrightarrow>
     (\<exists>j'. jo = Some j' \<and> job_id j' = job_id j \<and> job_job_type j' = job_job_type j \<and>
        job_aggregate_id j' = job_aggregate_id j \<and> job_locked_at j' = None \<and>
        (job_status j' = SUCCEEDED \<and> job_attempt_count j' = job_attempt_count j \<or>
         (job_status j' = PERMANENT_FAILURE \<or>
          job_status j' = RETRYABLE_FAILURE \<and> job_attempt_count j' < default_max_retries) \<and>
         job_attempt_count j' = job_attempt_count j + 1))"

lemma settled_complete: "settled j (Some (complete_job t j))"
  by (simp add: settled_def complete_job_def)

lemma settled_fail: "settled j (Some (fail_job m r default_max_retries t j))"
  by (simp add: settled_def)

lemma settled_lock: "settled (lock_job w t j) jo \<Longrightarrow> settled j jo"
  by (auto simp: settled_def)

lemma run_job_jobs:
  shows "get_job k (s_db (run_job env now aid i s)) =
      (if k = i then get_job k (s_db (run_job env now aid i s)) else get_job k (s_db s))"
    and "get_job i (s_db s) = Some j \<Longrightarrow> settled j (get_job i (s_db (run_job env now aid i s)))"
    and "db_unique (s_db s) \<Longrightarrow> db_unique (s_db (run_job env now aid i s))"
proof -
  obtain r s1 where p: "process_job env now aid (get_job i (s_db s)) s = (r, s1)"
    by (cases "process_job env now aid (get_job i (s_db s)) s")
  have f: "worker_frame (s_db s) (s_db s1)"
    using job_frame.process_keeps [OF p] .
  show "get_job k (s_db (run_job env now aid i s)) =
      (if k = i then get_job k (s_db (run_job env now aid i s)) else get_job k (s_db s))"
  proof (cases r)
    case (Inl e)
    with p show ?thesis by (simp add: run_job_Inl(1) row_simps)
  next
    case (Inr u)
    with p f show ?thesis by (simp add: run_job_Inr row_simps worker_frame_def)
  qed
  show "settled j (get_job i (s_db (run_job env now aid i s)))" if "get_job i (s_db s) = Some j"
  proof (cases r)
    case (Inl e)
    with p that show ?thesis by (simp add: run_job_Inl(1) row_simps settled_fail)
  next
    case (Inr u)
    with p f that show ?thesis
      by (simp add: run_job_Inr row_simps worker_frame_def settled_complete)
  qed
  show "db_unique (s_db (run_job env now aid i s))" if "db_unique (s_db s)"
  proof (cases r)
    case (Inl e)
    with p that show ?thesis by (simp add: run_job_Inl(1) unique_simps)
  next
    case (Inr u)
    with p f that show ?thesis by (simp add: run_job_Inr unique_simps worker_frame_def)
  qed
qed

lemma run_jobs_settle:
  assumes "distinct is" "db_unique (s_db s)"
  shows "db_unique (s_db (run_jobs env clock aids is s)) \<and>
    (\<forall>k. k \<notin> set is \<longrightarrow> get_job k (s_db (run_jobs env clock aids is s)) = get_job k (s_db s)) \<and>
    (\<forall>k \<in> set is. \<forall>j. get_job k (s_db s) = Some j \<longrightarrow>
       settled j (get_job k (s_db (run_jobs env clock aids is s))))"
  using assms
proof (induction "is" arbitrary: s)
  case (Cons i "is")
  let ?s1 = "run_job env (clock i) (aids i) i s"
  have u: "db_unique (s_db ?s1)"
    using run_job_jobs(3) Cons.prems(2) .
  from Cons.prems(1) have d: "distinct is" "i \<notin> set is" by simp_all
  note IH = Cons.IH [OF d(1) u]
  have "get_job k (s_db ?s1) = get_job k (s_db s)" if "k \<noteq> i" for k
    using run_job_jobs(1) [of k env "clock i" "aids i" i s] that by simp
  note same = this
  have "settled j (get_job i (s_db ?s1))" if "get_job i (s_db s) = Some j" for j
    using run_job_jobs(2) that .
  moreover have "get_job i (s_db (run_jobs env clock aids is ?s1)) = get_job i (s_db ?s1)"
    using IH d(2) by blast
  moreover have "settled j (get_job k (s_db (run_jobs env clock aids is ?s1)))"
    if "k \<in> set is" "get_job k (s_db s) = Some j" for k j
  proof -
    from that(1) d(2) have "k \<noteq> i" by auto
    with same that(2) have "get_job k (s_db ?s1) = Some j" by simp
    with IH that(1) show ?thesis by blast
  qed
  ultimately show ?case
    using IH same by auto
qed simp

lemma batch_result:
  assumes "run_single_batch env limit now clock aids s = (n, s')" "db_unique (s_db s)"
  shows "n = length (take limit (due_jobs now (s_db s))) \<and> db_unique (s_db s') \<and>
    (\<forall>j \<in> set (take limit (due_jobs now (s_db s))). settled j (get_job (job_id j) (s_db s'))) \<and>
    (\<forall>k. k \<notin> job_id ` set (take limit (due_jobs now (s_db s))) \<longrightarrow>
       get_job k (s_db s') = get_job k (s_db s))"
proof -
  let ?due = "take limit (due_jobs now (s_db s))"
  let ?F = "\<lambda>j. if j \<in> set ?due then lock_job (we_worker_id env) now j else j"
  let ?d = "jobs_update (map ?F) (s_db s)"
  have claim: "claim_pending_jobs (we_worker_id env) limit now (s_db s) =
      (map (lock_job (we_worker_id env) now) ?due, ?d)"
    by (rule claim_pending_jobs_result [OF assms(2)])
  have "map job_id (map (lock_job (we_worker_id env) now) ?due) = map job_id ?due"
    unfolding map_map by (rule map_cong) simp_all
  then have s': "n = length ?due" "s' = run_jobs env clock aids (map job_id ?due) (s\<lparr>s_db := ?d\<rparr>)"
    using assms(1) unfolding run_single_batch_def claim by (auto simp del: map_map)
  have dist: "distinct (map job_id ?due)"
    using distinct_due_jobs [OF assms(2), of now] by (simp add: take_map [symmetric] distinct_take)
  have ids: "map job_id (map ?F js) = map job_id js" for js
    by (induction js) simp_all
  then have u: "db_unique ?d"
    using assms(2) by (simp add: db_unique_def del: map_map)
  have get: "get_job k ?d = map_option ?F (get_job k (s_db s))" for k
    by (simp add: find_row_map)
  have due: "get_job (job_id j) (s_db s) = Some j" if "j \<in> set ?due" for j
    using that assms(2) by (auto simp: jobs_tab.find_row_iff dest!: in_set_takeD)
  have "db_unique (s_db (s\<lparr>s_db := ?d\<rparr>))"
    using u by simp
  note R = run_jobs_settle [OF dist this, of env clock aids, folded s'(2)]
  have "settled j (get_job (job_id j) (s_db s'))" if "j \<in> set ?due" for j
  proof -
    have "get_job (job_id j) (s_db (s\<lparr>s_db := ?d\<rparr>)) = Some (lock_job (we_worker_id env) now j)"
      using due [OF that] that by (simp add: find_row_map)
    moreover have "job_id j \<in> set (map job_id ?due)"
      using that by simp
    ultimately show ?thesis
      using R by (blast intro: settled_lock)
  qed
  moreover have "get_job k (s_db s') = get_job k (s_db s)" if "k \<notin> job_id ` set ?due" for k
  proof (cases "get_job k (s_db s)")
    case None
    with R that show ?thesis by (simp add: find_row_map)
  next
    case (Some j)
    then have "j \<notin> set ?due"
      using that by (auto dest: find_row_Some)
    with R that Some show ?thesis by (simp add: find_row_map)
  qed
  ultimately show ?thesis
    using R s'(1) by simp
qed

text \<open>C30. No claimed job is left hanging and none can spoil another: after a poll, every job it
  claimed has succeeded or has one more failed attempt and is unlocked, whatever provisioning
  and Telegram did for it or for the others; every other job is as before, and the
  constraints of the database hold.\<close>

theorem batch_settles_jobs:
  assumes "run_single_batch env limit now clock aids s = (n, s')" "db_unique (s_db s)"
  shows "n = length (take limit (due_jobs now (s_db s))) \<and> db_unique (s_db s') \<and>
    (\<forall>j \<in> set (take limit (due_jobs now (s_db s))). settled j (get_job (job_id j) (s_db s'))) \<and>
    (\<forall>k. k \<notin> job_id ` set (take limit (due_jobs now (s_db s))) \<longrightarrow>
       get_job k (s_db s') = get_job k (s_db s))"
  by (rule batch_result [OF assms])

text \<open>A worker with the mock provisioner, a Telegram that takes everything, and the sample job.\<close>

definition sample_draws :: "nat \<Rightarrow> mock_draws" where
  "sample_draws n = \<lparr>dr_hex = ''aabbcc'', dr_private_key = ''cHJpdg=='', dr_psk = ''cHNr'',
     dr_server_key = ''c3J2'', dr_address = n, dr_header_key = ''aGRy'', dr_now = noon\<rparr>"

definition sample_env :: "mock_state worker_env" where
  "sample_env = \<lparr>we_prov = mock_provisioner sample_draws stored, we_tg = (\<lambda>n. True),
     we_link = link_of stored, we_admin_chat_id = 900, we_worker_id = ''w1''\<rparr>"

definition sample_session :: "db \<Rightarrow> mock_state session" where
  "sample_session d = \<lparr>s_db = d, s_peers = \<lparr>mk_peers = [], mk_calls = 0\<rparr>, s_out = []\<rparr>"

theorem batch_settles_jobs_witness:
  "\<exists>s'. run_single_batch sample_env 1 40 (\<lambda>_. 41) (\<lambda>_. 95) (sample_session job_db) = (1, s') \<and>
     settled (sample_job\<lparr>job_id := 9, job_available_at := 25\<rparr>) (get_job 9 (s_db s')) \<and>
     get_job 8 (s_db s') = Some sample_job"
proof -
  obtain n s' where r: "run_single_batch sample_env 1 40 (\<lambda>_. 41) (\<lambda>_. 95) (sample_session job_db)
      = (n, s')"
    by (cases "run_single_batch sample_env 1 40 (\<lambda>_. 41) (\<lambda>_. 95) (sample_session job_db)")
  have u: "db_unique (s_db (sample_session job_db))"
    by (simp add: sample_session_def job_db_unique)
  have t: "take 1 (due_jobs 40 (s_db (sample_session job_db))) =
      [sample_job\<lparr>job_id := 9, job_available_at := 25\<rparr>]"
    and j: "get_job 8 (s_db (sample_session job_db)) = Some sample_job"
    by (simp_all add: sample_session_def due_jobs_def order_by_def claimable_def stale_lock_def
        sample_db_defs)
  from batch_settles_jobs [OF r u, unfolded t] j r show ?thesis by simp
qed

theorem failed_job_rolls_back_witness:
  "\<exists>s'. s' = run_job sample_env 41 95 8 (sample_session (job_db\<lparr>servers := []\<rparr>)) \<and>
     s_db s' = upd_job 8 (fail_job ''Server or User missing for subscription'' False 5 41)
       (job_db\<lparr>servers := []\<rparr>)"
proof -
  let ?s = "sample_session (job_db\<lparr>servers := []\<rparr>)"
  have j: "get_job 8 (s_db ?s) = Some sample_job"
    by (simp add: sample_session_def sample_db_defs)
  have "process_job sample_env 41 95 (Some sample_job) ?s =
      (Inl (PermanentProvisioningError ''Server or User missing for subscription''), ?s)"
    by (simp add: process_job_def create_peer_step_def create_rows_def act_bind_def
        sample_session_def sample_db_defs)
  from failed_job_rolls_back [OF j this] show ?thesis
    by (simp add: sample_session_def)
qed

end
