(* ===== verification/Worker_Outcomes.thy ===== *)
theory Worker_Outcomes
  imports Worker
begin

section \<open>What the worker's jobs achieve\<close>

text \<open>
  Consequences of \<open>src/app/worker/engine.py\<close> for the customer: a create job that gets its peer
  activates the subscription and sends the configuration to its owner and nobody else; an
  expiry job that runs after a renewal does nothing; and two situations in which a paid
  subscription ends up without a working peer.
\<close>

subsection \<open>Constraints after an activation\<close>

lemma distinct_opt_Cons [simp]:
  "distinct_opt (x # xs) \<longleftrightarrow> (x = None \<or> x \<notin> set xs) \<and> distinct_opt xs"
  by (auto simp: distinct_opt_def)

lemma distinct_opt_update:
  assumes "distinct (map key rs)" "distinct_opt (map f rs)" "\<And>r. key (g r) = key r"
    and "\<And>r. f (g r) = Some x" "\<And>r. r \<in> set rs \<Longrightarrow> key r \<noteq> k \<Longrightarrow> f r \<noteq> Some x"
  shows "distinct_opt (map f (update_row key k g rs))"
  using assms
proof (induction rs)
  case (Cons r rs)
  show ?case
  proof (cases "key r = k")
    case True
    then have "update_row key k g rs = rs"
      using Cons.prems(1) by (auto intro: update_row_idle)
    have "f q \<noteq> Some x" if "q \<in> set rs" for q
    proof -
      have "key q \<noteq> k" using Cons.prems(1) True that by (metis distinct.simps(2) image_eqI list.simps(9) set_map)
      with that Cons.prems(5) show ?thesis by simp
    qed
    then have "Some x \<notin> f ` set rs" by (metis imageE)
    with \<open>update_row key k g rs = rs\<close> True Cons.prems(2,4) show ?thesis by simp
  next
    case False
    then have "f r \<noteq> Some x" using Cons.prems(5) by simp
    then have "f r \<in> f ` set (update_row key k g rs) \<Longrightarrow> f r \<in> f ` set rs"
      using Cons.prems(4) by (auto simp: mem_update_row split: if_splits)
    with False Cons show ?thesis by auto
  qed
qed simp

lemma db_unique_activated:
  assumes "db_unique d" "\<And>r. r \<in> set (subs d) \<Longrightarrow> sub_id r \<noteq> i \<Longrightarrow>
      sub_peer_external_id r \<noteq> Some e \<and> sub_peer_label r \<noteq> Some l"
  shows "db_unique (upd_sub i (activated e l) d)"
proof -
  have "distinct_opt (map sub_peer_external_id (update_row sub_id i (activated e l) (subs d)))"
    "distinct_opt (map sub_peer_label (update_row sub_id i (activated e l) (subs d)))"
    using assms by (auto intro!: distinct_opt_update simp: db_unique_def)
  then show ?thesis
    using assms(1) by (simp add: db_unique_def map_update_row)
qed

lemma db_unique_add_audit:
  "db_unique (add_audit e d) \<longleftrightarrow> db_unique d \<and> aud_id e \<notin> aud_id ` set (audits d)"
  by (auto simp: db_unique_def)

subsection \<open>A new peer\<close>

definition is_file :: "out \<times> bool \<Rightarrow> bool" where
  "is_file m = (case fst m of Send_File c f b t k \<Rightarrow> True | _ \<Rightarrow> False)"

lemma deliver_new_peer_result:
  assumes "deliver_new_peer env sub srv u peer s = (r, s1)"
  shows "r = Inr ()" "s_peers s1 = s_peers s"
    and "s_db s1 = upd_sub (sub_id sub) (with_delivery
          (if we_tg env (length (s_out s)) then ''delivered'' else ''failed'')) (s_db s)"
    and "\<exists>ms. s_out s1 = s_out s @ (Send_File (user_telegram_id u) (pp_filename peer)
          (pp_config peer) (create_caption srv sub (user_language_code u)) [],
          we_tg env (length (s_out s))) # ms \<and> list_all (\<lambda>m. \<not> is_file m) ms"
  using assms
  by (auto simp: deliver_new_peer_def deliver_config_def act_bind_def tg_send_def set_act_def
      done_act_def alert_admin_def Let_def is_file_def split: option.splits if_splits)

lemma activate_rows_result:
  assumes "db_unique (s_db s)" "get_sub (sub_id sub) (s_db s) = Some sub"
    and "aid \<notin> aud_id ` set (audits (s_db s))"
    and "\<And>r. r \<in> set (subs (s_db s)) \<Longrightarrow> sub_id r \<noteq> sub_id sub \<Longrightarrow>
      sub_peer_external_id r \<noteq> Some (pp_external_id peer) \<and>
      sub_peer_label r \<noteq> Some (pp_label peer)"
  shows "\<exists>a. activate_rows now aid sub srv peer s = (Inr (), s\<lparr>s_db :=
      add_audit a (upd_order (sub_order_id sub) (with_order_status FULFILLED)
        (upd_sub (sub_id sub) (activated (pp_external_id peer) (pp_label peer)) (s_db s)))\<rparr>) \<and>
    aud_id a = aid \<and> aud_event_type a = ''subscription.activated'' \<and>
    aud_entity_id a = Some (sub_id sub)"
proof -
  let ?d1 = "upd_sub (sub_id sub) (activated (pp_external_id peer) (pp_label peer)) (s_db s)"
  have u: "db_unique ?d1"
    using db_unique_activated [OF assms(1), of "sub_id sub"] assms(4) by blast
  then have "db_unique (upd_order (sub_order_id sub) (with_order_status FULFILLED) ?d1)"
    by (simp add: unique_simps)
  with u assms(2,3) show ?thesis
    by (auto simp: activate_rows_def act_bind_def db_act_def set_act_def mark_active_def
        system_event_def record_event_def db_unique_add_audit new_audit_def)
qed

lemma create_job_result:
  assumes "get_job jid (s_db s) = Some j" "job_job_type j = CREATE_PEER"
    and "get_sub (job_aggregate_id j) (s_db s) = Some sub"
    and "get_server (sub_server_id sub) (s_db s) = Some srv"
    and "get_user (sub_user_id sub) (s_db s) = Some u"
    and "pv_create (we_prov env) srv (sub_id sub) (user_telegram_id u) (s_peers s) = (Inr peer, p')"
    and "db_unique (s_db s)" "aid \<notin> aud_id ` set (audits (s_db s))"
    and "\<forall>r \<in> set (subs (s_db s)). sub_id r \<noteq> sub_id sub \<longrightarrow>
      sub_peer_external_id r \<noteq> Some (pp_external_id peer) \<and> sub_peer_label r \<noteq> Some (pp_label peer)"
    and "s' = run_job env now aid jid s"
  shows "\<exists>sub' ms. get_sub (sub_id sub) (s_db s') = Some sub' \<and> sub_status sub' = ACTIVE \<and>
    sub_peer_external_id sub' = Some (pp_external_id peer) \<and>
    sub_peer_label sub' = Some (pp_label peer) \<and> sub_expires_at sub' = sub_expires_at sub \<and>
    sub_delivery_status sub' =
      (if we_tg env (length (s_out s)) then ''delivered'' else ''failed'') \<and>
    get_job jid (s_db s') = Some (complete_job now j) \<and> s_peers s' = p' \<and>
    orders (s_db s') = update_row ord_id (sub_order_id sub) (with_order_status FULFILLED)
      (orders (s_db s)) \<and>
    s_out s' = s_out s @ (Send_File (user_telegram_id u) (pp_filename peer) (pp_config peer)
      (create_caption srv sub (user_language_code u)) [], we_tg env (length (s_out s))) # ms \<and>
    list_all (\<lambda>m. \<not> is_file m) ms"
proof -
  have sub: "get_sub (sub_id sub) (s_db s) = Some sub"
    using assms(3) get_sub_id [OF assms(3)] by simp
  let ?s1 = "s\<lparr>s_peers := p'\<rparr>"
  obtain a where a: "activate_rows now aid sub srv peer ?s1 = (Inr (), ?s1\<lparr>s_db :=
      add_audit a (upd_order (sub_order_id sub) (with_order_status FULFILLED)
        (upd_sub (sub_id sub) (activated (pp_external_id peer) (pp_label peer)) (s_db s)))\<rparr>)"
    using activate_rows_result [of ?s1 sub aid peer now srv] assms(7-9) sub by auto
  let ?s2 = "?s1\<lparr>s_db := add_audit a (upd_order (sub_order_id sub) (with_order_status FULFILLED)
        (upd_sub (sub_id sub) (activated (pp_external_id peer) (pp_label peer)) (s_db s)))\<rparr>"
  obtain r s3 where d: "deliver_new_peer env sub srv u peer ?s2 = (r, s3)"
    by (cases "deliver_new_peer env sub srv u peer ?s2")
  note res = deliver_new_peer_result [OF d]
  have "create_rows j (s_db s) = Inr (sub, srv, u)"
    using assms(3-5) by (simp add: create_rows_def)
  then have "process_job env now aid (get_job jid (s_db s)) s = (Inr (), s3)"
    using assms(1,2,6) a d res(1)
    by (simp add: process_job_def create_peer_step_def act_bind_def peer_act_def)
  from run_job_Inr [OF this] assms(10)
  have s': "s' = s3\<lparr>s_db := snd (mark_completed jid now (s_db s3))\<rparr>" by simp
  have db: "jobs (s_db s') = update_row job_id jid (complete_job now) (jobs (s_db s))"
    "subs (s_db s') = subs (s_db s3)" "orders (s_db s') = orders (s_db s3)"
    using assms(1) by (simp_all add: s' res(3) mark_completed_def)
  have "get_job jid (s_db s') = Some (complete_job now j)"
    using assms(1) by (simp add: db(1) find_update_row)
  moreover have "get_sub (sub_id sub) (s_db s') = Some (with_delivery
      (if we_tg env (length (s_out s)) then ''delivered'' else ''failed'')
      (activated (pp_external_id peer) (pp_label peer) sub))"
    using sub by (simp add: db(2) res(3) find_update_row)
  moreover have "orders (s_db s') = update_row ord_id (sub_order_id sub)
      (with_order_status FULFILLED) (orders (s_db s))"
    by (simp add: db(3) res(3))
  moreover have "s_peers s' = p'" "s_out s' = s_out s3"
    by (simp_all add: s' res(2))
  ultimately show ?thesis
    using res(4) by simp
qed

text \<open>C31. A create job that gets its peer gives the customer what was paid for: the
  subscription is active with that peer until its unchanged end, its order is fulfilled, the
  configuration of exactly this peer is sent to the owner of the subscription and to nobody
  else, whether that succeeded is recorded, and the job is done even if Telegram failed.\<close>

theorem create_job_delivers:
  assumes "get_job jid (s_db s) = Some j" "job_job_type j = CREATE_PEER"
    and "get_sub (job_aggregate_id j) (s_db s) = Some sub"
    and "get_server (sub_server_id sub) (s_db s) = Some srv"
    and "get_user (sub_user_id sub) (s_db s) = Some u"
    and "pv_create (we_prov env) srv (sub_id sub) (user_telegram_id u) (s_peers s) = (Inr peer, p')"
    and "db_unique (s_db s)" "aid \<notin> aud_id ` set (audits (s_db s))"
    and "\<forall>r \<in> set (subs (s_db s)). sub_id r \<noteq> sub_id sub \<longrightarrow>
      sub_peer_external_id r \<noteq> Some (pp_external_id peer) \<and> sub_peer_label r \<noteq> Some (pp_label peer)"
    and "s' = run_job env now aid jid s"
  shows "\<exists>sub' ms. get_sub (sub_id sub) (s_db s') = Some sub' \<and> sub_status sub' = ACTIVE \<and>
    sub_peer_external_id sub' = Some (pp_external_id peer) \<and>
    sub_peer_label sub' = Some (pp_label peer) \<and> sub_expires_at sub' = sub_expires_at sub \<and>
    sub_delivery_status sub' =
      (if we_tg env (length (s_out s)) then ''delivered'' else ''failed'') \<and>
    get_job jid (s_db s') = Some (complete_job now j) \<and> s_peers s' = p' \<and>
    orders (s_db s') = update_row ord_id (sub_order_id sub) (with_order_status FULFILLED)
      (orders (s_db s)) \<and>
    s_out s' = s_out s @ (Send_File (user_telegram_id u) (pp_filename peer) (pp_config peer)
      (create_caption srv sub (user_language_code u)) [], we_tg env (length (s_out s))) # ms \<and>
    list_all (\<lambda>m. \<not> is_file m) ms"
  by (rule create_job_result [OF assms])

theorem create_job_delivers_witness:
  "\<exists>s' sub'. s' = run_job sample_env 41 95 8 (sample_session (job_db\<lparr>subs :=
       [sample_sub\<lparr>sub_status := S_PROVISIONING, sub_peer_external_id := None,
                  sub_peer_label := None\<rparr>]\<rparr>)) \<and>
     get_sub 6 (s_db s') = Some sub' \<and> sub_status sub' = ACTIVE \<and>
     sub_peer_external_id sub' = Some ''peer_aabbcc'' \<and> sub_delivery_status sub' = ''delivered''"
proof -
  let ?sub = "sample_sub\<lparr>sub_status := S_PROVISIONING, sub_peer_external_id := None,
     sub_peer_label := None\<rparr>"
  let ?s = "sample_session (job_db\<lparr>subs := [?sub]\<rparr>)"
  obtain peer p' where c: "pv_create (we_prov sample_env) sample_server (sub_id ?sub)
      (user_telegram_id sample_user) (s_peers ?s) = (Inr peer, p')"
    and e: "pp_external_id peer = ''peer_aabbcc''"
    by (simp add: sample_env_def mock_provisioner_def mock_create_peer_def sample_session_def
        sample_draws_def Let_def)
  have rows: "get_job 8 (s_db ?s) = Some sample_job" "job_job_type sample_job = CREATE_PEER"
    "get_sub (job_aggregate_id sample_job) (s_db ?s) = Some ?sub"
    "get_server (sub_server_id ?sub) (s_db ?s) = Some sample_server"
    "get_user (sub_user_id ?sub) (s_db ?s) = Some sample_user"
    by (simp_all add: sample_session_def sample_db_defs)
  have u: "db_unique (s_db ?s)" "95 \<notin> aud_id ` set (audits (s_db ?s))"
    "\<forall>r \<in> set (subs (s_db ?s)). sub_id r \<noteq> sub_id ?sub \<longrightarrow>
      sub_peer_external_id r \<noteq> Some (pp_external_id peer) \<and> sub_peer_label r \<noteq> Some (pp_label peer)"
    by (simp_all add: sample_session_def db_unique_def distinct_opt_def sample_db_defs)
  have "we_tg sample_env (length (s_out ?s))" "sub_id ?sub = 6"
    by (simp_all add: sample_env_def sample_defs)
  with create_job_delivers [OF rows c u refl, of 41] e show ?thesis
    by auto
qed

subsection \<open>Expiry jobs and renewals\<close>

lemma off_step_renewed:
  assumes "get_sub (job_aggregate_id j) (s_db s) = Some sub" "renewed now sub j"
  shows "peer_off_step now j call mark aid ev s = (Inr (), s)"
  using assms by (simp add: peer_off_step_def done_act_def)

lemma run_job_renewed:
  assumes "get_job jid (s_db s) = Some j" "job_job_type j = DISABLE_PEER \<or> job_job_type j = REMOVE_PEER"
    and "get_sub (job_aggregate_id j) (s_db s) = Some sub" "renewed now sub j"
  shows "run_job env now aid jid s = s\<lparr>s_db := upd_job jid (complete_job now) (s_db s)\<rparr>"
proof -
  have "process_job env now aid (get_job jid (s_db s)) s = (Inr (), s)"
    using assms off_step_renewed [OF assms(3,4)]
    by (auto simp: process_job_def disable_peer_step_def remove_peer_step_def)
  from run_job_Inr [OF this] show ?thesis
    by (simp add: mark_completed_def assms(1))
qed

text \<open>C14. A renewal is never undone by the expiry it came after: a disable or remove job that
  the scheduler queued runs without effect once the subscription is active and paid beyond
  now. It asks nothing of the VPN server, sends nothing, changes no row but its own and is
  done.\<close>

theorem renewal_survives_expiry_jobs:
  assumes "get_job jid (s_db s) = Some j" "job_job_type j \<in> {DISABLE_PEER, REMOVE_PEER}"
    and "map_of (job_payload j) ''reason'' \<in>
      {Some (JStr ''subscription_expired''), Some (JStr ''grace_period_expired'')}"
    and "get_sub (job_aggregate_id j) (s_db s) = Some sub"
    and "sub_status sub = ACTIVE" "now < sub_expires_at sub"
    and "s' = run_job env now aid jid s"
  shows "s_peers s' = s_peers s \<and> s_out s' = s_out s \<and>
    s_db s' = upd_job jid (complete_job now) (s_db s) \<and>
    get_job jid (s_db s') = Some (complete_job now j) \<and> job_status (complete_job now j) = SUCCEEDED"
proof -
  have "renewed now sub j"
    using assms(3,5,6) by (auto simp: renewed_def expiry_reasons_def)
  then have "s' = s\<lparr>s_db := upd_job jid (complete_job now) (s_db s)\<rparr>"
    using assms(1,2,4,7) run_job_renewed by blast
  then show ?thesis
    by (simp add: find_update_row assms(1))
qed

definition disable_job :: job where
  "disable_job = sample_job\<lparr>job_job_type := DISABLE_PEER,
     job_payload := [(''reason'', JStr ''subscription_expired'')]\<rparr>"

theorem renewal_survives_expiry_jobs_witness:
  "\<exists>s'. s' = run_job sample_env (noon - 1) 95 8 (sample_session (sub_db\<lparr>jobs := [disable_job]\<rparr>)) \<and>
     subs (s_db s') = [sample_sub] \<and> s_out s' = []"
proof -
  let ?s = "sample_session (sub_db\<lparr>jobs := [disable_job]\<rparr>)"
  have rows: "get_job 8 (s_db ?s) = Some disable_job"
    "job_job_type disable_job \<in> {DISABLE_PEER, REMOVE_PEER}"
    "map_of (job_payload disable_job) ''reason'' \<in>
      {Some (JStr ''subscription_expired''), Some (JStr ''grace_period_expired'')}"
    "get_sub (job_aggregate_id disable_job) (s_db ?s) = Some sample_sub"
    "sub_status sample_sub = ACTIVE" "noon - 1 < sub_expires_at sample_sub"
    by (simp_all add: sample_session_def disable_job_def sample_db_defs)
  show ?thesis
    using renewal_survives_expiry_jobs [OF rows refl, of sample_env 95]
    by (simp add: sample_session_def sample_db_defs)
qed

text \<open>A paid subscription can be left without its peer. When a disable call took effect on
  the VPN server but failed for the worker (a timeout, a crash before the commit) and the
  customer's renewal is approved before the retry, the approval finds the subscription still
  active and queues no enable job, and the retry sees a renewed subscription and does nothing:
  the subscription is active and paid, the VPN server stays as the failed call left it, and
  no job is queued that would turn the peer on.\<close>

theorem renewal_after_lost_disable:
  assumes "get_job jid (s_db s) = Some j" "job_job_type j = DISABLE_PEER"
    and "map_of (job_payload j) ''reason'' = Some (JStr ''subscription_expired'')"
    and "process_job env now aid (Some j) s = (Inl e, s1)"
    and "s2 = run_job env now aid jid s"
    and "get_order oid (s_db s2) = Some r" "renewable_subscription r (s_db s2) = Some sub"
    and "sub_id sub = job_aggregate_id j" "sub_status sub = ACTIVE"
    and "approve_order_atomic t sid jid2 aid2 oid admin (s_db s2) = Inr ((True, Some sub', jo), d)"
    and "now3 < sub_expires_at sub'" "s3 = run_job env now3 aid3 jid (s2\<lparr>s_db := d\<rparr>)"
    and "\<not> has_open_job ENABLE_PEER (sub_id sub) (s_db s)"
  shows "get_sub (sub_id sub) (s_db s3) = Some sub' \<and> sub_status sub' = ACTIVE \<and>
    s_peers s3 = s_peers s1 \<and> \<not> has_open_job ENABLE_PEER (sub_id sub) (s_db s3) \<and>
    (\<exists>j'. get_job jid (s_db s3) = Some j' \<and> job_status j' = SUCCEEDED)"
proof -
  let ?f = "fail_job (exn_str e) (\<not> is_permanent e) 5 now"
  have s2: "s_db s2 = upd_job jid ?f (s_db s)" "s_peers s2 = s_peers s1"
    using failed_job_result [OF assms(1,4)] assms(5) by simp_all
  note ren = approve_renewal_result [OF assms(10,6,7)]
  have jobs: "jobs d = jobs (s_db s2)" and sub': "get_sub (sub_id sub) d = Some sub'"
    "sub_status sub' = ACTIVE"
    using ren assms(9) by (auto split: if_splits)
  have j: "get_job jid d = Some (?f j)"
    using assms(1) by (simp add: jobs s2(1) find_update_row)
  have "renewed now3 sub' (?f j)"
    using sub'(2) assms(3,11) by (simp add: renewed_def expiry_reasons_def)
  then have s3: "s3 = s2\<lparr>s_db := upd_job jid (complete_job now3) d\<rparr>"
    using run_job_renewed [of jid "s2\<lparr>s_db := d\<rparr>" "?f j" sub' now3 env aid3] j sub'(1) assms(2,8,12)
    by simp
  have "\<not> has_open_job ENABLE_PEER (sub_id sub) (s_db s3)"
  proof -
    have mem: "\<exists>r \<in> set js. q = (if job_id r = jid then f r else r)"
      if "q \<in> set (update_row job_id jid f js)" for q f js
      using that by (simp only: mem_update_row)
    have "job_status q = SUCCEEDED" if q: "q \<in> set (jobs (s_db s3))" "job_id q = jid" for q
    proof -
      from q(1) have "q \<in> set (update_row job_id jid (complete_job now3) (jobs d))"
        by (simp add: s3)
      from mem [OF this] q(2) show ?thesis by (metis complete_job_fields(5))
    qed
    moreover have "q \<in> set (jobs (s_db s))" if q: "q \<in> set (jobs (s_db s3))" "job_id q \<noteq> jid" for q
    proof -
      from q(1) have "q \<in> set (update_row job_id jid (complete_job now3)
          (update_row job_id jid ?f (jobs (s_db s))))"
        by (simp add: s3 jobs s2(1))
      from mem [OF this] mem q(2) show ?thesis by (metis complete_job_fields(1) fail_job_fields(1))
    qed
    moreover have "has_open_job ty x y \<longleftrightarrow> (\<exists>q \<in> set (jobs y). job_job_type q = ty \<and>
        job_aggregate_id q = x \<and> job_status q \<in> set open_statuses)" for ty x y
      by (simp add: has_open_job_def list_ex_iff)
    moreover have "SUCCEEDED \<notin> set open_statuses"
      by (simp add: open_statuses_def)
    ultimately show ?thesis
      using assms(13) by metis
  qed
  with sub' j show ?thesis
    by (simp add: s3 s2(2) find_update_row)
qed

text \<open>A VPN server that switches the peer off but whose answer is lost.\<close>

definition lossy_env :: "mock_state worker_env" where
  "lossy_env = sample_env\<lparr>we_prov := (we_prov sample_env)\<lparr>pv_disable := \<lambda>srv x p.
     (Inl (RetryableProvisioningError ''timed out''), snd (mock_set_active False srv x p))\<rparr>\<rparr>"

definition lost_db :: db where
  "lost_db = renewal_db\<lparr>subs := [sample_sub], jobs := [disable_job]\<rparr>"

definition lost_session :: "mock_state session" where
  "lost_session = (sample_session lost_db)\<lparr>s_peers := \<lparr>mk_peers = [(''p6'',
     \<lparr>mp_label = ''p6'', mp_filename = ''p6.conf'', mp_config = [], mp_active = True,
      mp_created_at = 0, mp_vpn_url = None\<rparr>)], mk_calls = 0\<rparr>\<rparr>"

lemmas lost_defs = lost_session_def lost_db_def renewal_db_def renewal_order_def disable_job_def
  sample_session_def sample_db_defs

lemma lost_approval:
  "\<exists>s d. approve_order_atomic (noon + 2) 16 18 90 14 777 (upd_job 8 (fail_job m b 5 t) lost_db) =
       Inr ((True, Some s, None), d)
     \<and> sub_expires_at s = noon + 2 + 30 * day"
  by (simp add: approve_defs lost_defs time_units Let_def)

theorem renewal_after_lost_disable_witness:
  "\<exists>s2 s3 d sub'. s2 = run_job lossy_env (noon + 1) 95 8 lost_session \<and>
     s3 = run_job lossy_env (noon + 3) 96 8 (s2\<lparr>s_db := d\<rparr>) \<and>
     ''p6'' \<in> mock_on (s_peers lost_session) \<and> get_sub 6 (s_db s3) = Some sub' \<and>
     sub_status sub' = ACTIVE \<and> sub_expires_at sub' = noon + 2 + 30 * day \<and>
     s_peers s3 = s_peers s2 \<and> ''p6'' \<notin> mock_on (s_peers s3)"
proof -
  obtain s1 where p: "process_job lossy_env (noon + 1) 95 (Some disable_job) lost_session =
      (Inl (RetryableProvisioningError ''timed out''), s1)"
    and off: "''p6'' \<notin> mock_on (s_peers s1)"
    by (simp add: process_job_def disable_peer_step_def peer_off_step_def renewed_def has_peer_def
        act_bind_def peer_act_def lossy_env_def mock_set_active_def mock_on_def lost_defs)
  let ?s2 = "run_job lossy_env (noon + 1) 95 8 lost_session"
  have j: "get_job 8 (s_db lost_session) = Some disable_job"
    by (simp add: lost_defs)
  have s2: "s_db ?s2 = upd_job 8 (fail_job ''timed out'' True 5 (noon + 1)) lost_db"
    "s_peers ?s2 = s_peers s1"
    using failed_job_result [OF j p] by (simp_all add: lost_session_def sample_session_def)
  obtain sub' d where a: "approve_order_atomic (noon + 2) 16 18 90 14 777 (s_db ?s2) =
       Inr ((True, Some sub', None), d)" and e: "sub_expires_at sub' = noon + 2 + 30 * day"
    using lost_approval unfolding s2(1) by blast
  have r: "get_order 14 (s_db ?s2) = Some renewal_order"
    "renewable_subscription renewal_order (s_db ?s2) = Some sample_sub"
    unfolding s2(1) by (simp_all add: renewable_subscription_def has_peer_def lost_defs)
  have f: "job_job_type disable_job = DISABLE_PEER"
    "map_of (job_payload disable_job) ''reason'' = Some (JStr ''subscription_expired'')"
    "sub_id sample_sub = job_aggregate_id disable_job" "sub_status sample_sub = ACTIVE"
    "noon + 3 < sub_expires_at sub'"
    "\<not> has_open_job ENABLE_PEER (sub_id sample_sub) (s_db lost_session)" "sub_id sample_sub = 6"
    by (simp_all add: e has_open_job_def lost_defs time_units)
  have on: "''p6'' \<in> mock_on (s_peers lost_session)"
    by (simp add: lost_session_def mock_on_def)
  let ?s3 = "run_job lossy_env (noon + 3) 96 8 (?s2\<lparr>s_db := d\<rparr>)"
  have g: "get_sub 6 (s_db ?s3) = Some sub'" "sub_status sub' = ACTIVE"
    "s_peers ?s3 = s_peers s1"
    using renewal_after_lost_disable [OF j f(1,2) p refl r f(3,4) a f(5) refl f(6)] f(7)
    by simp_all
  have same: "s_peers ?s3 = s_peers ?s2"
    using g(3) s2(2) by (rule trans [OF _ sym])
  have gone: "''p6'' \<notin> mock_on (s_peers ?s3)"
    unfolding g(3) by (rule off)
  show ?thesis
    using on g e same gone by blast
qed

subsection \<open>The mock's labels\<close>

text \<open>With the mock provisioner, the default mode, a customer cannot have two
  subscriptions on one server: both peers get the same label, the label is a unique column,
  so activating the second is refused and its create job fails with the database unchanged,
  on every retry.\<close>

theorem mock_second_subscription_refused:
  assumes "we_prov env = mock_provisioner draws zc"
    and "get_sub (job_aggregate_id j) (s_db s) = Some sub" "job_job_type j = CREATE_PEER"
    and "get_server (sub_server_id sub) (s_db s) = Some srv"
    and "get_user (sub_user_id sub) (s_db s) = Some u"
    and "first \<in> set (subs (s_db s))" "sub_id first \<noteq> sub_id sub"
    and "sub_peer_label first = Some (mock_label (user_telegram_id u) srv)"
  shows "\<exists>s1. process_job env now aid (Some j) s = (Inl IntegrityError, s1) \<and> s_db s1 = s_db s"
proof -
  have sub: "get_sub (sub_id sub) (s_db s) = Some sub"
    using assms(2) get_sub_id [OF assms(2)] by simp
  obtain peer p' where c: "pv_create (we_prov env) srv (sub_id sub) (user_telegram_id u) (s_peers s)
      = (Inr peer, p')" and l: "pp_label peer = mock_label (user_telegram_id u) srv"
    by (simp add: assms(1) mock_provisioner_def mock_create_peer_def Let_def)
  let ?g = "activated (pp_external_id peer) (pp_label peer)"
  have "\<not> distinct_opt (map sub_peer_label (update_row sub_id (sub_id sub) ?g ss))"
    if "first \<in> set ss" "sub \<in> set ss" for ss
    using that
  proof (induction ss)
    case (Cons q ss)
    have in1: "Some (pp_label peer) \<in> sub_peer_label ` set (update_row sub_id (sub_id sub) ?g ss)"
      if "first \<in> set ss"
    proof -
      have "first \<in> set (update_row sub_id (sub_id sub) ?g ss)"
        using that assms(7) by (auto simp: mem_update_row)
      with l assms(8) show ?thesis by (metis image_eqI)
    qed
    have in2: "Some (pp_label peer) \<in> sub_peer_label ` set (update_row sub_id (sub_id sub) ?g ss)"
      if "sub \<in> set ss"
    proof -
      have "?g sub \<in> set (update_row sub_id (sub_id sub) ?g ss)"
        using that by (auto simp: mem_update_row)
      then show ?thesis by (metis activated_fields(8) image_eqI)
    qed
    consider "first \<in> set ss" "sub \<in> set ss" | "q = first" "sub \<in> set ss" | "q = sub" "first \<in> set ss"
      using Cons.prems assms(7) by auto
    then show ?case
    proof cases
      case 1
      with Cons.IH show ?thesis by simp
    next
      case 2
      with in2 assms(7,8) l show ?thesis by simp
    next
      case 3
      with in1 show ?thesis by simp
    qed
  qed simp
  then have "\<not> distinct_opt (map sub_peer_label (update_row sub_id (sub_id sub) ?g (subs (s_db s))))"
    using assms(6) sub by (meson find_row_Some)
  then have "flush (upd_sub (sub_id sub) ?g (s_db s)) = Inl IntegrityError"
    by (simp add: flush_def db_unique_def)
  then have "mark_active (sub_id sub) (pp_external_id peer) (pp_label peer) (s_db s) =
      Inl IntegrityError"
    using sub by (simp add: mark_active_def)
  moreover have "create_rows j (s_db s) = Inr (sub, srv, u)"
    using assms(2,4,5) by (simp add: create_rows_def)
  ultimately have "process_job env now aid (Some j) s = (Inl IntegrityError, s\<lparr>s_peers := p'\<rparr>)"
    using assms(3) c
    by (simp add: process_job_def create_peer_step_def act_bind_def peer_act_def activate_rows_def
        db_act_def)
  then show ?thesis by simp
qed

definition first_sub :: subscription where
  "first_sub = sample_sub\<lparr>sub_peer_label := Some (mock_label 5001 sample_server)\<rparr>"

definition second_sub :: subscription where
  "second_sub = sample_sub\<lparr>sub_id := 26, sub_order_id := 24, sub_status := S_PROVISIONING,
     sub_peer_external_id := None, sub_peer_label := None\<rparr>"

definition second_job :: job where
  "second_job = sample_job\<lparr>job_aggregate_id := 26\<rparr>"

theorem mock_second_subscription_refused_witness:
  "\<exists>s1. process_job sample_env 41 95 (Some second_job)
     (sample_session (sub_db\<lparr>subs := [first_sub, second_sub]\<rparr>)) = (Inl IntegrityError, s1)"
proof -
  let ?s = "sample_session (sub_db\<lparr>subs := [first_sub, second_sub]\<rparr>)"
  have env: "we_prov sample_env = mock_provisioner sample_draws stored"
    by (simp add: sample_env_def)
  have sub: "get_sub (job_aggregate_id second_job) (s_db ?s) = Some second_sub"
    and job: "job_job_type second_job = CREATE_PEER"
    by (simp_all add: second_job_def first_sub_def second_sub_def sample_session_def sample_defs)
  have srv: "get_server (sub_server_id second_sub) (s_db ?s) = Some sample_server"
    and user: "get_user (sub_user_id second_sub) (s_db ?s) = Some sample_user"
    by (simp_all add: second_sub_def sample_session_def sample_db_defs)
  have old: "first_sub \<in> set (subs (s_db ?s))" "sub_id first_sub \<noteq> sub_id second_sub"
    by (simp add: sample_session_def) (simp add: first_sub_def second_sub_def sample_defs)
  have label: "sub_peer_label first_sub =
      Some (mock_label (user_telegram_id sample_user) sample_server)"
    by (simp add: first_sub_def sample_user_def)
  obtain s1 where "process_job sample_env 41 95 (Some second_job) ?s = (Inl IntegrityError, s1) \<and>
      s_db s1 = s_db ?s"
    using mock_second_subscription_refused [OF env sub job srv user old label, of 41 95] ..
  from conjunct1 [OF this] show ?thesis by (rule exI)
qed

end
