(* ===== verification/Scheduler.thy ===== *)
theory Scheduler
  imports Orders Sessions
begin

section \<open>The scheduler\<close>

text \<open>
  \<open>src/app/scheduler/service.py\<close>: three periodic checks, each one transaction over the
  subscriptions it selects: reminders before the end, disable jobs and a message at the end,
  remove jobs after the grace period. A message that could not be sent is not sent again (its
  key is stored); an exception rolls the whole check back, though messages already sent stay
  sent. The identifiers of new rows are functions of the subscription. The lemmas: reminders
  go out once per threshold and end date, jobs never stack, and nothing is removed early.
\<close>

record sched_env =
  sc_tg :: "nat \<Rightarrow> bool"
  sc_reminder_days :: "int list"
  sc_grace_days :: int

text \<open>\<open>sorted(reminder_days or [7, 3, 1], reverse=True)\<close>.\<close>

definition reminder_list :: "sched_env \<Rightarrow> int list" where
  "reminder_list env =
     rev (sort (if sc_reminder_days env = [] then [7, 3, 1] else sc_reminder_days env))"

definition matched_day :: "sched_env \<Rightarrow> int \<Rightarrow> int option" where
  "matched_day env days_left = find (\<lambda>th. days_left \<le> th) (sort (reminder_list env))"

definition reminder_type :: "int \<Rightarrow> notification_type" where
  "reminder_type m = (if m = 3 then EXPIRES_3D else if m = 7 then EXPIRES_7D else EXPIRES_1D)"

definition reminder_key :: "subscription \<Rightarrow> int \<Rightarrow> string" where
  "reminder_key s m =
     ''sub_'' @ uuid_str (sub_id s) @ ''_reminder_'' @ show_int m @ ''d_''
     @ strftime_day (sub_expires_at s)"

definition reminder_message :: "subscription \<Rightarrow> vpn_server \<Rightarrow> user \<Rightarrow> int \<Rightarrow> out" where
  "reminder_message s srv u m =
     Send (user_telegram_id u)
       (get_text ''expiring_soon'' (user_language_code u)
          [(''server_name'', server_name srv (user_language_code u)),
           (''expires_at'', Plain (strftime_minutes (sub_expires_at s))),
           (''days'', Plain (show_int m))])
       [''renew_'' @ uuid_str (sub_id s)]"

text \<open>Send to the owner when both the owner and the server are still there.\<close>

definition notify_owner ::
  "sched_env \<Rightarrow> subscription \<Rightarrow> (vpn_server \<Rightarrow> user \<Rightarrow> out) \<Rightarrow> (bool, unit) act" where
  "notify_owner env s msg st =
     (case (get_user (sub_user_id s) (s_db st), get_server (sub_server_id s) (s_db st)) of
        (Some u, Some srv) \<Rightarrow> tg_send (sc_tg env) (msg srv u) st
      | _ \<Rightarrow> return_act False st)"

definition due_reminder :: "sched_env \<Rightarrow> datetime \<Rightarrow> subscription \<Rightarrow> int option" where
  "due_reminder env now s =
     (let time_left = sub_expires_at s - now
      in if time_left \<le> 0 then None else matched_day env (time_left div day))"

definition remind_one ::
  "sched_env \<Rightarrow> datetime \<Rightarrow> (uuid \<Rightarrow> uuid) \<Rightarrow> subscription \<Rightarrow> (int, unit) act" where
  "remind_one env now nids s =
     (case due_reminder env now s of
        None \<Rightarrow> return_act 0
      | Some m \<Rightarrow>
          act_bind (db_act (create_notification_if_not_exists (nids (sub_id s)) (sub_user_id s)
              (reminder_type m) (reminder_key s m) None)) (\<lambda>created.
            if \<not> created then return_act 0
            else act_bind (notify_owner env s (\<lambda>srv u. reminder_message s srv u m))
                   (\<lambda>sent. return_act (if sent then 1 else 0))))"

definition check_expiring_subscriptions ::
  "sched_env \<Rightarrow> datetime \<Rightarrow> (uuid \<Rightarrow> uuid) \<Rightarrow> (int, unit) act" where
  "check_expiring_subscriptions env now nids s =
     (case add_days now (Max (set (reminder_list env))) of
        Inl e \<Rightarrow> (Inl e, s)
      | Inr window \<Rightarrow>
          in_transaction (sum_act (remind_one env now nids) (list_expiring_soon window now (s_db s))) s)"

subsection \<open>At expiry\<close>

definition expired_key :: "subscription \<Rightarrow> string" where
  "expired_key s = ''sub_'' @ uuid_str (sub_id s) @ ''_expired_'' @ strftime_day (sub_expires_at s)"

definition expired_message :: "subscription \<Rightarrow> vpn_server \<Rightarrow> user \<Rightarrow> out" where
  "expired_message s srv u =
     Send (user_telegram_id u)
       (get_text ''expired'' (user_language_code u)
          [(''server_name'', server_name srv (user_language_code u))])
       [''renew_'' @ uuid_str (sub_id s)]"

definition expiry_job :: "datetime \<Rightarrow> (uuid \<Rightarrow> uuid) \<Rightarrow> subscription \<Rightarrow> job" where
  "expiry_job now jids s =
     new_job now (jids (sub_id s)) DISABLE_PEER ''subscription'' (sub_id s)
       [(''reason'', JStr ''subscription_expired'')] None"

definition enqueue_for :: "job \<Rightarrow> (job, unit) act" where
  "enqueue_for j = db_act (\<lambda>d. bind_res (flush (jobs_update (\<lambda>js. js @ [j]) d)) (\<lambda>d'. Inr (j, d')))"

definition expire_one ::
  "sched_env \<Rightarrow> datetime \<Rightarrow> (uuid \<Rightarrow> uuid) \<Rightarrow> (uuid \<Rightarrow> uuid) \<Rightarrow> subscription \<Rightarrow> (int, unit) act" where
  "expire_one env now jids nids s st =
     (if has_open_job DISABLE_PEER (sub_id s) (s_db st) then (Inr 0, st)
      else act_bind (enqueue_for (expiry_job now jids s)) (\<lambda>_.
           act_bind (db_act (create_notification_if_not_exists (nids (sub_id s)) (sub_user_id s)
               N_EXPIRED (expired_key s) None)) (\<lambda>created.
             if \<not> created then return_act 1
             else act_bind (notify_owner env s (expired_message s)) (\<lambda>_. return_act 1))) st)"

definition expired_subs :: "datetime \<Rightarrow> db \<Rightarrow> subscription list" where
  "expired_subs now d = filter (\<lambda>s. sub_status s = ACTIVE \<and> sub_expires_at s \<le> now) (subs d)"

definition check_expired_subscriptions ::
  "sched_env \<Rightarrow> datetime \<Rightarrow> (uuid \<Rightarrow> uuid) \<Rightarrow> (uuid \<Rightarrow> uuid) \<Rightarrow> (int, unit) act" where
  "check_expired_subscriptions env now jids nids s =
     in_transaction (sum_act (expire_one env now jids nids) (expired_subs now (s_db s))) s"

subsection \<open>After the grace period\<close>

definition removal_job :: "datetime \<Rightarrow> (uuid \<Rightarrow> uuid) \<Rightarrow> subscription \<Rightarrow> job" where
  "removal_job now jids s =
     new_job now (jids (sub_id s)) REMOVE_PEER ''subscription'' (sub_id s)
       [(''reason'', JStr ''grace_period_expired'')] None"

definition cleanup_one :: "datetime \<Rightarrow> (uuid \<Rightarrow> uuid) \<Rightarrow> subscription \<Rightarrow> (int, unit) act" where
  "cleanup_one now jids s st =
     (if has_open_job REMOVE_PEER (sub_id s) (s_db st) then (Inr 0, st)
      else act_bind (enqueue_for (removal_job now jids s)) (\<lambda>_. return_act 1) st)"

definition cleanup_subs :: "datetime \<Rightarrow> db \<Rightarrow> subscription list" where
  "cleanup_subs cutoff d =
     filter (\<lambda>s. sub_status s = DISABLED \<and>
       (case sub_disabled_at s of None \<Rightarrow> False | Some t \<Rightarrow> t \<le> cutoff)) (subs d)"

definition cleanup_removed_peers ::
  "sched_env \<Rightarrow> datetime \<Rightarrow> (uuid \<Rightarrow> uuid) \<Rightarrow> (int, unit) act" where
  "cleanup_removed_peers env now jids s =
     (case add_days now (- sc_grace_days env) of
        Inl e \<Rightarrow> (Inl e, s)
      | Inr cutoff \<Rightarrow> in_transaction (sum_act (cleanup_one now jids) (cleanup_subs cutoff (s_db s))) s)"

text \<open>\<open>build_scheduler\<close> and the periods of \<open>start\<close>, in seconds.\<close>

definition build_scheduler :: "(nat \<Rightarrow> bool) \<Rightarrow> settings \<Rightarrow> sched_env" where
  "build_scheduler tg st = \<lparr>sc_tg = tg, sc_reminder_days = st_reminder_days st,
     sc_grace_days = st_grace_days st\<rparr>"

definition check_periods :: "settings \<Rightarrow> int \<times> int \<times> int" where
  "check_periods st = (st_expiry_interval st, st_expiry_interval st, st_expiry_interval st * 6)"

subsection \<open>Queueing jobs for a list of subscriptions\<close>

lemma has_open_job_append:
  "has_open_job ty i (jobs_update (\<lambda>js. js @ ks) d) \<longleftrightarrow>
     has_open_job ty i d \<or> (\<exists>j \<in> set ks. job_job_type j = ty \<and> job_aggregate_id j = i
       \<and> job_status j \<in> set open_statuses)"
  by (auto simp: has_open_job_def list_ex_iff)

text \<open>What a check does to the database: jobs and notifications are added, nothing else.\<close>

definition only_adds :: "db \<Rightarrow> db \<Rightarrow> bool" where
  "only_adds d d' \<longleftrightarrow>
     subs d' = subs d \<and> users d' = users d \<and> servers d' = servers d \<and> products d' = products d \<and>
     orders d' = orders d \<and> tickets d' = tickets d \<and> messages d' = messages d \<and>
     audits d' = audits d \<and> (\<exists>js. jobs d' = jobs d @ js) \<and>
     (\<exists>ns. notifications d' = notifications d @ ns) \<and> (db_unique d \<longrightarrow> db_unique d')"

text \<open>The two writes a check is made of; a relation that both keep is kept by every check.\<close>

locale check_writes = session_frame +
  assumes W_notice: "create_notification_if_not_exists i u ty k so d = Inr (x, d') \<Longrightarrow> Q d d'"
    and W_queue: "flush (jobs_update (\<lambda>js. js @ [j]) d) = Inr d' \<Longrightarrow> Q d d'"
begin

lemma keeps_notice: "keeps (db_act (create_notification_if_not_exists i u ty k so))"
  by (rule keeps_db) (rule W_notice)

lemma keeps_notify: "keeps (notify_owner env s msg)"
  unfolding keeps_def notify_owner_def return_act_def tg_send_def
  by (auto simp: Q_refl Let_def split: option.splits)

lemma keeps_enqueue: "keeps (enqueue_for j)"
  unfolding enqueue_for_def by (rule keeps_db) (auto simp: bind_res_eq_Inr intro: W_queue)

lemma keeps_value: "keeps (return_act x)"
  by (rule keeps_same) (simp add: return_act_def)

lemma keeps_remind: "keeps (remind_one env now nids s)"
  unfolding remind_one_def
  by (auto intro!: keeps_bind keeps_notice keeps_notify keeps_value split: option.split)

lemma keeps_expire: "keeps (expire_one env now jids nids s)"
  by (rule keeps_at [where g = "\<lambda>st. if has_open_job DISABLE_PEER (sub_id s) (s_db st)
      then return_act 0 else act_bind (enqueue_for (expiry_job now jids s)) (\<lambda>_.
           act_bind (db_act (create_notification_if_not_exists (nids (sub_id s)) (sub_user_id s)
               N_EXPIRED (expired_key s) None)) (\<lambda>created.
             if \<not> created then return_act 1
             else act_bind (notify_owner env s (expired_message s)) (\<lambda>_. return_act 1)))"])
    (auto intro!: keeps_bind keeps_enqueue keeps_notice keeps_notify keeps_value
      simp: expire_one_def return_act_def)

lemma keeps_cleanup: "keeps (cleanup_one now jids s)"
  by (rule keeps_at [where g = "\<lambda>st. if has_open_job REMOVE_PEER (sub_id s) (s_db st)
      then return_act 0 else act_bind (enqueue_for (removal_job now jids s)) (\<lambda>_. return_act 1)"])
    (auto intro!: keeps_bind keeps_enqueue keeps_value simp: cleanup_one_def return_act_def)

text \<open>A check reads its list when it starts.\<close>

lemma checks_keep:
  "keeps (check_expiring_subscriptions env now nids)"
  "keeps (check_expired_subscriptions env now jids nids)"
  "keeps (cleanup_removed_peers env now jids)"
proof -
  note loop = keeps_transaction [OF keeps_sum]
  show "keeps (check_expiring_subscriptions env now nids)"
    by (rule keeps_at [where g = "\<lambda>s. case add_days now (Max (set (reminder_list env))) of
          Inl e \<Rightarrow> raise_act e
        | Inr w \<Rightarrow> in_transaction (sum_act (remind_one env now nids)
            (list_expiring_soon w now (s_db s)))"])
      (simp_all add: loop [OF keeps_remind] keeps_raise check_expiring_subscriptions_def
        raise_act_def split: sum.split)
  show "keeps (check_expired_subscriptions env now jids nids)"
    by (rule keeps_at [where g = "\<lambda>s. in_transaction (sum_act (expire_one env now jids nids)
          (expired_subs now (s_db s)))"])
      (simp_all add: loop [OF keeps_expire] check_expired_subscriptions_def)
  show "keeps (cleanup_removed_peers env now jids)"
    by (rule keeps_at [where g = "\<lambda>s. case add_days now (- sc_grace_days env) of
          Inl e \<Rightarrow> raise_act e
        | Inr c \<Rightarrow> in_transaction (sum_act (cleanup_one now jids) (cleanup_subs c (s_db s)))"])
      (simp_all add: loop [OF keeps_cleanup] keeps_raise cleanup_removed_peers_def
        raise_act_def split: sum.split)
qed

end

interpretation sched_frame: check_writes only_adds
  by unfold_locales (auto simp: only_adds_def create_notification_eq_Inr flush_eq_Inr
      split: if_splits)

text \<open>A loop that queues a job for each subscription without an open one.\<close>

locale queueing =
  fixes f :: "subscription \<Rightarrow> (int, unit) act" and ty :: job_type and mk :: "subscription \<Rightarrow> job"
  assumes step: "f x st = (Inr k, st') \<Longrightarrow>
      if has_open_job ty (sub_id x) (s_db st) then k = 0 \<and> st' = st
      else k = 1 \<and> jobs (s_db st') = jobs (s_db st) @ [mk x]"
    and skip: "has_open_job ty (sub_id x) (s_db st) \<Longrightarrow> f x st = (Inr 0, st)"
    and mk: "job_job_type (mk x) = ty" "job_aggregate_id (mk x) = sub_id x" "job_status (mk x) = PENDING"
begin

lemma open_after:
  assumes "jobs d' = jobs d @ map mk xs"
  shows "has_open_job ty i d' \<longleftrightarrow> has_open_job ty i d \<or> i \<in> sub_id ` set xs"
proof -
  have "has_open_job ty i d' \<longleftrightarrow> has_open_job ty i d \<or>
      (\<exists>x \<in> set xs. job_job_type (mk x) = ty \<and> job_aggregate_id (mk x) = i
        \<and> job_status (mk x) \<in> set open_statuses)"
    by (auto simp: has_open_job_def list_ex_iff assms)
  then show ?thesis by (auto simp: mk open_statuses_def)
qed

lemma loop:
  assumes "sum_act f xs st = (Inr n, st')" "distinct (map sub_id xs)"
  shows "jobs (s_db st') = jobs (s_db st) @
      map mk (filter (\<lambda>x. \<not> has_open_job ty (sub_id x) (s_db st)) xs) \<and>
    n = int (length (filter (\<lambda>x. \<not> has_open_job ty (sub_id x) (s_db st)) xs))"
  using assms
proof (induction xs arbitrary: st n)
  case Nil
  then show ?case by simp
next
  case (Cons x xs)
  from Cons.prems(1) obtain k m s1 where 1: "f x st = (Inr k, s1)" and
    2: "sum_act f xs s1 = (Inr m, st')" and n: "n = k + m"
    by (rule sum_act_Cons)
  have IH: "jobs (s_db st') = jobs (s_db s1) @
      map mk (filter (\<lambda>x. \<not> has_open_job ty (sub_id x) (s_db s1)) xs)"
    "m = int (length (filter (\<lambda>x. \<not> has_open_job ty (sub_id x) (s_db s1)) xs))"
    using Cons.IH [OF 2] Cons.prems(2) by auto
  show ?case
  proof (cases "has_open_job ty (sub_id x) (s_db st)")
    case True
    with step [OF 1] IH n show ?thesis by simp
  next
    case False
    then have j: "jobs (s_db s1) = jobs (s_db st) @ map mk [x]" "k = 1"
      using step [OF 1] by simp_all
    have "filter (\<lambda>x. \<not> has_open_job ty (sub_id x) (s_db s1)) xs =
        filter (\<lambda>x. \<not> has_open_job ty (sub_id x) (s_db st)) xs"
      using open_after [OF j(1)] Cons.prems(2) by (intro filter_cong) (auto simp: image_iff)
    with False IH j n show ?thesis by simp
  qed
qed

lemma all_open:
  assumes "sum_act f xs st = (Inr n, st')" "distinct (map sub_id xs)" "x \<in> set xs"
  shows "has_open_job ty (sub_id x) (s_db st')"
proof -
  have "jobs (s_db st') = jobs (s_db st) @
      map mk (filter (\<lambda>x. \<not> has_open_job ty (sub_id x) (s_db st)) xs)"
    using loop [OF assms(1,2)] by blast
  from open_after [OF this] assms(3) show ?thesis by auto
qed

lemma idle: "\<forall>x \<in> set xs. has_open_job ty (sub_id x) (s_db st) \<Longrightarrow> sum_act f xs st = (Inr 0, st)"
  by (induction xs) (simp_all add: act_bind_def skip)

end

lemma enqueue_for_Inr:
  "enqueue_for j st = (Inr x, st') \<Longrightarrow> jobs (s_db st') = jobs (s_db st) @ [j]"
  by (auto simp: enqueue_for_def db_act_def flush_def bind_res_def split: if_splits)

lemma notification_act_jobs:
  "db_act (create_notification_if_not_exists i u ty k so) st = (Inr b, st') \<Longrightarrow>
   jobs (s_db st') = jobs (s_db st)"
  by (auto simp: db_act_def create_notification_if_not_exists_def flush_def
      split: option.splits if_splits)

lemma notify_owner_db: "s_db (snd (notify_owner env s msg st)) = s_db st"
  by (auto simp: notify_owner_def return_act_def tg_send_def Let_def split: option.split)

interpretation expiry: queueing "expire_one env now jids nids" DISABLE_PEER "expiry_job now jids"
proof
  fix x st k st'
  assume e: "expire_one env now jids nids x st = (Inr k, st')"
  show "if has_open_job DISABLE_PEER (sub_id x) (s_db st) then k = 0 \<and> st' = st
      else k = 1 \<and> jobs (s_db st') = jobs (s_db st) @ [expiry_job now jids x]"
  proof (cases "has_open_job DISABLE_PEER (sub_id x) (s_db st)")
    case True
    with e show ?thesis by (simp add: expire_one_def)
  next
    case False
    with e obtain j s1 b s2 where 1: "enqueue_for (expiry_job now jids x) st = (Inr j, s1)"
      and 2: "db_act (create_notification_if_not_exists (nids (sub_id x)) (sub_user_id x)
               N_EXPIRED (expired_key x) None) s1 = (Inr b, s2)"
      and 3: "(if \<not> b then return_act 1
             else act_bind (notify_owner env x (expired_message x)) (\<lambda>_. return_act 1)) s2
             = (Inr k, st')"
      by (auto simp: expire_one_def elim!: act_bind_Inr)
    have "k = 1" "s_db st' = s_db s2"
      using 3 notify_owner_db [of env x "expired_message x" s2]
      by (auto simp: return_act_def act_bind_def split: if_splits prod.splits sum.splits)
    with False enqueue_for_Inr [OF 1] notification_act_jobs [OF 2] show ?thesis by simp
  qed
qed (auto simp: expire_one_def expiry_job_def)

interpretation removal: queueing "cleanup_one now jids" REMOVE_PEER "removal_job now jids"
proof
  fix x st k st'
  assume e: "cleanup_one now jids x st = (Inr k, st')"
  show "if has_open_job REMOVE_PEER (sub_id x) (s_db st) then k = 0 \<and> st' = st
      else k = 1 \<and> jobs (s_db st') = jobs (s_db st) @ [removal_job now jids x]"
  proof (cases "has_open_job REMOVE_PEER (sub_id x) (s_db st)")
    case True
    with e show ?thesis by (simp add: cleanup_one_def)
  next
    case False
    with e obtain j s1 where 1: "enqueue_for (removal_job now jids x) st = (Inr j, s1)"
      and 2: "(return_act 1 :: (int, unit) act) s1 = (Inr k, st')"
      by (auto simp: cleanup_one_def elim!: act_bind_Inr)
    with False enqueue_for_Inr [OF 1] show ?thesis by (simp add: return_act_def)
  qed
qed (auto simp: cleanup_one_def removal_job_def)

subsection \<open>Nothing is missed and nothing stacks\<close>

lemma distinct_sub_filter: "db_unique d \<Longrightarrow> distinct (map sub_id (filter P (subs d)))"
  by (intro distinct_map_filter subs_tab.unique_key)

text \<open>C15. Every expired subscription is on its way off, once: after a check, each active
  subscription past its end has an open disable job; the check added one exactly for those
  that had none, and running it again (it runs every few minutes, while jobs may still be
  waiting) adds nothing and sends nothing.\<close>

theorem expired_disabled_once:
  assumes "check_expired_subscriptions env now jids nids s = (Inr n, s')" "db_unique (s_db s)"
  shows "jobs (s_db s') = jobs (s_db s) @ map (expiry_job now jids)
      (filter (\<lambda>x. \<not> has_open_job DISABLE_PEER (sub_id x) (s_db s)) (expired_subs now (s_db s))) \<and>
    subs (s_db s') = subs (s_db s) \<and>
    (\<forall>x \<in> set (subs (s_db s')). sub_status x = ACTIVE \<and> sub_expires_at x \<le> now \<longrightarrow>
       has_open_job DISABLE_PEER (sub_id x) (s_db s')) \<and>
    check_expired_subscriptions env now jids2 nids2 s' = (Inr 0, s')"
proof -
  let ?xs = "expired_subs now (s_db s)"
  have run: "sum_act (expire_one env now jids nids) ?xs s = (Inr n, s')"
    using assms(1) by (simp add: check_expired_subscriptions_def in_transaction_Inr)
  have d: "distinct (map sub_id ?xs)"
    unfolding expired_subs_def by (rule distinct_sub_filter [OF assms(2)])
  have same: "subs (s_db s') = subs (s_db s)"
    using sched_frame.keepsD [OF sched_frame.keeps_sum [OF sched_frame.keeps_expire] run]
    by (simp add: only_adds_def)
  have op: "\<forall>x \<in> set ?xs. has_open_job DISABLE_PEER (sub_id x) (s_db s')"
    using expiry.all_open [OF run d] by blast
  have "expired_subs now (s_db s') = ?xs"
    by (simp add: expired_subs_def same)
  then have "check_expired_subscriptions env now jids2 nids2 s' = (Inr 0, s')"
    using expiry.idle [OF op] by (simp add: check_expired_subscriptions_def in_transaction_Inr)
  with expiry.loop [OF run d] op same show ?thesis
    by (auto simp: expired_subs_def)
qed

text \<open>C32. The grace period is kept: a check queues a remove job only for a subscription that is
  disabled and has been for at least the configured number of days, for each of these that has
  no open one, and running it again adds nothing.\<close>

theorem removal_after_grace:
  assumes "cleanup_removed_peers env now jids s = (Inr n, s')" "db_unique (s_db s)"
  shows "(\<exists>js. jobs (s_db s') = jobs (s_db s) @ js \<and>
      (\<forall>j \<in> set js. job_job_type j = REMOVE_PEER \<and>
        (\<exists>x t. get_sub (job_aggregate_id j) (s_db s) = Some x \<and> sub_status x = DISABLED \<and>
           sub_disabled_at x = Some t \<and> t + sc_grace_days env * day \<le> now))) \<and>
    (\<forall>x \<in> set (subs (s_db s')). \<forall>t. sub_status x = DISABLED \<and> sub_disabled_at x = Some t \<and>
       t + sc_grace_days env * day \<le> now \<longrightarrow> has_open_job REMOVE_PEER (sub_id x) (s_db s')) \<and>
    cleanup_removed_peers env now jids2 s' = (Inr 0, s')"
proof -
  obtain c where c: "add_days now (- sc_grace_days env) = Inr c"
    using assms(1) by (auto simp: cleanup_removed_peers_def split: sum.splits)
  then have cut: "c = now - sc_grace_days env * day"
    by (simp add: add_days_eq_Inr)
  let ?xs = "cleanup_subs c (s_db s)"
  have run: "sum_act (cleanup_one now jids) ?xs s = (Inr n, s')"
    using assms(1) c by (simp add: cleanup_removed_peers_def in_transaction_Inr)
  have d: "distinct (map sub_id ?xs)"
    unfolding cleanup_subs_def by (rule distinct_sub_filter [OF assms(2)])
  have same: "subs (s_db s') = subs (s_db s)"
    using sched_frame.keepsD [OF sched_frame.keeps_sum [OF sched_frame.keeps_cleanup] run]
    by (simp add: only_adds_def)
  have op: "\<forall>x \<in> set ?xs. has_open_job REMOVE_PEER (sub_id x) (s_db s')"
    using removal.all_open [OF run d] by blast
  have "cleanup_subs c (s_db s') = ?xs"
    by (simp add: cleanup_subs_def same)
  then have again: "cleanup_removed_peers env now jids2 s' = (Inr 0, s')"
    using removal.idle [OF op] c by (simp add: cleanup_removed_peers_def in_transaction_Inr)
  have "\<exists>x t. get_sub (sub_id y) (s_db s) = Some x \<and> sub_status x = DISABLED \<and>
      sub_disabled_at x = Some t \<and> t + sc_grace_days env * day \<le> now" if "y \<in> set ?xs" for y
    using that by (auto simp: cleanup_subs_def cut subs_tab.find_row_iff [OF assms(2)]
        split: option.splits)
  then have "\<forall>j \<in> set (map (removal_job now jids)
      (filter (\<lambda>x. \<not> has_open_job REMOVE_PEER (sub_id x) (s_db s)) ?xs)).
      job_job_type j = REMOVE_PEER \<and>
        (\<exists>x t. get_sub (job_aggregate_id j) (s_db s) = Some x \<and> sub_status x = DISABLED \<and>
           sub_disabled_at x = Some t \<and> t + sc_grace_days env * day \<le> now)"
    by (simp add: removal.mk)
  moreover have "\<forall>x \<in> set (subs (s_db s')). \<forall>t. sub_status x = DISABLED \<and>
       sub_disabled_at x = Some t \<and> t + sc_grace_days env * day \<le> now \<longrightarrow>
       has_open_job REMOVE_PEER (sub_id x) (s_db s')"
    using op by (auto simp: same cleanup_subs_def cut)
  ultimately show ?thesis
    using removal.loop [OF run d] again by blast
qed

subsection \<open>Reminders\<close>

abbreviation keys_of :: "unit session \<Rightarrow> string set" where
  "keys_of st \<equiv> ntf_key ` set (notifications (s_db st))"

definition reminded :: "sched_env \<Rightarrow> datetime \<Rightarrow> subscription \<Rightarrow> unit session \<Rightarrow> bool" where
  "reminded env now x st \<longleftrightarrow>
     (case due_reminder env now x of None \<Rightarrow> True | Some m \<Rightarrow> reminder_key x m \<in> keys_of st)"

lemma notification_act_Inr:
  assumes "db_act (create_notification_if_not_exists i u ty k so) st = (Inr b, st')"
  shows "if k \<in> keys_of st then \<not> b \<and> st' = st
    else b \<and> s_out st' = s_out st \<and> keys_of st' = insert k (keys_of st) \<and>
         length (notifications (s_db st')) = Suc (length (notifications (s_db st)))"
proof -
  from assms obtain d where c: "create_notification_if_not_exists i u ty k so (s_db st) = Inr (b, d)"
    and st': "st' = st\<lparr>s_db := d\<rparr>"
    by (auto simp: db_act_def split: sum.splits prod.splits)
  then show ?thesis
    by (auto simp: create_notification_eq_Inr split: if_splits)
qed

lemma notify_owner_out:
  "\<exists>ms. s_out (snd (notify_owner env s msg st)) = s_out st @ ms \<and> length ms \<le> 1"
  by (auto simp: notify_owner_def return_act_def tg_send_def Let_def split: option.split)

lemma remind_one_Inr:
  assumes "remind_one env now nids x st = (Inr k, st')"
  shows "reminded env now x st' \<and> keys_of st \<subseteq> keys_of st' \<and>
    (\<exists>ms. s_out st' = s_out st @ ms \<and>
       length ms + length (notifications (s_db st)) \<le> length (notifications (s_db st')))"
proof (cases "due_reminder env now x")
  case None
  with assms show ?thesis by (simp add: remind_one_def return_act_def reminded_def)
next
  case (Some m)
  with assms obtain b s1 where
    1: "db_act (create_notification_if_not_exists (nids (sub_id x)) (sub_user_id x)
              (reminder_type m) (reminder_key x m) None) st = (Inr b, s1)"
    and 2: "(if \<not> b then return_act 0 else act_bind (notify_owner env x (\<lambda>srv u. reminder_message x srv u m))
                   (\<lambda>sent. return_act (if sent then 1 else 0))) s1 = (Inr k, st')"
    by (auto simp: remind_one_def elim!: act_bind_Inr)
  note n = notification_act_Inr [OF 1]
  show ?thesis
  proof (cases b)
    case False
    with n 2 Some show ?thesis by (auto simp: return_act_def reminded_def split: if_splits)
  next
    case True
    let ?o = "notify_owner env x (\<lambda>srv u. reminder_message x srv u m) s1"
    have st': "st' = snd ?o"
      using 2 True by (auto simp: act_bind_def return_act_def split: prod.splits sum.splits)
    obtain ms where ms: "s_out st' = s_out s1 @ ms" "length ms \<le> 1"
      using notify_owner_out [of env x "\<lambda>srv u. reminder_message x srv u m" s1] st' by auto
    have db: "s_db st' = s_db s1"
      by (simp add: st' notify_owner_db)
    from n True have "s_out s1 = s_out st" "keys_of s1 = insert (reminder_key x m) (keys_of st)"
      "length (notifications (s_db s1)) = Suc (length (notifications (s_db st)))"
      by (auto split: if_splits)
    with ms db Some show ?thesis by (auto simp: reminded_def)
  qed
qed

lemma reminded_mono: "keys_of st \<subseteq> keys_of st' \<Longrightarrow> reminded env now x st \<Longrightarrow> reminded env now x st'"
  by (auto simp: reminded_def split: option.splits)

lemma remind_loop:
  assumes "sum_act (remind_one env now nids) xs st = (Inr n, st')"
  shows "(\<forall>x \<in> set xs. reminded env now x st') \<and> keys_of st \<subseteq> keys_of st' \<and>
    (\<exists>ms. s_out st' = s_out st @ ms \<and>
       length ms + length (notifications (s_db st)) \<le> length (notifications (s_db st')))"
  using assms
proof (induction xs arbitrary: st n)
  case Nil
  then show ?case by simp
next
  case (Cons x xs)
  from Cons.prems obtain k m s1 where 1: "remind_one env now nids x st = (Inr k, s1)" and
    2: "sum_act (remind_one env now nids) xs s1 = (Inr m, st')"
    by (rule sum_act_Cons)
  from remind_one_Inr [OF 1] obtain ms where ms: "s_out s1 = s_out st @ ms"
    "length ms + length (notifications (s_db st)) \<le> length (notifications (s_db s1))"
    and r: "reminded env now x s1" "keys_of st \<subseteq> keys_of s1" by blast
  from Cons.IH [OF 2] obtain ms' where ms': "s_out st' = s_out s1 @ ms'"
    "length ms' + length (notifications (s_db s1)) \<le> length (notifications (s_db st'))"
    and r': "\<forall>x \<in> set xs. reminded env now x st'" "keys_of s1 \<subseteq> keys_of st'" by blast
  have "s_out st' = s_out st @ (ms @ ms')"
    "length (ms @ ms') + length (notifications (s_db st)) \<le> length (notifications (s_db st'))"
    using ms ms' by simp_all
  moreover have "reminded env now x st'" using reminded_mono [OF r'(2) r(1)] .
  ultimately show ?case
    using r(2) r' by auto
qed

lemma remind_idle:
  "\<forall>x \<in> set xs. reminded env now x st \<Longrightarrow> sum_act (remind_one env now nids) xs st = (Inr 0, st)"
proof (induction xs)
  case (Cons x xs)
  have "remind_one env now nids x st = (Inr 0, st)"
  proof (cases "due_reminder env now x")
    case None
    then show ?thesis by (simp add: remind_one_def return_act_def)
  next
    case (Some m)
    with Cons.prems have "reminder_key x m \<in> keys_of st" by (simp add: reminded_def)
    then have "find_row ntf_key (reminder_key x m) (notifications (s_db st)) \<noteq> None"
      by (simp add: find_row_None)
    then show ?thesis
      using Some by (auto simp: remind_one_def act_bind_def db_act_def return_act_def
          create_notification_if_not_exists_def get_by_idempotency_key_def split: option.split)
  qed
  with Cons show ?case by (simp add: act_bind_def)
qed simp

text \<open>C33. One reminder per threshold and end date: a check sends at most one message for each
  notification it stores (their keys are unique), and a later check that finds no subscription
  it had not selected before or that has passed a threshold since sends nothing, however often
  it runs and although messages that failed are not repeated.\<close>

theorem reminders_once:
  assumes "check_expiring_subscriptions env now nids s = (Inr n, s1)"
    and "add_days now (Max (set (reminder_list env))) = Inr w"
    and "add_days now2 (Max (set (reminder_list env))) = Inr w2"
    and "\<forall>x \<in> set (list_expiring_soon w2 now2 (s_db s)).
      x \<in> set (list_expiring_soon w now (s_db s)) \<and> due_reminder env now2 x = due_reminder env now x"
  shows "(\<exists>ms. s_out s1 = s_out s @ ms \<and>
      length ms \<le> length (notifications (s_db s1)) - length (notifications (s_db s))) \<and>
    (db_unique (s_db s) \<longrightarrow> distinct (map ntf_key (notifications (s_db s1)))) \<and>
    check_expiring_subscriptions env now2 nids2 s1 = (Inr 0, s1)"
proof -
  have run: "sum_act (remind_one env now nids) (list_expiring_soon w now (s_db s)) s = (Inr n, s1)"
    using assms(1,2) by (simp add: check_expiring_subscriptions_def in_transaction_Inr)
  note loop = remind_loop [OF run]
  have adds: "only_adds (s_db s) (s_db s1)"
    using sched_frame.keepsD [OF sched_frame.keeps_sum [OF sched_frame.keeps_remind] run] .
  then have same: "list_expiring_soon w2 now2 (s_db s1) = list_expiring_soon w2 now2 (s_db s)"
    by (simp add: list_expiring_soon_def only_adds_def)
  have "\<forall>x \<in> set (list_expiring_soon w2 now2 (s_db s1)). reminded env now2 x s1"
    using loop assms(4) same by (auto simp: reminded_def)
  from remind_idle [OF this] have "check_expiring_subscriptions env now2 nids2 s1 = (Inr 0, s1)"
    using assms(3) by (simp add: check_expiring_subscriptions_def in_transaction_Inr)
  moreover have "db_unique (s_db s) \<longrightarrow> distinct (map ntf_key (notifications (s_db s1)))"
    using adds by (auto simp: only_adds_def db_unique_def)
  moreover obtain ms where "s_out s1 = s_out s @ ms"
    "length ms + length (notifications (s_db s)) \<le> length (notifications (s_db s1))"
    using loop by blast
  ultimately show ?thesis by auto
qed

subsection \<open>Witnesses\<close>

definition sample_sched :: sched_env where
  "sample_sched = \<lparr>sc_tg = (\<lambda>n. True), sc_reminder_days = [], sc_grace_days = 30\<rparr>"

definition sched_session :: "db \<Rightarrow> unit session" where
  "sched_session d = \<lparr>s_db = d, s_peers = (), s_out = []\<rparr>"

lemma sample_days: "reminder_list sample_sched = [7, 3, 1]"
  by (simp add: reminder_list_def sample_sched_def)

theorem expired_disabled_once_witness:
  "\<exists>n s'. check_expired_subscriptions sample_sched noon (\<lambda>i. i + 100) (\<lambda>i. i + 200)
       (sched_session sub_db) = (Inr n, s') \<and>
     map job_aggregate_id (jobs (s_db s')) = [6] \<and>
     check_expired_subscriptions sample_sched noon (\<lambda>i. i + 300) (\<lambda>i. i + 400) s' = (Inr 0, s')"
proof -
  obtain n s' where r: "check_expired_subscriptions sample_sched noon (\<lambda>i. i + 100) (\<lambda>i. i + 200)
       (sched_session sub_db) = (Inr n, s')"
    by (simp add: check_expired_subscriptions_def expired_subs_def expire_one_def has_open_job_def
        enqueue_for_def db_act_def act_bind_def in_transaction_def notify_owner_def tg_send_def
        create_notification_if_not_exists_def get_by_idempotency_key_def return_act_def
        expiry_job_def new_job_def new_notification_def flush_def db_unique_def distinct_opt_def
        sched_session_def sample_db_defs Let_def)
  have "expired_subs noon (s_db (sched_session sub_db)) = [sample_sub]"
    "\<not> has_open_job DISABLE_PEER (sub_id sample_sub) (s_db (sched_session sub_db))"
    "jobs (s_db (sched_session sub_db)) = []" "sub_id sample_sub = 6"
    by (simp_all add: expired_subs_def has_open_job_def sched_session_def sample_db_defs)
  with expired_disabled_once [OF r, of "\<lambda>i. i + 300" "\<lambda>i. i + 400"] r show ?thesis
    by (auto simp: expiry_job_def sched_session_def sub_db_unique)
qed

definition disabled_db :: db where
  "disabled_db = sub_db\<lparr>subs := [disabled noon sample_sub]\<rparr>"

theorem removal_after_grace_witness:
  "\<exists>n s'. cleanup_removed_peers sample_sched (noon + 30 * day) (\<lambda>i. i + 100)
       (sched_session disabled_db) = (Inr n, s') \<and>
     has_open_job REMOVE_PEER 6 (s_db s') \<and>
     cleanup_removed_peers sample_sched (noon + 30 * day) (\<lambda>i. i + 300) s' = (Inr 0, s')"
proof -
  obtain n s' where r: "cleanup_removed_peers sample_sched (noon + 30 * day) (\<lambda>i. i + 100)
       (sched_session disabled_db) = (Inr n, s')" and "subs (s_db s') = [disabled noon sample_sub]"
    by (simp add: cleanup_removed_peers_def cleanup_subs_def cleanup_one_def has_open_job_def
        enqueue_for_def db_act_def act_bind_def in_transaction_def return_act_def removal_job_def
        new_job_def flush_def db_unique_def distinct_opt_def sched_session_def disabled_db_def
        disabled_def add_days_def timedelta_days_def dt_add_def min_datetime_def max_datetime_def
        sample_sched_def sample_db_defs time_units)
  moreover have "sub_disabled_at (disabled noon sample_sub) = Some noon"
    "sub_status (disabled noon sample_sub) = DISABLED" "sub_id (disabled noon sample_sub) = 6"
    "sc_grace_days sample_sched = 30" "db_unique (s_db (sched_session disabled_db))"
    by (simp_all add: sample_sched_def sched_session_def disabled_db_def disabled_def db_unique_def
        distinct_opt_def sample_db_defs)
  ultimately show ?thesis
    using removal_after_grace [OF r, of "\<lambda>i. i + 300"] by auto
qed

theorem reminders_once_witness:
  "\<exists>n s1. check_expiring_subscriptions sample_sched (noon - 50 * hour) (\<lambda>i. i + 100)
       (sched_session sub_db) = (Inr n, s1) \<and>
     check_expiring_subscriptions sample_sched (noon - 50 * hour + minute) (\<lambda>i. i + 300) s1 = (Inr 0, s1)"
proof -
  let ?w = "\<lambda>t. t + 7 * day"
  have w: "add_days t (Max (set (reminder_list sample_sched))) = Inr (?w t)"
    if "t = noon - 50 * hour \<or> t = noon - 50 * hour + minute" for t
    using that by (auto simp: sample_days add_days_def timedelta_days_def dt_add_def
        min_datetime_def max_datetime_def noon_def time_units)
  have due: "due_reminder sample_sched (noon - 50 * hour) sample_sub = Some 3"
    and sel: "list_expiring_soon (?w (noon - 50 * hour)) (noon - 50 * hour) (s_db (sched_session sub_db)) =
      [sample_sub]"
    by (simp_all add: due_reminder_def matched_day_def sample_days list_expiring_soon_def order_by_def
        sched_session_def sample_db_defs time_units)
  have "\<exists>n s1. sum_act (remind_one sample_sched (noon - 50 * hour) (\<lambda>i. i + 100)) [sample_sub]
      (sched_session sub_db) = (Inr n, s1)"
    by (simp add: remind_one_def due act_bind_def)
      (simp add: db_act_def act_bind_def notify_owner_def tg_send_def
        create_notification_if_not_exists_def get_by_idempotency_key_def return_act_def
        new_notification_def flush_def db_unique_def distinct_opt_def sched_session_def
        sample_db_defs Let_def)
  then obtain n s1 where "sum_act (remind_one sample_sched (noon - 50 * hour) (\<lambda>i. i + 100)) [sample_sub]
      (sched_session sub_db) = (Inr n, s1)" by blast
  then have r: "check_expiring_subscriptions sample_sched (noon - 50 * hour) (\<lambda>i. i + 100)
      (sched_session sub_db) = (Inr n, s1)"
    unfolding check_expiring_subscriptions_def w [OF disjI1 [OF refl]]
    by (simp only: sum.case sel in_transaction_Inr)
  have "\<forall>x \<in> set (list_expiring_soon (?w (noon - 50 * hour + minute)) (noon - 50 * hour + minute)
        (s_db (sched_session sub_db))).
      x \<in> set (list_expiring_soon (?w (noon - 50 * hour)) (noon - 50 * hour) (s_db (sched_session sub_db)))
      \<and> due_reminder sample_sched (noon - 50 * hour + minute) x =
        due_reminder sample_sched (noon - 50 * hour) x"
    by (simp add: list_expiring_soon_def sched_session_def due_reminder_def matched_day_def
        sample_days sample_db_defs time_units)
  from reminders_once [OF r w w this] r show ?thesis by auto
qed

end
