(* ===== verification/Tickets.thy ===== *)
theory Tickets
  imports Bot_Samples
begin

section \<open>Support tickets\<close>

text \<open>
  \<open>src/app/db/repositories/ticket_repo.py\<close>: one definition per method of
  \<open>TicketRepository\<close>. \<open>scalar_one_or_none\<close> raises \<open>MultipleResultsFound\<close> when the query
  returns more than one row, which matters for the open ticket of a customer: the column is
  not unique. The lemmas: a customer's messages gather in one ticket, closing and reopening
  restore it, and what happens when a closed ticket is answered.
\<close>

definition generate_ticket_code :: "nat list \<Rightarrow> string" where
  "generate_ticket_code draws = ''TCK-'' @ map digit_char draws"

definition get_ticket_by_code :: "string \<Rightarrow> db \<Rightarrow> ticket option" where
  "get_ticket_by_code code d = find_row tck_code (py_strip (py_upper code)) (tickets d)"

definition active_ticket_statuses :: "ticket_status list" where
  "active_ticket_statuses = [OPEN, WAITING_FOR_ADMIN, WAITING_FOR_CUSTOMER]"

definition active_tickets :: "uuid \<Rightarrow> db \<Rightarrow> ticket list" where
  "active_tickets uid d =
     order_by_desc tck_created_at
       (filter (\<lambda>t. tck_user_id t = uid \<and> tck_status t \<in> set active_ticket_statuses) (tickets d))"

fun scalar_one_or_none :: "'a list \<Rightarrow> exn + 'a option" where
  "scalar_one_or_none [] = Inr None"
| "scalar_one_or_none [x] = Inr (Some x)"
| "scalar_one_or_none (x # y # zs) = Inl MultipleResultsFound"

definition get_active_ticket_for_user :: "uuid \<Rightarrow> db \<Rightarrow> exn + ticket option" where
  "get_active_ticket_for_user uid d = scalar_one_or_none (active_tickets uid d)"

text \<open>The content of a message, as the handlers take it from Telegram.\<close>

record message_content =
  mc_body :: "string option"
  mc_file_id :: "string option"
  mc_file_type :: "string option"

definition new_ticket :: "datetime \<Rightarrow> uuid \<Rightarrow> nat list \<Rightarrow> uuid \<Rightarrow> string option \<Rightarrow> ticket" where
  "new_ticket now tid draws uid subject =
     \<lparr>tck_id = tid, tck_code = generate_ticket_code draws, tck_user_id = uid,
      tck_status = WAITING_FOR_ADMIN, tck_subject = subject, tck_closed_at = None,
      tck_created_at = now\<rparr>"

definition new_message ::
  "uuid \<Rightarrow> uuid \<Rightarrow> sender_type \<Rightarrow> int option \<Rightarrow> message_content \<Rightarrow> int option \<Rightarrow> int option
     \<Rightarrow> support_message" where
  "new_message mid tid sender tg c chat msg =
     \<lparr>msg_id = mid, msg_ticket_id = tid, msg_sender_type = sender, msg_sender_telegram_id = tg,
      msg_body = mc_body c, msg_chat_id = chat, msg_message_id = msg,
      msg_attachment_file_id = mc_file_id c, msg_attachment_type = mc_file_type c\<rparr>"

text \<open>Python's truth of an optional string: no value and the empty string are false.\<close>

definition truthy :: "string option \<Rightarrow> bool" where
  "truthy s = (case s of None \<Rightarrow> False | Some t \<Rightarrow> t \<noteq> [])"

definition create_ticket ::
  "datetime \<Rightarrow> uuid \<Rightarrow> uuid \<Rightarrow> nat list \<Rightarrow> uuid \<Rightarrow> string option \<Rightarrow> message_content \<Rightarrow> int option
     \<Rightarrow> db \<Rightarrow> exn + ticket \<times> db" where
  "create_ticket now tid mid draws uid subject c tg d =
     (let t = new_ticket now tid draws uid subject
      in bind_res (flush (tickets_update (\<lambda>ts. ts @ [t]) d)) (\<lambda>d1.
         if truthy (mc_body c) \<or> truthy (mc_file_id c)
         then bind_res (flush (messages_update
                 (\<lambda>ms. ms @ [new_message mid tid S_CUSTOMER tg c None None]) d1))
                (\<lambda>d2. Inr (t, d2))
         else Inr (t, d1)))"

definition answered :: "sender_type \<Rightarrow> ticket \<Rightarrow> ticket" where
  "answered sender t =
     (case sender of
        S_CUSTOMER \<Rightarrow> t\<lparr>tck_status := WAITING_FOR_ADMIN\<rparr>
      | S_ADMIN \<Rightarrow> t\<lparr>tck_status := WAITING_FOR_CUSTOMER\<rparr>
      | S_SYSTEM \<Rightarrow> t)"

text \<open>\<open>add_message\<close>: the ticket is updated when there is one.\<close>

definition add_message ::
  "uuid \<Rightarrow> uuid \<Rightarrow> sender_type \<Rightarrow> int option \<Rightarrow> message_content \<Rightarrow> int option \<Rightarrow> int option
     \<Rightarrow> db \<Rightarrow> exn + support_message \<times> db" where
  "add_message mid tid sender tg c chat msg d =
     (let m = new_message mid tid sender tg c chat msg;
          d1 = upd_ticket tid (answered sender) (messages_update (\<lambda>ms. ms @ [m]) d)
      in bind_res (flush d1) (\<lambda>d'. Inr (m, d')))"

definition closed :: "datetime \<Rightarrow> ticket \<Rightarrow> ticket" where
  "closed now t = t\<lparr>tck_status := CLOSED, tck_closed_at := Some now\<rparr>"

definition close_ticket :: "uuid \<Rightarrow> datetime \<Rightarrow> db \<Rightarrow> ticket option \<times> db" where
  "close_ticket tid now d =
     (case get_ticket tid d of
        None \<Rightarrow> (None, d)
      | Some t \<Rightarrow> (Some (closed now t), upd_ticket tid (closed now) d))"

definition reopened :: "ticket \<Rightarrow> ticket" where
  "reopened t = t\<lparr>tck_status := OPEN, tck_closed_at := None\<rparr>"

definition reopen_ticket :: "uuid \<Rightarrow> db \<Rightarrow> ticket option \<times> db" where
  "reopen_ticket tid d =
     (case get_ticket tid d of
        None \<Rightarrow> (None, d)
      | Some t \<Rightarrow> (Some (reopened t), upd_ticket tid reopened d))"

definition list_open_tickets :: "db \<Rightarrow> ticket list" where
  "list_open_tickets d = order_by_desc tck_created_at (filter (\<lambda>t. tck_status t \<noteq> CLOSED) (tickets d))"

subsection \<open>Lemmas\<close>

lemma new_ticket_fields [simp]:
  "tck_id (new_ticket now i ds u s) = i"
  "tck_user_id (new_ticket now i ds u s) = u"
  "tck_status (new_ticket now i ds u s) = WAITING_FOR_ADMIN"
  "tck_created_at (new_ticket now i ds u s) = now"
  "tck_code (new_ticket now i ds u s) = generate_ticket_code ds"
  by (simp_all add: new_ticket_def)

lemma answered_fields [simp]:
  "tck_id (answered s t) = tck_id t" "tck_user_id (answered s t) = tck_user_id t"
  "tck_code (answered s t) = tck_code t" "tck_created_at (answered s t) = tck_created_at t"
  "tck_closed_at (answered s t) = tck_closed_at t"
  by (cases s; simp add: answered_def)+

lemma closed_fields [simp]:
  "tck_id (closed n t) = tck_id t" "tck_user_id (closed n t) = tck_user_id t"
  "tck_code (closed n t) = tck_code t" "tck_status (closed n t) = CLOSED"
  by (simp_all add: closed_def)

lemma new_message_fields [simp]:
  "msg_id (new_message mid tid s tg c ch m) = mid"
  "msg_ticket_id (new_message mid tid s tg c ch m) = tid"
  "msg_sender_type (new_message mid tid s tg c ch m) = s"
  by (simp_all add: new_message_def)

definition is_active :: "uuid \<Rightarrow> ticket \<Rightarrow> bool" where
  "is_active uid t \<longleftrightarrow> tck_user_id t = uid \<and> tck_status t \<noteq> CLOSED"

lemma not_closed_active: "tck_status t \<in> set active_ticket_statuses \<longleftrightarrow> tck_status t \<noteq> CLOSED"
  by (cases "tck_status t") (simp_all add: active_ticket_statuses_def)

lemma active_tickets_filter:
  "active_tickets uid d = order_by_desc tck_created_at (filter (is_active uid) (tickets d))"
  by (simp add: active_tickets_def not_closed_active is_active_def [abs_def])

definition active_count :: "uuid \<Rightarrow> db \<Rightarrow> nat" where
  "active_count uid d = length (filter (is_active uid) (tickets d))"

lemma active_count_tickets: "length (active_tickets uid d) = active_count uid d"
  by (simp add: active_tickets_filter active_count_def)

lemma scalar_none: "scalar_one_or_none xs = Inr None \<longleftrightarrow> xs = []"
  by (cases xs rule: scalar_one_or_none.cases) simp_all

lemma scalar_some: "scalar_one_or_none xs = Inr (Some x) \<longleftrightarrow> xs = [x]"
  by (cases xs rule: scalar_one_or_none.cases) simp_all

lemma scalar_many: "scalar_one_or_none xs = Inl e \<longleftrightarrow> e = MultipleResultsFound \<and> 2 \<le> length xs"
  by (cases xs rule: scalar_one_or_none.cases) auto

lemma get_active_None:
  "get_active_ticket_for_user uid d = Inr None \<longleftrightarrow> active_count uid d = 0"
  by (simp add: get_active_ticket_for_user_def scalar_none flip: active_count_tickets)

lemma get_active_many:
  "get_active_ticket_for_user uid d = Inl e \<longleftrightarrow>
     e = MultipleResultsFound \<and> 2 \<le> active_count uid d"
  by (simp add: get_active_ticket_for_user_def scalar_many flip: active_count_tickets)

lemma get_active_Some:
  assumes "get_active_ticket_for_user uid d = Inr (Some t)"
  shows "t \<in> set (tickets d)" "is_active uid t" "active_count uid d = 1"
proof -
  from assms have a: "active_tickets uid d = [t]"
    by (simp add: get_active_ticket_for_user_def scalar_some)
  then have "set (filter (is_active uid) (tickets d)) = {t}"
    by (metis active_tickets_filter list.set(1) list.simps(15) set_order_by_desc)
  then show "t \<in> set (tickets d)" "is_active uid t" by auto
  from a active_count_tickets [of uid d] show "active_count uid d = 1" by simp
qed

lemma create_ticket_Inr:
  assumes "create_ticket now tid mid draws uid subject c tg d = Inr (t, d')"
  shows "t = new_ticket now tid draws uid subject" "tickets d' = tickets d @ [t]" "db_unique d'"
  using assms by (auto simp: create_ticket_def Let_def res_simps split: if_splits)

lemma add_message_Inr:
  assumes "add_message mid tid sender tg c chat msg d = Inr (m, d')"
  shows "m = new_message mid tid sender tg c chat msg"
    and "tickets d' = update_row tck_id tid (answered sender) (tickets d)"
    and "messages d' = messages d @ [m]" and "db_unique d'"
  using assms by (auto simp: add_message_def Let_def res_simps)

lemma filter_update_row_same:
  "(\<And>r. r \<in> set rs \<Longrightarrow> key r = k \<Longrightarrow> P (f r) = P r) \<Longrightarrow>
   length (filter P (update_row key k f rs)) = length (filter P rs)"
  by (induction rs) auto

lemma filter_update_row_gain:
  "distinct (map key rs) \<Longrightarrow> r \<in> set rs \<Longrightarrow> \<not> P r \<Longrightarrow> P (f r) \<Longrightarrow>
   length (filter P (update_row key (key r) f rs)) = Suc (length (filter P rs))"
proof (induction rs)
  case (Cons q rs)
  show ?case
  proof (cases "q = r")
    case True
    then have "update_row key (key r) f rs = rs"
      using Cons.prems(1) by (auto intro: update_row_idle)
    with True Cons.prems show ?thesis by simp
  next
    case False
    with Cons.prems have "key q \<noteq> key r" "r \<in> set rs" by (auto simp: image_iff)
    with Cons show ?thesis by simp
  qed
qed simp

text \<open>Answering a ticket that was closed in the meantime (the buttons of old messages
  still work) makes it active again but leaves its closing date, and when the customer has
  opened another ticket since, there are two active ones: from then on looking up the
  customer's active ticket, which every support message does first, raises an error instead
  of finding one, until an admin closes a ticket.\<close>

theorem answer_after_close_blocks_support:
  assumes "db_unique d" "get_ticket tid d = Some t" "tck_user_id t = uid" "tck_status t = CLOSED"
    and "active_count uid d = 1"
    and "add_message mid tid S_ADMIN tg c chat msg d = Inr (m, d')"
  shows "get_active_ticket_for_user uid d' = Inl MultipleResultsFound \<and>
    get_ticket tid d' = Some (answered S_ADMIN t) \<and>
    tck_closed_at (answered S_ADMIN t) = tck_closed_at t"
proof -
  note upd = add_message_Inr(2) [OF assms(6)]
  have t: "t \<in> set (tickets d)" "tck_id t = tid"
    using assms(2) by (auto dest: find_row_Some)
  have "length (filter (is_active uid) (update_row tck_id (tck_id t) (answered S_ADMIN) (tickets d)))
      = Suc (length (filter (is_active uid) (tickets d)))"
    using assms(1,3,4) t
    by (intro filter_update_row_gain) (auto simp: db_unique_def is_active_def answered_def)
  then have "active_count uid d' = 2"
    using assms(5) t(2) by (simp add: active_count_def upd)
  then show ?thesis
    using assms(2) by (simp add: get_active_many upd find_update_row)
qed

definition old_ticket :: ticket where
  "old_ticket = \<lparr>tck_id = 30, tck_code = ''TCK-00001'', tck_user_id = 1, tck_status = CLOSED,
     tck_subject = None, tck_closed_at = Some 50, tck_created_at = 40\<rparr>"

definition tickets_db :: db where
  "tickets_db = order_db\<lparr>tickets := [old_ticket,
     old_ticket\<lparr>tck_id := 31, tck_code := ''TCK-00002'', tck_status := WAITING_FOR_ADMIN,
                tck_closed_at := None, tck_created_at := 60\<rparr>]\<rparr>"

definition hello :: message_content where
  "hello = \<lparr>mc_body = Some ''hello'', mc_file_id = None, mc_file_type = None\<rparr>"

theorem answer_after_close_blocks_support_witness:
  "\<exists>m d'. add_message 80 30 S_ADMIN (Some 777) hello (Some 777) (Some 3) tickets_db = Inr (m, d') \<and>
     get_active_ticket_for_user 1 tickets_db \<noteq> Inl MultipleResultsFound \<and>
     get_active_ticket_for_user 1 d' = Inl MultipleResultsFound"
proof -
  obtain m d' where
    a: "add_message 80 30 S_ADMIN (Some 777) hello (Some 777) (Some 3) tickets_db = Inr (m, d')"
    by (simp add: add_message_def flush_def db_unique_def distinct_opt_def tickets_db_def
        old_ticket_def new_message_def answered_def Let_def sample_db_defs)
  have u: "db_unique tickets_db"
    by (simp add: db_unique_def distinct_opt_def tickets_db_def old_ticket_def sample_db_defs)
  have t: "get_ticket 30 tickets_db = Some old_ticket" "tck_user_id old_ticket = 1"
    "tck_status old_ticket = CLOSED" and n: "active_count 1 tickets_db = 1"
    by (simp_all add: active_count_def is_active_def tickets_db_def old_ticket_def)
  from answer_after_close_blocks_support [OF u t n a] a n show ?thesis
    by (auto simp: get_active_many)
qed

end
