(* ===== verification/Chat.thy ===== *)
theory Chat
  imports Orders Tickets Sessions
begin

section \<open>Handlers and their chat\<close>

text \<open>
  What every handler of \<open>src/app/bot/handlers\<close> works with: the database session the user
  middleware opened (rows as changed so far and as last committed; closing the session drops
  the rest), the conversation state of aiogram's \<open>FSMContext\<close> (a state and string data, in
  memory, so not undone by a rollback), and the calls to Telegram made so far with their
  answers. A handler is an attempt on such a chat: it returns, or raises, which
  ends it there. \<open>ui.show\<close> and the handlers' helpers for Telegram are defined here.
  The user middleware gives every handler a user row and a session, so the fallbacks for a
  missing \<open>db_user\<close> are left out. The locale \<open>chat_frame\<close> proves that a handler keeps a
  relation between the chats before and after.
\<close>

subsection \<open>Conversations\<close>

datatype fsm_state =
    Selecting_Server | Selecting_Plan | Awaiting_Receipt | Writing_Message | Waiting_For_Reply

text \<open>How Telegram answers a call: done, \<open>TelegramBadRequest\<close> because nothing would change,
  \<open>TelegramBadRequest\<close> for another reason, or another error.\<close>

datatype tg_answer = Tg_Ok | Tg_Not_Modified | Tg_Bad_Request | Tg_Error

record chat =
  ch_db :: db
  ch_saved :: db
  ch_state :: "fsm_state option"
  ch_data :: "string \<rightharpoonup> string"
  ch_out :: "(out \<times> tg_answer) list"

type_synonym 'a handler = "('a, chat) attempt"

text \<open>A pressed button and a received message. The text and caption of \<open>query.message\<close>
  decide how it is edited, \<open>mm_html\<close> is its \<open>html_text\<close>.\<close>

record menu_message =
  mm_text :: "string option"
  mm_caption :: "string option"
  mm_html :: string

record press =
  pr_data :: string
  pr_from :: int
  pr_username :: "string option"
  pr_chat_id :: int
  pr_message :: "menu_message option"

record post =
  po_from :: int
  po_username :: "string option"
  po_text :: "string option"
  po_caption :: "string option"
  po_photo :: "string list"
  po_document :: "string option"
  po_chat_id :: int
  po_message_id :: int

text \<open>What a handler is run with: the settings, the clock, the ids and draws of new rows, the
  answers of Telegram, and the provisioner's answers about peers (\<open>None\<close>: no provisioner).\<close>

record ctx =
  cx_settings :: settings
  cx_now :: datetime
  cx_ids :: "nat \<Rightarrow> uuid"
  cx_draws :: "nat list"
  cx_tg :: "nat \<Rightarrow> tg_answer"
  cx_status :: "(vpn_server \<Rightarrow> string \<Rightarrow> exn + peer_status) option"

subsection \<open>Steps of a handler\<close>

definition reading :: "(db \<Rightarrow> 'a) \<Rightarrow> ('a \<Rightarrow> 'b handler) \<Rightarrow> 'b handler" where
  "reading q k c = k (q (ch_db c)) c"

definition attempt_res :: "exn + 'a \<Rightarrow> 'a handler" where
  "attempt_res r c = (r, c)"

definition change :: "(db \<Rightarrow> 'a \<times> db) \<Rightarrow> 'a handler" where
  "change f c = (case f (ch_db c) of (x, d) \<Rightarrow> (Inr x, c\<lparr>ch_db := d\<rparr>))"

definition try_change :: "(db \<Rightarrow> exn + 'a \<times> db) \<Rightarrow> 'a handler" where
  "try_change f c =
     (case f (ch_db c) of Inl e \<Rightarrow> (Inl e, c) | Inr (x, d) \<Rightarrow> (Inr x, c\<lparr>ch_db := d\<rparr>))"

definition commit :: "unit handler" where
  "commit c = (Inr (), c\<lparr>ch_saved := ch_db c\<rparr>)"

definition set_state :: "fsm_state \<Rightarrow> unit handler" where
  "set_state s c = (Inr (), c\<lparr>ch_state := Some s\<rparr>)"

definition update_data :: "(string \<times> string) list \<Rightarrow> unit handler" where
  "update_data kvs c = (Inr (), c\<lparr>ch_data := ch_data c ++ map_of kvs\<rparr>)"

definition clear_state :: "unit handler" where
  "clear_state c = (Inr (), c\<lparr>ch_state := None, ch_data := Map.empty\<rparr>)"

definition state_value :: "string \<Rightarrow> (string option \<Rightarrow> 'b handler) \<Rightarrow> 'b handler" where
  "state_value k f c = f (ch_data c k) c"

subsection \<open>Calls to Telegram\<close>

text \<open>A call and Telegram's answer; a call whose error the handler lets through; one whose
  error it catches.\<close>

definition call :: "ctx \<Rightarrow> out \<Rightarrow> tg_answer handler" where
  "call cx m c =
     (let a = cx_tg cx (length (ch_out c)) in (Inr a, c\<lparr>ch_out := ch_out c @ [(m, a)]\<rparr>))"

definition tell :: "ctx \<Rightarrow> out \<Rightarrow> unit handler" where
  "tell cx m = act_bind (call cx m) (\<lambda>a. if a = Tg_Ok then done_act else raise_act TelegramError)"

definition try_tell :: "ctx \<Rightarrow> out \<Rightarrow> unit handler" where
  "try_tell cx m = act_bind (call cx m) (\<lambda>_. done_act)"

definition toast :: "ctx \<Rightarrow> msg_text \<Rightarrow> unit handler" where
  "toast cx t = tell cx (Toast t)"

text \<open>\<open>ui.show\<close>.\<close>

definition show_edit :: "ctx \<Rightarrow> press \<Rightarrow> msg_text \<Rightarrow> keyboard \<Rightarrow> unit handler" where
  "show_edit cx q t kb =
     (if pr_message q = None then done_act
      else act_bind (call cx (Show t kb)) (\<lambda>a.
        case a of
          Tg_Ok \<Rightarrow> done_act
        | Tg_Not_Modified \<Rightarrow> done_act
        | Tg_Bad_Request \<Rightarrow> tell cx (Answer t kb)
        | Tg_Error \<Rightarrow> raise_act TelegramError))"

definition show_menu :: "ctx \<Rightarrow> press \<Rightarrow> msg_text \<Rightarrow> keyboard \<Rightarrow> unit handler" where
  "show_menu cx q t kb =
     act_bind (show_edit cx q t kb) (\<lambda>_.
     act_bind (call cx Ack) (\<lambda>a. if a = Tg_Error then raise_act TelegramError else done_act))"

text \<open>A row looked up by id: what to do without one, and with one.\<close>

definition find_or :: "'a option \<Rightarrow> 'b handler \<Rightarrow> ('a \<Rightarrow> 'b handler) \<Rightarrow> 'b handler" where
  "find_or x missing k = (case x of None \<Rightarrow> missing | Some v \<Rightarrow> k v)"

definition such_that :: "('a \<Rightarrow> bool) \<Rightarrow> 'a option \<Rightarrow> 'a option" where
  "such_that P x = (case x of None \<Rightarrow> None | Some v \<Rightarrow> if P v then Some v else None)"

lemma such_that_Some [simp]: "such_that P x = Some v \<longleftrightarrow> x = Some v \<and> P v"
  by (auto simp: such_that_def split: option.splits if_splits)

text \<open>\<open>parts[n]\<close> of a list, \<open>IndexError\<close> past its end, and \<open>x or default\<close> on an optional
  string.\<close>

definition item :: "nat \<Rightarrow> 'a list \<Rightarrow> exn + 'a" where
  "item n xs = (if n < length xs then Inr (xs ! n) else Inl IndexError)"

definition or_else :: "string option \<Rightarrow> string \<Rightarrow> string" where
  "or_else s dflt = (case s of None \<Rightarrow> dflt | Some t \<Rightarrow> if t = [] then dflt else t)"

text \<open>\<open>html.escape\<close>.\<close>

definition html_char :: "char \<Rightarrow> string" where
  "html_char c =
     (if c = CHR ''&'' then ''&amp;'' else if c = CHR ''<'' then ''&lt;''
      else if c = CHR ''>'' then ''&gt;'' else if c = CHR 0x22 then ''&quot;''
      else if c = CHR 0x27 then ''&#x27;'' else [c])"

definition html_escape :: "string \<Rightarrow> string" where
  "html_escape s = concat (map html_char s)"

subsection \<open>How the steps compute\<close>

named_theorems chat_simps \<open>results of the steps of a handler\<close>

lemma act_bind_eval [chat_simps]:
  "act_bind (reading q k) f c = act_bind (k (q (ch_db c))) f c"
  "act_bind (attempt_res (Inr x)) f c = f x c"
  "act_bind (attempt_res (Inl e)) f c = (Inl e, c)"
  "act_bind (change g) f c = f (fst (g (ch_db c))) (c\<lparr>ch_db := snd (g (ch_db c))\<rparr>)"
  "act_bind commit (\<lambda>_. m) c = m (c\<lparr>ch_saved := ch_db c\<rparr>)"
  "act_bind (set_state s) (\<lambda>_. m) c = m (c\<lparr>ch_state := Some s\<rparr>)"
  "act_bind (update_data kvs) (\<lambda>_. m) c = m (c\<lparr>ch_data := ch_data c ++ map_of kvs\<rparr>)"
  "act_bind clear_state (\<lambda>_. m) c = m (c\<lparr>ch_state := None, ch_data := Map.empty\<rparr>)"
  "act_bind done_act (\<lambda>_. m) c = m c"
  "act_bind (return_act x) f c = f x c"
  "act_bind (raise_act e) f c = (Inl e, c)"
  by (simp_all add: act_bind_def reading_def attempt_res_def change_def commit_def set_state_def
      update_data_def clear_state_def done_act_def return_act_def raise_act_def split: prod.split)

lemma act_bind_if [chat_simps]:
  "act_bind (if b then m else n) f c = (if b then act_bind m f c else act_bind n f c)"
  by simp

lemma try_change_eval [chat_simps]:
  "f (ch_db c) = Inr (x, d) \<Longrightarrow> try_change f c = (Inr x, c\<lparr>ch_db := d\<rparr>)"
  "f (ch_db c) = Inl e \<Longrightarrow> try_change f c = (Inl e, c)"
  "f (ch_db c) = Inr (x, d) \<Longrightarrow> act_bind (try_change f) k c = k x (c\<lparr>ch_db := d\<rparr>)"
  "f (ch_db c) = Inl e \<Longrightarrow> act_bind (try_change f) k c = (Inl e, c)"
  by (simp_all add: try_change_def act_bind_def)

lemma reading_eval [chat_simps]: "reading q k c = k (q (ch_db c)) c"
  by (simp add: reading_def)

lemma state_value_eval [chat_simps]: "state_value k f c = f (ch_data c k) c"
  by (simp add: state_value_def)

lemma find_or_eval [chat_simps]:
  "find_or None m k = m" "find_or (Some v) m k = k v"
  by (simp_all add: find_or_def)

lemma act_bind_assoc: "act_bind (act_bind m f) g = act_bind m (\<lambda>x. act_bind (f x) g)"
  by (rule ext) (auto simp: act_bind_def split: prod.split sum.split)

lemma tell_ok [chat_simps]:
  assumes "cx_tg cx (length (ch_out c)) = Tg_Ok"
  shows "tell cx m c = (Inr (), c\<lparr>ch_out := ch_out c @ [(m, Tg_Ok)]\<rparr>)"
  using assms by (simp add: tell_def call_def act_bind_def done_act_def Let_def)

text \<open>What a call leaves, whatever Telegram answers.\<close>

definition logged :: "ctx \<Rightarrow> out \<Rightarrow> chat \<Rightarrow> chat" where
  "logged cx m c = c\<lparr>ch_out := ch_out c @ [(m, cx_tg cx (length (ch_out c)))]\<rparr>"

lemma logged_fields [simp]:
  "ch_db (logged cx m c) = ch_db c" "ch_saved (logged cx m c) = ch_saved c"
  "ch_state (logged cx m c) = ch_state c" "ch_data (logged cx m c) = ch_data c"
  "ch_out (logged cx m c) = ch_out c @ [(m, cx_tg cx (length (ch_out c)))]"
  by (simp_all add: logged_def)

lemma snd_tell [chat_simps]: "snd (tell cx m c) = logged cx m c" "snd (toast cx t c) = logged cx (Toast t) c"
  by (simp_all add: toast_def tell_def call_def act_bind_def done_act_def raise_act_def Let_def
      logged_def)

lemma act_bind_try_tell [chat_simps]:
  "act_bind (try_tell cx m) (\<lambda>_. k) c = k (logged cx m c)" "try_tell cx m c = (Inr (), logged cx m c)"
  by (simp_all add: try_tell_def call_def act_bind_def done_act_def Let_def logged_def)

subsection \<open>What a handler keeps\<close>

text \<open>A relation between the chats before and after that calls to Telegram do not touch.\<close>

locale chat_frame =
  fixes R :: "chat \<Rightarrow> chat \<Rightarrow> bool"
  assumes R_refl: "R c c" and R_trans: "R a b \<Longrightarrow> R b c \<Longrightarrow> R a c"
    and R_out: "R c (c\<lparr>ch_out := os\<rparr>)"
begin

definition keeps :: "'a handler \<Rightarrow> bool" where
  "keeps m \<longleftrightarrow> (\<forall>c. R c (snd (m c)))"

lemma keepsD: "keeps m \<Longrightarrow> R c (snd (m c))"
  by (simp add: keeps_def)

lemma keeps_bind: "keeps m \<Longrightarrow> (\<And>x. keeps (f x)) \<Longrightarrow> keeps (act_bind m f)"
  unfolding keeps_def act_bind_def
  by (auto split: prod.split sum.split) (metis R_trans snd_conv)+

lemma keeps_pure:
  "keeps done_act" "keeps (return_act x)" "keeps (raise_act e)" "keeps (attempt_res r)"
  by (simp_all add: keeps_def done_act_def return_act_def raise_act_def attempt_res_def R_refl)

lemma keeps_reading: "(\<And>x. keeps (k x)) \<Longrightarrow> keeps (reading q k)"
  by (simp add: keeps_def reading_def)

lemma keeps_state_value: "(\<And>x. keeps (k x)) \<Longrightarrow> keeps (state_value n k)"
  by (simp add: keeps_def state_value_def)

lemma keeps_find_or: "keeps m \<Longrightarrow> (\<And>v. keeps (k v)) \<Longrightarrow> keeps (find_or x m k)"
  by (simp add: find_or_def split: option.split)

lemma keeps_call: "keeps (call cx m)"
  by (simp add: keeps_def call_def Let_def R_out)

lemma keeps_tell: "keeps (tell cx m)"
  unfolding tell_def by (rule keeps_bind [OF keeps_call]) (simp add: keeps_pure)

lemma keeps_try_tell: "keeps (try_tell cx m)"
  unfolding try_tell_def by (rule keeps_bind [OF keeps_call]) (simp add: keeps_pure)

lemma keeps_toast: "keeps (toast cx t)"
  by (simp add: toast_def keeps_tell)

lemma keeps_show: "keeps (show_menu cx q t kb)"
proof -
  have "keeps (show_edit cx q t kb)"
    unfolding show_edit_def
    by (auto intro!: keeps_bind [OF keeps_call] simp: keeps_pure keeps_tell split: tg_answer.split)
  then show ?thesis
    unfolding show_menu_def
    by (auto intro!: keeps_bind [OF keeps_call] keeps_bind simp: keeps_pure)
qed

lemmas keeps_calls = keeps_pure keeps_call keeps_tell keeps_try_tell keeps_toast keeps_show

end

text \<open>Everything but the log of calls stays.\<close>

definition undisturbed :: "chat \<Rightarrow> chat \<Rightarrow> bool" where
  "undisturbed c c' \<longleftrightarrow> ch_db c' = ch_db c \<and> ch_saved c' = ch_saved c \<and> ch_state c' = ch_state c
     \<and> ch_data c' = ch_data c"

interpretation quiet: chat_frame undisturbed
  by unfold_locales (auto simp: undisturbed_def)

lemma undisturbed_logged [chat_simps]:
  "undisturbed c (logged cx m c') \<longleftrightarrow> undisturbed c c'" "undisturbed c c"
  by (simp_all add: undisturbed_def)

lemma quiet_after: "quiet.keeps m \<Longrightarrow> undisturbed c (snd (m c))"
  by (rule quiet.keepsD)

end
