(* ===== verification/Usage.thy ===== *)
theory Usage
  imports Chat
begin

section \<open>Usage of a subscription\<close>

text \<open>
  \<open>src/app/bot/usage.py\<close>: data used and last connection, asked from the provisioner when a
  subscription is shown. Byte counts are formatted from a float, whose divisions by 1024 are
  exact below \<open>2 ^ 53\<close> bytes; there the printed digits are the nearest ones, ties to even.
  The lemmas bound the rounding error and show that terabytes are never printed.
\<close>

text \<open>The integer nearest to \<open>a / b\<close>, ties to even, and a number of tenths.\<close>

definition round_div :: "int \<Rightarrow> int \<Rightarrow> int" where
  "round_div a b =
     (let q = a div b; r = a mod b
      in if 2 * r < b then q else if b < 2 * r then q + 1 else if even q then q else q + 1)"

definition show_tenths :: "int \<Rightarrow> string" where
  "show_tenths t = show_int (t div 10) @ ''.'' @ show_int (t mod 10)"

definition byte_units :: "string list" where
  "byte_units = [''B'', ''KB'', ''MB'', ''GB'']"

text \<open>The loop over the units: \<open>scale\<close> is what \<open>size\<close> has been divided by.\<close>

fun format_size :: "int \<Rightarrow> int \<Rightarrow> string list \<Rightarrow> string" where
  "format_size n scale [] = show_tenths (round_div (10 * n) scale) @ '' TB''"
| "format_size n scale (unit # us) =
     (if n < 1024 * scale \<or> unit = ''GB''
      then (if unit \<in> {''B'', ''KB''} then show_int (round_div n scale)
            else show_tenths (round_div (10 * n) scale)) @ '' '' @ unit
      else format_size n (scale * 1024) us)"

definition format_bytes :: "int \<Rightarrow> string" where
  "format_bytes n = format_size n 1 byte_units"

definition format_last_seen :: "datetime option \<Rightarrow> string option \<Rightarrow> datetime \<Rightarrow> arg" where
  "format_last_seen seen l now =
     (case seen of
        None \<Rightarrow> Text_Arg (get_text ''never_connected'' l [])
      | Some t \<Rightarrow>
          let seconds = max 0 ((now - t) div second)
          in if seconds < 120 then Text_Arg (get_text ''just_now'' l [])
             else if seconds < 3600
             then Text_Arg (get_text ''minutes_ago'' l [(''n'', Plain (show_int (seconds div 60)))])
             else if seconds < 48 * 3600
             then Text_Arg (get_text ''hours_ago'' l [(''n'', Plain (show_int (seconds div 3600)))])
             else Plain (strftime_minutes t))"

text \<open>\<open>usage_text\<close>; \<open>None\<close> is the empty text. A provisioner that does not answer in time
  raises like one that fails.\<close>

definition usage_of :: "peer_status \<Rightarrow> string option \<Rightarrow> datetime \<Rightarrow> msg_text" where
  "usage_of st l now =
     get_text ''usage'' l
       [(''total'', Plain (format_bytes (ps_received st + ps_sent st))),
        (''down'', Plain (format_bytes (ps_sent st))),
        (''up'', Plain (format_bytes (ps_received st))),
        (''last_seen'', format_last_seen (ps_last_handshake st) l now)]"

definition usage_text ::
  "(vpn_server \<Rightarrow> string \<Rightarrow> exn + peer_status) option \<Rightarrow> vpn_server option \<Rightarrow> subscription
     \<Rightarrow> string option \<Rightarrow> datetime \<Rightarrow> msg_text option" where
  "usage_text provisioner server s l now =
     (case (provisioner, server, sub_peer_external_id s) of
        (Some status, Some srv, Some p) \<Rightarrow>
          if p = [] then None
          else (case status srv p of
                  Inl e \<Rightarrow> Some (get_text ''usage_unavailable'' l [])
                | Inr st \<Rightarrow> if \<not> ps_exists st then None else Some (usage_of st l now))
      | _ \<Rightarrow> None)"

text \<open>A text followed by an optional line.\<close>

definition with_line :: "msg_text \<Rightarrow> msg_text option \<Rightarrow> msg_text" where
  "with_line t extra = (case extra of None \<Rightarrow> t | Some u \<Rightarrow> Joined t u)"

subsection \<open>Rounding\<close>

lemma round_div_close:
  assumes "0 < b"
  shows "2 * \<bar>b * round_div a b - a\<bar> \<le> b"
proof -
  have a: "a = b * (a div b) + a mod b" by simp
  have r: "0 \<le> a mod b" "a mod b < b" using assms by simp_all
  define q m where "q = a div b" and "m = a mod b"
  have eq: "b * q - a = - m" "b * (q + 1) - a = b - m"
    using a by (simp_all add: q_def m_def algebra_simps)
  from r have "0 \<le> m" "m < b" by (simp_all add: m_def)
  then show ?thesis
    unfolding round_div_def Let_def q_def [symmetric] m_def [symmetric] using eq by auto
qed

lemma format_bytes_units:
  assumes "0 \<le> n"
  shows "format_bytes n =
    (if n < 1024 then show_int n @ '' B''
     else if n < 1024 ^ 2 then show_int (round_div n 1024) @ '' KB''
     else if n < 1024 ^ 3 then show_tenths (round_div (10 * n) (1024 ^ 2)) @ '' MB''
     else show_tenths (round_div (10 * n) (1024 ^ 3)) @ '' GB'')"
proof -
  have "round_div n 1 = n" by (simp add: round_div_def)
  with assms show ?thesis
    unfolding format_bytes_def byte_units_def by simp
qed

end
