(* ===== verification/Chat_Samples.thy ===== *)
theory Chat_Samples
  imports Usage
begin

section \<open>A concrete chat\<close>

text \<open>The settings, context, presses and messages the handlers' witnesses are evaluated on: a
  bot with an administrators' chat, a Telegram that accepts every call, and chats on the sample
  databases.\<close>

definition sample_settings :: settings where
  "sample_settings = default_settings\<lparr>st_admin_telegram_ids := [900], st_admin_chat_id := - 500\<rparr>"

definition sample_ctx :: ctx where
  "sample_ctx = \<lparr>cx_settings = sample_settings, cx_now = 1000,
     cx_ids = (\<lambda>n. of_nat (100 + n)), cx_draws = [1, 2, 3, 4, 5, 6], cx_tg = (\<lambda>_. Tg_Ok),
     cx_status = None\<rparr>"

definition press_of :: "string \<Rightarrow> press" where
  "press_of s = \<lparr>pr_data = s, pr_from = 5001, pr_username = Some ''ann'',
     pr_chat_id = 5001, pr_message = Some \<lparr>mm_text = Some ''menu'', mm_caption = None, mm_html = ''menu''\<rparr>\<rparr>"

definition sample_post :: post where
  "sample_post = \<lparr>po_from = 5001, po_username = Some ''ann'', po_text = Some ''hello'',
     po_caption = None, po_photo = [''p1'', ''p2''], po_document = None, po_chat_id = 5001,
     po_message_id = 77\<rparr>"

definition chat_on :: "db \<Rightarrow> chat" where
  "chat_on d = \<lparr>ch_db = d, ch_saved = d, ch_state = None, ch_data = Map.empty, ch_out = []\<rparr>"

lemma chat_on_fields [simp]:
  "ch_db (chat_on d) = d" "ch_saved (chat_on d) = d" "ch_state (chat_on d) = None"
  "ch_data (chat_on d) = Map.empty" "ch_out (chat_on d) = []"
  by (simp_all add: chat_on_def)

lemma sample_ctx_fields [simp]:
  "cx_settings sample_ctx = sample_settings" "cx_now sample_ctx = 1000"
  "cx_ids sample_ctx n = of_nat (100 + n)" "cx_draws sample_ctx = [1, 2, 3, 4, 5, 6]"
  "cx_tg sample_ctx n = Tg_Ok" "cx_status sample_ctx = None"
  by (simp_all add: sample_ctx_def)

lemma sample_settings_fields [simp]:
  "st_admin_telegram_ids sample_settings = [900]" "st_admin_chat_id sample_settings = - 500"
  "st_redelivery_limit sample_settings = 3"
  by (simp_all add: sample_settings_def default_settings_def)

lemma press_of_fields [simp]:
  "pr_data (press_of s) = s" "pr_from (press_of s) = 5001" "pr_username (press_of s) = Some ''ann''"
  "pr_chat_id (press_of s) = 5001"
  "pr_message (press_of s)
     = Some \<lparr>mm_text = Some ''menu'', mm_caption = None, mm_html = ''menu''\<rparr>"
  "press_of s\<lparr>pr_data := t\<rparr> = press_of t"
  by (simp_all add: press_of_def)

definition other_user :: user where
  "other_user = sample_user\<lparr>user_id := 12, user_telegram_id := 5002\<rparr>"

text \<open>A server whose slug holds an underscore.\<close>

definition odd_server :: vpn_server where
  "odd_server = sample_server\<lparr>srv_id := 13, srv_slug := ''de_1''\<rparr>"

end
