(* ===== verification/Customer_Orders.thy ===== *)
theory Customer_Orders
  imports Customer Chat_Samples
begin

section \<open>What the customer's handlers guarantee\<close>

text \<open>
  Lemmas and properties of the handlers in Customer: the order a plan button places, the
  fate of a button whose slug holds an underscore, the receipt and the review buttons it
  gives the administrators, the protection of other customers' subscriptions, and the
  redelivery limit. What a handler leaves behind is stated up to the log of its calls to
  Telegram (\<open>undisturbed\<close>), so it holds whatever Telegram answers.
\<close>

subsection \<open>Placing an order\<close>

definition placed :: "ctx \<Rightarrow> user \<Rightarrow> vpn_server \<Rightarrow> product \<Rightarrow> subscription option \<Rightarrow> order" where
  "placed cx u srv p renews =
     new_order (cx_now cx) (cx_ids cx 0) (cx_draws cx) (user_id u) (srv_id srv) (prod_id p)
       (prod_price_amount p) (prod_price_currency p) (payment_instructions (cx_settings cx) u)
       (map_option sub_id renews)"

definition with_order :: "order \<Rightarrow> db \<Rightarrow> db" where
  "with_order r d = orders_update (\<lambda>os. os @ [r]) d"

definition awaiting_receipt :: "order \<Rightarrow> vpn_server \<Rightarrow> chat \<Rightarrow> chat" where
  "awaiting_receipt r srv c =
     c\<lparr>ch_db := with_order r (ch_db c), ch_saved := with_order r (ch_db c),
       ch_state := Some Awaiting_Receipt,
       ch_data := ch_data c ++ map_of [(''order_id'', uuid_str (ord_id r)),
                                       (''server_slug'', srv_slug srv)]\<rparr>"

lemma placed_id [simp]: "ord_id (placed cx u srv p renews) = cx_ids cx 0"
  by (simp add: placed_def new_order_def)

lemma create_placed:
  assumes "db_unique (with_order (placed cx u srv p renews) d)"
  shows "create_order (cx_now cx) (cx_ids cx 0) (cx_draws cx) (user_id u) (srv_id srv) (prod_id p)
      (prod_price_amount p) (prod_price_currency p) (payment_instructions (cx_settings cx) u)
      (map_option sub_id renews) d
    = Inr (placed cx u srv p renews, with_order (placed cx u srv p renews) d)"
  using assms by (simp add: create_order_def placed_def with_order_def Let_def)

lemma start_order_leaves:
  assumes "db_unique (with_order (placed cx u srv p renews) (ch_db c))"
  shows "undisturbed (awaiting_receipt (placed cx u srv p renews) srv c)
           (snd (start_order cx u q srv p renews c))"
  unfolding start_order_def awaiting_receipt_def Let_def
  by (simp add: chat_simps create_placed [OF assms] quiet_after quiet.keeps_show split: option.split)

subsection \<open>The data of a plan button\<close>

lemma plan_data_parts:
  assumes "CHR ''_'' \<notin> set (srv_slug srv)" "CHR ''_'' \<notin> set (prod_code p)"
  shows "split_char CHR ''_'' (plan_data (srv_slug srv) None p) = [''plan'', srv_slug srv, prod_code p]"
proof -
  have "plan_data (srv_slug srv) None p
      = ''plan'' @ CHR ''_'' # (srv_slug srv @ CHR ''_'' # prod_code p)"
    by (simp add: plan_data_def)
  moreover have "CHR ''_'' \<notin> set ''plan''" by simp
  ultimately show ?thesis
    using assms by (simp only: split_char_append split_char_word not_False_eq_True)
qed

lemma renewal_data_parts:
  "renewal_parts (plan_data slug (Some sid) p) = Inr (uuid_hex sid, prod_code p)"
proof -
  have "plan_data slug (Some sid) p
      = ''rnw'' @ CHR ''_'' # (uuid_hex sid @ CHR ''_'' # prod_code p)"
    by (simp add: plan_data_def)
  moreover have "CHR ''_'' \<notin> set ''rnw''" by simp
  moreover have "(2 :: nat) = Suc (Suc 0)" by simp
  ultimately show ?thesis
    unfolding renewal_parts_def
    by (simp only: split_char_max_append uuid_hex_no_underscore split_char_max.simps not_False_eq_True)
       simp
qed

subsection \<open>The plan button\<close>

lemma select_plan_leaves:
  assumes "get_by_slug (srv_slug srv) (ch_db c) = Some srv" "on_sale srv" "has_room srv (ch_db c)"
    and "get_product_by_code (prod_code p) (ch_db c) = Some p" "prod_enabled p"
    and "CHR ''_'' \<notin> set (srv_slug srv)" "CHR ''_'' \<notin> set (prod_code p)"
    and "pr_data q = plan_data (srv_slug srv) None p"
  shows "callback_select_plan cx u q c = start_order cx u q srv p None c"
  using assms
  by (simp add: callback_select_plan_def plan_data_parts item_def chat_simps such_that_def)

text \<open>C18. Pressing a plan button of the menu saves exactly one new order, for the server and the
  plan the button was made for, at the plan's price and awaiting its receipt, and the
  conversation then waits for the receipt of that order, whatever Telegram answers.\<close>

theorem plan_button_places_order:
  assumes "get_by_slug (srv_slug srv) (ch_db c) = Some srv" "on_sale srv" "has_room srv (ch_db c)"
    and "get_product_by_code (prod_code p) (ch_db c) = Some p" "prod_enabled p"
    and "CHR ''_'' \<notin> set (srv_slug srv)" "CHR ''_'' \<notin> set (prod_code p)"
    and "pr_data q = plan_data (srv_slug srv) None p"
    and "db_unique (orders_update (\<lambda>os. os @ [placed cx u srv p None]) (ch_db c))"
  shows "\<exists>r. ch_saved (snd (callback_select_plan cx u q c)) = orders_update (\<lambda>os. os @ [r]) (ch_db c) \<and>
    ord_user_id r = user_id u \<and> ord_server_id r = srv_id srv \<and> ord_product_id r = prod_id p \<and>
    ord_price_amount r = prod_price_amount p \<and> ord_currency r = prod_price_currency p \<and>
    ord_renews r = None \<and> ord_status r = AWAITING_RECEIPT \<and>
    ch_state (snd (callback_select_plan cx u q c)) = Some Awaiting_Receipt \<and>
    map_option parse_uuid (ch_data (snd (callback_select_plan cx u q c)) ''order_id'')
      = Some (Inr (ord_id r))"
proof -
  have "undisturbed (awaiting_receipt (placed cx u srv p None) srv c)
          (snd (callback_select_plan cx u q c))"
    unfolding select_plan_leaves [OF assms(1-8)]
    by (rule start_order_leaves) (use assms(9) in \<open>simp add: with_order_def\<close>)
  then show ?thesis
    by (intro exI [of _ "placed cx u srv p None"])
       (simp add: undisturbed_def awaiting_receipt_def with_order_def placed_def new_order_def
          parse_uuid_str)
qed

lemma split_char_snoc:
  "sep \<notin> set s \<Longrightarrow> \<exists>v vs. split_char sep (w @ sep # s) = v # vs @ [s]"
proof (induction w)
  case (Cons a w)
  then obtain v vs where "split_char sep (w @ sep # s) = v # vs @ [s]" by blast
  then show ?case by (auto intro: exI [of _ "v # vs"])
qed (simp add: split_char_word)

lemma split_char_last: "sep \<notin> set s \<Longrightarrow> last (split_char sep (w @ sep # s)) = s"
  using split_char_snoc [of sep s w] by auto

text \<open>A server whose slug holds an underscore cannot be bought: when no server has the part
  before the underscore as its slug, its plan buttons are answered with "invalid selection" and
  nothing is saved, although the menu offers them.\<close>

theorem underscore_slug_refused:
  assumes "srv_slug srv = a @ CHR ''_'' # b" "CHR ''_'' \<notin> set a" "get_by_slug a (ch_db c) = None"
    and "pr_data q = plan_data (srv_slug srv) None p"
  shows "callback_select_plan cx u q c = toast cx (get_text ''invalid_selection'' (lang u) []) c \<and>
    undisturbed c (snd (callback_select_plan cx u q c))"
proof -
  have data: "pr_data q = ''plan'' @ CHR ''_'' # (a @ CHR ''_'' # (b @ CHR ''_'' # prod_code p))"
    using assms(1,4) by (simp add: plan_data_def)
  have "CHR ''_'' \<notin> set ''plan''" by simp
  with assms(2) have parts: "split_char CHR ''_'' (pr_data q)
      = ''plan'' # a # split_char CHR ''_'' (b @ CHR ''_'' # prod_code p)"
    unfolding data by (simp only: split_char_append not_False_eq_True)
  obtain w ws where "split_char CHR ''_'' (b @ CHR ''_'' # prod_code p) = w # ws"
    by (meson neq_Nil_conv split_char_not_Nil)
  with parts assms(3) have
    eq: "callback_select_plan cx u q c = toast cx (get_text ''invalid_selection'' (lang u) []) c"
    by (simp add: callback_select_plan_def item_def chat_simps such_that_def)
  show ?thesis
    using eq quiet_after [OF quiet.keeps_toast] by simp
qed

subsection \<open>Subscriptions of others\<close>

text \<open>C19. No button reaches the subscription of another customer: viewing, redelivering and
  renewing it, or picking a renewal plan for it, are all answered with "subscription not
  found" and change nothing.\<close>

theorem foreign_subscription_refused:
  assumes "own_sub u sid (ch_db c) = None"
  shows "callback_view_subscription cx u (q\<lparr>pr_data := ''sub_view_'' @ uuid_str sid\<rparr>) c
      = sub_missing cx u c \<and>
    callback_redeliver_subscription cx u (q\<lparr>pr_data := ''sub_dl_'' @ uuid_str sid\<rparr>) c
      = sub_missing cx u c \<and>
    callback_redeliver_subscription cx u (q\<lparr>pr_data := ''sub_redeliver_'' @ uuid_str sid\<rparr>) c
      = sub_missing cx u c \<and>
    callback_renew_subscription cx u (q\<lparr>pr_data := ''renew_'' @ uuid_str sid\<rparr>) c
      = sub_missing cx u c \<and>
    callback_select_renewal_plan cx u (q\<lparr>pr_data := plan_data slug (Some sid) p\<rparr>) c
      = sub_missing cx u c \<and>
    undisturbed c (snd (sub_missing cx u c))"
proof -
  have last: "last (split_char CHR ''_'' (''sub_dl_'' @ uuid_str sid)) = uuid_str sid"
    "last (split_char CHR ''_'' (''sub_redeliver_'' @ uuid_str sid)) = uuid_str sid"
    using split_char_last [OF uuid_str_no_underscore, where w = "''sub_dl''"]
      split_char_last [OF uuid_str_no_underscore, where w = "''sub_redeliver''"]
    by simp_all
  have "undisturbed c (snd (sub_missing cx u c))"
    by (simp add: sub_missing_def quiet_after quiet.keeps_toast)
  with assms last show ?thesis
    by (simp add: callback_view_subscription_def callback_redeliver_subscription_def
        callback_renew_subscription_def callback_select_renewal_plan_def uuid_after_button
        renewal_data_parts parse_uuid_str parse_uuid_hex chat_simps del: append.simps)
qed

subsection \<open>The redelivery limit\<close>

definition redelivery_job :: "ctx \<Rightarrow> uuid \<Rightarrow> job" where
  "redelivery_job cx sid =
     new_job (cx_now cx) (cx_ids cx 0) REDELIVER_CONFIG ''subscription'' sid redeliver_payload None"

definition waiting_redelivery :: "uuid \<Rightarrow> job \<Rightarrow> bool" where
  "waiting_redelivery sid j \<longleftrightarrow>
     job_job_type j = REDELIVER_CONFIG \<and> job_aggregate_id j = sid \<and> job_status j = PENDING"

lemma redelivery_job_fields [simp]:
  "job_id (redelivery_job cx sid) = cx_ids cx 0" "waiting_redelivery sid (redelivery_job cx sid)"
  by (simp_all add: redelivery_job_def new_job_def waiting_redelivery_def)

definition with_job :: "job \<Rightarrow> chat \<Rightarrow> chat" where
  "with_job j c =
     (let d = jobs_update (\<lambda>js. js @ [j]) (ch_db c) in c\<lparr>ch_db := d, ch_saved := d\<rparr>)"

lemma with_job_db [simp]: "ch_db (with_job j c) = jobs_update (\<lambda>js. js @ [j]) (ch_db c)"
  "ch_saved (with_job j c) = jobs_update (\<lambda>js. js @ [j]) (ch_db c)"
  by (simp_all add: with_job_def Let_def)

definition redeliver_data :: "uuid \<Rightarrow> string" where
  "redeliver_data sid = ''sub_dl_'' @ uuid_str sid"

lemma redeliver_press_leaves:
  assumes "own_sub u sid (ch_db c) = Some s" "sub_redelivery_count s < st_redelivery_limit (cx_settings cx)"
    and "db_unique (jobs_update (\<lambda>js. js @ [redelivery_job cx sid]) (ch_db c))"
    and "pr_data q = redeliver_data sid"
  shows "undisturbed (with_job (redelivery_job cx sid) c) (snd (callback_redeliver_subscription cx u q c))"
proof -
  have "last (split_char CHR ''_'' (pr_data q)) = uuid_str sid"
    unfolding assms(4) redeliver_data_def
    using split_char_last [OF uuid_str_no_underscore, where w = "''sub_dl''"] by simp
  moreover have "sub_id s = sid"
    using assms(1) by (auto simp: own_sub_def dest: find_row_Some)
  moreover have "enqueue_job (cx_now cx) (cx_ids cx 0) REDELIVER_CONFIG ''subscription'' sid
      redeliver_payload None (ch_db c)
    = Inr (redelivery_job cx sid, jobs_update (\<lambda>js. js @ [redelivery_job cx sid]) (ch_db c))"
    using assms(3) by (simp add: enqueue_job_def redelivery_job_def Let_def)
  ultimately show ?thesis
    using assms(1,2)
    by (simp add: callback_redeliver_subscription_def parse_uuid_str chat_simps with_job_def Let_def
        quiet_after quiet.keeps_toast)
qed

definition redeliver_presses :: "user \<Rightarrow> press \<Rightarrow> ctx list \<Rightarrow> chat \<Rightarrow> chat" where
  "redeliver_presses u q cxs c =
     foldl (\<lambda>c cx. snd (callback_redeliver_subscription cx u q c)) c cxs"

lemma db_unique_add_job:
  "db_unique (jobs_update (\<lambda>js. js @ [j]) d) \<longleftrightarrow> db_unique d \<and> job_id j \<notin> job_id ` set (jobs d)"
  by (auto simp: db_unique_def)

lemma own_sub_jobs [simp]: "own_sub u sid (jobs_update f d) = own_sub u sid d"
  by (simp add: own_sub_def)

text \<open>The redelivery limit counts configs already sent, so it does not bound the jobs: while
  a subscription is under its limit, every press of its redeliver button queues one more job,
  however many are still waiting.\<close>

theorem redelivery_limit_overrun:
  assumes "own_sub u sid (ch_db c) = Some s"
    and "\<forall>cx \<in> set cxs. sub_redelivery_count s < st_redelivery_limit (cx_settings cx)"
    and "db_unique (ch_db c)" "distinct (map (\<lambda>cx. cx_ids cx 0) cxs)"
    and "\<forall>cx \<in> set cxs. cx_ids cx 0 \<notin> job_id ` set (jobs (ch_db c))"
    and "pr_data q = redeliver_data sid" "cxs \<noteq> []"
  shows "length (filter (waiting_redelivery sid) (jobs (ch_saved (redeliver_presses u q cxs c))))
    = length (filter (waiting_redelivery sid) (jobs (ch_db c))) + length cxs"
proof -
  have "length (filter (waiting_redelivery sid) (jobs (ch_db (redeliver_presses u q cxs c))))
      = length (filter (waiting_redelivery sid) (jobs (ch_db c))) + length cxs \<and>
    (cxs \<noteq> [] \<longrightarrow> ch_saved (redeliver_presses u q cxs c) = ch_db (redeliver_presses u q cxs c))"
    using assms(1-5)
  proof (induction cxs arbitrary: c)
    case Nil
    show ?case by (simp add: redeliver_presses_def)
  next
    case (Cons cx cxs)
    let ?c = "snd (callback_redeliver_subscription cx u q c)"
    have u1: "db_unique (jobs_update (\<lambda>js. js @ [redelivery_job cx sid]) (ch_db c))"
      using Cons.prems by (simp add: db_unique_add_job)
    have "undisturbed (with_job (redelivery_job cx sid) c) ?c"
      using redeliver_press_leaves [OF Cons.prems(1) _ u1 assms(6)] Cons.prems(2) by simp
    then have eq: "ch_db ?c = jobs_update (\<lambda>js. js @ [redelivery_job cx sid]) (ch_db c)"
      "ch_saved ?c = ch_db ?c"
      by (simp_all add: undisturbed_def)
    have "own_sub u sid (ch_db ?c) = Some s" "db_unique (ch_db ?c)"
      "\<forall>cx \<in> set cxs. cx_ids cx 0 \<notin> job_id ` set (jobs (ch_db ?c))"
      using Cons.prems u1 by (auto simp: eq(1)) (metis image_eqI)
    from Cons.IH [OF this(1) _ this(2) _ this(3)] Cons.prems(2,4) show ?case
      using eq by (cases cxs) (auto simp: redeliver_presses_def)
  qed
  with assms(7) show ?thesis by simp
qed

subsection \<open>Receipts\<close>

definition received :: "ctx \<Rightarrow> post \<Rightarrow> order \<Rightarrow> order" where
  "received cx m =
     with_receipt (snd (receipt_file m)) (po_message_id m) (po_chat_id m) (fst (receipt_file m))
       (po_caption m) (cx_now cx)"

definition receipt_saved :: "ctx \<Rightarrow> post \<Rightarrow> order \<Rightarrow> chat \<Rightarrow> chat" where
  "receipt_saved cx m r c =
     (let d = upd_order (ord_id r) (received cx m) (ch_db c)
      in c\<lparr>ch_db := d, ch_saved := d, ch_state := None, ch_data := Map.empty\<rparr>)"

definition alert_sent :: "ctx \<Rightarrow> user \<Rightarrow> post \<Rightarrow> order \<Rightarrow> chat \<Rightarrow> chat" where
  "alert_sent cx u m r c =
     (if st_admin_chat_id (cx_settings cx) = 0 then c
      else logged cx (Send_Media (st_admin_chat_id (cx_settings cx)) (fst (receipt_file m))
             (snd (receipt_file m)) (receipt_alert r u (po_caption m) (ch_db c)) (review_keyboard r)) c)"

lemma receipt_upload_leaves:
  assumes "ch_data c ''order_id'' = Some (uuid_str oid)" "get_order oid (ch_db c) = Some r"
  shows "snd (handle_receipt_upload cx u m c) =
    logged cx (Answer (get_text ''receipt_received'' (lang u) [(''order_code'', Plain (ord_code r))])
      main_menu_keyboard) (alert_sent cx u m r (receipt_saved cx m r c))"
proof -
  have "uuid_str oid \<noteq> []"
    by (simp add: uuid_str_def Let_def)
  moreover have oid: "ord_id r = oid"
    using assms(2) by (rule get_order_id)
  ultimately show ?thesis
    using assms
    by (simp add: handle_receipt_upload_def truthy_def parse_uuid_str chat_simps Let_def
        case_prod_beta submit_receipt_def receipt_saved_def received_def alert_sent_def)
qed

text \<open>A receipt sent while the conversation waits for one is saved on the order it was asked
  for and on no other, the order then waits for review, the conversation is over, and the
  administrators' chat, when there is one, gets the receipt with an approve and a reject
  button that both lead back to that order.\<close>

theorem receipt_reaches_review:
  assumes "ch_data c ''order_id'' = Some (uuid_str oid)" "get_order oid (ch_db c) = Some r"
    and "c' = snd (handle_receipt_upload cx u m c)"
  shows "get_order oid (ch_saved c') = Some (received cx m r) \<and>
    ord_status (received cx m r) = RECEIPT_SUBMITTED \<and>
    ord_receipt_file_id (received cx m r) = Some (snd (receipt_file m)) \<and>
    (\<forall>i. i \<noteq> oid \<longrightarrow> get_order i (ch_saved c') = get_order i (ch_db c)) \<and>
    ch_state c' = None \<and> ch_data c' = Map.empty \<and>
    (st_admin_chat_id (cx_settings cx) \<noteq> 0 \<longrightarrow>
       (\<exists>t a kb. (Send_Media (st_admin_chat_id (cx_settings cx)) (fst (receipt_file m))
            (snd (receipt_file m)) t kb, a) \<in> set (ch_out c') \<and>
          map (uuid_after ''adm_app_'') (take 1 kb) = [Inr oid] \<and>
          map (uuid_after ''adm_rej_'') (drop 1 kb) = [Inr oid]))"
proof -
  have id: "ord_id r = oid" using assms(2) by (rule get_order_id)
  have key: "ord_id (received cx m q) = ord_id q" for q by (simp add: received_def)
  have find: "get_order i (upd_order oid (received cx m) (ch_db c)) =
      (if i = oid then map_option (received cx m) (get_order i (ch_db c)) else get_order i (ch_db c))" for i
    by (rule orders_tab.find_after_update) (rule key)
  have kb: "map (uuid_after ''adm_app_'') (take 1 (review_keyboard r)) = [Inr oid]"
    "map (uuid_after ''adm_rej_'') (drop 1 (review_keyboard r)) = [Inr oid]"
    using uuid_after_button [of "''adm_app_''" oid] uuid_after_button [of "''adm_rej_''" oid]
    by (simp_all add: review_keyboard_def id)
  have c': "ch_saved c' = upd_order oid (received cx m) (ch_db c)" "ch_state c' = None"
    "ch_data c' = Map.empty"
    unfolding assms(3) receipt_upload_leaves [OF assms(1,2)]
    by (simp_all add: alert_sent_def receipt_saved_def Let_def id)
  have sent: "(Send_Media (st_admin_chat_id (cx_settings cx)) (fst (receipt_file m)) (snd (receipt_file m))
      (receipt_alert r u (po_caption m) (ch_db (receipt_saved cx m r c))) (review_keyboard r),
      cx_tg cx (length (ch_out (receipt_saved cx m r c)))) \<in> set (ch_out c')"
    if "st_admin_chat_id (cx_settings cx) \<noteq> 0"
    unfolding assms(3) receipt_upload_leaves [OF assms(1,2)] using that by (simp add: alert_sent_def)
  have "st_admin_chat_id (cx_settings cx) \<noteq> 0 \<longrightarrow>
       (\<exists>t a kb. (Send_Media (st_admin_chat_id (cx_settings cx)) (fst (receipt_file m))
            (snd (receipt_file m)) t kb, a) \<in> set (ch_out c') \<and>
          map (uuid_after ''adm_app_'') (take 1 kb) = [Inr oid] \<and>
          map (uuid_after ''adm_rej_'') (drop 1 kb) = [Inr oid])"
    by (intro impI exI conjI) (erule sent, rule kb, rule kb)
  moreover have "ord_status (received cx m r) = RECEIPT_SUBMITTED \<and>
      ord_receipt_file_id (received cx m r) = Some (snd (receipt_file m))"
    by (simp add: received_def with_receipt_def)
  ultimately show ?thesis
    using c' find assms(2) by simp
qed

subsection \<open>Examples\<close>

definition shop_chat :: chat where
  "shop_chat = chat_on sub_db"

definition paying_chat :: chat where
  "paying_chat = shop_chat\<lparr>ch_state := Some Awaiting_Receipt, ch_data := [''order_id'' \<mapsto> uuid_str 4]\<rparr>"

lemma paying_chat_fields [simp]:
  "ch_db paying_chat = sub_db" "ch_data paying_chat ''order_id'' = Some (uuid_str 4)"
  by (simp_all add: paying_chat_def shop_chat_def)

lemma shop_chat_fields [simp]: "ch_db shop_chat = sub_db" "ch_saved shop_chat = sub_db"
  by (simp_all add: shop_chat_def)

lemma shop_fields [simp]:
  "srv_id sample_server = 2" "prod_id sample_product = 3" "user_id sample_user = 1"
  "user_id other_user = 12" "sub_user_id sample_sub = 1" "sub_redelivery_count sample_sub = 0"
  "jobs sub_db = []"
  by (simp_all add: other_user_def sample_db_defs)

lemma shop_rows:
  "get_by_slug (srv_slug sample_server) sub_db = Some sample_server" "on_sale sample_server"
  "has_room sample_server sub_db"
  "get_product_by_code (prod_code sample_product) sub_db = Some sample_product"
  "prod_enabled sample_product" "get_sub 6 sub_db = Some sample_sub" "get_order 4 sub_db = Some sample_order"
  "CHR ''_'' \<notin> set (srv_slug sample_server)" "CHR ''_'' \<notin> set (prod_code sample_product)"
  by (simp_all add: get_by_slug_def get_product_by_code_def on_sale_def has_room_def
      count_active_subscriptions_def sample_db_defs)

lemma placed_unique:
  "db_unique (orders_update (\<lambda>os. os @ [placed sample_ctx sample_user sample_server sample_product None]) sub_db)"
  by (simp add: db_unique_def distinct_opt_def placed_def new_order_def generate_order_code_def
      order_code_alphabet_def sample_db_defs)

theorem plan_button_places_order_witness:
  "\<exists>r. ch_saved (snd (callback_select_plan sample_ctx sample_user
      (press_of (plan_data (srv_slug sample_server) None sample_product)) shop_chat))
    = orders_update (\<lambda>os. os @ [r]) sub_db \<and> ord_server_id r = 2 \<and> ord_product_id r = 3"
  using plan_button_places_order [of sample_server shop_chat sample_product
      "press_of (plan_data (srv_slug sample_server) None sample_product)" sample_ctx sample_user]
    shop_rows placed_unique
  by auto

lemma odd_slug: "srv_slug odd_server = ''de'' @ CHR ''_'' # ''1''" "get_by_slug ''de'' sub_db = None"
  by (simp_all add: odd_server_def get_by_slug_def sample_db_defs)

theorem underscore_slug_refused_witness:
  "undisturbed shop_chat (snd (callback_select_plan sample_ctx sample_user
     (press_of (plan_data (srv_slug odd_server) None sample_product)) shop_chat))"
  by (rule underscore_slug_refused [of odd_server "''de''" "''1''", THEN conjunct2])
     (simp_all add: odd_slug del: append.simps)

theorem foreign_subscription_refused_witness:
  "callback_view_subscription sample_ctx other_user (press_of (''sub_view_'' @ uuid_str 6)) shop_chat
     = sub_missing sample_ctx other_user shop_chat"
  using foreign_subscription_refused [of other_user 6 shop_chat sample_ctx "press_of []"] shop_rows
  by (simp add: own_sub_def such_that_def)

theorem redelivery_limit_overrun_witness:
  "length (filter (waiting_redelivery 6) (jobs (ch_saved (redeliver_presses sample_user
     (press_of (redeliver_data 6)) [sample_ctx] shop_chat)))) = 1"
  using redelivery_limit_overrun [of sample_user 6 shop_chat sample_sub "[sample_ctx]"
      "press_of (redeliver_data 6)"] shop_rows sub_db_unique
  by (simp add: own_sub_def such_that_def)

theorem receipt_reaches_review_witness:
  "get_order 4 (ch_saved (snd (handle_receipt_upload sample_ctx sample_user sample_post paying_chat)))
     = Some (received sample_ctx sample_post sample_order)"
  using receipt_reaches_review [of paying_chat 4 sample_order
      "snd (handle_receipt_upload sample_ctx sample_user sample_post paying_chat)"] shop_rows
  by simp

end
