(* ===== verification/Admin_Base.thy ===== *)
theory Admin_Base
  imports Chat_Samples
begin

section \<open>Who is an administrator\<close>

text \<open>
  The shared part of the admin handlers (\<open>handlers/admin.py\<close>): \<open>is_admin\<close> on the validated
  settings (\<open>ADMIN_TELEGRAM_IDS\<close> is a list of integers there), the guard every handler starts
  with, for a button press (answered "Unauthorized") and for a command (ignored), and
  \<open>_audit\<close>. The lemmas reduce a handler to its body for an administrator and to nothing for
  anybody else.
\<close>

definition is_admin :: "settings \<Rightarrow> int \<Rightarrow> bool" where
  "is_admin st uid \<longleftrightarrow>
     uid \<noteq> 0 \<and>
     (uid \<in> set (st_admin_telegram_ids st)
      \<or> st_admin_chat_id st \<noteq> 0 \<and> st_admin_chat_id st > 0 \<and> uid = st_admin_chat_id st)"

definition unauthorized :: msg_text where
  "unauthorized = Lit ''Unauthorized'' []"

definition admin_press :: "ctx \<Rightarrow> press \<Rightarrow> unit handler \<Rightarrow> unit handler" where
  "admin_press cx q k =
     (if is_admin (cx_settings cx) (pr_from q) then k else toast cx unauthorized)"

definition admin_post :: "ctx \<Rightarrow> post \<Rightarrow> unit handler \<Rightarrow> unit handler" where
  "admin_post cx m k = (if is_admin (cx_settings cx) (po_from m) then k else done_act)"

text \<open>\<open>_audit\<close>: the n-th fresh id of the handler is the event's.\<close>

definition audit_admin ::
  "ctx \<Rightarrow> nat \<Rightarrow> int \<Rightarrow> string \<Rightarrow> string \<Rightarrow> uuid option \<Rightarrow> json_object \<Rightarrow> unit handler" where
  "audit_admin cx n admin ev ent ent_id meta =
     try_change (\<lambda>d. bind_res (record_event (cx_now cx) (cx_ids cx n) A_ADMIN (Some admin) ev ent
         ent_id meta d) (\<lambda>d'. Inr ((), d')))"

text \<open>The name an admin or a customer is shown under.\<close>

definition admin_tag :: "press \<Rightarrow> string" where
  "admin_tag q =
     (if truthy (pr_username q) then CHR ''@'' # the (pr_username q) else show_int (pr_from q))"

definition user_tag :: "user option \<Rightarrow> string" where
  "user_tag u =
     (case u of
        None \<Rightarrow> ''Unknown''
      | Some v \<Rightarrow> if truthy (user_username v) then CHR ''@'' # the (user_username v)
                  else show_int (user_telegram_id v))"

definition back_to_dashboard :: keyboard where
  "back_to_dashboard = [''adm_back'']"

text \<open>Telling a customer something, when they still have a row; a failure is caught.\<close>

definition tell_customer :: "ctx \<Rightarrow> uuid \<Rightarrow> (user \<Rightarrow> msg_text) \<Rightarrow> unit handler" where
  "tell_customer cx uid t =
     reading (get_user uid) (\<lambda>user.
     find_or user done_act (\<lambda>u. try_tell cx (Send (user_telegram_id u) (t u) [])))"

subsection \<open>The guard\<close>

lemma admin_press_yes: "is_admin (cx_settings cx) (pr_from q) \<Longrightarrow> admin_press cx q k = k"
  by (simp add: admin_press_def)

lemma admin_post_yes: "is_admin (cx_settings cx) (po_from m) \<Longrightarrow> admin_post cx m k = k"
  by (simp add: admin_post_def)

lemma admin_press_no:
  "\<not> is_admin (cx_settings cx) (pr_from q) \<Longrightarrow> admin_press cx q k c = toast cx unauthorized c"
  by (simp add: admin_press_def)

lemma admin_post_no: "\<not> is_admin (cx_settings cx) (po_from m) \<Longrightarrow> admin_post cx m k c = (Inr (), c)"
  by (simp add: admin_post_def done_act_def)

lemma tell_customer_quiet: "quiet.keeps (tell_customer cx uid t)"
  unfolding tell_customer_def
  by (intro quiet.keeps_reading quiet.keeps_find_or quiet.keeps_calls)

end
