(* ===== verification/Support_Desk.thy ===== *)
theory Support_Desk
  imports Admin_Base
begin

section \<open>Support: the customer's messages and the administrators' answers\<close>

text \<open>
  \<open>handlers/support.py\<close> and the ticket handlers of \<open>handlers/admin.py\<close>. A support message
  goes to the customer's active ticket, or opens one; an administrator answers or closes a
  ticket from its buttons. The lemmas: a customer's messages gather in one active ticket, and
  an answer reaches the customer of the ticket only.
\<close>

subsection \<open>The customer's side\<close>

definition cmd_support :: "ctx \<Rightarrow> user \<Rightarrow> unit handler" where
  "cmd_support cx u =
     act_bind (set_state Writing_Message) (\<lambda>_.
     tell cx (Answer (get_text ''support_prompt'' (user_language_code u) []) cancel_keyboard))"

definition callback_menu_support :: "ctx \<Rightarrow> user \<Rightarrow> press \<Rightarrow> unit handler" where
  "callback_menu_support cx u q =
     act_bind (set_state Writing_Message) (\<lambda>_.
     show_menu cx q (get_text ''support_prompt'' (user_language_code u) []) cancel_keyboard)"

text \<open>The text of a message (with what stands for one without) and its attachment.\<close>

definition body_text :: "string \<Rightarrow> post \<Rightarrow> string" where
  "body_text dflt m =
     (if truthy (po_text m) then the (po_text m)
      else if truthy (po_caption m) then the (po_caption m) else dflt)"

definition attachment :: "post \<Rightarrow> string option \<times> string option" where
  "attachment m =
     (if po_photo m \<noteq> [] then (Some (last (po_photo m)), Some ''photo'')
      else case po_document m of Some f \<Rightarrow> (Some f, Some ''document'') | None \<Rightarrow> (None, None))"

definition content_of :: "string \<Rightarrow> post \<Rightarrow> message_content" where
  "content_of dflt m =
     \<lparr>mc_body = Some (body_text dflt m), mc_file_id = fst (attachment m),
      mc_file_type = snd (attachment m)\<rparr>"

definition support_content :: "post \<Rightarrow> message_content" where
  "support_content m = content_of ''Media attachment'' m"

definition support_body :: "post \<Rightarrow> string" where
  "support_body m = body_text ''Media attachment'' m"

definition ticket_keyboard :: "ticket \<Rightarrow> keyboard" where
  "ticket_keyboard t =
     [''adm_rep_tck_'' @ uuid_str (tck_id t), ''adm_cls_tck_'' @ uuid_str (tck_id t)]"

definition support_alert :: "ticket \<Rightarrow> user \<Rightarrow> string \<Rightarrow> msg_text" where
  "support_alert t u body =
     Lit ''Support Message'' [(''Ticket'', Plain (tck_code t)),
       (''From'', Plain (show_int (user_telegram_id u))),
       (''Username'', Plain (or_else (user_username u) ''N/A'')),
       (''Body'', Plain (html_escape body))]"

text \<open>The message is saved in the active ticket, or in a new one.\<close>

definition open_ticket :: "ctx \<Rightarrow> user \<Rightarrow> post \<Rightarrow> ticket handler" where
  "open_ticket cx u m =
     try_change (create_ticket (cx_now cx) (cx_ids cx 0) (cx_ids cx 1) (cx_draws cx) (user_id u)
       (Some (take 40 (support_body m))) (support_content m) (Some (user_telegram_id u)))"

definition add_to_ticket :: "ctx \<Rightarrow> user \<Rightarrow> post \<Rightarrow> ticket \<Rightarrow> ticket handler" where
  "add_to_ticket cx u m t =
     act_bind (try_change (add_message (cx_ids cx 1) (tck_id t) S_CUSTOMER
         (Some (user_telegram_id u)) (support_content m) (Some (po_chat_id m))
         (Some (po_message_id m)))) (\<lambda>_. return_act t)"

definition file_message :: "ctx \<Rightarrow> user \<Rightarrow> post \<Rightarrow> ticket handler" where
  "file_message cx u m =
     reading (get_active_ticket_for_user (user_id u)) (\<lambda>found.
     act_bind (attempt_res found) (\<lambda>active.
       case active of None \<Rightarrow> open_ticket cx u m | Some t \<Rightarrow> add_to_ticket cx u m t))"

definition handle_support_message :: "ctx \<Rightarrow> user \<Rightarrow> post \<Rightarrow> unit handler" where
  "handle_support_message cx u m =
     act_bind (file_message cx u m) (\<lambda>t.
     act_bind commit (\<lambda>_.
     act_bind clear_state (\<lambda>_.
     act_bind (if st_admin_chat_id (cx_settings cx) = 0 then done_act
               else try_tell cx (Send (st_admin_chat_id (cx_settings cx))
                      (support_alert t u (support_body m)) (ticket_keyboard t))) (\<lambda>_.
     tell cx (Answer (get_text ''support_received'' (user_language_code u)
         [(''ticket_code'', Plain (tck_code t))]) main_menu_keyboard)))))"

subsection \<open>The administrators' side\<close>

definition ticket_line :: "db \<Rightarrow> ticket \<Rightarrow> string \<times> arg" where
  "ticket_line d t =
     (tck_code t, Plain (user_tag (get_user (tck_user_id t) d) @ '' | ''
        @ ticket_status_value (tck_status t)))"

definition open_tickets_text :: "ticket list \<Rightarrow> db \<Rightarrow> msg_text" where
  "open_tickets_text ts d =
     Lit ''Open Support Tickets''
       ((''count'', Plain (show_nat (length ts))) # map (ticket_line d) (take 10 ts))"

definition callback_admin_open_tickets :: "ctx \<Rightarrow> press \<Rightarrow> unit handler" where
  "callback_admin_open_tickets cx q = admin_press cx q
     (reading list_open_tickets (\<lambda>ts.
      if ts = [] then toast cx (Lit ''No open support tickets.'' [])
      else reading (open_tickets_text ts) (\<lambda>t.
        show_menu cx q t (map (\<lambda>k. ''adm_rep_tck_'' @ uuid_str (tck_id k)) (take 10 ts)
          @ back_to_dashboard))))"

definition callback_admin_reply_ticket :: "ctx \<Rightarrow> press \<Rightarrow> unit handler" where
  "callback_admin_reply_ticket cx q = admin_press cx q
     (act_bind (attempt_res (uuid_after ''adm_rep_tck_'' (pr_data q))) (\<lambda>tid.
      reading (get_ticket tid) (\<lambda>ticket.
      find_or ticket (toast cx (Lit ''Ticket not found'' [])) (\<lambda>t.
      act_bind (set_state Waiting_For_Reply) (\<lambda>_.
      act_bind (update_data [(''ticket_id'', uuid_str (tck_id t))]) (\<lambda>_.
      act_bind (if pr_message q = None then done_act
                else tell cx (Answer (Lit ''Replying to Ticket'' [(''Ticket'', Plain (tck_code t))]) []))
        (\<lambda>_. tell cx Ack)))))))"

definition reply_body :: "post \<Rightarrow> string" where
  "reply_body m = body_text ''Admin attachment response'' m"

definition reply_content :: "post \<Rightarrow> message_content" where
  "reply_content m = content_of ''Admin attachment response'' m"

definition reply_text :: "ticket \<Rightarrow> post \<Rightarrow> user \<Rightarrow> msg_text" where
  "reply_text t m u =
     get_text ''support_reply'' (user_language_code u)
       [(''ticket_code'', Plain (tck_code t)), (''body'', Plain (html_escape (reply_body m)))]"

definition handle_admin_ticket_reply :: "ctx \<Rightarrow> post \<Rightarrow> unit handler" where
  "handle_admin_ticket_reply cx m = admin_post cx m
     (state_value ''ticket_id'' (\<lambda>tid_text.
      if \<not> truthy tid_text then clear_state
      else act_bind (attempt_res (parse_uuid (the tid_text))) (\<lambda>tid.
        reading (get_ticket tid) (\<lambda>ticket.
        find_or ticket clear_state (\<lambda>t.
        act_bind (try_change (add_message (cx_ids cx 0) (tck_id t) S_ADMIN (Some (po_from m))
            (reply_content m) (Some (po_chat_id m)) (Some (po_message_id m)))) (\<lambda>_.
        act_bind commit (\<lambda>_.
        act_bind clear_state (\<lambda>_.
        act_bind (tell_customer cx (tck_user_id t) (reply_text t m)) (\<lambda>_.
        tell cx (Answer (Lit ''Reply delivered'' [(''Ticket'', Plain (tck_code t))]) []))))))))))"

definition closed_text :: "ticket \<Rightarrow> user \<Rightarrow> msg_text" where
  "closed_text t u =
     get_text ''ticket_closed'' (user_language_code u) [(''ticket_code'', Plain (tck_code t))]"

definition callback_admin_close_ticket :: "ctx \<Rightarrow> press \<Rightarrow> unit handler" where
  "callback_admin_close_ticket cx q = admin_press cx q
     (act_bind (attempt_res (uuid_after ''adm_cls_tck_'' (pr_data q))) (\<lambda>tid.
      act_bind (change (close_ticket tid (cx_now cx))) (\<lambda>ticket.
      act_bind commit (\<lambda>_.
      find_or ticket (toast cx (Lit ''Ticket not found'' [])) (\<lambda>t.
      act_bind (if pr_message q = None then done_act
                else try_tell cx (Edit (Lit ''Ticket Closed''
                       [(''Ticket'', Plain (tck_code t)), (''by'', Plain (admin_tag q))]))) (\<lambda>_.
      act_bind (toast cx (Lit ''Ticket closed.'' [])) (\<lambda>_.
      tell_customer cx (tck_user_id t) (closed_text t))))))))"

subsection \<open>Messages gather in one ticket\<close>

text \<open>The ids and the code drawn for a new ticket and its message are not taken.\<close>

definition fresh_ticket :: "ctx \<Rightarrow> db \<Rightarrow> bool" where
  "fresh_ticket cx d \<longleftrightarrow>
     cx_ids cx 0 \<notin> tck_id ` set (tickets d) \<and> cx_ids cx 1 \<notin> msg_id ` set (messages d) \<and>
     generate_ticket_code (cx_draws cx) \<notin> tck_code ` set (tickets d)"

lemma db_unique_add_ticket:
  "db_unique d \<Longrightarrow> tck_id t \<notin> tck_id ` set (tickets d) \<Longrightarrow> tck_code t \<notin> tck_code ` set (tickets d) \<Longrightarrow>
   db_unique (tickets_update (\<lambda>ts. ts @ [t]) d)"
  by (simp add: db_unique_def)

lemma db_unique_add_message:
  "db_unique d \<Longrightarrow> msg_id m \<notin> msg_id ` set (messages d) \<Longrightarrow>
   db_unique (messages_update (\<lambda>ms. ms @ [m]) d)"
  by (simp add: db_unique_def)

definition message_of :: "ctx \<Rightarrow> user \<Rightarrow> post \<Rightarrow> support_message \<Rightarrow> bool" where
  "message_of cx u m x \<longleftrightarrow> msg_id x = cx_ids cx 1 \<and> msg_sender_type x = S_CUSTOMER
     \<and> msg_sender_telegram_id x = Some (user_telegram_id u) \<and> msg_body x = Some (support_body m)"

lemma open_ticket_files:
  assumes "db_unique (ch_db c)" "fresh_ticket cx (ch_db c)"
  obtains x where "open_ticket cx u m c =
      (Inr (new_ticket (cx_now cx) (cx_ids cx 0) (cx_draws cx) (user_id u) (Some (take 40 (support_body m)))),
       c\<lparr>ch_db := messages_update (\<lambda>ms. ms @ [x]) (tickets_update (\<lambda>ts. ts @ [new_ticket (cx_now cx)
          (cx_ids cx 0) (cx_draws cx) (user_id u) (Some (take 40 (support_body m)))]) (ch_db c))\<rparr>)"
    and "message_of cx u m x" "msg_ticket_id x = cx_ids cx 0"
proof -
  let ?t = "new_ticket (cx_now cx) (cx_ids cx 0) (cx_draws cx) (user_id u) (Some (take 40 (support_body m)))"
  let ?x = "new_message (cx_ids cx 1) (cx_ids cx 0) S_CUSTOMER (Some (user_telegram_id u))
    (support_content m) None None"
  have "support_body m \<noteq> []"
    by (auto simp: support_body_def body_text_def truthy_def split: option.splits)
  then have body: "truthy (mc_body (support_content m))"
    by (simp add: support_content_def content_of_def support_body_def truthy_def)
  have u1: "db_unique (tickets_update (\<lambda>ts. ts @ [?t]) (ch_db c))"
    using assms by (intro db_unique_add_ticket) (auto simp: fresh_ticket_def)
  then have u2: "db_unique (messages_update (\<lambda>ms. ms @ [?x]) (tickets_update (\<lambda>ts. ts @ [?t]) (ch_db c)))"
    using assms by (intro db_unique_add_message) (auto simp: fresh_ticket_def new_message_def)
  have "create_ticket (cx_now cx) (cx_ids cx 0) (cx_ids cx 1) (cx_draws cx) (user_id u)
      (Some (take 40 (support_body m))) (support_content m) (Some (user_telegram_id u)) (ch_db c)
    = Inr (?t, messages_update (\<lambda>ms. ms @ [?x]) (tickets_update (\<lambda>ts. ts @ [?t]) (ch_db c)))"
    using u1 u2 body by (simp add: create_ticket_def Let_def)
  then have "open_ticket cx u m c = (Inr ?t, c\<lparr>ch_db := messages_update (\<lambda>ms. ms @ [?x])
      (tickets_update (\<lambda>ts. ts @ [?t]) (ch_db c))\<rparr>)"
    by (simp add: open_ticket_def chat_simps)
  then show ?thesis
    by (rule that) (simp_all add: message_of_def new_message_def support_content_def content_of_def
        support_body_def)
qed

lemma add_to_ticket_files:
  assumes "db_unique (ch_db c)" "fresh_ticket cx (ch_db c)"
  obtains x where "add_to_ticket cx u m t c =
      (Inr t, c\<lparr>ch_db := upd_ticket (tck_id t) (answered S_CUSTOMER)
          (messages_update (\<lambda>ms. ms @ [x]) (ch_db c))\<rparr>)"
    and "message_of cx u m x" "msg_ticket_id x = tck_id t"
proof -
  let ?x = "new_message (cx_ids cx 1) (tck_id t) S_CUSTOMER (Some (user_telegram_id u))
    (support_content m) (Some (po_chat_id m)) (Some (po_message_id m))"
  have "db_unique (upd_ticket (tck_id t) (answered S_CUSTOMER) (messages_update (\<lambda>ms. ms @ [?x]) (ch_db c)))"
    using assms by (subst unique_simps) (auto intro!: db_unique_add_message simp: fresh_ticket_def new_message_def)
  then have "add_message (cx_ids cx 1) (tck_id t) S_CUSTOMER (Some (user_telegram_id u))
      (support_content m) (Some (po_chat_id m)) (Some (po_message_id m)) (ch_db c)
    = Inr (?x, upd_ticket (tck_id t) (answered S_CUSTOMER) (messages_update (\<lambda>ms. ms @ [?x]) (ch_db c)))"
    by (simp add: add_message_def Let_def)
  then have "add_to_ticket cx u m t c = (Inr t, c\<lparr>ch_db := upd_ticket (tck_id t) (answered S_CUSTOMER)
      (messages_update (\<lambda>ms. ms @ [?x]) (ch_db c))\<rparr>)"
    by (simp add: add_to_ticket_def chat_simps return_act_def)
  then show ?thesis
    by (rule that) (simp_all add: message_of_def new_message_def support_content_def content_of_def
        support_body_def)
qed

lemma active_unique:
  assumes "active_count uid d = 1" "t \<in> set (tickets d)" "is_active uid t"
  shows "get_active_ticket_for_user uid d = Inr (Some t)"
proof -
  have "length (active_tickets uid d) = 1" using assms(1) by (simp add: active_count_tickets)
  then obtain y where y: "active_tickets uid d = [y]" by (auto simp: length_Suc_conv)
  have "t \<in> set (active_tickets uid d)" using assms(2,3) by (simp add: active_tickets_filter)
  with y show ?thesis by (simp add: get_active_ticket_for_user_def)
qed

lemma answered_active: "is_active uid t \<Longrightarrow> is_active uid (answered S_CUSTOMER t)"
  by (simp add: is_active_def answered_def)

text \<open>What filing a message leaves: the message \<open>x\<close> in ticket \<open>t\<close>, which is the one active
  ticket of the customer.\<close>

definition filed :: "ctx \<Rightarrow> user \<Rightarrow> post \<Rightarrow> ticket \<Rightarrow> db \<Rightarrow> db \<Rightarrow> bool" where
  "filed cx u m t d d' \<longleftrightarrow>
     (\<exists>x. messages d' = messages d @ [x] \<and> message_of cx u m x \<and> msg_ticket_id x = tck_id t) \<and>
     active_count (user_id u) d' = 1 \<and>
     (\<exists>t'. get_active_ticket_for_user (user_id u) d' = Inr (Some t') \<and> tck_id t' = tck_id t) \<and>
     (\<forall>t0. get_active_ticket_for_user (user_id u) d = Inr (Some t0) \<longrightarrow> t = t0)"

lemma open_ticket_filed:
  assumes "db_unique (ch_db c)" "fresh_ticket cx (ch_db c)" "active_count (user_id u) (ch_db c) = 0"
  obtains t d where "open_ticket cx u m c = (Inr t, c\<lparr>ch_db := d\<rparr>)" "filed cx u m t (ch_db c) d"
proof -
  let ?t = "new_ticket (cx_now cx) (cx_ids cx 0) (cx_draws cx) (user_id u) (Some (take 40 (support_body m)))"
  from open_ticket_files [OF assms(1,2)] obtain x where x: "open_ticket cx u m c = (Inr ?t,
      c\<lparr>ch_db := messages_update (\<lambda>ms. ms @ [x]) (tickets_update (\<lambda>ts. ts @ [?t]) (ch_db c))\<rparr>)"
    "message_of cx u m x" "msg_ticket_id x = cx_ids cx 0" .
  let ?d = "messages_update (\<lambda>ms. ms @ [x]) (tickets_update (\<lambda>ts. ts @ [?t]) (ch_db c))"
  have act: "is_active (user_id u) ?t" by (simp add: is_active_def)
  with assms(3) have n: "active_count (user_id u) ?d = 1" by (simp add: active_count_def)
  have "get_active_ticket_for_user (user_id u) ?d = Inr (Some ?t)"
    by (rule active_unique [OF n _ act]) simp
  moreover have "get_active_ticket_for_user (user_id u) (ch_db c) = Inr None"
    using assms(3) by (simp add: get_active_None)
  ultimately have "filed cx u m ?t (ch_db c) ?d"
    using n x(2,3) by (auto simp: filed_def)
  with x(1) show ?thesis by (rule that)
qed

lemma add_to_ticket_filed:
  assumes "db_unique (ch_db c)" "fresh_ticket cx (ch_db c)"
    and "get_active_ticket_for_user (user_id u) (ch_db c) = Inr (Some t)"
  obtains d where "add_to_ticket cx u m t c = (Inr t, c\<lparr>ch_db := d\<rparr>)" "filed cx u m t (ch_db c) d"
proof -
  from add_to_ticket_files [OF assms(1,2)] obtain x where x: "add_to_ticket cx u m t c = (Inr t,
      c\<lparr>ch_db := upd_ticket (tck_id t) (answered S_CUSTOMER) (messages_update (\<lambda>ms. ms @ [x]) (ch_db c))\<rparr>)"
    "message_of cx u m x" "msg_ticket_id x = tck_id t" .
  let ?d = "upd_ticket (tck_id t) (answered S_CUSTOMER) (messages_update (\<lambda>ms. ms @ [x]) (ch_db c))"
  note t = get_active_Some [OF assms(3)]
  have same: "r = t" if "r \<in> set (tickets (ch_db c))" "tck_id r = tck_id t" for r
    using that t(1) assms(1) by (auto simp: db_unique_def inj_on_def distinct_map)
  have "length (filter (is_active (user_id u)) (update_row tck_id (tck_id t) (answered S_CUSTOMER)
      (tickets (ch_db c)))) = length (filter (is_active (user_id u)) (tickets (ch_db c)))"
    using same t(2) answered_active by (intro filter_update_row_same) blast
  with t(3) have n: "active_count (user_id u) ?d = 1" by (simp add: active_count_def)
  have "answered S_CUSTOMER t \<in> set (tickets ?d)"
    using t(1) by (force simp: update_row_def)
  from active_unique [OF n this answered_active [OF t(2)]]
  have "get_active_ticket_for_user (user_id u) ?d = Inr (Some (answered S_CUSTOMER t))" .
  with n x(2,3) assms(3) have "filed cx u m t (ch_db c) ?d"
    by (auto simp: filed_def)
  with x(1) show ?thesis by (rule that)
qed

lemma file_message_filed:
  assumes "db_unique (ch_db c)" "fresh_ticket cx (ch_db c)" "active_count (user_id u) (ch_db c) \<le> 1"
  obtains t d where "file_message cx u m c = (Inr t, c\<lparr>ch_db := d\<rparr>)" "filed cx u m t (ch_db c) d"
proof (cases "get_active_ticket_for_user (user_id u) (ch_db c)")
  case (Inl e)
  with assms(3) show ?thesis by (simp add: get_active_many)
next
  case (Inr found)
  show ?thesis
  proof (cases found)
    case None
    with Inr have "active_count (user_id u) (ch_db c) = 0" by (simp add: get_active_None)
    from open_ticket_filed [OF assms(1,2) this, of m] obtain t d where
      "open_ticket cx u m c = (Inr t, c\<lparr>ch_db := d\<rparr>)" "filed cx u m t (ch_db c) d" .
    with Inr None show ?thesis by (intro that) (simp_all add: file_message_def chat_simps)
  next
    case (Some t)
    with Inr have "get_active_ticket_for_user (user_id u) (ch_db c) = Inr (Some t)" by simp
    from add_to_ticket_filed [OF assms(1,2) this, of m] obtain d where
      "add_to_ticket cx u m t c = (Inr t, c\<lparr>ch_db := d\<rparr>)" "filed cx u m t (ch_db c) d" .
    with Inr Some show ?thesis by (intro that) (simp_all add: file_message_def chat_simps)
  qed
qed

lemma handle_support_message_leaves:
  assumes "file_message cx u m c = (Inr t, c\<lparr>ch_db := d\<rparr>)"
  shows "undisturbed (c\<lparr>ch_db := d, ch_saved := d, ch_state := None, ch_data := Map.empty\<rparr>)
           (snd (handle_support_message cx u m c))"
proof -
  have "act_bind (file_message cx u m) k c = k t (c\<lparr>ch_db := d\<rparr>)" for k :: "ticket \<Rightarrow> unit handler"
    by (simp add: act_bind_def assms)
  then show ?thesis by (simp add: handle_support_message_def chat_simps)
qed

text \<open>C20. A support message of a customer with at most one active ticket is saved, whatever
  Telegram answers: it goes to the active ticket when there is one and to a new one otherwise,
  afterwards that ticket is the customer's only active one, and the conversation is over. So
  all of a customer's messages gather in one ticket until it is closed.\<close>

theorem support_messages_gather:
  assumes "db_unique (ch_db c)" "fresh_ticket cx (ch_db c)" "active_count (user_id u) (ch_db c) \<le> 1"
    and "c' = snd (handle_support_message cx u m c)"
  shows "\<exists>t x. messages (ch_saved c') = messages (ch_db c) @ [x] \<and> msg_ticket_id x = tck_id t \<and>
    msg_sender_telegram_id x = Some (user_telegram_id u) \<and> msg_body x = Some (support_body m) \<and>
    (\<forall>t0. get_active_ticket_for_user (user_id u) (ch_db c) = Inr (Some t0) \<longrightarrow> t = t0) \<and>
    (\<exists>t'. get_active_ticket_for_user (user_id u) (ch_saved c') = Inr (Some t') \<and> tck_id t' = tck_id t) \<and>
    active_count (user_id u) (ch_saved c') = 1 \<and> ch_state c' = None"
proof -
  from file_message_filed [OF assms(1-3), of m] obtain t d where
    t: "file_message cx u m c = (Inr t, c\<lparr>ch_db := d\<rparr>)" "filed cx u m t (ch_db c) d" .
  from handle_support_message_leaves [OF t(1)] have "ch_saved c' = d" "ch_state c' = None"
    by (simp_all add: undisturbed_def assms(4))
  with t(2) show ?thesis by (auto simp: filed_def message_of_def)
qed

definition desk_chat :: chat where
  "desk_chat = chat_on (order_db\<lparr>tickets := [old_ticket]\<rparr>)"

lemma desk_ready:
  "db_unique (ch_db desk_chat)" "fresh_ticket sample_ctx (ch_db desk_chat)"
  "active_count (user_id sample_user) (ch_db desk_chat) \<le> 1"
  by (simp_all add: desk_chat_def fresh_ticket_def active_count_def is_active_def old_ticket_def
      db_unique_def distinct_opt_def generate_ticket_code_def digit_char_def char_of_def bit_iff_odd
      sample_db_defs)

theorem support_messages_gather_witness:
  "active_count 1 (ch_saved (snd (handle_support_message sample_ctx sample_user sample_post desk_chat))) = 1"
proof -
  have "user_id sample_user = 1" by (simp add: sample_user_def)
  with support_messages_gather [OF desk_ready refl, of sample_post] show ?thesis by auto
qed

end
