(* ===== verification/Admin.thy ===== *)
theory Admin
  imports Support_Desk
begin

section \<open>The administrators' handlers\<close>

text \<open>
  \<open>handlers/admin.py\<close> without the ticket handlers (Support_Desk): the dashboard, reviewing
  orders, pausing servers, and the commands about users and subscriptions. English texts are
  written without their markup and emoji; a text cut to a length is built as a string first.
\<close>

subsection \<open>Dashboard\<close>

definition dashboard_text :: "db \<Rightarrow> msg_text" where
  "dashboard_text d =
     Lit ''AmneziaWG Admin Dashboard''
       [(''Pending Receipts'', Plain (show_nat (length (list_pending_orders d)))),
        (''Open Tickets'', Plain (show_nat (length (list_open_tickets d))))]"

definition dashboard_keyboard :: keyboard where
  "dashboard_keyboard = [''adm_pending_orders'', ''adm_open_tickets'', ''adm_servers_status'']"

definition cmd_admin_dashboard :: "ctx \<Rightarrow> post \<Rightarrow> unit handler" where
  "cmd_admin_dashboard cx m = admin_post cx m
     (reading dashboard_text (\<lambda>t. tell cx (Answer t dashboard_keyboard)))"

definition callback_admin_back :: "ctx \<Rightarrow> press \<Rightarrow> unit handler" where
  "callback_admin_back cx q = admin_press cx q
     (reading dashboard_text (\<lambda>t. show_menu cx q t dashboard_keyboard))"

subsection \<open>Reviewing orders\<close>

definition order_line :: "db \<Rightarrow> order \<Rightarrow> string \<times> arg" where
  "order_line d r =
     (ord_code r, Plain (user_tag (get_user (ord_user_id r) d) @ '' | ''
        @ show_price (ord_price_amount r) @ '' '' @ ord_currency r))"

definition pending_text :: "order list \<Rightarrow> db \<Rightarrow> msg_text" where
  "pending_text rs d =
     Lit ''Receipts Waiting for Review''
       ((''count'', Plain (show_nat (length rs))) # map (order_line d) (take 10 rs))"

definition order_buttons :: "order \<Rightarrow> keyboard" where
  "order_buttons r = [''adm_app_'' @ uuid_str (ord_id r), ''adm_rej_'' @ uuid_str (ord_id r)]"

definition callback_admin_pending_orders :: "ctx \<Rightarrow> press \<Rightarrow> unit handler" where
  "callback_admin_pending_orders cx q = admin_press cx q
     (reading list_pending_orders (\<lambda>rs.
      if rs = [] then toast cx (Lit ''No receipts waiting for review.'' [])
      else reading (pending_text rs) (\<lambda>t.
        show_menu cx q t (concat (map order_buttons (take 10 rs)) @ back_to_dashboard))))"

text \<open>The reviewed message is edited by its caption, or else by its text; an error is ignored.\<close>

definition annotate :: "ctx \<Rightarrow> menu_message \<Rightarrow> msg_text \<Rightarrow> unit handler" where
  "annotate cx mm t =
     (if truthy (mm_caption mm) then try_tell cx (Edit t)
      else if truthy (mm_text mm) then try_tell cx (Edit t) else done_act)"

definition review_note :: "string \<Rightarrow> menu_message \<Rightarrow> press \<Rightarrow> (string \<times> arg) list \<Rightarrow> msg_text" where
  "review_note verdict mm q extra =
     Lit verdict ([(''message'', Plain (mm_html mm)), (''by'', Plain (admin_tag q))] @ extra)"

definition reviewable :: "order_status list" where
  "reviewable = [RECEIPT_SUBMITTED, AWAITING_RECEIPT]"

text \<open>\<open>sub is not None and sub.order_id == order.id\<close>.\<close>

definition is_new_peer :: "order \<Rightarrow> subscription option \<Rightarrow> bool" where
  "is_new_peer r sub = (case sub of None \<Rightarrow> False | Some s \<Rightarrow> sub_order_id s = ord_id r)"

definition over_capacity :: "vpn_server \<Rightarrow> db \<Rightarrow> string" where
  "over_capacity srv d =
     (case srv_max_active srv of
        None \<Rightarrow> []
      | Some cap \<Rightarrow>
          let n = count_active_subscriptions (srv_id srv) d
          in if cap \<noteq> 0 \<and> cap < n
             then nl # nl # ''Note: '' @ srv_slug srv @ '' is now over capacity ('' @ show_int n
                @ ''/'' @ show_int cap @ '').''
             else [])"

definition approved_msg :: "order \<Rightarrow> subscription option \<Rightarrow> db \<Rightarrow> string" where
  "approved_msg r sub d =
     ''Order approved! Outbox provisioning job enqueued.''
     @ (case get_server (ord_server_id r) d of
          None \<Rightarrow> []
        | Some srv \<Rightarrow> if is_new_peer r sub then over_capacity srv d else [])"

definition approval_note :: "order \<Rightarrow> subscription option \<Rightarrow> user \<Rightarrow> msg_text" where
  "approval_note r sub u =
     (case sub of
        Some s \<Rightarrow>
          if sub_order_id s \<noteq> ord_id r
          then get_text ''payment_approved_renewal'' (user_language_code u)
                 [(''label'', Plain (or_else (sub_peer_label s) [])),
                  (''expires_at'', Plain (strftime_minutes (sub_expires_at s)))]
          else get_text ''payment_approved'' (user_language_code u)
                 [(''order_code'', Plain (ord_code r))]
      | None \<Rightarrow> get_text ''payment_approved'' (user_language_code u)
                 [(''order_code'', Plain (ord_code r))])"

definition already :: "order \<Rightarrow> msg_text" where
  "already r = Lit ''Order was already'' [(''status'', Plain (order_status_value (ord_status r)))]"

definition approve_step :: "ctx \<Rightarrow> press \<Rightarrow> uuid \<Rightarrow> approval handler" where
  "approve_step cx q oid =
     try_change (approve_order_atomic (cx_now cx) (cx_ids cx 0) (cx_ids cx 1) (cx_ids cx 2) oid
       (pr_from q))"

text \<open>After the commit: the message of the receipt (an error when the press has none), the
  administrator, and the customer are told.\<close>

definition announce_approval ::
  "ctx \<Rightarrow> press \<Rightarrow> order \<Rightarrow> subscription option \<Rightarrow> unit handler" where
  "announce_approval cx q r sub =
     (case pr_message q of
        None \<Rightarrow> raise_act AttributeError
      | Some mm \<Rightarrow>
          act_bind (annotate cx mm (review_note ''Approved'' mm q [])) (\<lambda>_.
          reading (approved_msg r sub) (\<lambda>msg.
          act_bind (toast cx (Lit (take 200 msg) [])) (\<lambda>_.
          tell_customer cx (ord_user_id r) (approval_note r sub)))))"

definition callback_admin_approve_order :: "ctx \<Rightarrow> press \<Rightarrow> unit handler" where
  "callback_admin_approve_order cx q = admin_press cx q
     (act_bind (attempt_res (uuid_after ''adm_app_'' (pr_data q))) (\<lambda>oid.
      reading (get_order oid) (\<lambda>order.
      find_or order (toast cx (Lit ''Order not found'' [])) (\<lambda>r.
      if ord_status r \<notin> set reviewable then toast cx (already r)
      else act_bind (approve_step cx q (ord_id r)) (\<lambda>(success, sub, job).
           act_bind commit (\<lambda>_.
           if \<not> success then toast cx (Lit ''Order was already approved'' [])
           else announce_approval cx q r sub))))))"

definition rejection_reason :: string where
  "rejection_reason = ''Receipt verification failed. Please contact support.''"

definition rejection_note :: "order \<Rightarrow> user \<Rightarrow> msg_text" where
  "rejection_note r u =
     get_text ''payment_rejected'' (user_language_code u) [(''order_code'', Plain (ord_code r))]"

definition announce_rejection :: "ctx \<Rightarrow> press \<Rightarrow> order \<Rightarrow> unit handler" where
  "announce_rejection cx q r =
     (case pr_message q of
        None \<Rightarrow> raise_act AttributeError
      | Some mm \<Rightarrow>
          act_bind (annotate cx mm
              (review_note ''Rejected'' mm q [(''Reason'', Plain rejection_reason)])) (\<lambda>_.
          act_bind (toast cx (Lit ''Order rejected.'' [])) (\<lambda>_.
          tell_customer cx (ord_user_id r) (rejection_note r))))"

definition callback_admin_reject_order :: "ctx \<Rightarrow> press \<Rightarrow> unit handler" where
  "callback_admin_reject_order cx q = admin_press cx q
     (act_bind (attempt_res (uuid_after ''adm_rej_'' (pr_data q))) (\<lambda>oid.
      act_bind (try_change (reject_order (cx_now cx) (cx_ids cx 0) oid (pr_from q)
          (Some rejection_reason))) (\<lambda>(success, order).
      act_bind commit (\<lambda>_.
      if \<not> success then toast cx (Lit ''Order could not be rejected'' [])
      else find_or order (toast cx (Lit ''Order could not be rejected'' [])) (announce_rejection cx q)))))"

subsection \<open>Servers and plans\<close>

datatype event = Pressed press | Posted post

fun event_from :: "event \<Rightarrow> int" where
  "event_from (Pressed q) = pr_from q"
| "event_from (Posted m) = po_from m"

definition server_state :: "vpn_server \<Rightarrow> db \<Rightarrow> string" where
  "server_state srv d =
     (if \<not> srv_enabled srv then ''off in .env'' else if srv_paused srv then ''paused''
      else if \<not> has_room srv d then ''full'' else ''on sale'')"

definition capacity_text :: "vpn_server \<Rightarrow> string" where
  "capacity_text srv =
     (case srv_max_active srv of
        None \<Rightarrow> ''unlimited'' | Some n \<Rightarrow> if n = 0 then ''unlimited'' else show_int n)"

definition server_line :: "db \<Rightarrow> vpn_server \<Rightarrow> string \<times> arg" where
  "server_line d srv =
     (srv_slug srv, Plain (server_state srv d @ '' | '' @ srv_display_name srv @ '' | ''
        @ (if srv_host srv = [] then ''this host'' else srv_host srv) @ '' | ''
        @ srv_country_code srv @ '' | ''
        @ show_int (count_active_subscriptions (srv_id srv) d) @ ''/'' @ capacity_text srv))"

definition servers_text :: "vpn_server list \<Rightarrow> db \<Rightarrow> msg_text" where
  "servers_text ss d =
     Lit ''VPN Servers Management''
       ((''total'', Plain (show_nat (length ss))) # map (server_line d) ss)"

definition toggle_buttons :: "vpn_server list \<Rightarrow> keyboard" where
  "toggle_buttons ss = map (\<lambda>s. ''adm_tgl_srv_'' @ uuid_str (srv_id s)) (filter srv_enabled ss)"

definition cmd_admin_servers :: "ctx \<Rightarrow> event \<Rightarrow> unit handler" where
  "cmd_admin_servers cx ev =
     (if \<not> is_admin (cx_settings cx) (event_from ev) then done_act
      else reading list_all_servers (\<lambda>ss.
           reading (servers_text ss) (\<lambda>t.
           let kb = toggle_buttons ss @ back_to_dashboard
           in case ev of Pressed q \<Rightarrow> show_menu cx q t kb | Posted m \<Rightarrow> tell cx (Answer t kb))))"

definition toggled :: "vpn_server \<Rightarrow> vpn_server" where
  "toggled srv = pause_server (\<not> srv_paused srv) srv"

definition callback_admin_toggle_server :: "ctx \<Rightarrow> press \<Rightarrow> unit handler" where
  "callback_admin_toggle_server cx q = admin_press cx q
     (act_bind (attempt_res (uuid_after ''adm_tgl_srv_'' (pr_data q))) (\<lambda>sid.
      reading (get_server sid) (\<lambda>server.
      find_or server (toast cx (Lit ''Server not found'' [])) (\<lambda>srv.
      if \<not> srv_enabled srv
      then toast cx (Lit ''turned off in .env'' [(''slug'', Plain (srv_slug srv))])
      else act_bind (change (\<lambda>d. ((), upd_server sid toggled d))) (\<lambda>_.
        act_bind (audit_admin cx 0 (pr_from q)
            (if srv_paused (toggled srv) then ''server.paused'' else ''server.resumed'')
            ''vpn_server'' (Some (srv_id srv)) [(''slug'', JStr (srv_slug srv))]) (\<lambda>_.
        act_bind commit (\<lambda>_.
        act_bind (toast cx (Lit ''Server is now''
            [(''slug'', Plain (srv_slug srv)),
             (''state'', Plain (if srv_paused (toggled srv) then ''paused'' else ''on sale''))])) (\<lambda>_.
        cmd_admin_servers cx (Pressed q)))))))))"

definition product_line :: "product \<Rightarrow> string \<times> arg" where
  "product_line p =
     (prod_code p, Plain (prod_title p @ '' | '' @ show_price (prod_price_amount p) @ '' ''
        @ prod_price_currency p @ '' | '' @ show_int (prod_duration_days p) @ '' days | ''
        @ show_int (prod_device_limit p)))"

definition cmd_admin_products :: "ctx \<Rightarrow> post \<Rightarrow> unit handler" where
  "cmd_admin_products cx m = admin_post cx m
     (reading list_enabled (\<lambda>ps.
      tell cx (Answer (Lit ''Active Products Catalogue''
        ((''active'', Plain (show_nat (length ps))) # map product_line ps)) [])))"

subsection \<open>Commands about users\<close>

text \<open>\<open>(message.text or "").split()\<close>.\<close>

definition words_of :: "post \<Rightarrow> string list" where
  "words_of m = split_ws (or_else (po_text m) [])"

definition usage_line :: "string \<Rightarrow> msg_text" where
  "usage_line s = Lit ''Usage'' [(''command'', Plain s)]"

text \<open>\<open>len(parts) < 2 or not parts[1].isdigit()\<close> answers with the usage; else the id is
  \<open>int(parts[1])\<close>, which raises for the superscript digits \<open>isdigit\<close> lets through.\<close>

definition with_target :: "ctx \<Rightarrow> post \<Rightarrow> string \<Rightarrow> (int \<Rightarrow> unit handler) \<Rightarrow> unit handler" where
  "with_target cx m usage k =
     (let parts = words_of m
      in if length parts < 2 \<or> \<not> py_isdigit (parts ! 1) then tell cx (Answer (usage_line usage) [])
         else act_bind (attempt_res (py_int (parts ! 1))) k)"

definition user_missing :: "int \<Rightarrow> msg_text" where
  "user_missing tg = Lit ''User not found'' [(''id'', Plain (show_int tg))]"

definition profile_text :: "user \<Rightarrow> subscription list \<Rightarrow> msg_text" where
  "profile_text u ss =
     Lit ''User Profile''
       [(''id'', Plain (show_int (user_telegram_id u))),
        (''Username'', Plain (or_else (user_username u) ''N/A'')),
        (''Language'', Plain (or_else (user_language_code u) ''None'')),
        (''Status'', Plain (if user_is_blocked u then ''BLOCKED'' else ''ACTIVE'')),
        (''Total Subscriptions'', Plain (show_nat (length ss))),
        (''Created At'', Plain (strftime_minutes (user_created_at u)))]"

definition sub_line :: "ctx \<Rightarrow> db \<Rightarrow> subscription \<Rightarrow> msg_text" where
  "sub_line cx d s =
     (let server = get_server (sub_server_id s) d
      in with_line
           (Lit (or_else (sub_peer_label s) (uuid_str (sub_id s)))
              [(''server'', Plain (case server of None \<Rightarrow> ''?'' | Some srv \<Rightarrow> srv_display_name srv)),
               (''status'', Plain (subscription_status_value (sub_status s))),
               (''expires'', Plain (strftime_minutes (sub_expires_at s)))])
           (usage_text (cx_status cx) server s (Some ''en'') (cx_now cx)))"

definition lookup_text :: "ctx \<Rightarrow> user \<Rightarrow> subscription list \<Rightarrow> db \<Rightarrow> msg_text" where
  "lookup_text cx u ss d =
     (let t = foldl Joined (profile_text u ss) (map (sub_line cx d) (take 10 ss))
      in if ss = [] then t else Joined t (Lit ''Add time with /extend'' []))"

definition cmd_admin_user_lookup :: "ctx \<Rightarrow> post \<Rightarrow> unit handler" where
  "cmd_admin_user_lookup cx m = admin_post cx m
     (with_target cx m ''/user'' (\<lambda>tg.
      reading (get_by_telegram_id tg) (\<lambda>user.
      find_or user (tell cx (Answer (user_missing tg) [])) (\<lambda>u.
      reading (get_all_by_user_id (user_id u)) (\<lambda>ss.
      reading (lookup_text cx u ss) (\<lambda>t. tell cx (Answer t [])))))))"

definition blocked_text :: "bool \<Rightarrow> user \<Rightarrow> int \<Rightarrow> msg_text" where
  "blocked_text b u tg =
     Lit (if b then ''User has been suspended/blocked.'' else ''User has been unblocked.'')
       [(''id'', Plain (show_int tg)), (''Username'', Plain (or_else (user_username u) ''N/A''))]"

text \<open>\<open>/block\<close> and \<open>/unblock\<close>, which differ in the flag and the texts only.\<close>

definition set_block :: "ctx \<Rightarrow> post \<Rightarrow> bool \<Rightarrow> string \<Rightarrow> string \<Rightarrow> unit handler" where
  "set_block cx m b usage ev = admin_post cx m
     (with_target cx m usage (\<lambda>tg.
      reading (get_by_telegram_id tg) (\<lambda>user.
      find_or user (tell cx (Answer (user_missing tg) [])) (\<lambda>u.
      act_bind (change (\<lambda>d. ((), upd_user (user_id u) (block_user b) d))) (\<lambda>_.
      act_bind (audit_admin cx 0 (po_from m) ev ''user'' (Some (user_id u))
          [(''telegram_user_id'', JInt tg)]) (\<lambda>_.
      act_bind commit (\<lambda>_.
      tell cx (Answer (blocked_text b u tg) []))))))))"

definition cmd_admin_block_user :: "ctx \<Rightarrow> post \<Rightarrow> unit handler" where
  "cmd_admin_block_user cx m = set_block cx m True ''/block'' ''user.blocked''"

definition cmd_admin_unblock_user :: "ctx \<Rightarrow> post \<Rightarrow> unit handler" where
  "cmd_admin_unblock_user cx m = set_block cx m False ''/unblock'' ''user.unblocked''"

subsection \<open>Adding time by hand\<close>

text \<open>\<open>parts[2].lstrip("-").isdigit()\<close>, then \<open>int(parts[2])\<close>.\<close>

definition looks_like_days :: "string \<Rightarrow> bool" where
  "looks_like_days s = py_isdigit (dropWhile (\<lambda>c. c = CHR ''-'') s)"

definition extend_usage :: msg_text where
  "extend_usage = usage_line ''/extend <config name> <days>''"

definition extension_text :: "string \<Rightarrow> subscription \<Rightarrow> bool \<Rightarrow> msg_text" where
  "extension_text label s reenabled =
     Lit (if reenabled then ''now expires; it is being turned back on'' else ''now expires'')
       [(''label'', Plain label), (''expires'', Plain (strftime_minutes (sub_expires_at s)))]"

definition extension_note :: "string \<Rightarrow> subscription \<Rightarrow> user \<Rightarrow> msg_text" where
  "extension_note label s u =
     get_text ''payment_approved_renewal'' (user_language_code u)
       [(''label'', Plain label), (''expires_at'', Plain (strftime_minutes (sub_expires_at s)))]"

text \<open>The changes of \<open>/extend\<close> up to the commit: the new row and whether its peer is being
  turned on again.\<close>

definition enable_again :: "ctx \<Rightarrow> subscription \<Rightarrow> unit handler" where
  "enable_again cx s =
     act_bind (try_change (enqueue_job (cx_now cx) (cx_ids cx 0) ENABLE_PEER ''subscription''
       (sub_id s) [(''reason'', JStr ''admin_extend'')] None)) (\<lambda>_. done_act)"

definition extend_step :: "ctx \<Rightarrow> int \<Rightarrow> subscription \<Rightarrow> int \<Rightarrow> (subscription \<times> bool) handler" where
  "extend_step cx admin s days =
     act_bind (try_change (extend_subscription (sub_id s) days (cx_now cx))) (\<lambda>ext.
     find_or ext (raise_act AttributeError) (\<lambda>s'.
     let reenabled = (sub_status s \<noteq> ACTIVE \<and> sub_status s' = ACTIVE) in
     act_bind (if reenabled then enable_again cx s' else done_act) (\<lambda>_.
     act_bind (audit_admin cx 1 admin ''subscription.extended'' ''subscription'' (Some (sub_id s'))
         [(''days'', JInt days)]) (\<lambda>_.
     act_bind commit (\<lambda>_. return_act (s', reenabled))))))"

definition cmd_admin_extend :: "ctx \<Rightarrow> post \<Rightarrow> unit handler" where
  "cmd_admin_extend cx m = admin_post cx m
     (let parts = words_of m in
      if length parts \<noteq> 3 \<or> \<not> looks_like_days (parts ! 2) then tell cx (Answer extend_usage [])
      else act_bind (attempt_res (py_int (parts ! 2))) (\<lambda>days.
        if days = 0 then tell cx (Answer extend_usage [])
        else let label = parts ! 1; shown = html_escape label in
        reading (get_by_peer_label label) (\<lambda>sub.
        find_or sub (tell cx (Answer (Lit ''No subscription named'' [(''label'', Plain shown)]) []))
          (\<lambda>s.
        if sub_removed_at s \<noteq> None \<or> \<not> has_peer s
        then tell cx (Answer (Lit ''already removed'' [(''label'', Plain shown)]) [])
        else act_bind (extend_step cx (po_from m) s days) (\<lambda>(s', reenabled).
          act_bind (tell cx (Answer (extension_text label s' reenabled) [])) (\<lambda>_.
          if days > 0 then tell_customer cx (sub_user_id s') (extension_note label s')
          else done_act))))))"

end
