(* ===== verification/Retry_Safe.thy ===== *)
theory Retry_Safe
  imports Admin_Jobs
begin

section \<open>Retrying is safe\<close>








lemma requeued_row [simp]:
  "job_id (requeued now j) = job_id j" "job_status (requeued now j) = PENDING"
  "job_job_type (requeued now j) = job_job_type j"
  "job_aggregate_id (requeued now j) = job_aggregate_id j"
  by (simp_all add: requeued_def)




subsection \<open>The loop\<close>

















end
