(* ===== verification/Order_Review.thy ===== *)
theory Order_Review
  imports Admin
begin

section \<open>Reviewing an order\<close>

text \<open>What pressing the approve button of an order leaves: the transaction of
  \<open>approve_order_atomic\<close> exactly once, however often the button is pressed, the customer told,
  and what goes wrong when the press carries no message.\<close>

lemma order_after_approval:
  assumes "approve_order_atomic now sid jid aid oid admin d = Inr ((True, so, jo), d')"
  obtains r' where "get_order oid d' = Some r'" "ord_status r' \<notin> set reviewable"
  using assms
proof (cases rule: approve_cases)
  case (renewed r p srv s s')
  note upd = approve_renewal_Inr(4) [OF renewed(9), unfolded get_order_id [OF renewed(2)]]
  have "get_order oid d' = Some ((reviewed admin now r)\<lparr>ord_status := FULFILLED\<rparr>)"
    using get_order_after [OF renewed(2) upd] by simp
  then show ?thesis by (rule that) (simp add: reviewable_def)
next
  case (created r p srv s j)
  note upd = approve_new_Inr(2) [OF created(10), unfolded get_order_id [OF created(2)]]
  have "get_order oid d' = Some ((reviewed admin now r)\<lparr>ord_status := O_PROVISIONING\<rparr>)"
    using get_order_after [OF created(2) upd] by simp
  then show ?thesis by (rule that) (simp add: reviewable_def)
qed simp

lemma announce_quiet: "quiet.keeps (announce_approval cx q r sub)"
  unfolding announce_approval_def annotate_def
  by (auto intro!: quiet.keeps_bind quiet.keeps_calls quiet.keeps_reading tell_customer_quiet
      split: option.split)

definition approve_data :: "uuid \<Rightarrow> string" where
  "approve_data oid = ''adm_app_'' @ uuid_str oid"

lemma approve_data_id: "uuid_after ''adm_app_'' (approve_data oid) = Inr oid"
  unfolding approve_data_def by (rule uuid_after_button) simp

lemma approve_press_body:
  assumes "is_admin (cx_settings cx) (pr_from q)" "pr_data q = approve_data oid"
    and "get_order oid (ch_db c) = Some r" "ord_status r \<in> set reviewable"
    and "approve_step cx q oid c = (Inr (True, sub, job), c1)"
  shows "callback_admin_approve_order cx q c = announce_approval cx q r sub (c1\<lparr>ch_saved := ch_db c1\<rparr>)"
proof -
  have "ord_id r = oid" using assms(3) by (rule get_order_id)
  moreover have "act_bind (approve_step cx q oid) k c = k (True, sub, job) c1"
    for k :: "approval \<Rightarrow> unit handler" by (simp add: act_bind_def assms(5))
  ultimately show ?thesis
    using assms(1-4)
    by (simp add: callback_admin_approve_order_def admin_press_yes approve_data_id chat_simps)
qed

lemma approve_press_again:
  assumes "is_admin (cx_settings cx) (pr_from q)" "pr_data q = approve_data oid"
    and "get_order oid (ch_db c) = Some r" "ord_status r \<notin> set reviewable"
  shows "callback_admin_approve_order cx q c = toast cx (already r) c"
  using assms
  by (simp add: callback_admin_approve_order_def admin_press_yes approve_data_id chat_simps)

lemma approve_step_eval:
  assumes "approve_order_atomic (cx_now cx) (cx_ids cx 0) (cx_ids cx 1) (cx_ids cx 2) oid
      (pr_from q) (ch_db c) = Inr (res, d')"
  shows "approve_step cx q oid c = (Inr res, c\<lparr>ch_db := d'\<rparr>)"
  using assms by (simp add: approve_step_def chat_simps)

text \<open>C16. Pressing the approve button of an order under review saves exactly the transaction of the
  approval, and pressing the same button again, by whichever administrator and whenever, changes
  nothing and is answered with the order's status.\<close>

theorem approve_press_once:
  assumes "is_admin (cx_settings cx) (pr_from q)" "pr_data q = approve_data oid"
    and "get_order oid (ch_db c) = Some r" "ord_status r \<in> set reviewable"
    and "approve_order_atomic (cx_now cx) (cx_ids cx 0) (cx_ids cx 1) (cx_ids cx 2) oid
      (pr_from q) (ch_db c) = Inr ((True, sub, job), d')"
    and "is_admin (cx_settings cx2) (pr_from q2)" "pr_data q2 = approve_data oid"
    and "c1 = snd (callback_admin_approve_order cx q c)"
  shows "ch_saved c1 = d' \<and> ch_db c1 = d' \<and>
    (\<exists>r'. get_order oid d' = Some r' \<and> ord_status r' \<notin> set reviewable \<and>
       callback_admin_approve_order cx2 q2 c1 = toast cx2 (already r') c1) \<and>
    undisturbed c1 (snd (callback_admin_approve_order cx2 q2 c1))"
proof -
  have "c1 = snd (announce_approval cx q r sub (c\<lparr>ch_db := d', ch_saved := d'\<rparr>))"
    using approve_press_body [OF assms(1-4) approve_step_eval [OF assms(5)]] assms(8) by simp
  with quiet_after [OF announce_quiet [of cx q r sub], of "c\<lparr>ch_db := d', ch_saved := d'\<rparr>"]
  have c1: "ch_db c1 = d'" "ch_saved c1 = d'"
    by (simp_all add: undisturbed_def)
  obtain r' where r': "get_order oid d' = Some r'" "ord_status r' \<notin> set reviewable"
    using order_after_approval [OF assms(5)] .
  then have again: "callback_admin_approve_order cx2 q2 c1 = toast cx2 (already r') c1"
    using approve_press_again [OF assms(6,7)] c1(1) by simp
  show ?thesis
    using c1 r' again quiet_after [OF quiet.keeps_toast] by auto
qed

text \<open>The button of a message the bot no longer gets: the approval is saved and the handler then
  fails, before the administrator's press is answered and the customer told.\<close>

theorem approval_without_message:
  assumes "is_admin (cx_settings cx) (pr_from q)" "pr_data q = approve_data oid"
    and "get_order oid (ch_db c) = Some r" "ord_status r \<in> set reviewable"
    and "approve_order_atomic (cx_now cx) (cx_ids cx 0) (cx_ids cx 1) (cx_ids cx 2) oid
      (pr_from q) (ch_db c) = Inr ((True, sub, job), d')"
    and "pr_message q = None"
  shows "callback_admin_approve_order cx q c = (Inl AttributeError, c\<lparr>ch_db := d', ch_saved := d'\<rparr>)"
  using approve_press_body [OF assms(1-4) approve_step_eval [OF assms(5)]] assms(6)
  by (simp add: announce_approval_def raise_act_def)

definition review_press :: press where
  "review_press = (press_of (approve_data 4))\<lparr>pr_from := 900\<rparr>"

lemma review_press_fields [simp]:
  "pr_from review_press = 900" "pr_data review_press = approve_data 4"
  by (simp_all add: review_press_def)

lemma sample_review:
  "\<exists>s j d'. approve_order_atomic 1000 100 101 102 4 900 order_db = Inr ((True, Some s, Some j), d')"
  by (simp add: approve_defs sample_db_defs time_units Let_def)

theorem approve_press_once_witness:
  "\<exists>c1. c1 = snd (callback_admin_approve_order sample_ctx review_press (chat_on order_db)) \<and>
     ch_saved c1 \<noteq> order_db \<and>
     undisturbed c1 (snd (callback_admin_approve_order sample_ctx review_press c1))"
proof -
  obtain s j d' where a: "approve_order_atomic 1000 100 101 102 4 900 order_db = Inr ((True, Some s, Some j), d')"
    using sample_review by blast
  have r: "get_order 4 order_db = Some sample_order" "ord_status sample_order \<in> set reviewable"
    by (simp_all add: reviewable_def sample_db_defs)
  have adm: "is_admin (cx_settings sample_ctx) (pr_from review_press)" by (simp add: is_admin_def)
  have "d' \<noteq> order_db"
    using order_after_approval [OF a] r by (metis option.inject)
  then show ?thesis
    using approve_press_once [of sample_ctx review_press 4 "chat_on order_db" sample_order "Some s"
        "Some j" d' sample_ctx review_press] a r adm by auto
qed

end
