(* ===== verification/Dispatch.thy ===== *)
theory Dispatch
  imports Customer Admin_Jobs
begin

section \<open>Middlewares and routing\<close>

text \<open>
  How an update reaches its handler: the throttling middleware, the user middleware and the
  routers in the order of \<open>build_dispatcher\<close> (customer, support, admin, admin_jobs, fallback),
  whose first matching filter wins. Which command a message holds is aiogram's \<open>Command\<close>
  filter, a parameter. \<open>serve\<close> is one whole update: the session the user middleware opens sees
  the committed rows, and closing it drops what was not committed; an exception only ends the
  handler (the error handler logs it). Conversations are kept per user. The properties are in
  Dispatch_Safe.
\<close>

subsection \<open>Throttling\<close>

text \<open>\<open>time.time()\<close> in microseconds; \<open>_last_seen\<close> as a dictionary.\<close>

type_synonym last_seen = "(int \<times> datetime) list"

definition forget_after :: int where
  "forget_after = 60 * second"

definition prune_at_size :: nat where
  "prune_at_size = 10000"

definition prune :: "int \<Rightarrow> datetime \<Rightarrow> last_seen \<Rightarrow> last_seen" where
  "prune rate now seen =
     (let cutoff = now - max forget_after rate in filter (\<lambda>(uid, t). cutoff \<le> t) seen)"

definition throttle :: "int \<Rightarrow> datetime \<Rightarrow> int \<Rightarrow> last_seen \<Rightarrow> bool \<times> last_seen" where
  "throttle rate now uid seen =
     (let last_time = (case map_of seen uid of None \<Rightarrow> 0 | Some t \<Rightarrow> t)
      in if now - last_time < rate then (False, seen)
         else let seen' = (if prune_at_size \<le> length seen then prune rate now seen else seen)
              in (True, dict_put uid now seen'))"

definition rate_limit :: int where
  "rate_limit = second div 2"

subsection \<open>The handlers by name\<close>

datatype press_handler =
    P_Main_Menu | P_Menu_Buy | P_Select_Server | P_Select_Plan | P_Select_Renewal_Plan
  | P_Cancel_Order | P_Menu_Subs | P_View_Subscription | P_Redeliver | P_Renew | P_Menu_Language
  | P_Set_Language | P_Menu_Support | P_Admin_Back | P_Pending_Orders | P_Approve_Order
  | P_Reject_Order | P_Open_Tickets | P_Reply_Ticket | P_Close_Ticket | P_Servers
  | P_Toggle_Server | P_Retry | P_Unhandled

datatype post_handler =
    M_Start | M_Receipt | M_My_Vpn | M_Language | M_Support | M_Support_Message | M_Dashboard
  | M_Ticket_Reply | M_Servers | M_Products | M_User | M_Extend | M_Block | M_Unblock | M_Retry
  | M_Audit

text \<open>The first filter of the routers that a button's data passes.\<close>

definition route_press :: "string \<Rightarrow> press_handler" where
  "route_press data =
     (if data = ''main_menu'' then P_Main_Menu
      else if data = ''menu_buy'' then P_Menu_Buy
      else if starts_with data ''srv_'' then P_Select_Server
      else if starts_with data ''plan_'' then P_Select_Plan
      else if starts_with data ''rnw_'' then P_Select_Renewal_Plan
      else if data = ''cancel_order'' then P_Cancel_Order
      else if data = ''menu_subs'' then P_Menu_Subs
      else if starts_with data ''sub_view_'' then P_View_Subscription
      else if starts_with data ''sub_dl_'' \<or> starts_with data ''sub_redeliver_'' then P_Redeliver
      else if starts_with data ''renew_'' then P_Renew
      else if data = ''menu_lang'' then P_Menu_Language
      else if data \<in> {''lang_en'', ''lang_fa''} then P_Set_Language
      else if data = ''menu_support'' then P_Menu_Support
      else if data = ''adm_back'' then P_Admin_Back
      else if data = ''adm_pending_orders'' then P_Pending_Orders
      else if starts_with data ''adm_app_'' then P_Approve_Order
      else if starts_with data ''adm_rej_'' then P_Reject_Order
      else if data = ''adm_open_tickets'' then P_Open_Tickets
      else if starts_with data ''adm_rep_tck_'' then P_Reply_Ticket
      else if starts_with data ''adm_cls_tck_'' then P_Close_Ticket
      else if data = ''adm_servers_status'' then P_Servers
      else if starts_with data ''adm_tgl_srv_'' then P_Toggle_Server
      else if starts_with data retry_prefix then P_Retry
      else P_Unhandled)"

text \<open>The same for a message, by its command, the conversation's state and its attachment.\<close>

definition has_file :: "post \<Rightarrow> bool" where
  "has_file m \<longleftrightarrow> po_photo m \<noteq> [] \<or> po_document m \<noteq> None"

definition route_post :: "string option \<Rightarrow> fsm_state option \<Rightarrow> post \<Rightarrow> post_handler option" where
  "route_post cmd st m =
     (if cmd \<in> {Some ''start'', Some ''menu''} then Some M_Start
      else if st = Some Awaiting_Receipt \<and> has_file m then Some M_Receipt
      else if cmd = Some ''my_vpn'' then Some M_My_Vpn
      else if cmd = Some ''language'' then Some M_Language
      else if cmd = Some ''support'' then Some M_Support
      else if st = Some Writing_Message then Some M_Support_Message
      else if cmd = Some ''admin'' then Some M_Dashboard
      else if st = Some Waiting_For_Reply then Some M_Ticket_Reply
      else if cmd = Some ''servers'' then Some M_Servers
      else if cmd = Some ''products'' then Some M_Products
      else if cmd = Some ''user'' then Some M_User
      else if cmd = Some ''extend'' then Some M_Extend
      else if cmd = Some ''block'' then Some M_Block
      else if cmd = Some ''unblock'' then Some M_Unblock
      else if cmd = Some ''retry'' then Some M_Retry
      else if cmd = Some ''audit'' then Some M_Audit
      else None)"

text \<open>The handlers of the admin routers.\<close>

definition admin_press_handlers :: "press_handler list" where
  "admin_press_handlers =
     [P_Admin_Back, P_Pending_Orders, P_Approve_Order, P_Reject_Order, P_Open_Tickets,
      P_Reply_Ticket, P_Close_Ticket, P_Servers, P_Toggle_Server, P_Retry]"

definition admin_post_handlers :: "post_handler list" where
  "admin_post_handlers =
     [M_Dashboard, M_Ticket_Reply, M_Servers, M_Products, M_User, M_Extend, M_Block, M_Unblock,
      M_Retry, M_Audit]"

fun run_press :: "ctx \<Rightarrow> user \<Rightarrow> press \<Rightarrow> press_handler \<Rightarrow> unit handler" where
  "run_press cx u q P_Main_Menu = callback_main_menu cx u q"
| "run_press cx u q P_Menu_Buy = callback_menu_buy cx u q"
| "run_press cx u q P_Select_Server = callback_select_server cx u q"
| "run_press cx u q P_Select_Plan = callback_select_plan cx u q"
| "run_press cx u q P_Select_Renewal_Plan = callback_select_renewal_plan cx u q"
| "run_press cx u q P_Cancel_Order = callback_cancel_order cx u q"
| "run_press cx u q P_Menu_Subs = callback_menu_subs cx u q"
| "run_press cx u q P_View_Subscription = callback_view_subscription cx u q"
| "run_press cx u q P_Redeliver = callback_redeliver_subscription cx u q"
| "run_press cx u q P_Renew = callback_renew_subscription cx u q"
| "run_press cx u q P_Menu_Language = callback_menu_language cx q"
| "run_press cx u q P_Set_Language = callback_set_language cx u q"
| "run_press cx u q P_Menu_Support = callback_menu_support cx u q"
| "run_press cx u q P_Admin_Back = callback_admin_back cx q"
| "run_press cx u q P_Pending_Orders = callback_admin_pending_orders cx q"
| "run_press cx u q P_Approve_Order = callback_admin_approve_order cx q"
| "run_press cx u q P_Reject_Order = callback_admin_reject_order cx q"
| "run_press cx u q P_Open_Tickets = callback_admin_open_tickets cx q"
| "run_press cx u q P_Reply_Ticket = callback_admin_reply_ticket cx q"
| "run_press cx u q P_Close_Ticket = callback_admin_close_ticket cx q"
| "run_press cx u q P_Servers = cmd_admin_servers cx (Pressed q)"
| "run_press cx u q P_Toggle_Server = callback_admin_toggle_server cx q"
| "run_press cx u q P_Retry = callback_retry cx q"
| "run_press cx u q P_Unhandled = callback_unhandled cx u"

fun run_post :: "ctx \<Rightarrow> user \<Rightarrow> post \<Rightarrow> post_handler \<Rightarrow> unit handler" where
  "run_post cx u m M_Start = cmd_start cx u"
| "run_post cx u m M_Receipt = handle_receipt_upload cx u m"
| "run_post cx u m M_My_Vpn = cmd_my_vpn cx u"
| "run_post cx u m M_Language = cmd_language cx"
| "run_post cx u m M_Support = cmd_support cx u"
| "run_post cx u m M_Support_Message = handle_support_message cx u m"
| "run_post cx u m M_Dashboard = cmd_admin_dashboard cx m"
| "run_post cx u m M_Ticket_Reply = handle_admin_ticket_reply cx m"
| "run_post cx u m M_Servers = cmd_admin_servers cx (Posted m)"
| "run_post cx u m M_Products = cmd_admin_products cx m"
| "run_post cx u m M_User = cmd_admin_user_lookup cx m"
| "run_post cx u m M_Extend = cmd_admin_extend cx m"
| "run_post cx u m M_Block = cmd_admin_block_user cx m"
| "run_post cx u m M_Unblock = cmd_admin_unblock_user cx m"
| "run_post cx u m M_Retry = cmd_retry cx m"
| "run_post cx u m M_Audit = cmd_audit cx m"

text \<open>A message no router claims is dropped.\<close>

definition handle :: "ctx \<Rightarrow> (post \<Rightarrow> string option) \<Rightarrow> user \<Rightarrow> event \<Rightarrow> unit handler" where
  "handle cx cmd u ev c =
     (case ev of
        Pressed q \<Rightarrow> run_press cx u q (route_press (pr_data q)) c
      | Posted m \<Rightarrow>
          (case route_post (cmd m) (ch_state c) m of
             None \<Rightarrow> done_act c | Some h \<Rightarrow> run_post cx u m h c))"

subsection \<open>A whole update\<close>

text \<open>The rest of the sender's Telegram profile, and the state of the bot: the committed rows, the
  conversations (per chat and user), the tables of the two throttling middlewares (messages,
  presses) and the calls to Telegram.\<close>

record sender =
  sn_first_name :: "string option"
  sn_last_name :: "string option"
  sn_language :: "string option"

record bot =
  bt_db :: db
  bt_talks :: "int \<times> int \<Rightarrow> fsm_state option \<times> (string \<rightharpoonup> string)"
  bt_posts :: last_seen
  bt_presses :: last_seen
  bt_out :: "(out \<times> tg_answer) list"

fun event_username :: "event \<Rightarrow> string option" where
  "event_username (Pressed q) = pr_username q"
| "event_username (Posted m) = po_username m"

fun talk_key :: "event \<Rightarrow> int \<times> int" where
  "talk_key (Pressed q) = (pr_chat_id q, pr_from q)"
| "talk_key (Posted m) = (po_chat_id m, po_from m)"

definition throttle_event :: "ctx \<Rightarrow> event \<Rightarrow> bot \<Rightarrow> bool \<times> bot" where
  "throttle_event cx ev b =
     (case ev of
        Posted m \<Rightarrow>
          (case throttle rate_limit (cx_now cx) (po_from m) (bt_posts b) of
             (ok, seen) \<Rightarrow> (ok, b\<lparr>bt_posts := seen\<rparr>))
      | Pressed q \<Rightarrow>
          (case throttle rate_limit (cx_now cx) (pr_from q) (bt_presses b) of
             (ok, seen) \<Rightarrow> (ok, b\<lparr>bt_presses := seen\<rparr>)))"

text \<open>\<open>UserMiddleware\<close>: the user's row is created or refreshed and committed; a blocked user's
  update goes no further.\<close>

definition open_chat :: "event \<Rightarrow> db \<Rightarrow> bot \<Rightarrow> chat" where
  "open_chat ev d b =
     \<lparr>ch_db = d, ch_saved = d, ch_state = fst (bt_talks b (talk_key ev)),
      ch_data = snd (bt_talks b (talk_key ev)), ch_out = bt_out b\<rparr>"

definition close_chat :: "event \<Rightarrow> chat \<Rightarrow> bot \<Rightarrow> bot" where
  "close_chat ev c b =
     b\<lparr>bt_db := ch_saved c, bt_talks := (bt_talks b)(talk_key ev := (ch_state c, ch_data c)),
       bt_out := ch_out c\<rparr>"

definition known_user :: "ctx \<Rightarrow> sender \<Rightarrow> event \<Rightarrow> db \<Rightarrow> exn + user \<times> db" where
  "known_user cx sn ev d =
     upsert_user (cx_now cx) (cx_ids cx 9) (event_from ev) (event_username ev) (sn_first_name sn)
       (sn_last_name sn) (Some (or_else (sn_language sn) ''en'')) d"

text \<open>An update some handler's filters match: the middleware is an inner one, so for any other it
  does not run. Every press is matched, by the fallback router in the end.\<close>

definition claimed :: "(post \<Rightarrow> string option) \<Rightarrow> event \<Rightarrow> bot \<Rightarrow> bool" where
  "claimed cmd ev b =
     (case ev of
        Pressed q \<Rightarrow> True
      | Posted m \<Rightarrow> route_post (cmd m) (fst (bt_talks b (talk_key ev))) m \<noteq> None)"

definition with_user ::
  "ctx \<Rightarrow> (post \<Rightarrow> string option) \<Rightarrow> sender \<Rightarrow> event \<Rightarrow> bot \<Rightarrow> bot" where
  "with_user cx cmd sn ev b =
     (if \<not> claimed cmd ev b then b
      else case known_user cx sn ev (bt_db b) of
        Inl e \<Rightarrow> b
      | Inr (u, d) \<Rightarrow>
          if user_is_blocked u then b\<lparr>bt_db := d\<rparr>
          else close_chat ev (snd (handle cx cmd u ev (open_chat ev d b))) b)"

text \<open>A throttled press is answered, whatever Telegram says to that.\<close>

definition serve ::
  "ctx \<Rightarrow> (post \<Rightarrow> string option) \<Rightarrow> sender \<Rightarrow> event \<Rightarrow> bot \<Rightarrow> bot" where
  "serve cx cmd sn ev b =
     (case throttle_event cx ev b of
        (True, b1) \<Rightarrow> with_user cx cmd sn ev b1
      | (False, b1) \<Rightarrow>
          (case ev of
             Pressed q \<Rightarrow> b1\<lparr>bt_out := bt_out b1 @ [(Ack, cx_tg cx (length (bt_out b1)))]\<rparr>
           | Posted m \<Rightarrow> b1))"

end
