(* ===== verification/Dispatch_Safe.thy ===== *)
theory Dispatch_Safe
  imports Dispatch Support_Desk
begin

section \<open>What routing and the middlewares guarantee\<close>

text \<open>The updates of one user that get through are spaced by the rate limit; every button the
  bot shows reaches its handler; only an administrator reaches the effects of an admin handler;
  a blocked user reaches no handler; and which commands a pending ticket reply swallows.\<close>

subsection \<open>Spacing\<close>














subsection \<open>Buttons\<close>

text \<open>Every button of the bot's menus is claimed by the handler it is meant for, not by another
  router's filter and not by the fallback for old buttons.\<close>

theorem buttons_claimed:
  "map route_press main_menu_keyboard = [P_Menu_Buy, P_Menu_Subs, P_Menu_Support, P_Menu_Language] \<and>
   map route_press language_keyboard = [P_Set_Language, P_Set_Language] \<and>
   map route_press (servers_keyboard ss) = map (\<lambda>_. P_Select_Server) ss @ [P_Cancel_Order] \<and>
   map route_press (products_keyboard slug ps None) = map (\<lambda>_. P_Select_Plan) ps @ [P_Menu_Buy] \<and>
   map route_press (products_keyboard slug ps (Some sid)) =
     map (\<lambda>_. P_Select_Renewal_Plan) ps @ [P_View_Subscription] \<and>
   map route_press cancel_keyboard = [P_Cancel_Order] \<and>
   map route_press (subscriptions_keyboard qs) = map (\<lambda>_. P_View_Subscription) qs @ [P_Main_Menu] \<and>
   map route_press (subscription_detail_keyboard (uuid_str sid) a) =
     (if a then [P_Redeliver, P_Redeliver] else []) @ [P_Renew, P_Menu_Subs] \<and>
   map route_press (review_keyboard r) = [P_Approve_Order, P_Reject_Order] \<and>
   map route_press (ticket_keyboard t) = [P_Reply_Ticket, P_Close_Ticket] \<and>
   map route_press dashboard_keyboard = [P_Pending_Orders, P_Open_Tickets, P_Servers] \<and>
   map route_press (retry_button i) = [P_Retry] \<and> route_press retry_all = P_Retry \<and>
   map route_press (toggle_buttons ss) = map (\<lambda>_. P_Toggle_Server) (filter srv_enabled ss)"
  by (simp add: route_press_def main_menu_keyboard_def language_keyboard_def servers_keyboard_def
      server_data_def products_keyboard_def plan_data_def cancel_keyboard_def
      subscriptions_keyboard_def subscription_detail_keyboard_def review_keyboard_def
      ticket_keyboard_def dashboard_keyboard_def retry_button_def retry_prefix_def retry_all_def
      toggle_buttons_def)

subsection \<open>Administrators only\<close>

lemma run_press_not_admin:
  assumes "h \<in> set admin_press_handlers" "\<not> is_admin (cx_settings cx) (pr_from q)"
  shows "run_press cx u q h c = toast cx unauthorized c \<or> run_press cx u q h c = (Inr (), c)"
proof -
  have "P_Servers \<noteq> h \<Longrightarrow> run_press cx u q h c = toast cx unauthorized c"
    using assms
    by (auto simp: admin_press_handlers_def admin_press_no callback_admin_back_def
        callback_admin_pending_orders_def callback_admin_approve_order_def
        callback_admin_reject_order_def callback_admin_open_tickets_def
        callback_admin_reply_ticket_def callback_admin_close_ticket_def
        callback_admin_toggle_server_def callback_retry_def)
  moreover have "run_press cx u q P_Servers c = (Inr (), c)"
    using assms(2) by (simp add: cmd_admin_servers_def done_act_def)
  ultimately show ?thesis by blast
qed

lemma run_post_not_admin:
  assumes "h \<in> set admin_post_handlers" "\<not> is_admin (cx_settings cx) (po_from m)"
  shows "run_post cx u m h c = (Inr (), c)"
  using assms
  by (auto simp: admin_post_handlers_def admin_post_no cmd_admin_dashboard_def
      handle_admin_ticket_reply_def cmd_admin_products_def cmd_admin_user_lookup_def
      cmd_admin_extend_def cmd_admin_block_user_def cmd_admin_unblock_user_def set_block_def
      cmd_retry_def cmd_audit_def) (simp add: cmd_admin_servers_def done_act_def)

lemma starts_with_split: "starts_with s p \<Longrightarrow> \<exists>r. s = p @ r"
  by (induction s p rule: starts_with.induct) auto

lemma adm_routes:
  assumes "starts_with data ''adm_''"
  shows "route_press data \<in> set admin_press_handlers \<union> {P_Unhandled}"
proof -
  from starts_with_split [OF assms] obtain r where "data = ''adm_'' @ r" by blast
  then show ?thesis by (simp add: route_press_def admin_press_handlers_def)
qed

text \<open>C21. The buttons and commands of the administrators do nothing for anybody else: a press whose
  data starts with "adm_", or a message routed to an admin handler, from a user who is not an
  administrator changes no row and no conversation, and the only answers are "Unauthorized"
  and the one to an expired button.\<close>

theorem admin_only:
  assumes "\<not> is_admin (cx_settings cx) (event_from ev)"
    and "case ev of Pressed q \<Rightarrow> starts_with (pr_data q) ''adm_''
         | Posted m \<Rightarrow> route_post (cmd m) (ch_state c) m \<in> Some ` set admin_post_handlers"
    and "c' = snd (handle cx cmd u ev c)"
  shows "undisturbed c c' \<and> (ch_out c' = ch_out c \<or>
    (\<exists>a. ch_out c' = ch_out c @ [(Toast unauthorized, a)]) \<or>
    (\<exists>a. ch_out c' = ch_out c @ [(Toast (get_text ''button_expired'' (user_language_code u) []), a)]))"
proof (cases ev)
  case (Pressed q)
  with assms(2) adm_routes have "route_press (pr_data q) \<in> set admin_press_handlers \<union> {P_Unhandled}"
    by simp
  then consider "c' = c" | "c' = logged cx (Toast unauthorized) c"
    | "c' = logged cx (Toast (get_text ''button_expired'' (user_language_code u) [])) c"
    using run_press_not_admin [of "route_press (pr_data q)" cx q u c] assms(1,3) Pressed
    by (auto simp: handle_def callback_unhandled_def chat_simps)
  then show ?thesis by cases (simp_all add: chat_simps)
next
  case (Posted m)
  then obtain h where "route_post (cmd m) (ch_state c) m = Some h" "h \<in> set admin_post_handlers"
    using assms(2) by auto
  with Posted assms run_post_not_admin [of h cx m u c] have "c' = c" by (simp add: handle_def)
  then show ?thesis by (simp add: chat_simps)
qed

theorem admin_only_witness:
  "undisturbed (chat_on order_db)
     (snd (handle sample_ctx (\<lambda>_. None) sample_user (Pressed (press_of ''adm_app_4'')) (chat_on order_db)))"
  using admin_only [of sample_ctx "Pressed (press_of ''adm_app_4'')" "\<lambda>_. None" "chat_on order_db" _ sample_user]
  by (simp add: is_admin_def)

subsection \<open>Blocked users\<close>

lemma throttle_event_same:
  assumes "throttle_event cx ev b = (ok, b1)"
  shows "bt_db b1 = bt_db b" "bt_talks b1 = bt_talks b" "bt_out b1 = bt_out b"
  using assms by (auto simp: throttle_event_def split: event.splits prod.splits)

lemma known_user_existing:
  assumes "get_by_telegram_id (event_from ev) d = Some u"
  shows "\<exists>f. (\<forall>v. user_id (f v) = user_id v \<and> user_telegram_id (f v) = user_telegram_id v \<and>
      user_is_blocked (f v) = user_is_blocked v) \<and>
    known_user cx sn ev d = Inr (f u, upd_user (user_id u) f d)"
  using assms
  by (auto simp: known_user_def upsert_user_def
      intro!: exI [of _ "refreshed_user (event_username ev) (sn_first_name sn) (sn_last_name sn)"])

text \<open>C22. A blocked user reaches no handler: whatever they send, no table but their own name
  in the users' changes, no conversation starts or goes on, nothing is said to them beyond
  the answer that stops a throttled button, and they stay blocked.\<close>

theorem blocked_user_ignored:
  assumes "get_by_telegram_id (event_from ev) (bt_db b) = Some u" "user_is_blocked u"
    and "b' = serve cx cmd sn ev b"
  shows "users_update (\<lambda>_. []) (bt_db b') = users_update (\<lambda>_. []) (bt_db b) \<and>
    bt_talks b' = bt_talks b \<and> (bt_out b' = bt_out b \<or> (\<exists>a. bt_out b' = bt_out b @ [(Ack, a)])) \<and>
    map user_is_blocked (users (bt_db b')) = map user_is_blocked (users (bt_db b))"
proof -
  obtain ok b1 where th: "throttle_event cx ev b = (ok, b1)" by (cases "throttle_event cx ev b")
  note same = throttle_event_same [OF th]
  obtain f where f: "\<And>v. user_is_blocked (f v) = user_is_blocked v"
    "known_user cx sn ev (bt_db b) = Inr (f u, upd_user (user_id u) f (bt_db b))"
    using known_user_existing [OF assms(1), of cx sn] by blast
  show ?thesis
  proof (cases ok)
    case True
    with th assms(2,3) f same have "b' = (if claimed cmd ev b1
        then b1\<lparr>bt_db := upd_user (user_id u) f (bt_db b)\<rparr> else b1)"
      by (simp add: serve_def with_user_def)
    with same f(1) show ?thesis by (simp add: update_row_def)
  next
    case False
    with th assms(3) same show ?thesis by (auto simp: serve_def split: event.split)
  qed
qed

definition blocked_bot :: bot where
  "blocked_bot = \<lparr>bt_db = order_db\<lparr>users := [sample_user\<lparr>user_is_blocked := True\<rparr>]\<rparr>,
     bt_talks = (\<lambda>_. (None, Map.empty)), bt_posts = [], bt_presses = [], bt_out = []\<rparr>"

theorem blocked_user_ignored_witness:
  "bt_talks (serve sample_ctx (\<lambda>_. Some ''start'')
      \<lparr>sn_first_name = None, sn_last_name = None, sn_language = None\<rparr> (Posted sample_post) blocked_bot)
    = bt_talks blocked_bot"
proof -
  have "get_by_telegram_id (event_from (Posted sample_post)) (bt_db blocked_bot)
      = Some (sample_user\<lparr>user_is_blocked := True\<rparr>)"
    by (simp add: blocked_bot_def sample_post_def get_by_telegram_id_def sample_user_def)
  from blocked_user_ignored [OF this _ refl] show ?thesis by simp
qed

subsection \<open>Commands while a reply is awaited\<close>

definition admin_commands :: "string list" where
  "admin_commands =
     [''servers'', ''products'', ''user'', ''extend'', ''block'', ''unblock'', ''retry'', ''audit'']"

lemma tell_customer_eval:
  "get_user uid (ch_db c) = Some v \<Longrightarrow>
   act_bind (tell_customer cx uid t) (\<lambda>_. m) c = m (logged cx (Send (user_telegram_id v) (t v) []) c)"
  unfolding tell_customer_def by (simp add: act_bind_eval(1) find_or_eval act_bind_try_tell(1))

lemma reply_leaves:
  assumes "is_admin (cx_settings cx) (po_from m)" "ch_data c ''ticket_id'' = Some (uuid_str tid)"
    and "get_ticket tid (ch_db c) = Some t" "get_user (tck_user_id t) (ch_db c) = Some v"
    and "db_unique (ch_db c)" "cx_ids cx 0 \<notin> msg_id ` set (messages (ch_db c))"
  shows "\<exists>x d. snd (handle_admin_ticket_reply cx m c) =
      logged cx (Answer (Lit ''Reply delivered'' [(''Ticket'', Plain (tck_code t))]) [])
        (logged cx (Send (user_telegram_id v) (reply_text t m v) [])
          (c\<lparr>ch_db := d, ch_saved := d, ch_state := None, ch_data := Map.empty\<rparr>)) \<and>
    d = upd_ticket tid (answered S_ADMIN) (messages_update (\<lambda>ms. ms @ [x]) (ch_db c)) \<and>
    msg_ticket_id x = tid \<and> msg_body x = Some (reply_body m)"
proof -
  let ?x = "new_message (cx_ids cx 0) tid S_ADMIN (Some (po_from m)) (reply_content m)
    (Some (po_chat_id m)) (Some (po_message_id m))"
  let ?d = "upd_ticket tid (answered S_ADMIN) (messages_update (\<lambda>ms. ms @ [?x]) (ch_db c))"
  have "db_unique ?d"
    using assms(5,6) by (subst unique_simps) (auto intro!: db_unique_add_message simp: new_message_def)
  then have "add_message (cx_ids cx 0) tid S_ADMIN (Some (po_from m)) (reply_content m)
      (Some (po_chat_id m)) (Some (po_message_id m)) (ch_db c) = Inr (?x, ?d)"
    by (simp add: add_message_def Let_def)
  moreover have "tck_id t = tid" using assms(3) by (auto dest: find_row_Some)
  moreover have "uuid_str tid \<noteq> []" by (simp add: uuid_str_def Let_def)
  ultimately have "snd (handle_admin_ticket_reply cx m c) =
      logged cx (Answer (Lit ''Reply delivered'' [(''Ticket'', Plain (tck_code t))]) [])
        (logged cx (Send (user_telegram_id v) (reply_text t m v) [])
          (c\<lparr>ch_db := ?d, ch_saved := ?d, ch_state := None, ch_data := Map.empty\<rparr>))"
    using assms(1-4)
    by (simp add: handle_admin_ticket_reply_def admin_post_yes chat_simps truthy_def parse_uuid_str
        tell_customer_eval)
  moreover have "msg_body ?x = Some (reply_body m)"
    by (simp add: new_message_def reply_content_def content_of_def reply_body_def)
  ultimately show ?thesis by (intro exI [of _ ?x]) (simp add: new_message_def)
qed

text \<open>An administrator who has pressed Reply and then types a command does not run it: the
  command is sent to the customer as the answer to the ticket, and, for one who is to be
  blocked, no user's row changes.\<close>

theorem command_sent_as_reply:
  assumes "is_admin (cx_settings cx) (po_from m)" "cmd m \<in> Some ` set admin_commands"
    and "ch_state c = Some Waiting_For_Reply" "ch_data c ''ticket_id'' = Some (uuid_str tid)"
    and "get_ticket tid (ch_db c) = Some t" "get_user (tck_user_id t) (ch_db c) = Some v"
    and "db_unique (ch_db c)" "cx_ids cx 0 \<notin> msg_id ` set (messages (ch_db c))"
    and "c' = snd (handle cx cmd u (Posted m) c)"
  shows "(\<exists>a. (Send (user_telegram_id v) (reply_text t m v) [], a) \<in> set (ch_out c')) \<and>
    (\<exists>x \<in> set (messages (ch_saved c')). msg_ticket_id x = tid \<and> msg_body x = Some (reply_body m)) \<and>
    users (ch_saved c') = users (ch_db c)"
proof -
  have "route_post (cmd m) (ch_state c) m = Some M_Ticket_Reply"
    using assms(2,3) by (auto simp: route_post_def admin_commands_def)
  then have "c' = snd (handle_admin_ticket_reply cx m c)"
    by (simp add: assms(9) handle_def)
  with reply_leaves [OF assms(1,4-8)] show ?thesis by force
qed

definition waiting_chat :: chat where
  "waiting_chat = (chat_on (order_db\<lparr>tickets := [old_ticket]\<rparr>))
     \<lparr>ch_state := Some Waiting_For_Reply, ch_data := [''ticket_id'' \<mapsto> uuid_str 30]\<rparr>"

theorem command_sent_as_reply_witness:
  "users (ch_saved (snd (handle sample_ctx (\<lambda>_. Some ''block'') sample_user
      (Posted (sample_post\<lparr>po_from := 900, po_text := Some ''/block 5001''\<rparr>)) waiting_chat)))
    = [sample_user]"
proof -
  have w: "get_ticket 30 (ch_db waiting_chat) = Some old_ticket"
    "get_user (tck_user_id old_ticket) (ch_db waiting_chat) = Some sample_user"
    "db_unique (ch_db waiting_chat)" "messages (ch_db waiting_chat) = []"
    "users (ch_db waiting_chat) = [sample_user]"
    by (simp_all add: waiting_chat_def old_ticket_def db_unique_def distinct_opt_def sample_db_defs)
  have "ch_state waiting_chat = Some Waiting_For_Reply"
    "ch_data waiting_chat ''ticket_id'' = Some (uuid_str 30)"
    by (simp_all add: waiting_chat_def)
  from command_sent_as_reply [OF _ _ this w(1,2,3) _ refl, of sample_ctx _ "\<lambda>_. Some ''block''"] w(4,5)
  show ?thesis by (simp add: is_admin_def admin_commands_def)
qed

end
