(* ===== verification/Py_Json.thy ===== *)
theory Py_Json
  imports Codec Settings
begin

section \<open>JSON text\<close>

text \<open>
  \<open>json.dumps\<close> and \<open>json.loads\<close> as the vpnctl client uses them, on texts that are lists of
  code points. A number with a fraction or an exponent is kept as its text: its conversion to
  a double is not part of this theory. The reader takes fuel; the length of the text is
  enough, because every nested call has read at least one character (\<open>json_roundtrip\<close> states
  it for the texts \<open>dumps\<close> writes). Python's limit on the depth of nesting is not modelled.
\<close>

type_synonym utext = "nat list"

definition utext :: "string \<Rightarrow> utext" where
  "utext s = map of_char s"

text \<open>A text as the message of an exception: code points from 256 on become a question mark.\<close>

definition narrow :: "utext \<Rightarrow> string" where
  "narrow t = map (\<lambda>c. if c < 256 then char_of c else CHR ''?'') t"

datatype jvalue =
    W_Null
  | W_Bool bool
  | W_Int int
  | W_Float utext
  | W_Str utext
  | W_Arr "jvalue list"
  | W_Obj "(utext \<times> jvalue) list"

subsection \<open>Writing\<close>

definition hex4 :: "nat \<Rightarrow> utext" where
  "hex4 u = utext (hex_digits 4 u)"

definition units :: "nat \<Rightarrow> nat list" where
  "units c =
     (if c < 65536 then [c]
      else [55296 + (c - 65536) div 1024, 56320 + (c - 65536) mod 1024])"

text \<open>\<open>ensure_ascii\<close>: the quote, the backslash and everything but printable ASCII is escaped.\<close>

definition escape :: "nat \<Rightarrow> utext" where
  "escape c =
     (if c = 34 then [92, 34] else if c = 92 then [92, 92]
      else if c = 10 then [92, 110] else if c = 13 then [92, 114] else if c = 9 then [92, 116]
      else if c = 12 then [92, 102] else if c = 8 then [92, 98]
      else if 32 \<le> c \<and> c \<le> 126 then [c]
      else concat (map (\<lambda>u. 92 # 117 # hex4 u) (units c)))"

definition dump_str :: "utext \<Rightarrow> utext" where
  "dump_str t = 34 # concat (map escape t) @ [34]"

fun dumps :: "jvalue \<Rightarrow> utext"
  and dump_items :: "jvalue list \<Rightarrow> utext"
  and dump_members :: "(utext \<times> jvalue) list \<Rightarrow> utext" where
  "dumps W_Null = utext ''null''"
| "dumps (W_Bool b) = (if b then utext ''true'' else utext ''false'')"
| "dumps (W_Int n) = utext (show_int n)"
| "dumps (W_Float t) = t"
| "dumps (W_Str t) = dump_str t"
| "dumps (W_Arr vs) = 91 # dump_items vs @ [93]"
| "dumps (W_Obj ms) = 123 # dump_members ms @ [125]"
| "dump_items [] = []"
| "dump_items [v] = dumps v"
| "dump_items (v # w # vs) = dumps v @ 44 # 32 # dump_items (w # vs)"
| "dump_members [] = []"
| "dump_members [(k, v)] = dump_str k @ 58 # 32 # dumps v"
| "dump_members ((k, v) # m # ms) =
     dump_str k @ 58 # 32 # dumps v @ 44 # 32 # dump_members (m # ms)"

subsection \<open>Reading\<close>

definition skip_ws :: "utext \<Rightarrow> utext" where
  "skip_ws t = dropWhile (\<lambda>c. c \<in> {9, 10, 13, 32}) t"

definition unhex4 :: "nat \<Rightarrow> nat \<Rightarrow> nat \<Rightarrow> nat \<Rightarrow> nat option" where
  "unhex4 a b c d =
     (if a < 128 \<and> b < 128 \<and> c < 128 \<and> d < 128
      then hex_value 0 (map char_of [a, b, c, d]) else None)"

definition simple_escape :: "nat \<Rightarrow> nat option" where
  "simple_escape e =
     map_of [(34, 34), (92, 92), (47, 47), (98, 8), (102, 12), (110, 10), (114, 13), (116, 9)] e"

definition prepend :: "'a \<Rightarrow> ('a list \<times> 'b) option \<Rightarrow> ('a list \<times> 'b) option" where
  "prepend u r = map_option (\<lambda>(x, q). (u # x, q)) r"

text \<open>The characters up to the closing quote and the text behind it; raw control characters
  are errors. A \<open>\u\<close> escape gives its 16 bits, and a pair of surrogates is joined afterwards.\<close>

fun scan_string :: "utext \<Rightarrow> (nat list \<times> utext) option" where
  "scan_string [] = None"
| "scan_string (c # s) =
     (if c = 34 then Some ([], s)
      else if c = 92
      then (case s of
              [] \<Rightarrow> None
            | e # r \<Rightarrow>
                (if e = 117
                 then (case r of
                         h1 # h2 # h3 # h4 # q \<Rightarrow>
                           (case unhex4 h1 h2 h3 h4 of
                              None \<Rightarrow> None
                            | Some u \<Rightarrow> prepend u (scan_string q))
                       | _ \<Rightarrow> None)
                 else (case simple_escape e of
                         None \<Rightarrow> None
                       | Some u \<Rightarrow> prepend u (scan_string r))))
      else if c < 32 then None
      else prepend c (scan_string s))"

fun join_surrogates :: "nat list \<Rightarrow> utext" where
  "join_surrogates (h # l # r) =
     (if 55296 \<le> h \<and> h < 56320 \<and> 56320 \<le> l \<and> l < 57344
      then (65536 + (h - 55296) * 1024 + (l - 56320)) # join_surrogates r
      else h # join_surrogates (l # r))"
| "join_surrogates r = r"

definition read_str :: "utext \<Rightarrow> (utext \<times> utext) option" where
  "read_str t = map_option (\<lambda>(us, q). (join_surrogates us, q)) (scan_string t)"

definition is_num :: "nat \<Rightarrow> bool" where
  "is_num c = (48 \<le> c \<and> c \<le> 57)"

text \<open>The parts of a number: sign, digits (a leading zero stands alone), fraction, exponent;
  a part that is not there is empty.\<close>

definition minus_sign :: "utext \<Rightarrow> utext" where
  "minus_sign t = (case t of c # _ \<Rightarrow> if c = 45 then [c] else [] | [] \<Rightarrow> [])"

definition int_digits :: "utext \<Rightarrow> utext" where
  "int_digits t = (case t of c # _ \<Rightarrow> if c = 48 then [c] else takeWhile is_num t | [] \<Rightarrow> [])"

definition fraction :: "utext \<Rightarrow> utext" where
  "fraction t =
     (case t of
        c # d # r \<Rightarrow> if c = 46 \<and> is_num d then c # takeWhile is_num (d # r) else []
      | _ \<Rightarrow> [])"

definition exponent :: "utext \<Rightarrow> utext" where
  "exponent t =
     (case t of
        c # r \<Rightarrow>
          (if c = 101 \<or> c = 69
           then (let sgn = (case r of d # _ \<Rightarrow> if d = 43 \<or> d = 45 then [d] else [] | [] \<Rightarrow> []);
                     ds = takeWhile is_num (drop (length sgn) r)
                 in if ds = [] then [] else c # sgn @ ds)
           else [])
      | [] \<Rightarrow> [])"

text \<open>An integer of more than 4300 digits is a \<open>ValueError\<close>.\<close>

definition read_number :: "utext \<Rightarrow> (jvalue \<times> utext) option" where
  "read_number t =
     (let sgn = minus_sign t;
          r = drop (length sgn) t;
          ds = int_digits r;
          r' = drop (length ds) r;
          f = fraction r';
          e = exponent (drop (length f) r')
      in if ds = [] then None
         else if f = [] \<and> e = []
         then (if length ds \<le> 4300
               then (case py_int (narrow (sgn @ ds)) of
                       Inl _ \<Rightarrow> None | Inr n \<Rightarrow> Some (W_Int n, r'))
               else None)
         else Some (W_Float (sgn @ ds @ f @ e), drop (length (f @ e)) r'))"

definition constants :: "(utext \<times> jvalue) list" where
  "constants =
     [(utext ''null'', W_Null), (utext ''true'', W_Bool True), (utext ''false'', W_Bool False),
      (utext ''NaN'', W_Float (utext ''nan'')), (utext ''Infinity'', W_Float (utext ''inf'')),
      (utext ''-Infinity'', W_Float (utext ''-inf''))]"

definition read_constant :: "utext \<Rightarrow> (jvalue \<times> utext) option" where
  "read_constant t =
     map_option (\<lambda>(w, v). (v, drop (length w) t))
       (find (\<lambda>(w, v). take (length w) t = w) constants)"

definition read_scalar :: "utext \<Rightarrow> (jvalue \<times> utext) option" where
  "read_scalar t = (case read_constant t of Some x \<Rightarrow> Some x | None \<Rightarrow> read_number t)"

text \<open>A later member of the same name replaces the value of the first one.\<close>

definition dict_of :: "('k \<times> 'v) list \<Rightarrow> ('k \<times> 'v) list" where
  "dict_of ms = foldl (\<lambda>d (k, v). dict_put k v d) [] ms"

fun read_value :: "nat \<Rightarrow> utext \<Rightarrow> (jvalue \<times> utext) option"
  and read_items :: "nat \<Rightarrow> utext \<Rightarrow> (jvalue list \<times> utext) option"
  and read_members :: "nat \<Rightarrow> utext \<Rightarrow> ((utext \<times> jvalue) list \<times> utext) option" where
  "read_value 0 t = None"
| "read_value (Suc n) t =
     (case t of
        [] \<Rightarrow> None
      | c # r \<Rightarrow>
          (if c = 34 then map_option (\<lambda>(s, q). (W_Str s, q)) (read_str r)
           else if c = 91
           then (if take 1 (skip_ws r) = [93] then Some (W_Arr [], drop 1 (skip_ws r))
                 else map_option (\<lambda>(vs, q). (W_Arr vs, q)) (read_items n (skip_ws r)))
           else if c = 123
           then (if take 1 (skip_ws r) = [125] then Some (W_Obj [], drop 1 (skip_ws r))
                 else map_option (\<lambda>(ms, q). (W_Obj (dict_of ms), q)) (read_members n (skip_ws r)))
           else read_scalar t))"
| "read_items 0 t = None"
| "read_items (Suc n) t =
     (case read_value n t of
        None \<Rightarrow> None
      | Some (v, q) \<Rightarrow>
          (case skip_ws q of
             [] \<Rightarrow> None
           | c # r \<Rightarrow>
               (if c = 93 then Some ([v], r)
                else if c = 44 then prepend v (read_items n (skip_ws r))
                else None)))"
| "read_members 0 t = None"
| "read_members (Suc n) t =
     (if take 1 t \<noteq> [34] then None
      else case read_str (drop 1 t) of
             None \<Rightarrow> None
           | Some (k, p) \<Rightarrow>
               (if take 1 (skip_ws p) \<noteq> [58] then None
                else case read_value n (skip_ws (drop 1 (skip_ws p))) of
                       None \<Rightarrow> None
                     | Some (v, q) \<Rightarrow>
                         (case skip_ws q of
                            [] \<Rightarrow> None
                          | c # r \<Rightarrow>
                              (if c = 125 then Some ([(k, v)], r)
                               else if c = 44 then prepend (k, v) (read_members n (skip_ws r))
                               else None))))"

definition loads :: "utext \<Rightarrow> jvalue option" where
  "loads t =
     (case read_value (Suc (length t)) (skip_ws t) of
        None \<Rightarrow> None
      | Some (v, r) \<Rightarrow> if skip_ws r = [] then Some v else None)"

subsection \<open>What is written is read back\<close>

text \<open>A value the writer and the reader agree on: no numbers with a fraction, no lone
  surrogates, names of members distinct, no integer beyond Python's limit of digits.\<close>

fun writable :: "jvalue \<Rightarrow> bool"
  and writable_items :: "jvalue list \<Rightarrow> bool"
  and writable_members :: "(utext \<times> jvalue) list \<Rightarrow> bool" where
  "writable (W_Int n) = (length (show_nat (nat \<bar>n\<bar>)) \<le> 4300)"
| "writable (W_Float t) = False"
| "writable (W_Str t) = list_all code_point t"
| "writable (W_Arr vs) = writable_items vs"
| "writable (W_Obj ms) = (writable_members ms \<and> distinct (map fst ms))"
| "writable v = True"
| "writable_items [] = True"
| "writable_items (v # vs) = (writable v \<and> writable_items vs)"
| "writable_members [] = True"
| "writable_members ((k, v) # ms) = (list_all code_point k \<and> writable v \<and> writable_members ms)"

definition follows :: "utext \<Rightarrow> bool" where
  "follows t = (case t of [] \<Rightarrow> True | c # r \<Rightarrow> c \<in> {44, 93, 125})"

lemma follows_simps [simp]:
  "follows []" "follows (c # r) \<longleftrightarrow> c = 44 \<or> c = 93 \<or> c = 125"
  by (auto simp: follows_def)

lemma utext_simps [simp]:
  "utext [] = []" "utext (c # s) = of_char c # utext s" "utext (s @ t) = utext s @ utext t"
  "length (utext s) = length s"
  by (simp_all add: utext_def)

lemma narrow_utext: "narrow (utext s) = s"
  by (induction s) (simp_all add: narrow_def)

lemma hex_char_ascii: "d < 16 \<Longrightarrow> (of_char (hex_char d) :: nat) < 128"
  by (simp add: hex_char_def)

lemma unhex4_hex4:
  assumes "u < 65536"
  shows "\<exists>a b c d. hex4 u = [a, b, c, d] \<and> unhex4 a b c d = Some u"
proof -
  let ?ds = "[hex_char (u div 16 div 16 div 16 mod 16), hex_char (u div 16 div 16 mod 16),
    hex_char (u div 16 mod 16), hex_char (u mod 16)]"
  have "hex_digits (Suc (Suc (Suc (Suc 0)))) u = ?ds"
    by simp
  moreover have "(4::nat) = Suc (Suc (Suc (Suc 0)))"
    by simp
  ultimately have ds: "hex_digits 4 u = ?ds"
    by metis
  have "hex_value 0 ?ds = Some u"
    using hex_value_digits [of u 4] assms ds by simp
  then show ?thesis
    by (simp add: hex4_def ds unhex4_def hex_char_ascii)
qed

lemma scan_unit:
  assumes "u < 65536"
  shows "scan_string (92 # 117 # hex4 u @ r) = prepend u (scan_string r)"
  using unhex4_hex4 [OF assms] by auto

lemma prepend_Some [simp]: "prepend u (Some (x, q)) = Some (u # x, q)"
  by (simp add: prepend_def)

lemma scan_escape:
  assumes "code_point c" "scan_string r = Some (x, q)"
  shows "scan_string (escape c @ r) = Some (units c @ x, q)"
proof (cases "c \<in> {34, 92, 10, 13, 9, 12, 8} \<or> 32 \<le> c \<and> c \<le> 126")
  case True
  then show ?thesis
    using assms(2) by (auto simp: escape_def units_def simple_escape_def)
next
  case False
  then have "escape c = concat (map (\<lambda>u. 92 # 117 # hex4 u) (units c))"
    by (auto simp: escape_def)
  then show ?thesis
    using assms by (auto simp: units_def code_point_def scan_unit simp del: scan_string.simps)
qed

lemma scan_escapes:
  "list_all code_point t \<Longrightarrow>
     scan_string (concat (map escape t) @ 34 # r) = Some (concat (map units t), r)"
  by (induction t) (simp_all add: scan_escape)

lemma units_low: "c < 65536 \<Longrightarrow> units c = [c]"
  by (simp add: units_def)

lemma units_high:
  "\<not> c < 65536 \<Longrightarrow> units c = [55296 + (c - 65536) div 1024, 56320 + (c - 65536) mod 1024]"
  by (simp add: units_def)

lemma join_cons:
  "\<not> (55296 \<le> c \<and> c < 56320) \<Longrightarrow> join_surrogates (c # r) = c # join_surrogates r"
  by (cases r) auto

lemma join_units: "list_all code_point t \<Longrightarrow> join_surrogates (concat (map units t)) = t"
proof (induction t)
  case (Cons c t)
  then have c: "code_point c" and t: "join_surrogates (concat (map units t)) = t"
    by simp_all
  show ?case
  proof (cases "c < 65536")
    case True
    with c t show ?thesis
      by (subst list.map, subst concat.simps, subst units_low [OF True])
        (auto simp: code_point_def join_cons)
  next
    case False
    have "c < 1114112"
      using c by (simp add: code_point_def)
    note False
    moreover have "(c - 65536) div 1024 < 1024"
      using \<open>c < 1114112\<close> False by (intro less_mult_imp_div_less) linarith
    moreover have "c = 65536 + (c - 65536) div 1024 * 1024 + (c - 65536) mod 1024"
      using False by simp
    ultimately show ?thesis
      using t by (simp add: units_high)
  qed
qed simp

lemma read_dump_str:
  "list_all code_point t \<Longrightarrow> read_str (concat (map escape t) @ 34 # r) = Some (t, r)"
  by (simp add: read_str_def scan_escapes join_units)

subsection \<open>Integers\<close>

lemma is_num_digit: "is_num (of_char c) \<longleftrightarrow> is_decimal c"
  by (simp add: is_num_def is_decimal_def Let_def)

lemma utext_num: "list_all is_decimal s \<Longrightarrow> list_all is_num (utext s)"
  by (induction s) (simp_all add: is_num_digit)

lemma takeWhile_num:
  assumes "list_all is_num ds" "follows r"
  shows "takeWhile is_num (ds @ r) = ds"
proof -
  have "takeWhile is_num r = []"
    using assms(2) by (cases r) (auto simp: is_num_def)
  then show ?thesis
    using assms(1) by (simp add: takeWhile_append list_all_iff)
qed

lemma number_ends:
  assumes "follows r"
  shows "fraction r = []" "exponent r = []"
  using assms by (auto simp: fraction_def exponent_def split: list.splits)

lemma read_digits:
  assumes "list_all is_num ds" "ds \<noteq> []" "hd ds = 48 \<longrightarrow> ds = [48]" "follows r"
  shows "int_digits (ds @ r) = ds"
  using assms takeWhile_num [OF assms(1,4)] by (cases ds) (auto simp: int_digits_def)

lemma show_nat_text:
  "list_all is_num (utext (show_nat m))"
  "utext (show_nat m) \<noteq> []"
  "hd (utext (show_nat m)) = 48 \<longrightarrow> utext (show_nat m) = [48]"
proof -
  show "list_all is_num (utext (show_nat m))"
    by (rule utext_num [OF show_nat_decimal])
  obtain c s where cs: "show_nat m = c # s"
    by (meson neq_Nil_conv show_nat_not_Nil)
  then show "utext (show_nat m) \<noteq> []"
    by simp
  have "c = CHR ''0''" if "of_char c = (48 :: nat)"
  proof -
    have "(of_char c :: nat) = of_char (CHR ''0'')"
      using that by simp
    then show ?thesis
      by (simp only: of_char_eq_iff)
  qed
  then show "hd (utext (show_nat m)) = 48 \<longrightarrow> utext (show_nat m) = [48]"
    using cs show_nat_zero [of m s] by auto
qed

lemma read_constant_number:
  assumes "t = d # r \<or> t = 45 # d # r" "is_num d"
  shows "read_constant t = None"
  using assms by (auto simp: read_constant_def constants_def is_num_def)

text \<open>\<open>show_int n\<close> is an optional sign and digits.\<close>

lemma show_int_text:
  "\<exists>sgn ds. utext (show_int n) = sgn @ ds \<and> (sgn = [] \<or> sgn = [45])
     \<and> ds = utext (show_nat (nat \<bar>n\<bar>))"
  by (rule exI [of _ "if n < 0 then [45] else []"]) (auto simp: show_int_def)

lemma read_int:
  assumes "length (show_nat (nat \<bar>n\<bar>)) \<le> 4300" "follows r"
  shows "read_number (utext (show_int n) @ r) = Some (W_Int n, r)"
proof -
  obtain sgn ds where t: "utext (show_int n) = sgn @ ds" and sgn: "sgn = [] \<or> sgn = [45]"
    and ds_def: "ds = utext (show_nat (nat \<bar>n\<bar>))"
    using show_int_text by blast
  note ds = show_nat_text [of "nat \<bar>n\<bar>", folded ds_def]
  obtain d q where dq: "ds = d # q"
    using ds(2) by (cases ds) auto
  have "d \<noteq> 45"
    using ds(1) dq by (auto simp: is_num_def)
  then have sign: "minus_sign ((sgn @ ds) @ r) = sgn"
    using sgn dq by (auto simp: minus_sign_def)
  have digits: "int_digits (ds @ r) = ds"
    by (rule read_digits [OF ds assms(2)])
  have len: "length ds \<le> 4300"
    using assms(1) by (simp add: ds_def)
  have int: "py_int (narrow (sgn @ ds)) = Inr n"
    by (simp add: t [symmetric] narrow_utext py_int_show_int)
  show ?thesis
    unfolding t read_number_def Let_def sign
    by (simp add: digits ds(2) len int number_ends [OF assms(2)])
qed

lemma read_int_scalar:
  assumes "length (show_nat (nat \<bar>n\<bar>)) \<le> 4300" "follows r"
  shows "read_scalar (utext (show_int n) @ r) = Some (W_Int n, r)"
proof -
  obtain sgn ds where t: "utext (show_int n) = sgn @ ds" and sgn: "sgn = [] \<or> sgn = [45]"
    and ds_def: "ds = utext (show_nat (nat \<bar>n\<bar>))"
    using show_int_text by blast
  note ds = show_nat_text [of "nat \<bar>n\<bar>", folded ds_def]
  obtain d q where "ds = d # q" "is_num d"
    using ds by (cases ds) auto
  then have "read_constant (utext (show_int n) @ r) = None"
    unfolding t using sgn by (intro read_constant_number [of _ d "q @ r"]) auto
  then show ?thesis
    by (simp add: read_scalar_def read_int [OF assms])
qed

subsection \<open>Values\<close>

definition starts_value :: "utext \<Rightarrow> bool" where
  "starts_value t = (case t of [] \<Rightarrow> False | c # r \<Rightarrow> c \<notin> {9, 10, 13, 32, 93, 125})"

lemma skip_ws_simps [simp]:
  "starts_value t \<Longrightarrow> skip_ws t = t"
  "starts_value t \<Longrightarrow> skip_ws (32 # t) = t"
  "follows (c # r) \<Longrightarrow> skip_ws (c # r) = c # r"
  "skip_ws (58 # r) = 58 # r"
  "skip_ws (34 # r) = 34 # r"
  by (auto simp: skip_ws_def starts_value_def split: list.splits)

lemma starts_value_dumps: "writable v \<Longrightarrow> starts_value (dumps v @ r)"
proof (cases v)
  case (W_Int n)
  obtain sgn ds where t: "utext (show_int n) = sgn @ ds" and sgn: "sgn = [] \<or> sgn = [45]"
    and ds_def: "ds = utext (show_nat (nat \<bar>n\<bar>))"
    using show_int_text by blast
  note ds = show_nat_text [of "nat \<bar>n\<bar>", folded ds_def]
  then show ?thesis
    unfolding W_Int using t sgn by (cases ds) (auto simp: starts_value_def is_num_def)
qed (auto simp: starts_value_def dump_str_def)

lemma starts_value_Cons:
  assumes "starts_value t"
  obtains c q where "t = c # q" "c \<noteq> 93" "c \<noteq> 125"
  using assms by (auto simp: starts_value_def split: list.splits)

lemma starts_items: "writable_items (v # vs) \<Longrightarrow> starts_value (dump_items (v # vs) @ r)"
  by (cases vs) (auto simp: starts_value_dumps)

lemma starts_members: "starts_value (dump_members ((k, v) # ms) @ r)"
  by (cases ms) (auto simp: starts_value_def dump_str_def)

lemma read_constants:
  "read_value (Suc n) (utext ''null'' @ r) = Some (W_Null, r)"
  "read_value (Suc n) (utext ''true'' @ r) = Some (W_Bool True, r)"
  "read_value (Suc n) (utext ''false'' @ r) = Some (W_Bool False, r)"
  by (simp_all add: read_scalar_def read_constant_def constants_def)

lemma dict_put_absent: "k \<notin> fst ` set d \<Longrightarrow> dict_put k v d = d @ [(k, v)]"
  by (induction d) auto

lemma dict_of_distinct: "distinct (map fst ms) \<Longrightarrow> dict_of ms = ms"
proof -
  have "distinct (map fst (d @ ms)) \<Longrightarrow> foldl (\<lambda>d (k, v). dict_put k v d) d ms = d @ ms" for d
    by (induction ms arbitrary: d) (auto simp: dict_put_absent)
  from this [of "[]"] show "distinct (map fst ms) \<Longrightarrow> dict_of ms = ms"
    by (simp add: dict_of_def)
qed

lemma read_value_scalar:
  assumes "read_scalar t = Some x" "0 < n" "t = c # q" "c \<notin> {34, 91, 123}"
  shows "read_value n t = Some x"
  using assms by (cases n) auto

lemma read_value_int:
  assumes "length (show_nat (nat \<bar>i\<bar>)) \<le> 4300" "follows r" "0 < n"
  shows "read_value n (utext (show_int i) @ r) = Some (W_Int i, r)"
proof -
  obtain sgn ds where t: "utext (show_int i) = sgn @ ds" and sgn: "sgn = [] \<or> sgn = [45]"
    and ds_def: "ds = utext (show_nat (nat \<bar>i\<bar>))"
    using show_int_text by blast
  note ds = show_nat_text [of "nat \<bar>i\<bar>", folded ds_def]
  obtain c q where "utext (show_int i) @ r = c # q" "c \<notin> {34, 91, 123}"
    using t sgn ds by (cases ds) (auto simp: is_num_def)
  then show ?thesis
    by (rule read_value_scalar [OF read_int_scalar [OF assms(1,2)] assms(3)])
qed

lemma read_dumps:
  "writable v \<Longrightarrow> follows r \<Longrightarrow> length (dumps v) < n \<Longrightarrow> read_value n (dumps v @ r) = Some (v, r)"
  "writable_items vs \<Longrightarrow> vs \<noteq> [] \<Longrightarrow> length (dump_items vs) + 1 < n
     \<Longrightarrow> read_items n (dump_items vs @ 93 # r) = Some (vs, r)"
  "writable_members ms \<Longrightarrow> ms \<noteq> [] \<Longrightarrow> length (dump_members ms) + 1 < n
     \<Longrightarrow> read_members n (dump_members ms @ 125 # r) = Some (ms, r)"
proof (induction v and vs and ms arbitrary: n r and n r and n r
    rule: dumps_dump_items_dump_members.induct)
  case 1
  then show ?case
    using read_constants(1) by (cases n) simp_all
next
  case (2 b)
  then show ?case
    using read_constants(2,3) by (cases n) simp_all
next
  case (3 i)
  then show ?case
    by (auto intro: read_value_int simp del: read_value.simps)
next
  case (4 t)
  then show ?case by simp
next
  case (5 t)
  then show ?case
    by (cases n) (simp_all add: dump_str_def read_dump_str)
next
  case (6 vs)
  then obtain m where m: "n = Suc m"
    by (cases n) auto
  show ?case
  proof (cases vs)
    case Nil
    then show ?thesis
      by (simp add: m skip_ws_def)
  next
    case (Cons w ws)
    with 6 have start: "starts_value (dump_items vs @ 93 # r)"
      using starts_items by simp
    then obtain c q where "dump_items vs @ 93 # r = c # q" "c \<noteq> 93"
      using starts_value_Cons by blast
    moreover have "read_items m (dump_items vs @ 93 # r) = Some (vs, r)"
      using 6 Cons m by simp
    ultimately show ?thesis
      using m start by simp
  qed
next
  case (7 ms)
  then obtain m where m: "n = Suc m"
    by (cases n) auto
  show ?case
  proof (cases ms)
    case Nil
    then show ?thesis
      by (simp add: m skip_ws_def)
  next
    case (Cons w ws)
    then have start: "starts_value (dump_members ms @ 125 # r)"
      using starts_members by (cases w) simp
    then obtain c q where "dump_members ms @ 125 # r = c # q" "c \<noteq> 125"
      using starts_value_Cons by blast
    moreover have "read_members m (dump_members ms @ 125 # r) = Some (ms, r)"
      using 7 Cons m by simp
    ultimately show ?thesis
      using 7 m start by (simp add: dict_of_distinct)
  qed
next
  case 8
  then show ?case by simp
next
  case (9 v)
  then obtain m where m: "n = Suc m"
    by (cases n) auto
  with 9 show ?case by simp
next
  case (10 v w vs)
  then obtain m where m: "n = Suc m"
    by (cases n) auto
  with 10 starts_items [of w vs "93 # r"] show ?case by simp
next
  case 11
  then show ?case by simp
next
  case (12 k v)
  then obtain m where m: "n = Suc m"
    by (cases n) auto
  with 12 starts_value_dumps [of v "125 # r"] show ?case
    by (simp add: dump_str_def read_dump_str)
next
  case (13 k v m ms)
  obtain j where j: "n = Suc j"
    using 13(5) by (cases n) auto
  obtain k' v' where "m = (k', v')"
    by force
  with 13 j starts_value_dumps [of v "44 # 32 # dump_members (m # ms) @ 125 # r"]
    starts_members [of k' v' ms "125 # r"] show ?case
    by (simp add: dump_str_def read_dump_str)
qed

text \<open>A text of a value that \<open>dumps\<close> wrote is read back as that value.\<close>

lemma loads_dumps:
  assumes "writable v"
  shows "loads (dumps v) = Some v"
  using read_dumps(1) [OF assms, of "[]" "Suc (length (dumps v))"]
    starts_value_dumps [OF assms, of "[]"]
  by (simp add: loads_def skip_ws_def [of "[]"] del: read_value.simps)

subsection \<open>One line of printable ASCII\<close>

definition printable :: "nat \<Rightarrow> bool" where
  "printable c = (32 \<le> c \<and> c \<le> 126)"

lemma list_all_concat: "(\<And>x. x \<in> set xs \<Longrightarrow> list_all P (f x)) \<Longrightarrow> list_all P (concat (map f xs))"
  by (induction xs) auto

lemma printable_hex_char: "d < 16 \<Longrightarrow> printable (of_char (hex_char d))"
  by (simp add: printable_def hex_char_def)

lemma printable_hex: "list_all printable (utext (hex_digits k u))"
proof (induction k u rule: hex_digits.induct)
  case (2 k n)
  have "printable (of_char (hex_char (n mod 16)))"
    by (rule printable_hex_char) simp
  with 2 show ?case by simp
qed simp

lemma printable_escape: "list_all printable (escape c)"
  by (auto simp: escape_def hex4_def printable_hex printable_def intro!: list_all_concat)

lemma printable_dump_str: "list_all printable (dump_str t)"
  by (auto simp: dump_str_def printable_def intro!: list_all_concat printable_escape)

lemma printable_digits: "list_all is_decimal s \<Longrightarrow> list_all printable (utext s)"
  by (induction s) (auto simp: printable_def is_decimal_def Let_def)

lemma printable_int: "list_all printable (utext (show_int n))"
  using printable_digits [OF show_nat_decimal] by (simp add: show_int_def printable_def)

lemma printable_dumps:
  "writable v \<Longrightarrow> list_all printable (dumps v)"
  "writable_items vs \<Longrightarrow> list_all printable (dump_items vs)"
  "writable_members ms \<Longrightarrow> list_all printable (dump_members ms)"
  by (induction v and vs and ms rule: dumps_dump_items_dump_members.induct)
    (simp_all add: printable_dump_str printable_int, simp_all add: printable_def)

end
