(* ===== verification/Vpnctl_Client.thy ===== *)
theory Vpnctl_Client
  imports Provisioner Py_Json
begin

section \<open>The vpnctl client\<close>

text \<open>
  \<open>src/app/integrations/provisioning/vpnctl_client.py\<close>: the provisioner that asks \<open>vpnctl\<close> on
  the VPN host. Every operation is one JSON request and one JSON response, over the Unix
  socket of this host, over a development command, or over TCP to another host. What lies
  behind the transport is a parameter \<open>vc_net\<close>: for a route and the bytes of a request it says
  what came back and how the world behind it has changed, also when the exchange failed.
  \<open>lib_*\<close> are conversions of Python's library on values a vpnctl server does not send: a
  fraction to an integer (\<open>None\<close>: it is infinite), \<open>str()\<close> of a list, an ISO date. The
  message of a parsing error names the exception only.
\<close>

subsection \<open>Identifiers and hosts\<close>

definition identifier_char :: "char \<Rightarrow> bool" where
  "identifier_char c =
     (let n = of_char c :: nat
      in (97 \<le> n \<and> n \<le> 122) \<or> (65 \<le> n \<and> n \<le> 90) \<or> (48 \<le> n \<and> n \<le> 57)
         \<or> c = CHR ''_'' \<or> c = CHR ''-'')"

definition is_identifier :: "string \<Rightarrow> bool" where
  "is_identifier s = (s \<noteq> [] \<and> length s \<le> 64 \<and> list_all identifier_char s)"

text \<open>\<open>IDENTIFIER_REGEX.match\<close>: \<open>$\<close> also matches before a newline at the very end.\<close>

definition identifier_match :: "string \<Rightarrow> bool" where
  "identifier_match s = (is_identifier s \<or> (s \<noteq> [] \<and> last s = nl \<and> is_identifier (butlast s)))"

definition sanitize_identifier :: "string \<Rightarrow> exn + string" where
  "sanitize_identifier s = (if identifier_match s then Inr s else Inl ValueError)"

definition local_hosts :: "string list" where
  "local_hosts = ['''', ''localhost'', ''127.0.0.1'', ''::1'']"

definition is_local_host :: "string \<Rightarrow> bool" where
  "is_local_host host = (py_lower (py_strip host) \<in> set local_hosts)"

subsection \<open>The client\<close>

datatype route = Unix_Socket string | Dev_Command "string list" | Tcp string int

text \<open>What an exchange ends with: the chunks read until the end of the stream, the timeout,
  another \<open>OSError\<close>, or the command that could not be started.\<close>

datatype wire = Chunks "bytes list" | Wire_Timeout | Wire_Error string | No_Command string

record 'p vpnctl_client =
  vc_token :: string
  vc_socket_path :: string
  vc_dev_command :: "string list"
  vc_settings :: settings
  vc_net :: "route \<Rightarrow> bytes \<Rightarrow> 'p \<Rightarrow> wire \<times> 'p"
  vc_compress :: "bytes \<Rightarrow> bytes"
  vc_now :: datetime
  lib_float_int :: "utext \<Rightarrow> int option"
  lib_float_zero :: "utext \<Rightarrow> bool"
  lib_str :: "jvalue \<Rightarrow> utext"
  lib_iso :: "utext \<Rightarrow> datetime option"

definition default_socket_path :: string where
  "default_socket_path = ''/run/vpnctl/vpnctl.sock''"

definition default_vpnctl_port :: int where
  "default_vpnctl_port = 7391"

definition max_response_bytes :: nat where
  "max_response_bytes = 1024 * 1024"

definition vpnctl_permanent_exits :: "int list" where
  "vpnctl_permanent_exits = [2, 3, 4]"

text \<open>\<open>__init__\<close>: an argument that is not given is taken from the settings; \<open>sh\<close> is
  \<open>shlex.split\<close>, \<open>env\<close> holds the world and the library.\<close>

definition new_vpnctl_client ::
  "'p vpnctl_client \<Rightarrow> (string \<Rightarrow> string list) \<Rightarrow> settings \<Rightarrow> string option \<Rightarrow> string option
     \<Rightarrow> string option \<Rightarrow> 'p vpnctl_client" where
  "new_vpnctl_client env sh st socket dev token =
     env\<lparr>vc_settings := st,
         vc_token := (case token of None \<Rightarrow> st_vpnctl_token st | Some t \<Rightarrow> t),
         vc_socket_path :=
           (case socket of
              Some (c # p) \<Rightarrow> c # p
            | _ \<Rightarrow> if st_vpnctl_socket st \<noteq> [] then st_vpnctl_socket st else default_socket_path),
         vc_dev_command :=
           (let command = (case dev of None \<Rightarrow> st_vpnctl_dev_command st | Some d \<Rightarrow> d)
            in if command \<noteq> [] then sh command else [])\<rparr>"

subsection \<open>Transport\<close>

definition vpnctl_port :: "settings \<Rightarrow> vpn_server \<Rightarrow> int" where
  "vpnctl_port st srv =
     (case map_of (st_servers st) (srv_slug srv) of
        None \<Rightarrow> default_vpnctl_port | Some cfg \<Rightarrow> cfg_vpnctl_port cfg)"

definition route_to :: "'p vpnctl_client \<Rightarrow> vpn_server \<Rightarrow> route" where
  "route_to vc srv =
     (if is_local_host (srv_host srv)
      then (if vc_dev_command vc \<noteq> [] then Dev_Command (vc_dev_command vc)
            else Unix_Socket (vc_socket_path vc))
      else Tcp (srv_host srv) (vpnctl_port (vc_settings vc) srv))"

text \<open>The reading loop stops at the end of the stream, or once there is more than
  \<open>MAX_RESPONSE_BYTES\<close>; the output of a command is taken whole.\<close>

fun read_chunks :: "bytes \<Rightarrow> bytes list \<Rightarrow> bytes" where
  "read_chunks response [] = response"
| "read_chunks response (chunk # chunks) =
     (if length response \<le> max_response_bytes
      then (if chunk = [] then response else read_chunks (response @ chunk) chunks)
      else response)"

definition received :: "route \<Rightarrow> bytes list \<Rightarrow> bytes" where
  "received r chunks =
     (case r of Dev_Command command \<Rightarrow> concat chunks | _ \<Rightarrow> read_chunks [] chunks)"

subsection \<open>Responses\<close>

definition json_get :: "string \<Rightarrow> jvalue \<Rightarrow> exn + jvalue" where
  "json_get k v =
     (case v of
        W_Obj ms \<Rightarrow> (case map_of ms (utext k) of None \<Rightarrow> Inl KeyError | Some w \<Rightarrow> Inr w)
      | _ \<Rightarrow> Inl TypeError)"

definition json_member :: "string \<Rightarrow> (utext \<times> jvalue) list \<Rightarrow> jvalue \<Rightarrow> jvalue" where
  "json_member k ms d = (case map_of ms (utext k) of None \<Rightarrow> d | Some w \<Rightarrow> w)"

definition as_object :: "jvalue \<Rightarrow> (utext \<times> jvalue) list option" where
  "as_object v = (case v of W_Obj ms \<Rightarrow> Some ms | _ \<Rightarrow> None)"

definition as_text :: "jvalue \<Rightarrow> utext option" where
  "as_text v = (case v of W_Str t \<Rightarrow> Some t | _ \<Rightarrow> None)"

text \<open>\<open>int(v)\<close>, the truth value of \<open>v\<close> and \<open>str(v)\<close>.\<close>

definition json_int :: "'p vpnctl_client \<Rightarrow> jvalue \<Rightarrow> exn + int" where
  "json_int vc v =
     (case v of
        W_Int n \<Rightarrow> Inr n
      | W_Bool b \<Rightarrow> Inr (if b then 1 else 0)
      | W_Float t \<Rightarrow>
          (if t = utext ''nan'' then Inl ValueError
           else case lib_float_int vc t of None \<Rightarrow> Inl OverflowError | Some n \<Rightarrow> Inr n)
      | W_Str t \<Rightarrow> py_int (narrow t)
      | _ \<Rightarrow> Inl TypeError)"

definition truthy :: "'p vpnctl_client \<Rightarrow> jvalue \<Rightarrow> bool" where
  "truthy vc v =
     (case v of
        W_Null \<Rightarrow> False
      | W_Bool b \<Rightarrow> b
      | W_Int n \<Rightarrow> n \<noteq> 0
      | W_Float t \<Rightarrow> \<not> lib_float_zero vc t
      | W_Str t \<Rightarrow> t \<noteq> []
      | W_Arr vs \<Rightarrow> vs \<noteq> []
      | W_Obj ms \<Rightarrow> ms \<noteq> [])"

definition json_str :: "'p vpnctl_client \<Rightarrow> jvalue \<Rightarrow> utext" where
  "json_str vc v =
     (case v of
        W_Null \<Rightarrow> utext ''None''
      | W_Bool b \<Rightarrow> (if b then utext ''True'' else utext ''False'')
      | W_Int n \<Rightarrow> utext (show_int n)
      | W_Str t \<Rightarrow> t
      | _ \<Rightarrow> lib_str vc v)"

type_synonym answer = "int \<times> (utext \<times> jvalue) list \<times> utext"

text \<open>The body of the \<open>try\<close>: decode, parse, pick exit code, result and error.\<close>

definition parse_answer :: "'p vpnctl_client \<Rightarrow> bytes \<Rightarrow> exn + answer" where
  "parse_answer vc raw =
     (case Option.bind (utf8_decode raw) loads of
        None \<Rightarrow> Inl ValueError
      | Some response \<Rightarrow>
          bind_res (json_get ''exit_code'' response) (\<lambda>code.
          bind_res (json_int vc code) (\<lambda>exit_code.
            case as_object response of
              None \<Rightarrow> Inl AttributeError
            | Some ms \<Rightarrow>
                (case as_object (json_member ''result'' ms (W_Obj [])) of
                   None \<Rightarrow> Inl ValueError
                 | Some result \<Rightarrow>
                     (let e = json_member ''error'' ms W_Null
                      in Inr (exit_code, result, if truthy vc e then json_str vc e else []))))))"

fun caught_as_malformed :: "exn \<Rightarrow> bool" where
  "caught_as_malformed ValueError = True"
| "caught_as_malformed KeyError = True"
| "caught_as_malformed TypeError = True"
| "caught_as_malformed e = False"

definition malformed :: "exn \<Rightarrow> exn" where
  "malformed e = RetryableProvisioningError (''Malformed response from vpnctl: '' @ exn_str e)"

subsection \<open>One call\<close>

definition request_body ::
  "'p vpnctl_client \<Rightarrow> vpn_server \<Rightarrow> string \<Rightarrow> (string \<times> string) list \<Rightarrow> jvalue" where
  "request_body vc srv command args =
     W_Obj ([(utext ''command'', W_Str (utext command)),
             (utext ''args'', W_Obj (map (\<lambda>(k, v). (utext k, W_Str (utext v))) args))]
            @ (if \<not> is_local_host (srv_host srv) \<and> vc_token vc \<noteq> []
               then [(utext ''token'', W_Str (utext (vc_token vc)))] else []))"

definition request_line :: "jvalue \<Rightarrow> bytes" where
  "request_line body = utf8_encode (dumps body @ [10])"

definition vpnctl_call ::
  "'p vpnctl_client \<Rightarrow> vpn_server \<Rightarrow> string \<Rightarrow> (string \<times> string) list
     \<Rightarrow> (answer, 'p) provisioning" where
  "vpnctl_call vc srv command args p =
     (let r = route_to vc srv;
          (w, p') = vc_net vc r (request_line (request_body vc srv command args)) p
      in (case w of
            Wire_Timeout \<Rightarrow>
              Inl (RetryableProvisioningError
                ((''vpnctl on '' @ srv_slug srv) @ '' timed out after 30s''))
          | Wire_Error e \<Rightarrow>
              Inl (RetryableProvisioningError
                ((''Cannot reach vpnctl on '' @ srv_slug srv) @ '': '' @ e))
          | No_Command e \<Rightarrow>
              Inl (PermanentProvisioningError
                ((''Cannot run vpnctl ('' @ hd (vc_dev_command vc)) @ ''): '' @ e))
          | Chunks chunks \<Rightarrow>
              (let raw = received r chunks
               in if max_response_bytes < length raw
                  then Inl (RetryableProvisioningError
                    ((''Response from vpnctl on '' @ srv_slug srv) @ '' is too large''))
                  else (case parse_answer vc raw of
                          Inl e \<Rightarrow> Inl (if caught_as_malformed e then malformed e else e)
                        | Inr a \<Rightarrow> Inr a)), p'))"

text \<open>\<open>str.strip()\<close> on all of Unicode.\<close>

definition uspace :: "nat \<Rightarrow> bool" where
  "uspace c =
     ((9 \<le> c \<and> c \<le> 13) \<or> (28 \<le> c \<and> c \<le> 32)
      \<or> c \<in> {133, 160, 5760, 8232, 8233, 8239, 8287, 12288} \<or> (8192 \<le> c \<and> c \<le> 8202))"

definition ustrip :: "utext \<Rightarrow> utext" where
  "ustrip t = rev (dropWhile uspace (rev (dropWhile uspace t)))"

definition classify_failure :: "int \<Rightarrow> utext \<Rightarrow> exn" where
  "classify_failure exit_code err =
     (let err_msg = (if ustrip err \<noteq> [] then narrow (ustrip err)
                     else ''vpnctl failed with exit code '' @ show_int exit_code)
      in if exit_code \<in> set vpnctl_permanent_exits
            \<or> contains_str (py_lower err_msg) ''already exists''
         then PermanentProvisioningError err_msg else RetryableProvisioningError err_msg)"

definition run_checked ::
  "'p vpnctl_client \<Rightarrow> vpn_server \<Rightarrow> string \<Rightarrow> (string \<times> string) list
     \<Rightarrow> ((utext \<times> jvalue) list, 'p) provisioning" where
  "run_checked vc srv command args p =
     (case vpnctl_call vc srv command args p of
        (Inl e, p') \<Rightarrow> (Inl e, p')
      | (Inr (exit_code, result, err), p') \<Rightarrow>
          (if exit_code \<noteq> 0 then Inl (classify_failure exit_code err) else Inr result, p'))"

subsection \<open>Strict base64\<close>

text \<open>\<open>b64decode(s, validate=True)\<close>: the standard alphabet, complete groups of four, padding
  only in the last one.\<close>

definition std_sextet :: "nat \<Rightarrow> nat option" where
  "std_sextet c =
     (if 65 \<le> c \<and> c \<le> 90 then Some (c - 65)
      else if 97 \<le> c \<and> c \<le> 122 then Some (c - 71)
      else if 48 \<le> c \<and> c \<le> 57 then Some (c + 4)
      else if c = 43 then Some 62 else if c = 47 then Some 63 else None)"

fun b64decode_strict :: "utext \<Rightarrow> bytes option" where
  "b64decode_strict [] = Some []"
| "b64decode_strict (a # b # c # d # r) =
     (case (std_sextet a, std_sextet b) of
        (Some x, Some y) \<Rightarrow>
          (if c = 61 \<and> d = 61 \<and> r = [] then Some [x * 4 + y div 16]
           else case std_sextet c of
                  None \<Rightarrow> None
                | Some z \<Rightarrow>
                    (if d = 61 \<and> r = [] then Some [x * 4 + y div 16, y mod 16 * 16 + z div 4]
                     else case std_sextet d of
                            None \<Rightarrow> None
                          | Some u \<Rightarrow>
                              map_option (\<lambda>bs. [x * 4 + y div 16, y mod 16 * 16 + z div 4,
                                                 z mod 4 * 64 + u] @ bs) (b64decode_strict r)))
      | _ \<Rightarrow> None)"
| "b64decode_strict _ = None"

definition json_bytes :: "exn + jvalue \<Rightarrow> exn + bytes" where
  "json_bytes r =
     bind_res r (\<lambda>v.
       case as_text v of
         None \<Rightarrow> Inl TypeError
       | Some t \<Rightarrow> (case b64decode_strict t of None \<Rightarrow> Inl ValueError | Some bs \<Rightarrow> Inr bs))"

definition json_identifier :: "exn + jvalue \<Rightarrow> exn + string" where
  "json_identifier r =
     bind_res r (\<lambda>v.
       case as_text v of
         None \<Rightarrow> Inl ValueError
       | Some t \<Rightarrow> if list_all (\<lambda>c. c < 256) t then sanitize_identifier (narrow t)
                   else Inl ValueError)"

subsection \<open>The provisioner\<close>

definition vpnctl_label :: "vpn_server \<Rightarrow> uuid \<Rightarrow> int \<Rightarrow> string" where
  "vpnctl_label srv sid tg =
     ((''user_'' @ show_int tg) @ ''_'' @ take 8 (uuid_str sid)) @ ''_'' @ srv_slug srv"

text \<open>The \<open>try\<close> of \<open>create_peer\<close>: the identifiers and the config come from the reply, the file
  name and the link are made here.\<close>

definition peer_of_reply ::
  "'p vpnctl_client \<Rightarrow> string \<Rightarrow> (utext \<times> jvalue) list \<Rightarrow> exn + provisioned_peer" where
  "peer_of_reply vc safe_label data =
     bind_res (json_identifier (json_get ''peer_id'' (W_Obj data))) (\<lambda>peer_id.
     bind_res (json_identifier (Inr (json_member ''label'' data (W_Str (utext safe_label))))) (\<lambda>label.
     bind_res (json_bytes (json_get ''config_b64'' (W_Obj data))) (\<lambda>config.
     bind_res (if config = [] then Inr None
               else case utf8_decode config of
                      None \<Rightarrow> Inl ValueError
                    | Some t \<Rightarrow> map_sum id Some (encode_vpn_url (vc_compress vc) t)) (\<lambda>url.
       Inr \<lparr>pp_external_id = peer_id, pp_label = label, pp_filename = label @ ''.conf'',
            pp_config = map char_of config, pp_created_at = vc_now vc, pp_vpn_url = url\<rparr>))))"

definition vpnctl_create_peer ::
  "'p vpnctl_client \<Rightarrow> vpn_server \<Rightarrow> uuid \<Rightarrow> int \<Rightarrow> (provisioned_peer, 'p) provisioning" where
  "vpnctl_create_peer vc srv sid tg p =
     (case sanitize_identifier (vpnctl_label srv sid tg) of
        Inl e \<Rightarrow> (Inl e, p)
      | Inr safe_label \<Rightarrow>
          (case run_checked vc srv ''create-peer''
                  [(''subscription_id'', uuid_str sid), (''label'', safe_label)] p of
             (Inl e, p') \<Rightarrow> (Inl e, p')
           | (Inr data, p') \<Rightarrow>
               (case peer_of_reply vc safe_label data of
                  Inl e \<Rightarrow> Inl (malformed e) | Inr peer \<Rightarrow> Inr peer, p')))"

text \<open>\<open>disable_peer\<close>, \<open>enable_peer\<close> and \<open>remove_peer\<close> are one request each.\<close>

definition vpnctl_peer_command ::
  "string \<Rightarrow> 'p vpnctl_client \<Rightarrow> vpn_server \<Rightarrow> string \<Rightarrow> (unit, 'p) provisioning" where
  "vpnctl_peer_command command vc srv x p =
     (case sanitize_identifier x of
        Inl e \<Rightarrow> (Inl e, p)
      | Inr peer_id \<Rightarrow>
          (case run_checked vc srv command [(''peer_id'', peer_id)] p of
             (Inl e, p') \<Rightarrow> (Inl e, p') | (Inr result, p') \<Rightarrow> (Inr (), p')))"

definition status_of_reply ::
  "'p vpnctl_client \<Rightarrow> (utext \<times> jvalue) list \<Rightarrow> exn + peer_status" where
  "status_of_reply vc data =
     (let seen = json_member ''last_handshake'' data W_Null
      in bind_res (if truthy vc seen
                   then (case as_text seen of
                           None \<Rightarrow> Inl TypeError
                         | Some t \<Rightarrow>
                             (case lib_iso vc t of None \<Rightarrow> Inl ValueError | Some d \<Rightarrow> Inr (Some d)))
                   else Inr None) (\<lambda>last_handshake.
         bind_res (json_int vc (json_member ''bytes_received'' data (W_Int 0))) (\<lambda>bytes_received.
         bind_res (json_int vc (json_member ''bytes_sent'' data (W_Int 0))) (\<lambda>bytes_sent.
           Inr \<lparr>ps_exists = truthy vc (json_member ''exists'' data (W_Bool True)),
                ps_active = truthy vc (json_member ''is_active'' data (W_Bool False)),
                ps_last_handshake = last_handshake, ps_received = bytes_received,
                ps_sent = bytes_sent, ps_raw = Some (narrow (dumps (W_Obj data)))\<rparr>))))"

definition vpnctl_get_peer_status ::
  "'p vpnctl_client \<Rightarrow> vpn_server \<Rightarrow> string \<Rightarrow> (peer_status, 'p) provisioning" where
  "vpnctl_get_peer_status vc srv x p =
     (case sanitize_identifier x of
        Inl e \<Rightarrow> (Inl e, p)
      | Inr peer_id \<Rightarrow>
          (case vpnctl_call vc srv ''peer-status'' [(''peer_id'', peer_id)] p of
             (Inl e, p') \<Rightarrow> (Inl e, p')
           | (Inr (exit_code, data, err), p') \<Rightarrow>
               (Inr (if exit_code \<noteq> 0
                     then \<lparr>ps_exists = False, ps_active = False, ps_last_handshake = None,
                           ps_received = 0, ps_sent = 0,
                           ps_raw = (if ustrip err \<noteq> [] then Some (narrow (ustrip err)) else None)\<rparr>
                     else case status_of_reply vc data of
                            Inr st \<Rightarrow> st
                          | Inl e \<Rightarrow>
                              \<lparr>ps_exists = True, ps_active = False, ps_last_handshake = None,
                               ps_received = 0, ps_sent = 0,
                               ps_raw = Some (narrow (dumps (W_Obj data)))\<rparr>), p')))"

definition vpnctl_get_peer_config ::
  "'p vpnctl_client \<Rightarrow> vpn_server \<Rightarrow> string \<Rightarrow> (string, 'p) provisioning" where
  "vpnctl_get_peer_config vc srv x p =
     (case sanitize_identifier x of
        Inl e \<Rightarrow> (Inl e, p)
      | Inr peer_id \<Rightarrow>
          (case run_checked vc srv ''get-config'' [(''peer_id'', peer_id)] p of
             (Inl e, p') \<Rightarrow> (Inl e, p')
           | (Inr data, p') \<Rightarrow>
               (case json_bytes (json_get ''config_b64'' (W_Obj data)) of
                  Inl e \<Rightarrow> Inl (malformed e) | Inr config \<Rightarrow> Inr (map char_of config), p')))"

definition vpnctl_provisioner :: "'p vpnctl_client \<Rightarrow> 'p provisioner" where
  "vpnctl_provisioner vc =
     \<lparr>pv_create = vpnctl_create_peer vc,
      pv_disable = vpnctl_peer_command ''disable-peer'' vc,
      pv_enable = vpnctl_peer_command ''enable-peer'' vc,
      pv_remove = vpnctl_peer_command ''remove-peer'' vc,
      pv_status = vpnctl_get_peer_status vc, pv_config = vpnctl_get_peer_config vc\<rparr>"

subsection \<open>build_provisioner\<close>

text \<open>\<open>src/app/worker/main.py\<close>: which provisioner the worker (and the bot) runs with.\<close>

datatype 'p built = Built_Mock | Built_Vpnctl "'p vpnctl_client"

definition build_provisioner ::
  "'p vpnctl_client \<Rightarrow> (string \<Rightarrow> string list) \<Rightarrow> settings \<Rightarrow> 'p built" where
  "build_provisioner env sh st =
     (if st_provisioner_mode st = VPNCTL
      then Built_Vpnctl (new_vpnctl_client env sh st (Some (st_vpnctl_socket st))
             (Some (st_vpnctl_dev_command st)) (Some (st_vpnctl_token st)))
      else Built_Mock)"

end
