(* ===== verification/Vpnctl_Safe.thy ===== *)
theory Vpnctl_Safe
  imports Worker Vpnctl_Client
begin

section \<open>What the vpnctl client guarantees\<close>

text \<open>
  Whatever answers at the other end: the request is one line that is read back as it was
  meant, the token goes over TCP only, an operation succeeds only on exit code 0 and every
  failure is of the kind the worker acts on, and a reply can only name a peer and bring a
  config, within bounds.
\<close>

subsection \<open>The request\<close>

lemma ascii_utf8: "list_all (\<lambda>c. c < 128) t \<Longrightarrow> utf8_encode t = t"
  by (induction t) (simp_all add: utf8_encode_def utf8_char_def)

lemma ascii_utf8_decode: "list_all (\<lambda>c. c < 128) t \<Longrightarrow> utf8_decode t = Some t"
  by (induction t) (simp_all add: utf8_decode.simps(2))

lemma printable_ascii: "list_all printable t \<Longrightarrow> list_all (\<lambda>c. c < 128) t \<and> 10 \<notin> set t"
  by (induction t) (auto simp: printable_def)

lemma utext_code_points: "list_all code_point (utext s)"
proof (induction s)
  case (Cons c s)
  have "(of_char c :: nat) < 256"
    by simp
  then have "(of_char c :: nat) < 1114112" "(of_char c :: nat) < 55296"
    by linarith+
  then have "code_point (of_char c)"
    unfolding code_point_def by linarith
  with Cons show ?case by simp
qed simp

lemma utext_inj: "utext s = utext t \<longleftrightarrow> s = t"
  by (metis narrow_utext)

lemma writable_args:
  "writable_members (map (\<lambda>(k, v). (utext k, W_Str (utext v))) args)"
  by (induction args) (auto simp: utext_code_points)

lemma distinct_args:
  "distinct (map fst args) \<Longrightarrow>
     distinct (map fst (map (\<lambda>(k, v). (utext k, W_Str (utext v))) args))"
proof -
  have "map fst (map (\<lambda>(k, v). (utext k, W_Str (utext v))) args) = map utext (map fst args)"
    by auto
  then show "distinct (map fst args) \<Longrightarrow> ?thesis"
    by (simp add: distinct_map inj_on_def utext_inj)
qed

lemma writable_request:
  "distinct (map fst args) \<Longrightarrow> writable (request_body vc srv command args)"
  using writable_args [of args] distinct_args [of args]
    utext_code_points [of "''command''"] utext_code_points [of "''args''"]
    utext_code_points [of "''token''"] utext_code_points [of command]
    utext_code_points [of "vc_token vc"]
  by (simp add: request_body_def)

lemma request_line_read:
  assumes "distinct (map fst args)"
  obtains line where "request_line (request_body vc srv command args) = line @ [10]"
    "10 \<notin> set line" "Option.bind (utf8_decode line) loads = Some (request_body vc srv command args)"
proof
  note w = writable_request [OF assms, of vc srv command]
  let ?line = "dumps (request_body vc srv command args)"
  have ascii: "list_all (\<lambda>c. c < 128) ?line" "10 \<notin> set ?line"
    using printable_ascii [OF printable_dumps(1) [OF w]] by blast+
  then show "request_line (request_body vc srv command args) = ?line @ [10]" "10 \<notin> set ?line"
    unfolding request_line_def by (auto intro!: ascii_utf8)
  show "Option.bind (utf8_decode ?line) loads = Some (request_body vc srv command args)"
    using loads_dumps [OF w] by (simp add: ascii_utf8_decode [OF ascii(1)])
qed

text \<open>A request reaches vpnctl as it was meant: it is a single line of printable ASCII, and
  vpnctl, reading up to the newline, decodes exactly the command, the arguments and the token
  the client put in, whatever characters they hold.\<close>

theorem request_read_back:
  assumes "distinct (map fst args)"
  shows "\<exists>line. request_line (request_body vc srv command args) = line @ [10] \<and>
    10 \<notin> set line \<and>
    Option.bind (utf8_decode line) loads = Some (request_body vc srv command args)"
  by (rule request_line_read [OF assms, of vc srv command]) blast

text \<open>The token leaves for another host only, and always when one is configured: a request
  to this host (over the socket or to the development command) never holds it.\<close>

theorem token_over_tcp_only:
  "(\<exists>host port. route_to vc srv = Tcp host port) = (\<not> is_local_host (srv_host srv)) \<and>
   json_get ''token'' (request_body vc srv command args) =
     (if is_local_host (srv_host srv) \<or> vc_token vc = [] then Inl KeyError
      else Inr (W_Str (utext (vc_token vc))))"
  by (simp add: route_to_def json_get_def request_body_def)

subsection \<open>Outcomes\<close>

lemma classify_permanent:
  "is_permanent (classify_failure code err) =
     (code \<in> {2, 3, 4} \<or>
      contains_str (py_lower (if ustrip err \<noteq> [] then narrow (ustrip err)
                              else ''vpnctl failed with exit code '' @ show_int code))
        ''already exists'')"
  by (simp add: classify_failure_def vpnctl_permanent_exits_def Let_def)

lemma json_int_exn: "json_int vc v = Inl e \<Longrightarrow> \<not> is_permanent e"
  by (auto simp: json_int_def py_int_def Let_def split: jvalue.splits if_splits option.splits prod.splits)

lemma json_get_exn: "json_get k v = Inl e \<Longrightarrow> \<not> is_permanent e"
  by (auto simp: json_get_def split: jvalue.splits option.splits)

lemma parse_answer_exn:
  assumes "parse_answer vc raw = Inl e"
  shows "\<not> is_permanent e"
proof (cases "Option.bind (utf8_decode raw) loads")
  case None
  with assms show ?thesis by (auto simp: parse_answer_def)
next
  case (Some response)
  with assms consider "json_get ''exit_code'' response = Inl e"
    | code where "json_int vc code = Inl e"
    | "e = ValueError" | "e = AttributeError"
    by (auto simp: parse_answer_def bind_res_eq_Inl Let_def split: option.splits)
  then show ?thesis
    using json_int_exn json_get_exn by cases auto
qed

text \<open>The only failure of a call itself that is permanent is a development command that cannot
  be started.\<close>

lemma vpnctl_call_exn:
  assumes "vpnctl_call vc srv command args p = (Inl e, p')"
  shows "is_permanent e =
    (\<exists>m. fst (vc_net vc (route_to vc srv) (request_line (request_body vc srv command args)) p)
      = No_Command m)"
proof -
  obtain w q where net:
    "vc_net vc (route_to vc srv) (request_line (request_body vc srv command args)) p = (w, q)"
    by force
  show ?thesis
  proof (cases w)
    case (Chunks cs)
    let ?raw = "received (route_to vc srv) cs"
    have "\<not> is_permanent e"
      using assms parse_answer_exn [of vc ?raw]
      by (auto simp: vpnctl_call_def net Chunks Let_def malformed_def
          split: if_splits sum.splits)
    with net Chunks show ?thesis by simp
  qed (use assms net in \<open>auto simp: vpnctl_call_def Let_def\<close>)
qed

text \<open>What the worker learns from vpnctl. Turning a peer off, on or removing it succeeds only
  if vpnctl itself answered exit code 0. It fails for good (the job is not retried) only if
  vpnctl answered bad input, unknown client or refused (2, 3, 4), said that something already
  exists, or the development command cannot be started; a timeout, an unreachable host, a
  reply that is too long or makes no sense, and any other exit code are worth a retry.\<close>

theorem vpnctl_outcome:
  "case vpnctl_peer_command command vc srv x p of
     (Inr u, p') \<Rightarrow>
       \<exists>result err. vpnctl_call vc srv command [(''peer_id'', x)] p = (Inr (0, result, err), p')
   | (Inl e, p') \<Rightarrow>
       is_permanent e =
         (identifier_match x \<and>
          (case vpnctl_call vc srv command [(''peer_id'', x)] p of
             (Inr (code, result, err), q) \<Rightarrow>
               code \<in> {2, 3, 4} \<or>
               contains_str (py_lower (if ustrip err \<noteq> [] then narrow (ustrip err)
                   else ''vpnctl failed with exit code '' @ show_int code)) ''already exists''
           | (Inl e', q) \<Rightarrow>
               (\<exists>m. fst (vc_net vc (route_to vc srv)
                  (request_line (request_body vc srv command [(''peer_id'', x)])) p) = No_Command m)))"
proof (cases "identifier_match x")
  case False
  then show ?thesis
    by (simp add: vpnctl_peer_command_def sanitize_identifier_def)
next
  case True
  obtain r p' where call: "vpnctl_call vc srv command [(''peer_id'', x)] p = (r, p')"
    by force
  show ?thesis
  proof (cases r)
    case (Inl e)
    then show ?thesis
      using True call vpnctl_call_exn [of vc srv command _ p e p']
      by (simp add: vpnctl_peer_command_def sanitize_identifier_def run_checked_def)
  next
    case (Inr a)
    then obtain code result err where a: "r = Inr (code, result, err)"
      by (cases a) auto
    show ?thesis
      using True
      by (cases "code = 0")
        (simp_all add: vpnctl_peer_command_def sanitize_identifier_def run_checked_def call a
          classify_permanent)
  qed
qed

subsection \<open>Replies of a host that may be compromised\<close>

lemma identifier_chars:
  "identifier_match s \<Longrightarrow> c \<in> set s \<Longrightarrow> identifier_char c \<or> c = nl"
  by (cases s rule: rev_cases) (auto simp: identifier_match_def is_identifier_def list_all_iff)

lemma no_slash: "\<not> identifier_char (CHR ''/'')" "\<not> identifier_char (CHR 0x5C)" "\<not> identifier_char (CHR ''.'')"
  by (simp_all add: identifier_char_def)

lemma std_sextet_less: "std_sextet c = Some v \<Longrightarrow> v < 64"
  by (auto simp: std_sextet_def split: if_splits)

lemma b64_strict_bytes: "b64decode_strict t = Some bs \<Longrightarrow> is_bytes bs"
proof (induction t arbitrary: bs rule: b64decode_strict.induct)
  case (2 a b c d r)
  then obtain x y where xy: "std_sextet a = Some x" "std_sextet b = Some y"
    by (auto split: option.splits)
  then have "x < 64" "y < 64"
    using std_sextet_less by blast+
  then show ?case
    using 2 xy std_sextet_less [of c] std_sextet_less [of d]
    by (auto simp: is_bytes_def split: if_splits option.splits)
qed (auto simp: is_bytes_def)

lemma utext_bytes: "list_all (\<lambda>c. c < 256) (utext s)"
  by (induction s) simp_all

lemma json_identifier_text: "json_identifier (Inr (W_Str (utext s))) = sanitize_identifier s"
  by (simp add: json_identifier_def as_text_def utext_bytes narrow_utext)

lemma json_identifier_match: "json_identifier r = Inr s \<Longrightarrow> identifier_match s"
  by (auto simp: json_identifier_def sanitize_identifier_def bind_res_eq_Inr
      split: option.splits if_splits)

lemma json_bytes_bytes: "json_bytes r = Inr bs \<Longrightarrow> is_bytes bs"
  by (auto simp: json_bytes_def bind_res_eq_Inr b64_strict_bytes split: option.splits)

text \<open>However much a host sends, no more than the limit and one chunk is kept.\<close>

lemma read_chunks_bound:
  assumes "\<forall>c \<in> set chunks. length c \<le> 65536" "length response \<le> max_response_bytes + 65536"
  shows "length (read_chunks response chunks) \<le> max_response_bytes + 65536"
  using assms by (induction response chunks rule: read_chunks.induct) auto

text \<open>C35. A compromised VPN host can only deliver a config. Whatever it replies to a create
  request, the name and label taken from it hold letters, digits, hyphens and underscores
  (and at most one newline at the end), the file name is that label with \<open>.conf\<close>, so it cannot
  leave its directory or pose as another type, and the link the customer gets is the one made
  here from the very config that is delivered.\<close>

theorem reply_only_brings_config:
  assumes "vpnctl_create_peer vc srv sid tg p = (Inr peer, p')"
  shows "identifier_match (pp_external_id peer) \<and> identifier_match (pp_label peer) \<and>
    pp_filename peer = pp_label peer @ ''.conf'' \<and>
    {CHR ''/'', CHR 0x5C, CHR ''.''} \<inter> set (pp_label peer) = {} \<and>
    (\<exists>config. is_bytes config \<and> pp_config peer = map char_of config \<and>
       (config = [] \<and> pp_vpn_url peer = None \<or>
        (\<exists>t url. utf8_decode config = Some t \<and> encode_vpn_url (vc_compress vc) t = Inr url \<and>
           pp_vpn_url peer = Some url)))"
proof -
  obtain safe_label data where reply: "peer_of_reply vc safe_label data = Inr peer"
    using assms by (auto simp: vpnctl_create_peer_def split: sum.splits prod.splits)
  then have ids: "identifier_match (pp_external_id peer)" "identifier_match (pp_label peer)"
    "pp_filename peer = pp_label peer @ ''.conf''"
    by (auto simp: peer_of_reply_def bind_res_eq_Inr dest: json_identifier_match)
  have "\<exists>config. is_bytes config \<and> pp_config peer = map char_of config \<and>
      (config = [] \<and> pp_vpn_url peer = None \<or>
       (\<exists>t url. utf8_decode config = Some t \<and> encode_vpn_url (vc_compress vc) t = Inr url \<and>
          pp_vpn_url peer = Some url))"
    using reply
    by (fastforce simp: peer_of_reply_def bind_res_eq_Inr map_sum_def dest: json_bytes_bytes
        split: if_splits option.splits sum.splits)
  with ids identifier_chars [OF ids(2)] no_slash show ?thesis
    by (auto simp: nl_def)
qed

text \<open>The name of the file is the reply's choice within these bounds: a label in the reply
  replaces the one asked for.\<close>

lemma filename_from_reply:
  assumes "peer_of_reply vc safe_label data = Inr peer"
    and "map_of data (utext ''label'') = Some (W_Str (utext l))"
  shows "pp_filename peer = l @ ''.conf''"
  using assms
  by (auto simp: peer_of_reply_def bind_res_eq_Inr json_member_def json_identifier_text
      sanitize_identifier_def simp del: utext_simps split: if_splits)

subsection \<open>Labels\<close>

lemma decimal_identifier: "is_decimal c \<Longrightarrow> identifier_char c"
  by (simp add: is_decimal_def identifier_char_def Let_def)

lemma hex_identifier: "is_hex_char c \<Longrightarrow> identifier_char c"
  by (auto simp: is_hex_char_def hex_val_def identifier_char_def Let_def split: if_splits)

lemma show_int_identifier: "list_all identifier_char (show_int n)"
proof -
  have "list_all identifier_char (show_nat m)" for m
    using show_nat_decimal by (rule list.pred_mono_strong) (rule decimal_identifier)
  then show ?thesis
    by (simp add: show_int_def identifier_char_def)
qed

lemma uuid_str_identifier: "list_all identifier_char (uuid_str u)"
  using uuid_text_str [of u] unfolding uuid_text_def
  by (rule list.pred_mono_strong) (auto simp: hex_identifier identifier_char_def [of "CHR ''-''"])

text \<open>The label of a peer is an identifier exactly when the slug of the server is made of
  identifier characters and leaves room for the Telegram id.\<close>

lemma vpnctl_label_identifier:
  "is_identifier (vpnctl_label srv sid tg) \<longleftrightarrow>
     list_all identifier_char (srv_slug srv) \<and>
     length (show_int tg) + length (srv_slug srv) \<le> 49"
proof -
  have "length (uuid_str sid) = 36"
    by (simp add: uuid_str_def Let_def)
  then have "length (vpnctl_label srv sid tg) = 15 + length (show_int tg) + length (srv_slug srv)"
    by (simp add: vpnctl_label_def)
  moreover have "list_all identifier_char (vpnctl_label srv sid tg) \<longleftrightarrow>
      list_all identifier_char (srv_slug srv)"
    using show_int_identifier [of tg] list_all_take [OF uuid_str_identifier, of 8 sid]
    by (simp add: vpnctl_label_def identifier_char_def)
  ultimately show ?thesis
    by (auto simp: is_identifier_def vpnctl_label_def)
qed

text \<open>A server whose slug holds another character (a dot, say) is sold, but no peer is ever
  created on it: every attempt of the job raises before vpnctl is asked.\<close>

lemma foreign_slug_never_created:
  assumes "\<not> list_all identifier_char (srv_slug srv)" "last (srv_slug srv) \<noteq> nl"
  shows "vpnctl_create_peer vc srv sid tg p = (Inl ValueError, p)"
proof -
  have "srv_slug srv \<noteq> []"
    using assms(1) by auto
  then have "last (vpnctl_label srv sid tg) \<noteq> nl"
    using assms(2) by (simp add: vpnctl_label_def)
  then have "\<not> identifier_match (vpnctl_label srv sid tg)"
    using assms(1) vpnctl_label_identifier [of srv sid tg] by (simp add: identifier_match_def)
  then show ?thesis
    by (simp add: vpnctl_create_peer_def sanitize_identifier_def)
qed

text \<open>\<open>$\<close> in the pattern lets a newline at the end through.\<close>

lemma newline_accepted:
  "is_identifier s \<Longrightarrow> length s < 64 \<Longrightarrow> sanitize_identifier (s @ [nl]) = Inr (s @ [nl])"
  by (simp add: sanitize_identifier_def identifier_match_def)

subsection \<open>Witnesses\<close>

text \<open>A server that gives one fixed reply, and what the client makes of it.\<close>

definition fixed_reply :: "jvalue \<Rightarrow> unit vpnctl_client" where
  "fixed_reply v =
     \<lparr>vc_token = ''secret'', vc_socket_path = default_socket_path, vc_dev_command = [],
      vc_settings = default_settings, vc_net = (\<lambda>r q p. (Chunks [dumps v], p)),
      vc_compress = stored, vc_now = 0, lib_float_int = (\<lambda>t. Some 0), lib_float_zero = (\<lambda>t. False),
      lib_str = (\<lambda>v. []), lib_iso = (\<lambda>t. None)\<rparr>"

lemma parse_answer_dumps:
  assumes "writable v"
  shows "parse_answer vc (dumps v) =
    bind_res (json_get ''exit_code'' v) (\<lambda>code.
    bind_res (json_int vc code) (\<lambda>exit_code.
      case as_object v of
        None \<Rightarrow> Inl AttributeError
      | Some ms \<Rightarrow>
          (case as_object (json_member ''result'' ms (W_Obj [])) of
             None \<Rightarrow> Inl ValueError
           | Some result \<Rightarrow>
               (let e = json_member ''error'' ms W_Null
                in Inr (exit_code, result, if truthy vc e then json_str vc e else [])))))"
proof -
  have "utf8_decode (dumps v) = Some (dumps v)"
    using printable_ascii [OF printable_dumps(1) [OF assms]] by (intro ascii_utf8_decode) simp
  then show ?thesis
    by (simp add: parse_answer_def loads_dumps [OF assms])
qed

lemma received_one: "c \<noteq> [] \<Longrightarrow> received r [c] = c"
  by (simp add: received_def split: route.splits)

lemma fixed_reply_call:
  assumes "writable v" "dumps v \<noteq> []" "length (dumps v) \<le> max_response_bytes"
  shows "vpnctl_call (fixed_reply v) srv command args () =
    (case parse_answer (fixed_reply v) (dumps v) of
       Inl e \<Rightarrow> Inl (if caught_as_malformed e then malformed e else e) | Inr a \<Rightarrow> Inr a, ())"
  using assms by (simp add: vpnctl_call_def fixed_reply_def received_one Let_def)

definition config_reply :: jvalue where
  "config_reply = W_Obj
     [(utext ''exit_code'', W_Int 0),
      (utext ''result'', W_Obj [(utext ''peer_id'', W_Str (utext ''p_1'')),
         (utext ''config_b64'', W_Str (utext ''W10=''))])]"

lemma config_reply_wire:
  "writable config_reply" "dumps config_reply \<noteq> []"
  "length (dumps config_reply) \<le> max_response_bytes"
  by (simp_all add: config_reply_def code_point_def dump_str_def escape_def max_response_bytes_def
      show_int_def show_nat.simps)

theorem request_read_back_witness:
  "\<exists>line. request_line (request_body (fixed_reply W_Null) sample_server ''get-config''
       [(''peer_id'', [CHR 0x0A, CHR 0x22])]) = line @ [10] \<and> 10 \<notin> set line"
  using request_read_back [of "[(''peer_id'', [CHR 0x0A, CHR 0x22])]" "fixed_reply W_Null"
      sample_server "''get-config''"] by auto

lemma config_reply_create:
  "\<exists>peer. vpnctl_create_peer (fixed_reply config_reply) sample_server 6 5001 () = (Inr peer, ()) \<and>
     pp_label peer = vpnctl_label sample_server 6 5001"
proof -
  let ?vc = "fixed_reply config_reply"
  let ?data = "[(utext ''peer_id'', W_Str (utext ''p_1'')), (utext ''config_b64'', W_Str (utext ''W10=''))]"
  have label: "sanitize_identifier (vpnctl_label sample_server 6 5001) =
      Inr (vpnctl_label sample_server 6 5001)"
    using vpnctl_label_identifier [of sample_server 6 5001]
    by (simp add: sanitize_identifier_def identifier_match_def sample_server_def show_int_def
        show_nat.simps identifier_char_def)
  have "parse_answer ?vc (dumps config_reply) = Inr (0, ?data, [])"
    unfolding parse_answer_dumps [OF config_reply_wire(1)]
    by (simp add: config_reply_def json_get_def json_int_def as_object_def json_member_def truthy_def)
  then have run: "run_checked ?vc sample_server ''create-peer'' args () = (Inr ?data, ())" for args
    by (simp add: run_checked_def fixed_reply_call [OF config_reply_wire])
  have made: "\<exists>peer. peer_of_reply ?vc l ?data = Inr peer \<and> pp_label peer = l"
    if "sanitize_identifier l = Inr l" for l
  proof -
    have peer_id: "json_identifier (Inr (W_Str (utext ''p_1''))) = Inr ''p_1''"
      by (simp add: json_identifier_text sanitize_identifier_def identifier_match_def
          is_identifier_def identifier_char_def del: utext_simps)
    show ?thesis
      using that peer_id
      by (simp add: peer_of_reply_def json_get_def json_identifier_text json_member_def as_text_def
          json_bytes_def std_sextet_def ascii_utf8_decode encode_vpn_url_def q_compress_def
          fixed_reply_def utf8_encode_def utf8_char_def)
  qed
  from made [OF label] obtain peer where
    "peer_of_reply ?vc (vpnctl_label sample_server 6 5001) ?data = Inr peer"
    "pp_label peer = vpnctl_label sample_server 6 5001"
    by blast
  then show ?thesis
    by (intro exI [of _ peer]) (simp add: vpnctl_create_peer_def label run del: utext_simps)
qed

theorem reply_only_brings_config_witness:
  "\<exists>peer. vpnctl_create_peer (fixed_reply config_reply) sample_server 6 5001 () = (Inr peer, ()) \<and>
     CHR ''/'' \<notin> set (pp_label peer) \<and> pp_filename peer = pp_label peer @ ''.conf''"
  using config_reply_create reply_only_brings_config
    [of "fixed_reply config_reply" sample_server 6 5001 "()"]
  by fastforce

end
