(* ===== verification/Schema.thy ===== *)
theory Schema
  imports Main
begin

section \<open>The database schema\<close>

text \<open>
  \<open>src/app/db/migrations/versions\<close> and \<open>src/app/db/models\<close>: the tables the models declare and
  the tables the migrations make. A migration is a list of operations on a schema, each of
  which the database may refuse (\<open>None\<close>): a table or index that exists already or is missing,
  a foreign key to a table that is not there, a table dropped while another refers to it, a
  required column without a default added to a table with rows. \<open>drift\<close> compares two schemas
  and lists what one has and the other lacks; defaults filled in by the server are left out of
  the comparison, the models set their own.
\<close>

subsection \<open>Tables\<close>

datatype col_type =
    Uuid | BigInteger | Integer | Boolean | Varchar nat | Textual | Timestamp | JSON
  | Numeric nat nat

record column =
  cl_name :: string
  cl_type :: col_type
  cl_nullable :: bool
  cl_default :: "string option"

text \<open>A foreign key: column, table and column it refers to, \<open>ON DELETE\<close>.\<close>

type_synonym foreign_key = "string \<times> string \<times> string \<times> string option"

text \<open>An index: name, columns, unique.\<close>

type_synonym index = "string \<times> string list \<times> bool"

record table =
  tb_name :: string
  tb_columns :: "column list"
  tb_primary :: "string list"
  tb_uniques :: "string list list"
  tb_foreign :: "foreign_key list"
  tb_indexes :: "index list"

type_synonym schema = "table list"

definition col :: "string \<Rightarrow> col_type \<Rightarrow> bool \<Rightarrow> string option \<Rightarrow> column" where
  "col n t nullable d = \<lparr>cl_name = n, cl_type = t, cl_nullable = nullable, cl_default = d\<rparr>"

text \<open>The primary key of every table is \<open>id\<close>.\<close>

definition new_table ::
  "string \<Rightarrow> column list \<Rightarrow> string list list \<Rightarrow> foreign_key list \<Rightarrow> table" where
  "new_table n cs us fs =
     \<lparr>tb_name = n, tb_columns = cs, tb_primary = [''id''], tb_uniques = us, tb_foreign = fs,
      tb_indexes = []\<rparr>"

definition has_column :: "string \<Rightarrow> table \<Rightarrow> bool" where
  "has_column c t = (c \<in> set (map cl_name (tb_columns t)))"

definition find_table :: "string \<Rightarrow> schema \<Rightarrow> table option" where
  "find_table n s = find (\<lambda>t. tb_name t = n) s"

subsection \<open>Migrations\<close>

datatype migration_op =
    Create_Table table
  | Create_Index string string "string list" bool
  | Drop_Table string
  | Add_Column string column
  | Drop_Column string string
  | Drop_Index string string

definition refers :: "string \<Rightarrow> table \<Rightarrow> bool" where
  "refers n t = list_ex (\<lambda>(c, rt, rc, d). rt = n) (tb_foreign t)"

definition foreign_ok :: "schema \<Rightarrow> foreign_key \<Rightarrow> bool" where
  "foreign_ok s f =
     (case f of (c, rt, rc, d) \<Rightarrow>
        (case find_table rt s of None \<Rightarrow> False | Some t \<Rightarrow> has_column rc t))"

text \<open>Change one table, provided it is there and the guard holds.\<close>

definition alter :: "string \<Rightarrow> (table \<Rightarrow> bool) \<Rightarrow> (table \<Rightarrow> table) \<Rightarrow> schema \<Rightarrow> schema option" where
  "alter n ok f s =
     (case find_table n s of
        None \<Rightarrow> None
      | Some t \<Rightarrow> if ok t then Some (map (\<lambda>u. if tb_name u = n then f u else u) s) else None)"

fun run_op :: "migration_op \<Rightarrow> schema \<Rightarrow> schema option" where
  "run_op (Create_Table t) s =
     (if find_table (tb_name t) s = None \<and> list_all (foreign_ok s) (tb_foreign t)
      then Some (s @ [t]) else None)"
| "run_op (Create_Index i n cs u) s =
     (if list_ex (\<lambda>t. i \<in> set (map fst (tb_indexes t))) s then None
      else alter n (\<lambda>t. list_all (\<lambda>c. has_column c t) cs)
             (\<lambda>t. t\<lparr>tb_indexes := tb_indexes t @ [(i, cs, u)]\<rparr>) s)"
| "run_op (Drop_Table n) s =
     (if find_table n s \<noteq> None \<and> \<not> list_ex (\<lambda>t. tb_name t \<noteq> n \<and> refers n t) s
      then Some (filter (\<lambda>t. tb_name t \<noteq> n) s) else None)"
| "run_op (Add_Column n c) s =
     alter n (\<lambda>t. \<not> has_column (cl_name c) t \<and> (cl_nullable c \<or> cl_default c \<noteq> None))
       (\<lambda>t. t\<lparr>tb_columns := tb_columns t @ [c]\<rparr>) s"
| "run_op (Drop_Column n c) s =
     alter n (has_column c)
       (\<lambda>t. t\<lparr>tb_columns := filter (\<lambda>x. cl_name x \<noteq> c) (tb_columns t)\<rparr>) s"
| "run_op (Drop_Index n i) s =
     alter n (\<lambda>t. i \<in> set (map fst (tb_indexes t)))
       (\<lambda>t. t\<lparr>tb_indexes := filter (\<lambda>(j, cs, u). j \<noteq> i) (tb_indexes t)\<rparr>) s"

fun run_ops :: "migration_op list \<Rightarrow> schema \<Rightarrow> schema option" where
  "run_ops [] s = Some s"
| "run_ops (x # xs) s = (case run_op x s of None \<Rightarrow> None | Some s' \<Rightarrow> run_ops xs s')"

lemma run_ops_append:
  "run_ops (xs @ ys) s = Option.bind (run_ops xs s) (run_ops ys)"
  by (induction xs arbitrary: s) (auto split: option.splits)

subsection \<open>001: the initial schema\<close>

definition users_001 :: table where
  "users_001 = new_table ''users''
    [col ''id'' Uuid False None,
     col ''telegram_user_id'' BigInteger False None,
     col ''username'' (Varchar 255) True None,
     col ''first_name'' (Varchar 255) True None,
     col ''last_name'' (Varchar 255) True None,
     col ''language_code'' (Varchar 10) True None,
     col ''is_blocked'' Boolean False (Some ''false''),
     col ''created_at'' Timestamp False None,
     col ''updated_at'' Timestamp False None]
    []
    []"

definition vpn_servers_001 :: table where
  "vpn_servers_001 = new_table ''vpn_servers''
    [col ''id'' Uuid False None,
     col ''slug'' (Varchar 64) False None,
     col ''display_name'' (Varchar 128) False None,
     col ''country_code'' (Varchar 8) False None,
     col ''country_name'' (Varchar 64) False None,
     col ''enabled'' Boolean False (Some ''true''),
     col ''sort_order'' Integer False (Some ''0''),
     col ''provisioner_type'' (Varchar 32) False (Some ''mock''),
     col ''host'' (Varchar 255) False None,
     col ''ssh_port'' Integer False (Some ''22''),
     col ''ssh_username'' (Varchar 64) False (Some ''vpn-provisioner''),
     col ''max_active_subscriptions'' Integer True None,
     col ''created_at'' Timestamp False None,
     col ''updated_at'' Timestamp False None]
    []
    []"

definition products_001 :: table where
  "products_001 = new_table ''products''
    [col ''id'' Uuid False None,
     col ''code'' (Varchar 64) False None,
     col ''title'' (Varchar 128) False None,
     col ''duration_days'' Integer False None,
     col ''device_limit'' Integer False (Some ''1''),
     col ''price_amount'' (Numeric 10 2) False None,
     col ''price_currency'' (Varchar 8) False (Some ''EUR''),
     col ''enabled'' Boolean False (Some ''true''),
     col ''sort_order'' Integer False (Some ''0''),
     col ''created_at'' Timestamp False None,
     col ''updated_at'' Timestamp False None]
    []
    []"

definition orders_001 :: table where
  "orders_001 = new_table ''orders''
    [col ''id'' Uuid False None,
     col ''public_order_code'' (Varchar 32) False None,
     col ''user_id'' Uuid False None,
     col ''vpn_server_id'' Uuid False None,
     col ''product_id'' Uuid False None,
     col ''price_amount_snapshot'' (Numeric 10 2) False None,
     col ''currency_snapshot'' (Varchar 8) False None,
     col ''payment_instructions_snapshot'' Textual False None,
     col ''status'' (Varchar 32) False None,
     col ''receipt_telegram_file_id'' (Varchar 255) True None,
     col ''receipt_message_id'' BigInteger True None,
     col ''receipt_chat_id'' BigInteger True None,
     col ''receipt_media_type'' (Varchar 32) True None,
     col ''receipt_note'' Textual True None,
     col ''submitted_at'' Timestamp True None,
     col ''reviewed_by_telegram_user_id'' BigInteger True None,
     col ''reviewed_at'' Timestamp True None,
     col ''rejection_reason'' Textual True None,
     col ''created_at'' Timestamp False None,
     col ''updated_at'' Timestamp False None]
    []
    [(''product_id'', ''products'', ''id'', None),
     (''user_id'', ''users'', ''id'', Some ''CASCADE''),
     (''vpn_server_id'', ''vpn_servers'', ''id'', None)]"

definition subscriptions_001 :: table where
  "subscriptions_001 = new_table ''subscriptions''
    [col ''id'' Uuid False None,
     col ''user_id'' Uuid False None,
     col ''order_id'' Uuid False None,
     col ''vpn_server_id'' Uuid False None,
     col ''product_id'' Uuid False None,
     col ''status'' (Varchar 32) False None,
     col ''peer_external_id'' (Varchar 128) True None,
     col ''peer_label'' (Varchar 128) True None,
     col ''config_delivery_status'' (Varchar 32) False (Some ''pending''),
     col ''config_delivery_message_id'' BigInteger True None,
     col ''config_redelivery_count'' Integer False (Some ''0''),
     col ''starts_at'' Timestamp False None,
     col ''expires_at'' Timestamp False None,
     col ''disabled_at'' Timestamp True None,
     col ''removed_at'' Timestamp True None,
     col ''last_error'' Textual True None,
     col ''created_at'' Timestamp False None,
     col ''updated_at'' Timestamp False None]
    [[''order_id'']]
    [(''order_id'', ''orders'', ''id'', None),
     (''product_id'', ''products'', ''id'', None),
     (''user_id'', ''users'', ''id'', Some ''CASCADE''),
     (''vpn_server_id'', ''vpn_servers'', ''id'', None)]"

definition provisioning_jobs_001 :: table where
  "provisioning_jobs_001 = new_table ''provisioning_jobs''
    [col ''id'' Uuid False None,
     col ''job_type'' (Varchar 32) False None,
     col ''aggregate_type'' (Varchar 64) False None,
     col ''aggregate_id'' Uuid False None,
     col ''status'' (Varchar 32) False None,
     col ''attempt_count'' Integer False (Some ''0''),
     col ''available_at'' Timestamp False None,
     col ''locked_at'' Timestamp True None,
     col ''locked_by'' (Varchar 128) True None,
     col ''payload'' JSON False None,
     col ''last_error'' Textual True None,
     col ''created_at'' Timestamp False None,
     col ''updated_at'' Timestamp False None]
    []
    []"

definition notifications_001 :: table where
  "notifications_001 = new_table ''notifications''
    [col ''id'' Uuid False None,
     col ''user_id'' Uuid False None,
     col ''subscription_id'' Uuid True None,
     col ''notification_type'' (Varchar 32) False None,
     col ''idempotency_key'' (Varchar 128) False None,
     col ''status'' (Varchar 32) False (Some ''pending''),
     col ''sent_at'' Timestamp True None,
     col ''telegram_message_id'' BigInteger True None,
     col ''error'' Textual True None,
     col ''created_at'' Timestamp False None]
    []
    [(''subscription_id'', ''subscriptions'', ''id'', Some ''SET NULL''),
     (''user_id'', ''users'', ''id'', Some ''CASCADE'')]"

definition support_tickets_001 :: table where
  "support_tickets_001 = new_table ''support_tickets''
    [col ''id'' Uuid False None,
     col ''public_ticket_code'' (Varchar 32) False None,
     col ''user_id'' Uuid False None,
     col ''status'' (Varchar 32) False None,
     col ''subject'' (Varchar 255) True None,
     col ''assigned_admin_telegram_user_id'' BigInteger True None,
     col ''closed_at'' Timestamp True None,
     col ''created_at'' Timestamp False None,
     col ''updated_at'' Timestamp False None]
    []
    [(''user_id'', ''users'', ''id'', Some ''CASCADE'')]"

definition support_messages_001 :: table where
  "support_messages_001 = new_table ''support_messages''
    [col ''id'' Uuid False None,
     col ''ticket_id'' Uuid False None,
     col ''sender_type'' (Varchar 32) False None,
     col ''sender_telegram_user_id'' BigInteger True None,
     col ''body'' Textual True None,
     col ''telegram_chat_id'' BigInteger True None,
     col ''telegram_message_id'' BigInteger True None,
     col ''attachment_file_id'' (Varchar 255) True None,
     col ''attachment_type'' (Varchar 32) True None,
     col ''created_at'' Timestamp False None]
    []
    [(''ticket_id'', ''support_tickets'', ''id'', Some ''CASCADE'')]"

definition audit_events_001 :: table where
  "audit_events_001 = new_table ''audit_events''
    [col ''id'' Uuid False None,
     col ''actor_type'' (Varchar 32) False None,
     col ''actor_telegram_user_id'' BigInteger True None,
     col ''event_type'' (Varchar 64) False None,
     col ''entity_type'' (Varchar 64) False None,
     col ''entity_id'' Uuid True None,
     col ''metadata_json'' JSON False None,
     col ''created_at'' Timestamp False None]
    []
    []"

text \<open>Every table is followed by its indexes.\<close>

definition create :: "table \<times> index list \<Rightarrow> migration_op list" where
  "create ti =
     (case ti of (t, ixs) \<Rightarrow>
        Create_Table t # map (\<lambda>(i, cs, u). Create_Index i (tb_name t) cs u) ixs)"

definition initial_tables :: "(table \<times> index list) list" where
  "initial_tables =
    [(users_001,
      [(''ix_users_telegram_user_id'', [''telegram_user_id''], True)]),
     (vpn_servers_001,
      [(''ix_vpn_servers_slug'', [''slug''], True)]),
     (products_001,
      [(''ix_products_code'', [''code''], True)]),
     (orders_001,
      [(''ix_orders_public_order_code'', [''public_order_code''], True),
       (''ix_orders_status'', [''status''], False),
       (''ix_orders_user_id'', [''user_id''], False)]),
     (subscriptions_001,
      [(''ix_subscriptions_expires_at'', [''expires_at''], False),
       (''ix_subscriptions_peer_external_id'', [''peer_external_id''], True),
       (''ix_subscriptions_status'', [''status''], False),
       (''ix_subscriptions_user_id'', [''user_id''], False)]),
     (provisioning_jobs_001,
      [(''ix_provisioning_jobs_aggregate_id'', [''aggregate_id''], False),
       (''ix_provisioning_jobs_available_at'', [''available_at''], False),
       (''ix_provisioning_jobs_job_type'', [''job_type''], False),
       (''ix_provisioning_jobs_status'', [''status''], False)]),
     (notifications_001,
      [(''ix_notifications_idempotency_key'', [''idempotency_key''], True),
       (''ix_notifications_user_id'', [''user_id''], False)]),
     (support_tickets_001,
      [(''ix_support_tickets_public_ticket_code'', [''public_ticket_code''], True),
       (''ix_support_tickets_status'', [''status''], False),
       (''ix_support_tickets_user_id'', [''user_id''], False)]),
     (support_messages_001,
      [(''ix_support_messages_ticket_id'', [''ticket_id''], False)]),
     (audit_events_001,
      [(''ix_audit_events_actor_telegram_user_id'', [''actor_telegram_user_id''], False),
       (''ix_audit_events_actor_type'', [''actor_type''], False),
       (''ix_audit_events_created_at'', [''created_at''], False),
       (''ix_audit_events_entity_id'', [''entity_id''], False),
       (''ix_audit_events_entity_type'', [''entity_type''], False),
       (''ix_audit_events_event_type'', [''event_type''], False)])]"

definition upgrade_001 :: "migration_op list" where
  "upgrade_001 = concat (map create initial_tables)"

definition downgrade_001 :: "migration_op list" where
  "downgrade_001 = map Drop_Table
    [''audit_events'', ''support_messages'', ''support_tickets'', ''notifications'',
     ''provisioning_jobs'', ''subscriptions'', ''orders'', ''products'', ''vpn_servers'', ''users'']"

subsection \<open>002 and 003\<close>

definition upgrade_002 :: "migration_op list" where
  "upgrade_002 =
    [Add_Column ''orders'' (col ''renews_subscription_id'' Uuid True None),
     Create_Index ''ix_orders_renews_subscription_id'' ''orders'' [''renews_subscription_id''] False]"

definition downgrade_002 :: "migration_op list" where
  "downgrade_002 =
    [Drop_Index ''orders'' ''ix_orders_renews_subscription_id'',
     Drop_Column ''orders'' ''renews_subscription_id'']"

definition upgrade_003 :: "migration_op list" where
  "upgrade_003 =
    [Add_Column ''vpn_servers'' (col ''paused'' Boolean False (Some ''false'')),
     Drop_Column ''vpn_servers'' ''ssh_port'',
     Drop_Column ''vpn_servers'' ''ssh_username'']"

definition downgrade_003 :: "migration_op list" where
  "downgrade_003 =
    [Add_Column ''vpn_servers''
       (col ''ssh_username'' (Varchar 64) False (Some ''vpn-provisioner'')),
     Add_Column ''vpn_servers'' (col ''ssh_port'' Integer False (Some ''22'')),
     Drop_Column ''vpn_servers'' ''paused'']"

subsection \<open>The chain of revisions\<close>

record revision =
  rv_id :: string
  rv_down :: "string option"
  rv_upgrade :: "migration_op list"
  rv_downgrade :: "migration_op list"

definition revisions :: "revision list" where
  "revisions =
    [\<lparr>rv_id = ''001_initial_schema'', rv_down = None,
      rv_upgrade = upgrade_001, rv_downgrade = downgrade_001\<rparr>,
     \<lparr>rv_id = ''002_order_renews_subscription'', rv_down = Some ''001_initial_schema'',
      rv_upgrade = upgrade_002, rv_downgrade = downgrade_002\<rparr>,
     \<lparr>rv_id = ''003_server_pause_drop_ssh'', rv_down = Some ''002_order_renews_subscription'',
      rv_upgrade = upgrade_003, rv_downgrade = downgrade_003\<rparr>]"

text \<open>Alembic follows \<open>down_revision\<close> from the first revision; the number of revisions bounds
  the chain.\<close>

fun chain :: "nat \<Rightarrow> string option \<Rightarrow> revision list \<Rightarrow> revision list" where
  "chain 0 at rs = []"
| "chain (Suc n) at rs =
     (case find (\<lambda>r. rv_down r = at) rs of
        None \<Rightarrow> [] | Some r \<Rightarrow> r # chain n (Some (rv_id r)) rs)"

definition upgrade_head :: "revision list \<Rightarrow> schema \<Rightarrow> schema option" where
  "upgrade_head rs s = run_ops (concat (map rv_upgrade (chain (length rs) None rs))) s"

definition downgrade_base :: "revision list \<Rightarrow> schema \<Rightarrow> schema option" where
  "downgrade_base rs s = run_ops (concat (map rv_downgrade (rev (chain (length rs) None rs)))) s"

subsection \<open>What the models declare\<close>

datatype flag = Primary | Unique | Indexed

text \<open>\<open>mapped_column\<close>: \<open>unique\<close> alone makes a constraint, with \<open>index\<close> a unique index.\<close>

record mapped_column =
  mc_column :: column
  mc_flags :: "flag list"
  mc_foreign :: "(string \<times> string \<times> string option) option"

definition mapped ::
  "string \<Rightarrow> col_type \<Rightarrow> bool \<Rightarrow> string option \<Rightarrow> flag list
     \<Rightarrow> (string \<times> string \<times> string option) option \<Rightarrow> mapped_column" where
  "mapped n t nullable d fl fk =
     \<lparr>mc_column = col n t nullable d, mc_flags = fl, mc_foreign = fk\<rparr>"

definition mapped_name :: "mapped_column \<Rightarrow> string" where
  "mapped_name m = cl_name (mc_column m)"

definition mapped_table :: "string \<Rightarrow> mapped_column list \<Rightarrow> table" where
  "mapped_table n ms =
     \<lparr>tb_name = n, tb_columns = map mc_column ms,
      tb_primary = map mapped_name (filter (\<lambda>m. Primary \<in> set (mc_flags m)) ms),
      tb_uniques = map (\<lambda>m. [mapped_name m])
        (filter (\<lambda>m. Unique \<in> set (mc_flags m) \<and> Indexed \<notin> set (mc_flags m)) ms),
      tb_foreign = concat (map (\<lambda>m.
        case mc_foreign m of
          None \<Rightarrow> [] | Some (rt, rc, d) \<Rightarrow> [(mapped_name m, rt, rc, d)]) ms),
      tb_indexes = map (\<lambda>m. (''ix_'' @ n @ ''_'' @ mapped_name m, [mapped_name m],
                            Unique \<in> set (mc_flags m)))
        (filter (\<lambda>m. Indexed \<in> set (mc_flags m)) ms)\<rparr>"

definition timestamps :: "mapped_column list" where
  "timestamps =
    [mapped ''created_at'' Timestamp False None [] None,
     mapped ''updated_at'' Timestamp False None [] None]"

definition users_model :: table where
  "users_model = mapped_table ''users''
    ([mapped ''id'' Uuid False None [Primary] None,
     mapped ''telegram_user_id'' BigInteger False None [Unique, Indexed] None,
     mapped ''username'' (Varchar 255) True None [] None,
     mapped ''first_name'' (Varchar 255) True None [] None,
     mapped ''last_name'' (Varchar 255) True None [] None,
     mapped ''language_code'' (Varchar 10) True None [] None,
     mapped ''is_blocked'' Boolean False None [] None]
     @ timestamps)"

definition vpn_servers_model :: table where
  "vpn_servers_model = mapped_table ''vpn_servers''
    ([mapped ''id'' Uuid False None [Primary] None,
     mapped ''slug'' (Varchar 64) False None [Unique, Indexed] None,
     mapped ''display_name'' (Varchar 128) False None [] None,
     mapped ''country_code'' (Varchar 8) False None [] None,
     mapped ''country_name'' (Varchar 64) False None [] None,
     mapped ''enabled'' Boolean False None [] None,
     mapped ''paused'' Boolean False (Some ''false'') [] None,
     mapped ''sort_order'' Integer False None [] None,
     mapped ''provisioner_type'' (Varchar 32) False None [] None,
     mapped ''host'' (Varchar 255) False None [] None,
     mapped ''max_active_subscriptions'' Integer True None [] None]
     @ timestamps)"

definition products_model :: table where
  "products_model = mapped_table ''products''
    ([mapped ''id'' Uuid False None [Primary] None,
     mapped ''code'' (Varchar 64) False None [Unique, Indexed] None,
     mapped ''title'' (Varchar 128) False None [] None,
     mapped ''duration_days'' Integer False None [] None,
     mapped ''device_limit'' Integer False None [] None,
     mapped ''price_amount'' (Numeric 10 2) False None [] None,
     mapped ''price_currency'' (Varchar 8) False None [] None,
     mapped ''enabled'' Boolean False None [] None,
     mapped ''sort_order'' Integer False None [] None]
     @ timestamps)"

definition orders_model :: table where
  "orders_model = mapped_table ''orders''
    ([mapped ''id'' Uuid False None [Primary] None,
     mapped ''public_order_code'' (Varchar 32) False None [Unique, Indexed] None,
     mapped ''user_id'' Uuid False None [Indexed] (Some (''users'', ''id'', Some ''CASCADE'')),
     mapped ''vpn_server_id'' Uuid False None [] (Some (''vpn_servers'', ''id'', None)),
     mapped ''product_id'' Uuid False None [] (Some (''products'', ''id'', None)),
     mapped ''renews_subscription_id'' Uuid True None [Indexed] None,
     mapped ''price_amount_snapshot'' (Numeric 10 2) False None [] None,
     mapped ''currency_snapshot'' (Varchar 8) False None [] None,
     mapped ''payment_instructions_snapshot'' Textual False None [] None,
     mapped ''status'' (Varchar 32) False None [Indexed] None,
     mapped ''receipt_telegram_file_id'' (Varchar 255) True None [] None,
     mapped ''receipt_message_id'' BigInteger True None [] None,
     mapped ''receipt_chat_id'' BigInteger True None [] None,
     mapped ''receipt_media_type'' (Varchar 32) True None [] None,
     mapped ''receipt_note'' Textual True None [] None,
     mapped ''submitted_at'' Timestamp True None [] None,
     mapped ''reviewed_by_telegram_user_id'' BigInteger True None [] None,
     mapped ''reviewed_at'' Timestamp True None [] None,
     mapped ''rejection_reason'' Textual True None [] None]
     @ timestamps)"

definition subscriptions_model :: table where
  "subscriptions_model = mapped_table ''subscriptions''
    ([mapped ''id'' Uuid False None [Primary] None,
     mapped ''user_id'' Uuid False None [Indexed] (Some (''users'', ''id'', Some ''CASCADE'')),
     mapped ''order_id'' Uuid False None [Unique] (Some (''orders'', ''id'', None)),
     mapped ''vpn_server_id'' Uuid False None [] (Some (''vpn_servers'', ''id'', None)),
     mapped ''product_id'' Uuid False None [] (Some (''products'', ''id'', None)),
     mapped ''status'' (Varchar 32) False None [Indexed] None,
     mapped ''peer_external_id'' (Varchar 128) True None [Unique, Indexed] None,
     mapped ''peer_label'' (Varchar 128) True None [Unique] None,
     mapped ''config_delivery_status'' (Varchar 32) False None [] None,
     mapped ''config_delivery_message_id'' BigInteger True None [] None,
     mapped ''config_redelivery_count'' Integer False None [] None,
     mapped ''starts_at'' Timestamp False None [] None,
     mapped ''expires_at'' Timestamp False None [Indexed] None,
     mapped ''disabled_at'' Timestamp True None [] None,
     mapped ''removed_at'' Timestamp True None [] None,
     mapped ''last_error'' Textual True None [] None]
     @ timestamps)"

definition provisioning_jobs_model :: table where
  "provisioning_jobs_model = mapped_table ''provisioning_jobs''
    ([mapped ''id'' Uuid False None [Primary] None,
     mapped ''job_type'' (Varchar 32) False None [Indexed] None,
     mapped ''aggregate_type'' (Varchar 64) False None [] None,
     mapped ''aggregate_id'' Uuid False None [Indexed] None,
     mapped ''status'' (Varchar 32) False None [Indexed] None,
     mapped ''attempt_count'' Integer False None [] None,
     mapped ''available_at'' Timestamp False None [Indexed] None,
     mapped ''locked_at'' Timestamp True None [] None,
     mapped ''locked_by'' (Varchar 128) True None [] None,
     mapped ''payload'' JSON False None [] None,
     mapped ''last_error'' Textual True None [] None]
     @ timestamps)"

definition notifications_model :: table where
  "notifications_model = mapped_table ''notifications''
    ([mapped ''id'' Uuid False None [Primary] None,
     mapped ''user_id'' Uuid False None [Indexed] (Some (''users'', ''id'', Some ''CASCADE'')),
     mapped ''subscription_id'' Uuid True None [] (Some (''subscriptions'', ''id'', Some ''SET NULL'')),
     mapped ''notification_type'' (Varchar 32) False None [] None,
     mapped ''idempotency_key'' (Varchar 128) False None [Unique, Indexed] None,
     mapped ''status'' (Varchar 32) False None [] None,
     mapped ''sent_at'' Timestamp True None [] None,
     mapped ''telegram_message_id'' BigInteger True None [] None,
     mapped ''error'' Textual True None [] None,
     mapped ''created_at'' Timestamp False None [] None])"

definition support_tickets_model :: table where
  "support_tickets_model = mapped_table ''support_tickets''
    ([mapped ''id'' Uuid False None [Primary] None,
     mapped ''public_ticket_code'' (Varchar 32) False None [Unique, Indexed] None,
     mapped ''user_id'' Uuid False None [Indexed] (Some (''users'', ''id'', Some ''CASCADE'')),
     mapped ''status'' (Varchar 32) False None [Indexed] None,
     mapped ''subject'' (Varchar 255) True None [] None,
     mapped ''assigned_admin_telegram_user_id'' BigInteger True None [] None,
     mapped ''closed_at'' Timestamp True None [] None]
     @ timestamps)"

definition support_messages_model :: table where
  "support_messages_model = mapped_table ''support_messages''
    ([mapped ''id'' Uuid False None [Primary] None,
     mapped ''ticket_id'' Uuid False None [Indexed] (Some (''support_tickets'', ''id'', Some ''CASCADE'')),
     mapped ''sender_type'' (Varchar 32) False None [] None,
     mapped ''sender_telegram_user_id'' BigInteger True None [] None,
     mapped ''body'' Textual True None [] None,
     mapped ''telegram_chat_id'' BigInteger True None [] None,
     mapped ''telegram_message_id'' BigInteger True None [] None,
     mapped ''attachment_file_id'' (Varchar 255) True None [] None,
     mapped ''attachment_type'' (Varchar 32) True None [] None,
     mapped ''created_at'' Timestamp False None [] None])"

definition audit_events_model :: table where
  "audit_events_model = mapped_table ''audit_events''
    ([mapped ''id'' Uuid False None [Primary] None,
     mapped ''actor_type'' (Varchar 32) False None [Indexed] None,
     mapped ''actor_telegram_user_id'' BigInteger True None [Indexed] None,
     mapped ''event_type'' (Varchar 64) False None [Indexed] None,
     mapped ''entity_type'' (Varchar 64) False None [Indexed] None,
     mapped ''entity_id'' Uuid True None [Indexed] None,
     mapped ''metadata_json'' JSON False None [] None,
     mapped ''created_at'' Timestamp False None [Indexed] None])"

definition metadata :: schema where
  "metadata =
    [users_model, vpn_servers_model, products_model, orders_model, subscriptions_model,
     provisioning_jobs_model, notifications_model, support_tickets_model,
     support_messages_model, audit_events_model]"

subsection \<open>Comparing schemas\<close>

datatype part =
    Column_Part string col_type bool
  | Primary_Part "string list"
  | Unique_Part "string list"
  | Foreign_Part foreign_key
  | Index_Part index

definition parts :: "table \<Rightarrow> part list" where
  "parts t =
     map (\<lambda>c. Column_Part (cl_name c) (cl_type c) (cl_nullable c)) (tb_columns t) @
     [Primary_Part (tb_primary t)] @ map Unique_Part (tb_uniques t) @
     map Foreign_Part (tb_foreign t) @ map Index_Part (tb_indexes t)"

datatype difference =
    Only_Left string part | Only_Right string part | Table_Left string | Table_Right string

definition table_drift :: "table \<Rightarrow> table \<Rightarrow> difference list" where
  "table_drift t u =
     map (Only_Left (tb_name t)) (filter (\<lambda>x. x \<notin> set (parts u)) (parts t)) @
     map (Only_Right (tb_name t)) (filter (\<lambda>x. x \<notin> set (parts t)) (parts u))"

definition drift :: "schema \<Rightarrow> schema \<Rightarrow> difference list" where
  "drift s t =
     concat (map (\<lambda>x. case find_table (tb_name x) t of
                         None \<Rightarrow> [Table_Left (tb_name x)] | Some y \<Rightarrow> table_drift x y) s) @
     map Table_Right (filter (\<lambda>n. find_table n s = None) (map tb_name t))"

lemma table_drift_Nil: "table_drift t u = [] \<longleftrightarrow> set (parts t) = set (parts u)"
  by (auto simp: table_drift_def filter_empty_conv)

subsection \<open>Running the migrations\<close>

lemmas tables_001 = users_001_def vpn_servers_001_def products_001_def orders_001_def subscriptions_001_def provisioning_jobs_001_def notifications_001_def support_tickets_001_def support_messages_001_def audit_events_001_def

lemma tables_001_fields [simp]:
  "tb_name users_001 = ''users''" "tb_indexes users_001 = []"
  "tb_name vpn_servers_001 = ''vpn_servers''" "tb_indexes vpn_servers_001 = []"
  "tb_name products_001 = ''products''" "tb_indexes products_001 = []"
  "tb_name orders_001 = ''orders''" "tb_indexes orders_001 = []"
  "tb_name subscriptions_001 = ''subscriptions''" "tb_indexes subscriptions_001 = []"
  "tb_name provisioning_jobs_001 = ''provisioning_jobs''" "tb_indexes provisioning_jobs_001 = []"
  "tb_name notifications_001 = ''notifications''" "tb_indexes notifications_001 = []"
  "tb_name support_tickets_001 = ''support_tickets''" "tb_indexes support_tickets_001 = []"
  "tb_name support_messages_001 = ''support_messages''" "tb_indexes support_messages_001 = []"
  "tb_name audit_events_001 = ''audit_events''" "tb_indexes audit_events_001 = []"
  by (simp_all add: tables_001 new_table_def)

lemma find_table_simps [simp]:
  "find_table n [] = None"
  "find_table n (t # s) = (if tb_name t = n then Some t else find_table n s)"
  by (simp_all add: find_table_def)

lemma find_table_append:
  "find_table n (s @ t) = (case find_table n s of None \<Rightarrow> find_table n t | Some x \<Rightarrow> Some x)"
  by (induction s) auto

lemma find_table_None: "find_table n s = None \<longleftrightarrow> n \<notin> tb_name ` set s"
  by (induction s) auto

definition with_indexes :: "table \<times> index list \<Rightarrow> table" where
  "with_indexes ti = (fst ti)\<lparr>tb_indexes := snd ti\<rparr>"

definition index_names :: "schema \<Rightarrow> string list" where
  "index_names s = concat (map (\<lambda>t. map fst (tb_indexes t)) s)"

lemma run_create_indexes:
  assumes "tb_name t \<notin> tb_name ` set s"
    and "distinct (index_names (s @ [t]) @ map fst ixs)"
    and "list_all (\<lambda>(i, cs, u). list_all (\<lambda>c. has_column c t) cs) ixs"
  shows "run_ops (map (\<lambda>(i, cs, u). Create_Index i (tb_name t) cs u) ixs) (s @ [t]) =
    Some (s @ [t\<lparr>tb_indexes := tb_indexes t @ ixs\<rparr>])"
  using assms
proof (induction ixs arbitrary: t)
  case (Cons ix ixs)
  obtain i cs u where ix: "ix = (i, cs, u)"
    by (cases ix) auto
  let ?t = "t\<lparr>tb_indexes := tb_indexes t @ [(i, cs, u)]\<rparr>"
  have rest: "map (\<lambda>v. if tb_name v = tb_name t then v\<lparr>tb_indexes := tb_indexes v @ [(i, cs, u)]\<rparr> else v) s = s"
    using Cons(2) by (intro map_idI) (auto simp: image_iff)
  have "\<not> list_ex (\<lambda>t. i \<in> set (map fst (tb_indexes t))) (s @ [t])"
    using Cons(3) by (auto simp: list_ex_iff index_names_def ix)
  moreover have "find_table (tb_name t) (s @ [t]) = Some t"
    using Cons(2) by (simp add: find_table_append find_table_None [THEN iffD2])
  ultimately have "run_op (Create_Index i (tb_name t) cs u) (s @ [t]) = Some (s @ [?t])"
    using Cons(4) rest by (simp add: alter_def ix)
  moreover have "run_ops (map (\<lambda>(i, cs, u). Create_Index i (tb_name ?t) cs u) ixs) (s @ [?t]) =
      Some (s @ [?t\<lparr>tb_indexes := tb_indexes ?t @ ixs\<rparr>])"
    using Cons(2-4) by (intro Cons.IH) (auto simp: index_names_def ix has_column_def)
  ultimately show ?case
    by (simp add: ix)
qed simp

text \<open>What the database demands of a list of tables with their indexes.\<close>

fun creatable :: "schema \<Rightarrow> (table \<times> index list) list \<Rightarrow> bool" where
  "creatable s [] = True"
| "creatable s ((t, ixs) # r) =
     (tb_name t \<notin> tb_name ` set s \<and> tb_indexes t = [] \<and> list_all (foreign_ok s) (tb_foreign t) \<and>
      list_all (\<lambda>(i, cs, u). list_all (\<lambda>c. has_column c t) cs) ixs \<and>
      creatable (s @ [with_indexes (t, ixs)]) r)"

lemma run_create:
  assumes "creatable s tis" "distinct (index_names s @ concat (map (map fst \<circ> snd) tis))"
  shows "run_ops (concat (map create tis)) s = Some (s @ map with_indexes tis)"
  using assms
proof (induction tis arbitrary: s)
  case (Cons ti tis)
  obtain t ixs where ti: "ti = (t, ixs)"
    by (cases ti) auto
  have "run_op (Create_Table t) s = Some (s @ [t])"
    using Cons(2) by (simp add: ti find_table_None [THEN iffD2])
  moreover have "run_ops (map (\<lambda>(i, cs, u). Create_Index i (tb_name t) cs u) ixs) (s @ [t]) =
      Some (s @ [t\<lparr>tb_indexes := tb_indexes t @ ixs\<rparr>])"
    using Cons(2,3)
    by (intro run_create_indexes) (simp_all add: ti index_names_def Int_Un_distrib)
  ultimately have "run_ops (create ti) s = Some (s @ [with_indexes ti])"
    using Cons(2) by (simp add: create_def ti with_indexes_def)
  moreover have "run_ops (concat (map create tis)) (s @ [with_indexes ti]) =
      Some ((s @ [with_indexes ti]) @ map with_indexes tis)"
    using Cons(2,3) by (intro Cons.IH) (auto simp: ti index_names_def with_indexes_def)
  ultimately show ?case
    by (simp add: run_ops_append)
qed simp

definition schema_001 :: schema where
  "schema_001 = map with_indexes initial_tables"

lemma creatable_initial: "creatable [] initial_tables"
  by (simp add: initial_tables_def with_indexes_def foreign_ok_def has_column_def tables_001
      new_table_def col_def)

lemma distinct_initial: "distinct (concat (map (map fst \<circ> snd) initial_tables))"
  by (simp add: initial_tables_def)

lemma run_001: "run_ops upgrade_001 [] = Some schema_001"
  using run_create [OF creatable_initial] distinct_initial
  by (simp add: upgrade_001_def schema_001_def index_names_def)

text \<open>The second and the third migration each change one table.\<close>

definition change_table :: "string \<Rightarrow> (table \<Rightarrow> table) \<Rightarrow> schema \<Rightarrow> schema" where
  "change_table n f s = map (\<lambda>u. if tb_name u = n then f u else u) s"

definition orders_002 :: "table \<Rightarrow> table" where
  "orders_002 t = t\<lparr>tb_columns := tb_columns t @ [col ''renews_subscription_id'' Uuid True None],
     tb_indexes := tb_indexes t @
       [(''ix_orders_renews_subscription_id'', [''renews_subscription_id''], False)]\<rparr>"

definition vpn_servers_003 :: "table \<Rightarrow> table" where
  "vpn_servers_003 t = t\<lparr>tb_columns :=
     filter (\<lambda>c. cl_name c \<notin> {''ssh_port'', ''ssh_username''}) (tb_columns t) @
     [col ''paused'' Boolean False (Some ''false'')]\<rparr>"

definition schema_002 :: schema where
  "schema_002 = change_table ''orders'' orders_002 schema_001"

definition schema_003 :: schema where
  "schema_003 = change_table ''vpn_servers'' vpn_servers_003 schema_002"

lemma columns_of_orders:
  "map cl_name (tb_columns orders_001) =
     [''id'', ''public_order_code'', ''user_id'', ''vpn_server_id'', ''product_id'',
      ''price_amount_snapshot'', ''currency_snapshot'', ''payment_instructions_snapshot'',
      ''status'', ''receipt_telegram_file_id'', ''receipt_message_id'', ''receipt_chat_id'',
      ''receipt_media_type'', ''receipt_note'', ''submitted_at'',
      ''reviewed_by_telegram_user_id'', ''reviewed_at'', ''rejection_reason'', ''created_at'',
      ''updated_at'']"
  by (simp add: orders_001_def new_table_def col_def)

lemma run_002: "run_ops upgrade_002 schema_001 = Some schema_002"
  by (simp add: upgrade_002_def schema_002_def schema_001_def initial_tables_def with_indexes_def
      change_table_def orders_002_def alter_def has_column_def columns_of_orders col_def
      flip: set_map)

lemma columns_of_servers:
  "tb_columns vpn_servers_001 =
    [col ''id'' Uuid False None, col ''slug'' (Varchar 64) False None,
     col ''display_name'' (Varchar 128) False None, col ''country_code'' (Varchar 8) False None,
     col ''country_name'' (Varchar 64) False None, col ''enabled'' Boolean False (Some ''true''),
     col ''sort_order'' Integer False (Some ''0''),
     col ''provisioner_type'' (Varchar 32) False (Some ''mock''),
     col ''host'' (Varchar 255) False None, col ''ssh_port'' Integer False (Some ''22''),
     col ''ssh_username'' (Varchar 64) False (Some ''vpn-provisioner''),
     col ''max_active_subscriptions'' Integer True None,
     col ''created_at'' Timestamp False None, col ''updated_at'' Timestamp False None]"
  by (simp add: vpn_servers_001_def new_table_def)

lemma run_003: "run_ops upgrade_003 schema_002 = Some schema_003"
  by (simp add: upgrade_003_def schema_003_def schema_002_def schema_001_def initial_tables_def
      with_indexes_def change_table_def vpn_servers_003_def orders_002_def alter_def has_column_def
      columns_of_servers col_def)

lemma chain_revisions: "chain (length revisions) None revisions = revisions"
  by (simp add: revisions_def)

lemma upgrade_head_result: "upgrade_head revisions [] = Some schema_003"
  unfolding upgrade_head_def chain_revisions
  by (simp add: revisions_def run_ops_append run_001 run_002 run_003)

subsection \<open>Migrated against declared\<close>

lemmas table_models = users_model_def vpn_servers_model_def products_model_def orders_model_def subscriptions_model_def provisioning_jobs_model_def notifications_model_def support_tickets_model_def support_messages_model_def audit_events_model_def

lemma table_models_name [simp]:
  "tb_name users_model = ''users''"
  "tb_name vpn_servers_model = ''vpn_servers''"
  "tb_name products_model = ''products''"
  "tb_name orders_model = ''orders''"
  "tb_name subscriptions_model = ''subscriptions''"
  "tb_name provisioning_jobs_model = ''provisioning_jobs''"
  "tb_name notifications_model = ''notifications''"
  "tb_name support_tickets_model = ''support_tickets''"
  "tb_name support_messages_model = ''support_messages''"
  "tb_name audit_events_model = ''audit_events''"
  by (simp_all add: table_models mapped_table_def)

lemmas mapped_simps = mapped_table_def mapped_def mapped_name_def timestamps_def col_def

lemma schema_003_tables:
  "map tb_name schema_003 = map tb_name metadata"
  by (simp add: schema_003_def schema_002_def schema_001_def initial_tables_def
      with_indexes_def change_table_def vpn_servers_003_def orders_002_def metadata_def)

lemma distinct_metadata: "distinct (map tb_name metadata)"
  by (simp add: metadata_def)

lemmas schema_003_defs = schema_003_def schema_002_def schema_001_def initial_tables_def
  with_indexes_def change_table_def vpn_servers_003_def orders_002_def

lemmas parts_simps = table_drift_def parts_def tables_001 table_models mapped_simps new_table_def

lemma drift_tables:
  "concat (map (\<lambda>(x, y). table_drift x y) (zip schema_003 metadata)) =
     [Only_Right ''subscriptions'' (Unique_Part [''peer_label''])]"
  by (simp add: schema_003_defs metadata_def) (simp add: parts_simps)

lemma find_table_member:
  "distinct (map tb_name t) \<Longrightarrow> x \<in> set t \<Longrightarrow> find_table (tb_name x) t = Some x"
  by (induction t) auto

text \<open>Schemas with the same tables are compared table by table.\<close>

lemma drift_by_table:
  assumes "map tb_name s = map tb_name t" "distinct (map tb_name t)"
  shows "drift s t = concat (map (\<lambda>(x, y). table_drift x y) (zip s t))"
proof -
  have len: "length s = length t"
    using assms(1) by (metis length_map)
  have "find_table (tb_name (s ! k)) t = Some (t ! k)" if "k < length t" for k
    using find_table_member [OF assms(2), of "t ! k"] that assms(1) len by (metis nth_map nth_mem)
  then have "map (\<lambda>x. case find_table (tb_name x) t of
        None \<Rightarrow> [Table_Left (tb_name x)] | Some y \<Rightarrow> table_drift x y) s =
      map (\<lambda>(x, y). table_drift x y) (zip s t)"
    using len by (intro nth_equalityI) auto
  moreover have "filter (\<lambda>n. find_table n s = None) (map tb_name t) = []"
    unfolding assms(1) [symmetric] filter_empty_conv find_table_None by auto
  ultimately show ?thesis
    by (simp add: drift_def)
qed

text \<open>C36. A database made by the migrations has the tables, columns, keys, indexes and
  constraints that the models declare, except for one: nothing makes the label of a
  subscription's peer unique.\<close>

theorem migrations_match_models:
  "\<exists>s. upgrade_head revisions [] = Some s \<and>
     drift s metadata = [Only_Right ''subscriptions'' (Unique_Part [''peer_label''])]"
  using upgrade_head_result drift_tables
    drift_by_table [OF schema_003_tables distinct_metadata] by simp

definition servers_again :: "table \<Rightarrow> table" where
  "servers_again t = t\<lparr>tb_columns :=
     filter (\<lambda>c. cl_name c \<notin> {''ssh_port'', ''ssh_username''}) (tb_columns t) @
     [col ''ssh_username'' (Varchar 64) False (Some ''vpn-provisioner''),
      col ''ssh_port'' Integer False (Some ''22'')]\<rparr>"

definition schema_002_again :: schema where
  "schema_002_again = change_table ''vpn_servers'' servers_again schema_002"

lemma run_down_003: "run_ops downgrade_003 schema_003 = Some schema_002_again"
  by (simp add: downgrade_003_def schema_002_again_def servers_again_def schema_003_defs
      alter_def has_column_def columns_of_servers col_def)

lemma run_down_002: "run_ops downgrade_002 schema_002 = Some schema_001"
  by (simp add: downgrade_002_def schema_003_defs alter_def has_column_def orders_001_def
      new_table_def col_def)

lemma run_down_002_again:
  "run_ops downgrade_002 schema_002_again =
     Some (change_table ''vpn_servers'' servers_again schema_001)"
  by (simp add: downgrade_002_def schema_002_again_def servers_again_def schema_003_defs alter_def
      has_column_def orders_001_def new_table_def col_def)

lemma refers_update [simp]:
  "refers n (t\<lparr>tb_indexes := ixs\<rparr>) = refers n t"
  "refers n (t\<lparr>tb_columns := cs\<rparr>) = refers n t"
  by (simp_all add: refers_def)

lemma refers_001 [simp]:
  "refers n users_001 = False" "refers n vpn_servers_001 = False" "refers n products_001 = False"
  "refers n orders_001 = (n = ''products'' \<or> n = ''users'' \<or> n = ''vpn_servers'')"
  "refers n subscriptions_001 =
     (n = ''orders'' \<or> n = ''products'' \<or> n = ''users'' \<or> n = ''vpn_servers'')"
  "refers n provisioning_jobs_001 = False"
  "refers n notifications_001 = (n = ''subscriptions'' \<or> n = ''users'')"
  "refers n support_tickets_001 = (n = ''users'')"
  "refers n support_messages_001 = (n = ''support_tickets'')"
  "refers n audit_events_001 = False"
  by (auto simp: refers_def tables_001 new_table_def)

lemma run_down_001:
  "run_ops downgrade_001 schema_001 = Some []"
  "run_ops downgrade_001 (change_table ''vpn_servers'' servers_again schema_001) = Some []"
  by (simp_all add: downgrade_001_def schema_003_defs servers_again_def)

lemma schema_002_same: "drift schema_002_again schema_002 = []"
proof -
  have "map tb_name schema_002_again = map tb_name schema_002" "distinct (map tb_name schema_002)"
    by (simp_all add: schema_002_again_def servers_again_def schema_003_defs)
  note drift_by_table [OF this]
  moreover have "concat (map (\<lambda>(x, y). table_drift x y) (zip schema_002_again schema_002)) = []"
    by (simp add: schema_002_again_def schema_003_defs table_drift_Nil)
      (simp add: servers_again_def parts_def columns_of_servers col_def insert_commute)
  ultimately show ?thesis by simp
qed

text \<open>Every downgrade undoes its upgrade, so a release can be taken back: going down from
  the head leaves no table behind, the second and the first revision come back exactly, and
  the third brings the dropped columns back (at the end of the table, with their defaults);
  no step is refused by the database, whatever order of foreign keys it has to respect.\<close>

theorem downgrades_undo:
  "\<exists>s1 s2 s3 s2'. run_ops upgrade_001 [] = Some s1 \<and> run_ops upgrade_002 s1 = Some s2 \<and>
     run_ops upgrade_003 s2 = Some s3 \<and> upgrade_head revisions [] = Some s3 \<and>
     run_ops downgrade_001 s1 = Some [] \<and> run_ops downgrade_002 s2 = Some s1 \<and>
     run_ops downgrade_003 s3 = Some s2' \<and> drift s2' s2 = [] \<and>
     downgrade_base revisions s3 = Some []"
proof -
  have "downgrade_base revisions schema_003 = Some []"
    unfolding downgrade_base_def chain_revisions
    by (simp add: revisions_def run_ops_append run_down_003 run_down_002_again run_down_001)
  then show ?thesis
    using run_001 run_002 run_003 upgrade_head_result run_down_001(1) run_down_002 run_down_003
      schema_002_same by blast
qed

end
