(* ===== verification/Worker_Termination.thy ===== *)
theory Worker_Termination
  imports Worker
begin

section \<open>The worker comes to rest\<close>

text \<open>
  A job is retried a bounded number of times, so polling ends: however the provisioner and
  Telegram behave, a database holds a finite amount of work (\<open>work_left\<close>), every job a poll
  processes uses some of it up, and once it is used up polls claim nothing.
\<close>

definition is_open :: "job \<Rightarrow> bool" where
  "is_open j = (job_status j \<in> {PENDING, RETRYABLE_FAILURE, PROCESSING})"

text \<open>The attempts a job has left; a job that waits has at least one.\<close>

definition attempts_left :: "job \<Rightarrow> nat" where
  "attempts_left j =
     (if is_open j then max 1 (nat (default_max_retries - job_attempt_count j)) else 0)"

definition work_left :: "db \<Rightarrow> nat" where
  "work_left d = sum_list (map attempts_left (jobs d))"

text \<open>A run of polls: the time of each, and the clocks and identifiers of its jobs.\<close>

type_synonym poll = "datetime \<times> (uuid \<Rightarrow> datetime) \<times> (uuid \<Rightarrow> uuid)"

fun run_polls :: "'p worker_env \<Rightarrow> nat \<Rightarrow> poll list \<Rightarrow> 'p session \<Rightarrow> nat list \<times> 'p session" where
  "run_polls env limit [] s = ([], s)"
| "run_polls env limit ((now, clock, aids) # ps) s =
     (case run_single_batch env limit now clock aids s of
        (n, s1) \<Rightarrow> (case run_polls env limit ps s1 of (ns, s2) \<Rightarrow> (n # ns, s2)))"

lemma claimable_open: "claimable now j \<Longrightarrow> is_open j"
  by (auto simp: claimable_def stale_lock_def is_open_def)

lemma settled_uses_attempt:
  assumes "is_open j" "settled j (Some j')"
  shows "attempts_left j' < attempts_left j"
  using assms by (auto simp: settled_def attempts_left_def is_open_def default_max_retries_def)

definition job_ids :: "db \<Rightarrow> uuid set" where
  "job_ids d = job_id ` set (jobs d)"

definition left_of :: "db \<Rightarrow> uuid \<Rightarrow> nat" where
  "left_of d k = (case get_job k d of None \<Rightarrow> 0 | Some j \<Rightarrow> attempts_left j)"

lemma job_ids_get: "k \<in> job_ids d \<longleftrightarrow> get_job k d \<noteq> None"
  by (auto simp: job_ids_def find_row_None)

lemma work_left_sum:
  assumes "db_unique d"
  shows "work_left d = (\<Sum>k\<in>job_ids d. left_of d k)"
proof -
  note key = jobs_tab.unique_key [OF assms]
  have "left_of d (job_id j) = attempts_left j" if "j \<in> set (jobs d)" for j
    using jobs_tab.find_row_iff [OF assms, of "job_id j" j] that by (simp add: left_of_def)
  then have "map attempts_left (jobs d) = map (left_of d) (map job_id (jobs d))"
    by simp
  then have "work_left d = sum_list (map (left_of d) (map job_id (jobs d)))"
    by (simp only: work_left_def)
  also have "\<dots> = (\<Sum>k\<in>set (map job_id (jobs d)). left_of d k)"
    by (rule sum_list_distinct_conv_sum_set [OF key])
  finally show ?thesis
    by (simp add: job_ids_def)
qed

text \<open>Every job a poll processes uses up at least one attempt.\<close>

lemma batch_uses_work:
  assumes "run_single_batch env limit now clock aids s = (n, s')" "db_unique (s_db s)"
  shows "n + work_left (s_db s') \<le> work_left (s_db s)"
proof -
  let ?due = "take limit (due_jobs now (s_db s))"
  let ?C = "job_id ` set ?due"
  note B = batch_result [OF assms]
  have due: "get_job (job_id j) (s_db s) = Some j \<and> is_open j" if "j \<in> set ?due" for j
    using that jobs_tab.find_row_iff [OF assms(2)]
    by (auto dest!: in_set_takeD intro: claimable_open)
  have less: "left_of (s_db s') k < left_of (s_db s) k" if "k \<in> ?C" for k
  proof -
    obtain j where j: "j \<in> set ?due" "k = job_id j"
      using \<open>k \<in> ?C\<close> by auto
    then obtain j' where "get_job k (s_db s') = Some j'" "settled j (Some j')"
      using B by (auto simp: settled_def)
    then show ?thesis
      using due [OF j(1)] j(2) settled_uses_attempt by (simp add: left_of_def)
  qed
  have same: "left_of (s_db s') k = left_of (s_db s) k" if "k \<notin> ?C" for k
    using B that by (simp add: left_of_def)
  have ids: "job_ids (s_db s') = job_ids (s_db s)"
  proof -
    have "get_job k (s_db s') \<noteq> None \<longleftrightarrow> get_job k (s_db s) \<noteq> None" for k
    proof (cases "k \<in> ?C")
      case True
      then obtain j where j: "j \<in> set ?due" "k = job_id j" by auto
      with B have "settled j (get_job k (s_db s'))" by blast
      with due [OF j(1)] j(2) show ?thesis by (auto simp: settled_def)
    next
      case False
      with B show ?thesis by simp
    qed
    then show ?thesis
      by (auto simp: job_ids_get)
  qed
  have sub: "?C \<subseteq> job_ids (s_db s)" and fin: "finite (job_ids (s_db s))"
    using due by (auto simp: job_ids_def dest!: in_set_takeD)
  have dist: "distinct (map job_id ?due)"
    using distinct_due_jobs [OF assms(2), of now] by (simp add: take_map [symmetric] distinct_take)
  have card: "card ?C = n"
    using B distinct_card [OF dist] by simp
  let ?W = "\<lambda>d S. \<Sum>k\<in>S. left_of d k"
  have "card ?C + ?W (s_db s') ?C = (\<Sum>k\<in>?C. Suc (left_of (s_db s') k))"
    by (simp only: sum_Suc add.commute)
  also have "\<dots> \<le> ?W (s_db s) ?C"
    using less by (intro sum_mono) (simp add: Suc_leI)
  finally have "n + ?W (s_db s') ?C \<le> ?W (s_db s) ?C"
    by (simp add: card)
  moreover have "?W (s_db s') (job_ids (s_db s) - ?C) = ?W (s_db s) (job_ids (s_db s) - ?C)"
    using same by (intro sum.cong) auto
  ultimately show ?thesis
    using sum.subset_diff [OF sub fin, of "left_of (s_db s)"]
      sum.subset_diff [OF sub fin, of "left_of (s_db s')"] B
    by (simp add: work_left_sum assms(2) ids)
qed

text \<open>C37. The worker comes to rest. In any run of polls, however long, with whatever clocks and
  whatever the provisioner and Telegram do, the polls together process no more jobs than the
  attempts that the jobs in the table had left at the start, five for a new job; so all but
  finitely many polls process nothing.\<close>

theorem polls_come_to_rest:
  assumes "db_unique (s_db s)" "run_polls env limit ps s = (ns, s')"
  shows "sum_list ns + work_left (s_db s') \<le> work_left (s_db s) \<and>
    length (filter (\<lambda>n. n \<noteq> 0) ns) \<le> work_left (s_db s)"
proof -
  have "sum_list ns + work_left (s_db s') \<le> work_left (s_db s)"
    using assms
  proof (induction ps arbitrary: s ns)
    case (Cons p ps)
    obtain now clock aids where p: "p = (now, clock, aids)" by (cases p) auto
    obtain n s1 where b: "run_single_batch env limit now clock aids s = (n, s1)" by force
    obtain ms where r: "run_polls env limit ps s1 = (ms, s')" and ns: "ns = n # ms"
      using Cons.prems(2) by (auto simp: p b split: prod.splits)
    have "db_unique (s_db s1)"
      using batch_result [OF b Cons.prems(1)] by blast
    from Cons.IH [OF this r] batch_uses_work [OF b Cons.prems(1)] show ?case
      by (simp add: ns)
  qed simp
  moreover have "length (filter (\<lambda>n. n \<noteq> 0) ms) \<le> sum_list ms" for ms :: "nat list"
    by (induction ms) auto
  then have "length (filter (\<lambda>n. n \<noteq> 0) ns) \<le> sum_list ns" .
  ultimately show ?thesis
    by simp
qed

theorem polls_come_to_rest_witness:
  "work_left job_db = 10 \<and>
   (case run_polls sample_env 1 [(40, (\<lambda>_. 41), (\<lambda>_. 95)), (60, (\<lambda>_. 61), (\<lambda>_. 96))]
       (sample_session job_db) of (ns, s') \<Rightarrow> sum_list ns + work_left (s_db s') \<le> 10)"
proof -
  let ?ps = "[(40, (\<lambda>_. 41), (\<lambda>_. 95)), (60, (\<lambda>_. 61), (\<lambda>_. 96))]"
  obtain ns s' where r: "run_polls sample_env 1 ?ps (sample_session job_db) = (ns, s')"
    by force
  have "db_unique (s_db (sample_session job_db))"
    using job_db_unique by (simp add: sample_session_def)
  from polls_come_to_rest [OF this r]
  have "sum_list ns + work_left (s_db s') \<le> work_left job_db"
    by (simp add: sample_session_def)
  moreover have "work_left job_db = 10"
    by (simp add: work_left_def attempts_left_def is_open_def default_max_retries_def sample_db_defs)
  ultimately show ?thesis
    using r by simp
qed

end
