(* ===== verification/Ledger.thy ===== *)
theory Ledger
  imports Orders Tickets Catalog Chat
begin

section \<open>The ledger the database keeps\<close>

text \<open>
  What the tables promise to whoever reads them later, as an abstract specification: a ledger of
  books that are only ever appended to. A book holds the columns of a row that no operation
  changes; a posting adds one entry and has to satisfy the rules of its book (fresh keys; a
  subscription is granted on an order of the same customer, server and plan, once; an audit event
  holds no secret and no link of a config). \<open>books\<close>
  reads the ledger off a database, and \<open>evolves\<close> says that one database became another by
  postings, keeping the constraints. The lemmas: every writing operation of the repositories
  evolves the database, and what follows on the side of the ledger.
\<close>

subsection \<open>Books and postings\<close>

record order_entry =
  oe_id :: uuid
  oe_code :: string
  oe_customer :: uuid
  oe_server :: uuid
  oe_plan :: uuid
  oe_renews :: "uuid option"
  oe_price :: int
  oe_currency :: string
  oe_placed_at :: datetime

record grant_entry =
  ge_id :: uuid
  ge_order :: uuid
  ge_customer :: uuid
  ge_server :: uuid
  ge_plan :: uuid
  ge_starts_at :: datetime

text \<open>Customers by id and Telegram id, jobs by id, type, aggregate and payload, tickets by id,
  code and customer; messages, notices and audit events are entries as a whole.\<close>

record ledger =
  lg_customers :: "(uuid \<times> int) list"
  lg_orders :: "order_entry list"
  lg_grants :: "grant_entry list"
  lg_jobs :: "(uuid \<times> job_type \<times> uuid \<times> json_object) list"
  lg_notices :: "notification list"
  lg_tickets :: "(uuid \<times> string \<times> uuid) list"
  lg_messages :: "support_message list"
  lg_audits :: "audit_event list"

definition on_order :: "ledger \<Rightarrow> grant_entry \<Rightarrow> bool" where
  "on_order l g \<longleftrightarrow> (\<exists>e \<in> set (lg_orders l). oe_id e = ge_order g \<and>
     oe_customer e = ge_customer g \<and> oe_server e = ge_server g \<and> oe_plan e = ge_plan g)"

text \<open>An audit event fit to be entered: nothing stays under a key that names a secret, and a text
  is the code of an order or holds no config link.\<close>

definition fit_event :: "ledger \<Rightarrow> audit_event \<Rightarrow> bool" where
  "fit_event l a \<longleftrightarrow> (\<forall>(k, v) \<in> set (aud_metadata a).
     (secret_key k \<longrightarrow> v = JStr ''[REDACTED]'') \<and>
     (\<forall>t. v = JStr t \<longrightarrow> t \<in> oe_code ` set (lg_orders l) \<or> \<not> has_link t))"

inductive post :: "ledger \<Rightarrow> ledger \<Rightarrow> bool" where
  customer: "fst c \<notin> fst ` set (lg_customers l) \<Longrightarrow> snd c \<notin> snd ` set (lg_customers l) \<Longrightarrow>
     post l (l\<lparr>lg_customers := lg_customers l @ [c]\<rparr>)"
| order: "oe_id e \<notin> oe_id ` set (lg_orders l) \<Longrightarrow> oe_code e \<notin> oe_code ` set (lg_orders l) \<Longrightarrow>
     \<not> has_link (oe_code e) \<Longrightarrow> post l (l\<lparr>lg_orders := lg_orders l @ [e]\<rparr>)"
| grant: "ge_id g \<notin> ge_id ` set (lg_grants l) \<Longrightarrow> ge_order g \<notin> ge_order ` set (lg_grants l) \<Longrightarrow>
     on_order l g \<Longrightarrow> post l (l\<lparr>lg_grants := lg_grants l @ [g]\<rparr>)"
| job: "fst j \<notin> fst ` set (lg_jobs l) \<Longrightarrow> post l (l\<lparr>lg_jobs := lg_jobs l @ [j]\<rparr>)"
| notice: "ntf_key n \<notin> ntf_key ` set (lg_notices l) \<Longrightarrow>
     post l (l\<lparr>lg_notices := lg_notices l @ [n]\<rparr>)"
| ticket: "fst t \<notin> fst ` set (lg_tickets l) \<Longrightarrow>
     fst (snd t) \<notin> (fst \<circ> snd) ` set (lg_tickets l) \<Longrightarrow>
     post l (l\<lparr>lg_tickets := lg_tickets l @ [t]\<rparr>)"
| message: "msg_id m \<notin> msg_id ` set (lg_messages l) \<Longrightarrow>
     post l (l\<lparr>lg_messages := lg_messages l @ [m]\<rparr>)"
| audit: "aud_id a \<notin> aud_id ` set (lg_audits l) \<Longrightarrow> fit_event l a \<Longrightarrow>
     post l (l\<lparr>lg_audits := lg_audits l @ [a]\<rparr>)"

subsection \<open>What a ledger guarantees\<close>

text \<open>Nothing is ever changed or taken out.\<close>

definition appended :: "'a list \<Rightarrow> 'a list \<Rightarrow> bool" where
  "appended xs ys \<longleftrightarrow> (\<exists>zs. ys = xs @ zs)"

lemma appended_simps [simp]: "appended xs xs" "appended xs (xs @ ys)"
  by (auto simp: appended_def)

lemma appended_trans: "appended xs ys \<Longrightarrow> appended ys zs \<Longrightarrow> appended xs zs"
  by (auto simp: appended_def)

lemma appended_set: "appended xs ys \<Longrightarrow> set xs \<subseteq> set ys"
  by (auto simp: appended_def)

definition extends_ledger :: "ledger \<Rightarrow> ledger \<Rightarrow> bool" where
  "extends_ledger l l' \<longleftrightarrow>
     appended (lg_customers l) (lg_customers l') \<and> appended (lg_orders l) (lg_orders l') \<and>
     appended (lg_grants l) (lg_grants l') \<and> appended (lg_jobs l) (lg_jobs l') \<and>
     appended (lg_notices l) (lg_notices l') \<and> appended (lg_tickets l) (lg_tickets l') \<and>
     appended (lg_messages l) (lg_messages l') \<and> appended (lg_audits l) (lg_audits l')"

lemma post_extends: "post l l' \<Longrightarrow> extends_ledger l l'"
  by (induction rule: post.induct) (simp_all add: extends_ledger_def)

lemma posts_extend: "post\<^sup>*\<^sup>* l l' \<Longrightarrow> extends_ledger l l'"
proof (induction rule: rtranclp_induct)
  case (step l1 l2)
  from step.IH post_extends [OF step.hyps(2)] show ?case
    unfolding extends_ledger_def by (blast intro: appended_trans)
qed (simp add: extends_ledger_def)

text \<open>Every grant stands on an order of its own.\<close>

definition sound_grants :: "ledger \<Rightarrow> bool" where
  "sound_grants l \<longleftrightarrow> distinct (map oe_id (lg_orders l)) \<and> distinct (map oe_code (lg_orders l)) \<and>
     distinct (map ge_order (lg_grants l)) \<and> (\<forall>g \<in> set (lg_grants l). on_order l g)"

lemma post_sound: "post l l' \<Longrightarrow> sound_grants l \<Longrightarrow> sound_grants l'"
  by (induction rule: post.induct) (auto simp: sound_grants_def on_order_def)

lemma posts_sound: "post\<^sup>*\<^sup>* l l' \<Longrightarrow> sound_grants l \<Longrightarrow> sound_grants l'"
  by (induction rule: rtranclp_induct) (auto intro: post_sound)

text \<open>The codes of the orders and the audit book hold no secrets.\<close>

definition clean_ledger :: "ledger \<Rightarrow> bool" where
  "clean_ledger l \<longleftrightarrow> (\<forall>e \<in> set (lg_orders l). \<not> has_link (oe_code e)) \<and>
     (\<forall>a \<in> set (lg_audits l). clean_event a)"

lemma fit_clean: "fit_event l a \<Longrightarrow> clean_ledger l \<Longrightarrow> clean_event a"
  unfolding fit_event_def clean_ledger_def clean_event_def by (fastforce simp del: has_link.simps)

lemma post_clean: "post l l' \<Longrightarrow> clean_ledger l \<Longrightarrow> clean_ledger l'"
proof (induction rule: post.induct)
  case (audit a l)
  with fit_clean [of l a] show ?case by (auto simp: clean_ledger_def)
qed (auto simp: clean_ledger_def)

lemma posts_clean: "post\<^sup>*\<^sup>* l l' \<Longrightarrow> clean_ledger l \<Longrightarrow> clean_ledger l'"
  by (induction rule: rtranclp_induct) (auto intro: post_clean)

lemma clean_fit: "clean_event a \<Longrightarrow> fit_event l a"
  unfolding fit_event_def clean_event_def by fastforce

subsection \<open>The ledger of a database\<close>

definition order_entry_of :: "order \<Rightarrow> order_entry" where
  "order_entry_of r = \<lparr>oe_id = ord_id r, oe_code = ord_code r, oe_customer = ord_user_id r,
     oe_server = ord_server_id r, oe_plan = ord_product_id r, oe_renews = ord_renews r,
     oe_price = ord_price_amount r, oe_currency = ord_currency r, oe_placed_at = ord_created_at r\<rparr>"

definition grant_of :: "subscription \<Rightarrow> grant_entry" where
  "grant_of s = \<lparr>ge_id = sub_id s, ge_order = sub_order_id s, ge_customer = sub_user_id s,
     ge_server = sub_server_id s, ge_plan = sub_product_id s, ge_starts_at = sub_starts_at s\<rparr>"

definition customer_of :: "user \<Rightarrow> uuid \<times> int" where
  "customer_of u = (user_id u, user_telegram_id u)"

definition job_entry :: "job \<Rightarrow> uuid \<times> job_type \<times> uuid \<times> json_object" where
  "job_entry j = (job_id j, job_job_type j, job_aggregate_id j, job_payload j)"

definition ticket_entry :: "ticket \<Rightarrow> uuid \<times> string \<times> uuid" where
  "ticket_entry t = (tck_id t, tck_code t, tck_user_id t)"

definition books :: "db \<Rightarrow> ledger" where
  "books d = \<lparr>lg_customers = map customer_of (users d), lg_orders = map order_entry_of (orders d),
     lg_grants = map grant_of (subs d), lg_jobs = map job_entry (jobs d),
     lg_notices = notifications d, lg_tickets = map ticket_entry (tickets d),
     lg_messages = messages d, lg_audits = audits d\<rparr>"

definition evolves :: "db \<Rightarrow> db \<Rightarrow> bool" where
  "evolves d d' \<longleftrightarrow> (db_unique d \<longrightarrow> db_unique d' \<and> post\<^sup>*\<^sup>* (books d) (books d'))"

lemma evolves_refl: "evolves d d"
  by (simp add: evolves_def)

lemma evolves_trans: "evolves a b \<Longrightarrow> evolves b c \<Longrightarrow> evolves a c"
  by (auto simp: evolves_def)

text \<open>The entry of a row, by the columns it holds.\<close>

lemma entry_keys [simp]:
  "oe_id (order_entry_of r) = ord_id r" "oe_code (order_entry_of r) = ord_code r"
  "oe_customer (order_entry_of r) = ord_user_id r" "oe_server (order_entry_of r) = ord_server_id r"
  "oe_plan (order_entry_of r) = ord_product_id r"
  "ge_id (grant_of s) = sub_id s" "ge_order (grant_of s) = sub_order_id s"
  "ge_customer (grant_of s) = sub_user_id s" "ge_server (grant_of s) = sub_server_id s"
  "ge_plan (grant_of s) = sub_product_id s"
  "fst (customer_of u) = user_id u" "snd (customer_of u) = user_telegram_id u"
  "fst (job_entry j) = job_id j"
  "fst (ticket_entry t) = tck_id t" "fst (snd (ticket_entry t)) = tck_code t"
  by (simp_all add: order_entry_of_def grant_of_def customer_of_def job_entry_def ticket_entry_def)

subsection \<open>Single writes\<close>

named_theorems evolving \<open>writes that evolve the database\<close>

text \<open>Adding a row that passes the constraints is one posting.\<close>

lemma evolves_post: "db_unique d' \<Longrightarrow> post (books d) (books d') \<Longrightarrow> evolves d d'"
  by (simp add: evolves_def r_into_rtranclp)

lemma add_user: "db_unique (users_update (\<lambda>us. us @ [u]) d) \<Longrightarrow>
    evolves d (users_update (\<lambda>us. us @ [u]) d)"
  using post.customer [of "customer_of u" "books d"]
  by (intro evolves_post) (auto simp: books_def db_unique_def image_image)

lemma add_order: "db_unique (orders_update (\<lambda>rs. rs @ [r]) d) \<Longrightarrow> \<not> has_link (ord_code r) \<Longrightarrow>
    evolves d (orders_update (\<lambda>rs. rs @ [r]) d)"
  using post.order [of "order_entry_of r" "books d"]
  by (intro evolves_post) (auto simp: books_def db_unique_def image_image)

lemma add_sub: "db_unique (subs_update (\<lambda>ss. ss @ [s]) d) \<Longrightarrow> on_order (books d) (grant_of s) \<Longrightarrow>
    evolves d (subs_update (\<lambda>ss. ss @ [s]) d)"
  using post.grant [of "grant_of s" "books d"]
  by (intro evolves_post) (auto simp: books_def db_unique_def image_image)

lemma add_job: "db_unique (jobs_update (\<lambda>js. js @ [j]) d) \<Longrightarrow>
    evolves d (jobs_update (\<lambda>js. js @ [j]) d)"
  using post.job [of "job_entry j" "books d"]
  by (intro evolves_post) (auto simp: books_def db_unique_def image_image)

lemma add_notice: "db_unique (notifications_update (\<lambda>ns. ns @ [n]) d) \<Longrightarrow>
    evolves d (notifications_update (\<lambda>ns. ns @ [n]) d)"
  using post.notice [of n "books d"]
  by (intro evolves_post) (auto simp: books_def db_unique_def)

lemma add_ticket: "db_unique (tickets_update (\<lambda>ts. ts @ [t]) d) \<Longrightarrow>
    evolves d (tickets_update (\<lambda>ts. ts @ [t]) d)"
  using post.ticket [of "ticket_entry t" "books d"]
  by (intro evolves_post) (auto simp: books_def db_unique_def image_image)

lemma add_message_row: "db_unique (messages_update (\<lambda>ms. ms @ [m]) d) \<Longrightarrow>
    evolves d (messages_update (\<lambda>ms. ms @ [m]) d)"
  using post.message [of m "books d"]
  by (intro evolves_post) (auto simp: books_def db_unique_def)

lemma add_event:
  "db_unique (add_audit e d) \<Longrightarrow> fit_event (books d) e \<Longrightarrow> evolves d (add_audit e d)"
  using post.audit [of e "books d"]
  by (intro evolves_post) (auto simp: books_def db_unique_def add_audit_def)

text \<open>An update that keeps the columns of the entry posts nothing.\<close>

lemma evolves_same: "books d' = books d \<Longrightarrow> db_unique d' = db_unique d \<Longrightarrow> evolves d d'"
  by (simp add: evolves_def)

lemma update_user:
  "(\<And>u. customer_of (f u) = customer_of u) \<Longrightarrow> evolves d (upd_user i f d)"
  by (rule evolves_same) (simp_all add: books_def map_update_row customer_of_def unique_simps)

lemma update_order:
  "(\<And>r. order_entry_of (f r) = order_entry_of r) \<Longrightarrow> evolves d (upd_order i f d)"
  by (rule evolves_same) (simp_all add: books_def map_update_row order_entry_of_def unique_simps)

lemma update_sub:
  assumes "\<And>s. grant_of (f s) = grant_of s"
    "\<And>s. sub_peer_external_id (f s) = sub_peer_external_id s"
    "\<And>s. sub_peer_label (f s) = sub_peer_label s"
  shows "evolves d (upd_sub i f d)"
  using assms
  by (intro evolves_same) (simp_all add: books_def map_update_row grant_of_def unique_simps)

lemma update_job:
  "(\<And>j. job_entry (f j) = job_entry j) \<Longrightarrow> evolves d (upd_job i f d)"
  by (rule evolves_same) (simp_all add: books_def map_update_row job_entry_def unique_simps)

lemma update_ticket:
  "(\<And>t. ticket_entry (f t) = ticket_entry t) \<Longrightarrow> evolves d (upd_ticket i f d)"
  by (rule evolves_same) (simp_all add: books_def map_update_row ticket_entry_def unique_simps)

lemma update_server:
  "(\<And>s. srv_id (f s) = srv_id s) \<Longrightarrow> (\<And>s. srv_slug (f s) = srv_slug s) \<Longrightarrow>
   evolves d (upd_server i f d)"
  by (rule evolves_same) (simp_all add: books_def unique_simps)

lemma update_product:
  "(\<And>p. prod_id (f p) = prod_id p) \<Longrightarrow> (\<And>p. prod_code (f p) = prod_code p) \<Longrightarrow>
   evolves d (upd_product i f d)"
  by (rule evolves_same) (simp_all add: books_def unique_simps)

text \<open>Catalogue rows are not in the ledger.\<close>

lemma evolves_catalogue: "books d' = books d \<Longrightarrow> db_unique d' \<Longrightarrow> evolves d d'"
  by (simp add: evolves_def)

subsection \<open>The operations of the repositories\<close>

lemma order_code_no_link: "\<not> has_link (generate_order_code ds)"
proof (rule no_colon_no_link)
  have "order_code_alphabet ! (n mod length order_code_alphabet) \<in> set order_code_alphabet" for n
    by (rule nth_mem) (simp add: order_code_alphabet_def)
  moreover have "CHR '':'' \<notin> set order_code_alphabet"
    by (simp add: order_code_alphabet_def)
  ultimately have "CHR '':'' \<noteq> order_code_alphabet ! (n mod length order_code_alphabet)" for n
    by metis
  then show "CHR '':'' \<notin> set (generate_order_code ds)"
    unfolding generate_order_code_def by (auto simp only: set_append set_map) simp_all
qed

lemma create_order_evolves:
  "create_order now oid ds u srv p price cur ins ren d = Inr (r, d') \<Longrightarrow> evolves d d'"
  using order_code_no_link
  by (auto simp: create_order_def Let_def res_simps new_order_def intro!: add_order)

lemma submit_receipt_evolves:
  "submit_receipt i f m c t note now d = (x, d') \<Longrightarrow> evolves d d'"
  by (auto simp: submit_receipt_def evolves_refl with_receipt_def order_entry_of_def
      intro!: update_order split: option.splits)

lemma enqueue_evolves:
  "enqueue_job now jid ty at ai pl av d = Inr (j, d') \<Longrightarrow> evolves d d'"
  by (auto simp: enqueue_job_def Let_def res_simps intro: add_job)

lemma record_event_evolves: "record_event now aid a tg ev ent ei meta d = Inr d' \<Longrightarrow> evolves d d'"
  by (auto simp: record_event_eq_Inr intro: add_event clean_fit sanitized_clean)

lemma notification_evolves:
  "create_notification_if_not_exists i u ty k so d = Inr (x, d') \<Longrightarrow> evolves d d'"
  by (auto simp: create_notification_eq_Inr evolves_refl intro: add_notice split: if_splits)

lemma mark_evolves:
  "evolves d (snd (mark_disabled i t d))" "evolves d (snd (mark_removed i t d))"
  "evolves d (snd (increment_redelivery_count i d))"
  by (auto simp: mark_disabled_def mark_removed_def increment_redelivery_count_def evolves_refl
      disabled_def removed_def redelivered_def grant_of_def intro!: update_sub
      split: option.split)

lemma mark_active_evolves: "mark_active sid e l d = Inr (x, d') \<Longrightarrow> evolves d d'"
  by (auto simp: mark_active_def res_simps evolves_refl books_def map_update_row grant_of_def
      activated_def intro!: evolves_catalogue split: option.splits)

text \<open>A loaded row that is written back whole.\<close>

lemma map_replace_row:
  "distinct (map key rs) \<Longrightarrow> find_row key i rs = Some s \<Longrightarrow> g s' = g s \<Longrightarrow>
   map g (update_row key i (\<lambda>_. s') rs) = map g rs"
  by (induction rs) (auto simp: update_row_idle split: if_splits)

lemma extend_evolves: "extend_subscription i n now d = Inr (x, d') \<Longrightarrow> evolves d d'"
proof (cases "get_sub i d")
  case (Some s)
  assume "extend_subscription i n now d = Inr (x, d')"
  then obtain s' where s': "extended n now s = Inr s'" and d': "d' = upd_sub i (\<lambda>_. s') d"
    using Some by (auto simp: extend_subscription_def res_simps)
  have same: "g s' = g s" if "\<And>r. g (r\<lparr>sub_expires_at := sub_expires_at s'\<rparr>) = g r"
    "\<And>r. g (r\<lparr>sub_expires_at := sub_expires_at s', sub_status := ACTIVE,
       sub_disabled_at := None\<rparr>) = g r" for g :: "subscription \<Rightarrow> 'g"
    using s' that by (auto simp: extended_def Let_def res_simps split: if_splits)
  have maps: "map g (subs d') = map g (subs d)"
    if "db_unique d" "g s' = g s" for g :: "subscription \<Rightarrow> 'g"
    using map_replace_row [OF subs_tab.unique_key [OF that(1)] Some that(2)] by (simp add: d')
  show ?thesis
    unfolding evolves_def
  proof
    assume u: "db_unique d"
    have g: "grant_of s' = grant_of s"
      by (rule same) (simp_all add: grant_of_def)
    have "books d' = books d"
      using maps [OF u g] by (simp add: books_def d')
    moreover have "db_unique d'"
      using u maps [OF u same, of sub_id] maps [OF u same, of sub_order_id]
        maps [OF u same, of sub_peer_external_id] maps [OF u same, of sub_peer_label]
      by (simp add: db_unique_def d')
    ultimately show "db_unique d' \<and> post\<^sup>*\<^sup>* (books d) (books d')"
      by simp
  qed
qed (simp add: extend_subscription_def evolves_refl)

text \<open>The events \<open>order_repo.py\<close> enters past the audit repository: their keys name no secret, and
  their texts are the code of the order, ids, and the reason of a rejection.\<close>

lemma plain_keys:
  "\<not> secret_key ''order_code''" "\<not> secret_key ''subscription_id''"
  "\<not> secret_key ''renewed_subscription_id''" "\<not> secret_key ''days_added''"
  "\<not> secret_key ''reason''"
  by (simp_all add: names_secret_def secret_terms_def py_lower_def py_lower_char_def flip: names_secret_iff)

lemma uuid_no_link: "\<not> has_link (uuid_str u)"
proof -
  have "hex_val (CHR '':'') = None" by (simp add: hex_val_def)
  with uuid_text_str [of u] show ?thesis
    by (intro no_colon_no_link) (auto simp: uuid_text_def is_hex_char_def list_all_iff)
qed

lemma order_events_fit:
  assumes "ord_code r \<in> oe_code ` set (lg_orders l)"
  shows "fit_event l (approval_audit now aid admin r sid)"
    "fit_event l (renewal_audit now aid admin r sid days)"
    "(\<And>t. reason = Some t \<Longrightarrow> \<not> has_link t) \<Longrightarrow> fit_event l (rejection_audit now aid admin r reason)"
  using assms uuid_no_link plain_keys
  by (auto simp: fit_event_def approval_audit_def renewal_audit_def rejection_audit_def new_audit_def
      split: option.split)

lemma code_booked:
  assumes "r \<in> set (orders d)" "map order_entry_of (orders d') = map order_entry_of (orders d)"
  shows "ord_code r \<in> oe_code ` set (lg_orders (books d'))"
proof -
  have "order_entry_of r \<in> set (lg_orders (books d'))"
    using assms by (simp add: books_def)
  from imageI [OF this, of oe_code] show ?thesis by simp
qed

lemma approve_new_evolves:
  assumes "approve_new now sid jid aid r srv days admin d = Inr (x, d')" "r \<in> set (orders d)"
  shows "evolves d d'"
proof -
  let ?d1 = "upd_order (ord_id r) (\<lambda>q. (reviewed admin now q)\<lparr>ord_status := O_PROVISIONING\<rparr>) d"
  define d2 where "d2 = (\<lambda>t. subs_update (\<lambda>ss. ss @ [new_subscription now sid r t]) ?d1)"
  define d3 where "d3 = (\<lambda>t. jobs_update (\<lambda>js. js @ [create_peer_job now jid sid r srv days]) (d2 t))"
  obtain t where 1: "db_unique (d2 t)" and 2: "db_unique d'"
    and d': "d' = add_audit (approval_audit now aid admin r sid) (d3 t)"
    using assms(1) by (auto simp: approve_new_def Let_def res_simps d2_def d3_def)
  have e1: "evolves d ?d1"
    by (rule update_order) (simp add: order_entry_of_def reviewed_def)
  have "map order_entry_of (orders ?d1) = map order_entry_of (orders d)"
    by (simp add: map_update_row order_entry_of_def reviewed_def)
  then have "order_entry_of r \<in> set (lg_orders (books ?d1))"
    using assms(2) by (simp add: books_def)
  then have "on_order (books ?d1) (grant_of (new_subscription now sid r t))"
    unfolding on_order_def by (rule rev_bexI) (simp add: new_subscription_def)
  from add_sub [OF 1 [unfolded d2_def] this] have e2: "evolves ?d1 (d2 t)"
    by (simp add: d2_def)
  have "db_unique (d3 t)"
    using 2 by (simp add: d' db_unique_def)
  then have "evolves (d2 t) (d3 t)"
    unfolding d3_def by (rule add_job)
  moreover have "ord_code r \<in> oe_code ` set (lg_orders (books (d3 t)))"
    by (rule code_booked [OF assms(2)])
      (simp add: d3_def d2_def map_update_row order_entry_of_def reviewed_def)
  from add_event [OF 2 [unfolded d'] order_events_fit(1) [OF this]] have "evolves (d3 t) d'"
    by (simp add: d')
  ultimately show ?thesis
    using e1 e2 by (blast intro: evolves_trans)
qed

lemma approve_renewal_evolves:
  assumes "approve_renewal now jid aid r s days admin d = Inr ((s', jo), d')" "r \<in> set (orders d)"
  shows "evolves d d'"
proof -
  define d2 where "d2 = (\<lambda>t. upd_order (ord_id r)
      (\<lambda>q. (reviewed admin now q)\<lparr>ord_status := FULFILLED\<rparr>) (upd_sub (sub_id s) (renewed_row t) d))"
  define d3 where "d3 = (\<lambda>t. case jo of None \<Rightarrow> d2 t | Some j \<Rightarrow> jobs_update (\<lambda>js. js @ [j]) (d2 t))"
  obtain t where d': "d' = add_audit (renewal_audit now aid admin r (sub_id s) days) (d3 t)"
    and u: "db_unique d'"
    using assms(1) by (auto simp: approve_renewal_def Let_def res_simps d2_def d3_def split: if_splits)
  have "evolves d (upd_sub (sub_id s) (renewed_row t) d)"
    by (rule update_sub) (simp_all add: renewed_row_def grant_of_def)
  moreover have "evolves (upd_sub (sub_id s) (renewed_row t) d) (d2 t)"
    unfolding d2_def by (rule update_order) (simp add: order_entry_of_def reviewed_def)
  moreover have u3: "db_unique (d3 t)"
    using u by (simp add: d' db_unique_def)
  then have "evolves (d2 t) (d3 t)"
    by (cases jo) (simp_all add: d3_def evolves_refl add_job)
  moreover have "ord_code r \<in> oe_code ` set (lg_orders (books (d3 t)))"
    by (rule code_booked [OF assms(2)])
      (simp add: d3_def d2_def map_update_row order_entry_of_def reviewed_def split: option.split)
  from add_event [OF u [unfolded d'] order_events_fit(2) [OF this]] have "evolves (d3 t) d'"
    by (simp add: d')
  ultimately show ?thesis
    by (blast intro: evolves_trans)
qed

lemma approve_evolves:
  assumes "approve_order_atomic now sid jid aid oid admin d = Inr (x, d')"
  shows "evolves d d'"
proof -
  obtain ok so jo where x: "x = (ok, so, jo)" by (cases x) auto
  from assms [unfolded x] show ?thesis
  proof (cases rule: approve_cases)
    case created
    then show ?thesis
      using approve_new_evolves find_row_Some by metis
  next
    case renewed
    then show ?thesis
      using approve_renewal_evolves find_row_Some by metis
  qed (simp add: evolves_refl)
qed

text \<open>The reason is stored as it is given, so it has to be clean.\<close>

lemma reject_evolves:
  assumes "reject_order now aid oid admin reason d = Inr (x, d')"
    and "\<And>t. reason = Some t \<Longrightarrow> \<not> has_link t"
  shows "evolves d d'"
proof (cases "\<exists>r. get_order oid d = Some r \<and> ord_status r \<notin> set approved_statuses")
  case True
  then obtain r where r: "get_order oid d = Some r" "ord_status r \<notin> set approved_statuses" by blast
  let ?d1 = "upd_order oid (rejected_row admin now reason) d"
  have d': "d' = add_audit (rejection_audit now aid admin r reason) ?d1" "db_unique d'"
    using assms(1) r by (auto simp: reject_order_def res_simps Let_def)
  have e: "order_entry_of (rejected_row admin now reason q) = order_entry_of q" for q
    by (simp add: order_entry_of_def rejected_row_def reviewed_def)
  have "ord_code r \<in> oe_code ` set (lg_orders (books ?d1))"
    using find_row_Some [OF r(1)] by (intro code_booked) (simp_all add: map_update_row e)
  from add_event [OF d'(2) [unfolded d'(1)] order_events_fit(3) [OF this assms(2)]]
  have "evolves ?d1 d'" by (simp add: d'(1))
  moreover have "evolves d ?d1" by (rule update_order) (rule e)
  ultimately show ?thesis by (blast intro: evolves_trans)
next
  case False
  with assms(1) show ?thesis
    by (auto simp: reject_order_def evolves_refl split: option.splits)
qed

lemma create_ticket_evolves:
  assumes "create_ticket now tid mid ds u sj c tg d = Inr (x, d')"
  shows "evolves d d'"
  using assms
  by (auto simp: create_ticket_def Let_def res_simps intro: add_ticket
      evolves_trans [OF add_ticket add_message_row] split: if_splits)

lemma add_message_evolves:
  assumes "add_message mid tid sd tg c ch mg d = Inr (x, d')"
  shows "evolves d d'"
proof -
  let ?d1 = "messages_update (\<lambda>ms. ms @ [new_message mid tid sd tg c ch mg]) d"
  have d': "d' = upd_ticket tid (answered sd) ?d1" and "db_unique d'"
    using assms by (auto simp: add_message_def Let_def res_simps)
  then have "db_unique ?d1"
    by (simp add: unique_simps)
  from add_message_row [OF this] have "evolves d ?d1" .
  moreover have "evolves ?d1 d'"
    unfolding d' by (rule update_ticket) (simp add: ticket_entry_def)
  ultimately show ?thesis
    by (rule evolves_trans)
qed

lemma close_ticket_evolves: "close_ticket tid now d = (x, d') \<Longrightarrow> evolves d d'"
  by (auto simp: close_ticket_def evolves_refl ticket_entry_def closed_def
      intro!: update_ticket split: option.splits)

lemma upsert_evolves: "upsert_user now uid tg un fn ln lc d = Inr (x, d') \<Longrightarrow> evolves d d'"
  by (auto simp: upsert_user_def Let_def res_simps customer_of_def
      intro: add_user intro!: update_user split: option.splits)

lemma job_entry_kept [simp]:
  "job_entry (requeued now j) = job_entry j" "job_entry (complete_job now j) = job_entry j"
  "job_entry (fail_job m r n now j) = job_entry j" "job_entry (lock_job w now j) = job_entry j"
  by (simp_all add: job_entry_def requeued_def complete_job_def fail_job_def lock_job_def Let_def)

lemma job_marks_evolve:
  "evolves d (requeue i now d)" "evolves d (snd (mark_completed i now d))"
  "evolves d (snd (mark_failed i m r n now d))"
  by (auto simp: requeue_def mark_completed_def mark_failed_def evolves_refl intro!: update_job
      split: option.split)

lemma claim_each_evolves: "claim_each w now is d = (x, d') \<Longrightarrow> evolves d d'"
proof (induction w now "is" d arbitrary: x d' rule: claim_each.induct)
  case (2 w now i "is" d)
  obtain ok d1 where 1: "claim_one i w now d = (ok, d1)" by force
  obtain ys where r: "claim_each w now is d1 = (ys, d')"
    using 2(2) 1 by (auto simp: Let_def split: prod.splits)
  let ?g = "\<lambda>j. if claim_matches i now j then lock_job w now j else j"
  have "evolves d (jobs_update (map ?g) d)"
    by (rule evolves_same) (simp_all add: books_def db_unique_def o_def if_distrib cong: if_cong)
  moreover have "d1 = jobs_update (map ?g) d"
    using 1 by (simp add: claim_one_def)
  ultimately have "evolves d d1" by simp
  with 2(1) [OF 1 [symmetric] refl r] show ?case by (blast intro: evolves_trans)
qed (simp add: evolves_refl)

lemma claim_evolves: "evolves d (snd (claim_pending_jobs w n now d))"
  by (auto simp: claim_pending_jobs_def Let_def split: prod.split dest: claim_each_evolves)

lemma init_data_evolves:
  assumes "init_data mode cs ps d = Inr d'"
  shows "evolves d d'"
proof -
  have srv: "evolves d d'" if "create_or_update_server i slug a d = Inr (x, d')" for i slug a x d d'
    using that by (auto simp: create_or_update_server_def Let_def res_simps books_def
        intro: evolves_catalogue intro!: update_server split: option.splits)
  have prd: "evolves d d'" if "create_or_update_product i code a d = Inr (x, d')" for i code a x d d'
    using that by (auto simp: create_or_update_product_def Let_def res_simps books_def
        update_product_def intro: evolves_catalogue intro!: update_product split: option.splits)
  have "evolves d d'" if "sync_servers mode cs d = Inr d'" for d d'
    using that by (induction mode cs d rule: sync_servers.induct)
      (auto simp: res_simps evolves_refl intro: evolves_trans srv)
  moreover have "evolves d d'" if "seed_products qs d = Inr d'" for d d' qs
    using that by (induction qs d rule: seed_products.induct)
      (auto simp: res_simps evolves_refl intro: evolves_trans prd)
  ultimately show ?thesis
    using assms by (auto simp: init_data_def bind_res_eq_Inr split: if_splits) (blast intro: evolves_trans)
qed

end
