(* ===== verification/Bot_System.thy ===== *)
theory Bot_System
  imports Ledger Dispatch Worker Scheduler Order_Review
begin

section \<open>The whole system\<close>

text \<open>
  The bot, the worker and the scheduler on one database, as a step relation: an update served by
  the bot, a poll of the worker, the parts of a poll (claiming jobs, running one job), which
  updates and checks may come between, the three checks of the scheduler, and a restart of the
  bot. The locale \<open>commit_frame\<close> lifts a relation between databases to
  handlers, which change rows and commit; interpreted on \<open>evolves\<close> it gives that every step
  refines postings to the ledger, and from there the invariants of every reachable state.
\<close>

subsection \<open>Handlers that change and commit\<close>

locale commit_frame = session_frame
begin

text \<open>The rows as changed so far, and as last committed, both move along the relation.\<close>

definition carries :: "chat \<Rightarrow> chat \<Rightarrow> bool" where
  "carries c c' \<longleftrightarrow> Q (ch_db c) (ch_db c') \<and>
     (Q (ch_saved c) (ch_db c) \<longrightarrow> Q (ch_saved c) (ch_saved c') \<and> Q (ch_saved c') (ch_db c'))"

end

sublocale commit_frame \<subseteq> handler: chat_frame carries
proof unfold_locales
  show "carries c c" for c
    by (simp add: carries_def Q_refl)
  show "carries c (c\<lparr>ch_out := os\<rparr>)" for c os
    by (simp add: carries_def Q_refl)
  show "carries a b \<Longrightarrow> carries b c \<Longrightarrow> carries a c" for a b c
    unfolding carries_def by (blast intro: Q_trans)
qed

context commit_frame
begin

lemma handler_change: "(\<And>d x d'. f d = (x, d') \<Longrightarrow> Q d d') \<Longrightarrow> handler.keeps (change f)"
  unfolding handler.keeps_def change_def carries_def
  by (auto split: prod.split) (blast intro: Q_refl Q_trans)+

lemma handler_try:
  "(\<And>d x d'. f d = Inr (x, d') \<Longrightarrow> Q d d') \<Longrightarrow> handler.keeps (try_change f)"
  unfolding handler.keeps_def try_change_def carries_def
  by (auto simp: Q_refl split: sum.split prod.split) (blast intro: Q_refl Q_trans)+

lemma handler_commit: "handler.keeps commit"
  by (simp add: handler.keeps_def commit_def carries_def Q_refl)

lemma handler_memory:
  "handler.keeps (set_state s)" "handler.keeps (update_data kvs)" "handler.keeps clear_state"
  by (simp_all add: handler.keeps_def set_state_def update_data_def clear_state_def carries_def
      Q_refl)

lemma handler_if: "handler.keeps m \<Longrightarrow> handler.keeps n \<Longrightarrow> handler.keeps (if b then m else n)"
  by simp

lemma handler_let: "(\<And>x. handler.keeps (f x)) \<Longrightarrow> handler.keeps (Let v f)"
  by simp

lemma handler_pair:
  "(\<And>a b. handler.keeps (f a b)) \<Longrightarrow> handler.keeps (case p of (a, b) \<Rightarrow> f a b)"
  by (simp split: prod.split)

lemma handler_option:
  "handler.keeps m \<Longrightarrow> (\<And>v. handler.keeps (f v)) \<Longrightarrow>
   handler.keeps (case x of None \<Rightarrow> m | Some v \<Rightarrow> f v)"
  by (simp split: option.split)

lemmas handler_rules = handler.keeps_bind handler.keeps_reading handler.keeps_state_value
  handler.keeps_find_or handler_if handler_let handler_pair handler_option
  handler.keeps_calls handler_commit handler_memory

end

subsection \<open>Every step of a handler evolves the database\<close>

interpretation evolution: commit_frame evolves
  by unfold_locales (auto intro: evolves_refl evolves_trans)

named_theorems kept \<open>handlers and helpers that evolve the database\<close>

lemma rejection_no_link: "\<not> has_link rejection_reason"
  by (rule no_colon_no_link) (simp add: rejection_reason_def)

lemma writes_kept [kept]:
  "evolution.handler.keeps (try_change (create_order now oid ds u srv p price cur ins ren))"
  "evolution.handler.keeps (change (submit_receipt i f m c t note now))"
  "evolution.handler.keeps (try_change (enqueue_job now jid ty at ai pl av))"
  "evolution.handler.keeps (try_change (approve_order_atomic now sid jid aid oid admin))"
  "evolution.handler.keeps (try_change (reject_order now aid oid admin (Some rejection_reason)))"
  "evolution.handler.keeps (try_change (extend_subscription i n now))"
  "evolution.handler.keeps (try_change (create_ticket now tid mid ds u sj ct tg))"
  "evolution.handler.keeps (try_change (add_message mid tid sd tg ct ch mg))"
  "evolution.handler.keeps (change (close_ticket tid now))"
  by (rule evolution.handler_try evolution.handler_change;
      erule create_order_evolves submit_receipt_evolves enqueue_evolves approve_evolves
        reject_evolves extend_evolves create_ticket_evolves add_message_evolves
        close_ticket_evolves; use rejection_no_link in simp)+

lemma row_writes_kept [kept]:
  "evolution.handler.keeps (change (\<lambda>d. ((), upd_user i (with_language l) d)))"
  "evolution.handler.keeps (change (\<lambda>d. ((), upd_user i (block_user b) d)))"
  "evolution.handler.keeps (change (\<lambda>d. ((), upd_server i toggled d)))"
  "evolution.handler.keeps (change (\<lambda>d. ((), requeue jid now d)))"
  by (rule evolution.handler_change;
      auto simp: customer_of_def with_language_def block_user_def toggled_def job_marks_evolve
        intro!: update_user update_server)+

lemma audit_kept [kept]: "evolution.handler.keeps (audit_admin cx n a ev ent i meta)"
  unfolding audit_admin_def
  by (rule evolution.handler_try) (auto simp: bind_res_eq_Inr intro: record_event_evolves)

lemma helpers_kept [kept]:
  "evolution.handler.keeps (tell_customer cx uid note)"
  "evolution.handler.keeps (annotate cx mm t)"
  "evolution.handler.keeps (start_order cx u q srv p ren)"
  "evolution.handler.keeps (sub_missing cx u)"
  unfolding tell_customer_def annotate_def start_order_def sub_missing_def
  by (intro evolution.handler_rules kept)+

lemma guard_kept [kept]:
  "evolution.handler.keeps k \<Longrightarrow> evolution.handler.keeps (admin_press cx q k)"
  "evolution.handler.keeps k \<Longrightarrow> evolution.handler.keeps (admin_post cx m k)"
  "(\<And>tg. evolution.handler.keeps (h tg)) \<Longrightarrow> evolution.handler.keeps (with_target cx m us h)"
  unfolding admin_press_def admin_post_def with_target_def
  by (intro evolution.handler_rules | assumption)+

lemma customer_menus_kept [kept]:
  "evolution.handler.keeps (cmd_start cx u)"
  "evolution.handler.keeps (callback_main_menu cx u q)"
  "evolution.handler.keeps (callback_menu_buy cx u q)"
  "evolution.handler.keeps (callback_select_server cx u q)"
  "evolution.handler.keeps (callback_cancel_order cx u q)"
  "evolution.handler.keeps (cmd_my_vpn cx u)"
  "evolution.handler.keeps (callback_menu_subs cx u q)"
  "evolution.handler.keeps (callback_view_subscription cx u q)"
  "evolution.handler.keeps (callback_renew_subscription cx u q)"
  "evolution.handler.keeps (cmd_language cx)"
  "evolution.handler.keeps (callback_menu_language cx q)"
  "evolution.handler.keeps (callback_unhandled cx u)"
  unfolding cmd_start_def callback_main_menu_def callback_menu_buy_def callback_select_server_def
    callback_cancel_order_def cmd_my_vpn_def callback_menu_subs_def
    callback_view_subscription_def callback_renew_subscription_def cmd_language_def
    callback_menu_language_def callback_unhandled_def
  by (intro evolution.handler_rules kept)+

lemma customer_writes_kept [kept]:
  "evolution.handler.keeps (callback_select_plan cx u q)"
  "evolution.handler.keeps (callback_select_renewal_plan cx u q)"
  "evolution.handler.keeps (handle_receipt_upload cx u m)"
  "evolution.handler.keeps (callback_redeliver_subscription cx u q)"
  "evolution.handler.keeps (callback_set_language cx u q)"
  unfolding callback_select_plan_def callback_select_renewal_plan_def handle_receipt_upload_def
    callback_redeliver_subscription_def callback_set_language_def
  by (intro evolution.handler_rules kept)+

lemma support_kept [kept]:
  "evolution.handler.keeps (cmd_support cx u)"
  "evolution.handler.keeps (callback_menu_support cx u q)"
  "evolution.handler.keeps (handle_support_message cx u m)"
  "evolution.handler.keeps (callback_admin_open_tickets cx q)"
  "evolution.handler.keeps (callback_admin_reply_ticket cx q)"
  "evolution.handler.keeps (handle_admin_ticket_reply cx m)"
  "evolution.handler.keeps (callback_admin_close_ticket cx q)"
  unfolding cmd_support_def callback_menu_support_def handle_support_message_def file_message_def
    open_ticket_def add_to_ticket_def callback_admin_open_tickets_def
    callback_admin_reply_ticket_def handle_admin_ticket_reply_def callback_admin_close_ticket_def
  by (intro evolution.handler_rules kept)+

lemma review_kept [kept]:
  "evolution.handler.keeps (callback_admin_pending_orders cx q)"
  "evolution.handler.keeps (callback_admin_approve_order cx q)"
  "evolution.handler.keeps (callback_admin_reject_order cx q)"
  unfolding callback_admin_pending_orders_def callback_admin_approve_order_def approve_step_def
    announce_approval_def callback_admin_reject_order_def announce_rejection_def
  by (intro evolution.handler_rules kept)+

lemma servers_kept [kept]: "evolution.handler.keeps (cmd_admin_servers cx ev)"
  unfolding cmd_admin_servers_def
  by (cases ev) (simp_all add: Let_def evolution.handler_rules)

lemma admin_kept [kept]:
  "evolution.handler.keeps (cmd_admin_dashboard cx m)"
  "evolution.handler.keeps (callback_admin_back cx q)"
  "evolution.handler.keeps (callback_admin_toggle_server cx q)"
  "evolution.handler.keeps (cmd_admin_products cx m)"
  "evolution.handler.keeps (cmd_admin_user_lookup cx m)"
  "evolution.handler.keeps (cmd_admin_block_user cx m)"
  "evolution.handler.keeps (cmd_admin_unblock_user cx m)"
  "evolution.handler.keeps (cmd_admin_extend cx m)"
  "evolution.handler.keeps (cmd_retry cx m)"
  "evolution.handler.keeps (cmd_audit cx m)"
  unfolding cmd_admin_dashboard_def callback_admin_back_def callback_admin_toggle_server_def
    cmd_admin_products_def cmd_admin_user_lookup_def cmd_admin_block_user_def
    cmd_admin_unblock_user_def set_block_def cmd_admin_extend_def extend_step_def
    enable_again_def cmd_retry_def cmd_audit_def
  by (intro evolution.handler_rules kept)+

lemma retry_kept [kept]: "evolution.handler.keeps (callback_retry cx q)"
proof -
  have one: "evolution.handler.keeps (retry_one cx n a j)" for n a j
    unfolding retry_one_def requeue_job_def requeue_audit_def
    by (intro evolution.handler_rules kept)
  have "evolution.handler.keeps (retry_each cx n a js)" for n a js
    by (induction js arbitrary: n)
      (auto intro!: evolution.handler_rules one)
  then show ?thesis
    unfolding callback_retry_def by (intro evolution.handler_rules kept)
qed

lemma handle_kept: "evolution.handler.keeps (handle cx cmd u ev)"
proof -
  have p: "evolution.handler.keeps (run_press cx u q h)" for q h
    by (cases h) (simp_all add: kept)
  have m: "evolution.handler.keeps (run_post cx u m h)" for m h
    by (cases h) (simp_all add: kept)
  show ?thesis
    unfolding evolution.handler.keeps_def handle_def
    using p m evolution.handler.keeps_pure(1)
    by (auto simp: evolution.handler.keeps_def split: event.split option.split)
qed

lemma with_user_evolves: "evolves (bt_db b) (bt_db (with_user cx cmd sn ev b))"
proof (cases "known_user cx sn ev (bt_db b)")
  case (Inr p)
  obtain u d where p: "p = (u, d)" by force
  have d: "evolves (bt_db b) d"
    using Inr p by (auto simp: known_user_def intro: upsert_evolves)
  have "evolves d (ch_saved (snd (handle cx cmd u ev (open_chat ev d b))))"
    using evolution.handler.keepsD [OF handle_kept, of "open_chat ev d b"]
    by (simp add: evolution.carries_def open_chat_def evolves_refl)
  with d Inr p show ?thesis
    by (auto simp: with_user_def close_chat_def intro: evolves_refl evolves_trans)
qed (simp add: with_user_def evolves_refl)

lemma serve_evolves: "evolves (bt_db b) (bt_db (serve cx cmd sn ev b))"
proof -
  obtain ok b1 where t: "throttle_event cx ev b = (ok, b1)" by force
  then have "bt_db b1 = bt_db b"
    by (auto simp: throttle_event_def split: event.splits prod.splits)
  with with_user_evolves [of b1] t show ?thesis
    by (auto simp: serve_def evolves_refl split: bool.split event.split)
qed

subsection \<open>Jobs and checks\<close>

interpretation job_evolution: job_writes evolves
  by unfold_locales (auto intro: record_event_evolves mark_active_evolves mark_evolves
      intro!: update_order update_sub
      simp: order_entry_of_def with_order_status_def grant_of_def with_delivery_def)

interpretation check_evolution: check_writes evolves
  by unfold_locales (auto intro: notification_evolves add_job simp: flush_eq_Inr)

lemma run_job_evolves: "evolves (s_db s) (s_db (run_job env now aid jid s))"
proof -
  obtain r s1 where p: "process_job env now aid (get_job jid (s_db s)) s = (r, s1)" by force
  show ?thesis
  proof (cases r)
    case (Inr x)
    with p job_evolution.process_keeps [OF p] show ?thesis
      by (simp add: run_job_Inr) (blast intro: evolves_trans job_marks_evolve)
  next
    case (Inl e)
    with p show ?thesis
      by (simp add: run_job_Inl(1) job_marks_evolve)
  qed
qed

lemma run_jobs_evolve: "evolves (s_db s) (s_db (run_jobs env clock aids is s))"
  by (induction "is" arbitrary: s) (auto intro: evolves_refl evolves_trans run_job_evolves)

lemma batch_evolves:
  assumes "run_single_batch env n now clock aids s = (k, t)"
  shows "evolves (s_db s) (s_db t)"
proof -
  obtain js d where c: "claim_pending_jobs (we_worker_id env) n now (s_db s) = (js, d)" by force
  have "evolves (s_db s) d"
    using claim_evolves [of "s_db s" "we_worker_id env" n now] c by simp
  moreover have "evolves d (s_db t)"
    using assms c run_jobs_evolve [of "s\<lparr>s_db := d\<rparr>"] by (auto simp: run_single_batch_def)
  ultimately show ?thesis by (rule evolves_trans)
qed

subsection \<open>Steps of the system\<close>

record 'p system =
  sy_bot :: bot
  sy_peers :: 'p

definition sy_db :: "'p system \<Rightarrow> db" where
  "sy_db s = bt_db (sy_bot s)"

definition with_db :: "db \<Rightarrow> 'p system \<Rightarrow> 'p system" where
  "with_db d s = s\<lparr>sy_bot := (sy_bot s)\<lparr>bt_db := d\<rparr>\<rparr>"

definition job_session :: "'p system \<Rightarrow> 'p session" where
  "job_session s = \<lparr>s_db = sy_db s, s_peers = sy_peers s, s_out = []\<rparr>"

definition check_session :: "'p system \<Rightarrow> unit session" where
  "check_session s = \<lparr>s_db = sy_db s, s_peers = (), s_out = []\<rparr>"

text \<open>A restart seeds the database again; an error of the seeding is caught. Conversations and
  throttling tables are in memory.\<close>

definition restarted ::
  "provisioner_mode \<Rightarrow> (uuid \<times> server_config) list \<Rightarrow> uuid list \<Rightarrow> bot \<Rightarrow> bot" where
  "restarted mode cs pids b =
     \<lparr>bt_db = (case init_data mode cs pids (bt_db b) of Inl e \<Rightarrow> bt_db b | Inr d \<Rightarrow> d),
      bt_talks = (\<lambda>_. (None, Map.empty)), bt_posts = [], bt_presses = [], bt_out = bt_out b\<rparr>"

text \<open>The settings, the clock, the fresh ids, Telegram, the provisioner may be others at every
  step.\<close>

inductive sys_step :: "'p system \<Rightarrow> 'p system \<Rightarrow> bool" where
  update: "sys_step s (s\<lparr>sy_bot := serve cx cmd sn ev (sy_bot s)\<rparr>)"
| claim: "sys_step s (with_db (snd (claim_pending_jobs w n now (sy_db s))) s)"
| run: "t = run_job env now aid jid (job_session s) \<Longrightarrow>
     sys_step s ((with_db (s_db t) s)\<lparr>sy_peers := s_peers t\<rparr>)"
| poll: "run_single_batch env n now clock aids (job_session s) = (k, t) \<Longrightarrow>
     sys_step s ((with_db (s_db t) s)\<lparr>sy_peers := s_peers t\<rparr>)"
| remind: "check_expiring_subscriptions env now nids (check_session s) = (r, t) \<Longrightarrow>
     sys_step s (with_db (s_db t) s)"
| expire: "check_expired_subscriptions env now jids nids (check_session s) = (r, t) \<Longrightarrow>
     sys_step s (with_db (s_db t) s)"
| cleanup: "cleanup_removed_peers env now jids (check_session s) = (r, t) \<Longrightarrow>
     sys_step s (with_db (s_db t) s)"
| restart: "sys_step s (s\<lparr>sy_bot := restarted mode cs pids (sy_bot s)\<rparr>)"

definition fresh_system :: "'p \<Rightarrow> 'p system" where
  "fresh_system p =
     \<lparr>sy_bot = \<lparr>bt_db = empty_db, bt_talks = (\<lambda>_. (None, Map.empty)), bt_posts = [],
        bt_presses = [], bt_out = []\<rparr>, sy_peers = p\<rparr>"

lemma with_db_fields [simp]:
  "sy_db (with_db d s) = d" "sy_peers (with_db d s) = sy_peers s"
  "sy_db (s\<lparr>sy_peers := p\<rparr>) = sy_db s" "s_db (job_session s) = sy_db s"
  "s_db (check_session s) = sy_db s" "s_peers (job_session s) = sy_peers s"
  "sy_db (s\<lparr>sy_bot := b\<rparr>) = bt_db b" "bt_db (sy_bot s) = sy_db s"
  by (simp_all add: with_db_def sy_db_def job_session_def check_session_def)

lemma step_evolves: "sys_step s s' \<Longrightarrow> evolves (sy_db s) (sy_db s')"
proof (induction rule: sys_step.induct)
  case (update s cx cmd sn ev)
  show ?case using serve_evolves [of "sy_bot s"] by simp
next
  case (run t env now aid jid s)
  then show ?case using run_job_evolves [of "job_session s"] by simp
next
  case (poll env n now clock aids s k t)
  from batch_evolves [OF poll] show ?case by simp
next
  case (remind env now nids s r t)
  from evolution.keepsD [OF check_evolution.checks_keep(1) remind] show ?case by simp
next
  case (expire env now jids nids s r t)
  from evolution.keepsD [OF check_evolution.checks_keep(2) expire] show ?case by simp
next
  case (cleanup env now jids s r t)
  from evolution.keepsD [OF check_evolution.checks_keep(3) cleanup] show ?case by simp
next
  case (restart s mode cs pids)
  show ?case
    by (auto simp: restarted_def evolves_refl intro: init_data_evolves split: sum.split)
qed (simp add: claim_evolves)

lemma steps_evolve: "sys_step\<^sup>*\<^sup>* s s' \<Longrightarrow> evolves (sy_db s) (sy_db s')"
  by (induction rule: rtranclp_induct) (auto intro: evolves_refl evolves_trans step_evolves)

subsection \<open>Properties of the system\<close>

text \<open>C1. Whatever the bot, the worker and the scheduler do, in any order and with any answers of
  Telegram and of the VPN servers, the database only moves by postings of the ledger: each
  step is, on the abstract side, a sequence of additions that satisfy the rules of their books
  (fresh keys; a grant on an order of its own; audit events without secrets), and it keeps the
  UNIQUE constraints.\<close>

theorem steps_refine_ledger:
  assumes "sys_step s s'" "db_unique (sy_db s)"
  shows "post\<^sup>*\<^sup>* (books (sy_db s)) (books (sy_db s')) \<and> db_unique (sy_db s')"
  using step_evolves [OF assms(1)] assms(2) by (simp add: evolves_def)

text \<open>A well-formed database: the constraints hold, and every subscription is for an order that is
  there, of the same customer, server and plan.\<close>

definition well_formed :: "db \<Rightarrow> bool" where
  "well_formed d \<longleftrightarrow> db_unique d \<and>
     (\<forall>x \<in> set (subs d). \<exists>r. get_order (sub_order_id x) d = Some r \<and>
        ord_user_id r = sub_user_id x \<and> ord_server_id r = sub_server_id x \<and>
        ord_product_id r = sub_product_id x)"

lemma well_formed_ledger: "well_formed d \<longleftrightarrow> db_unique d \<and> sound_grants (books d)"
proof (cases "db_unique d")
  case True
  have "(\<exists>r. get_order i d = Some r \<and> P r) \<longleftrightarrow> (\<exists>r \<in> set (orders d). ord_id r = i \<and> P r)" for i P
    using orders_tab.find_row_iff [OF True] by auto
  moreover have "sound_grants (books d) \<longleftrightarrow> (\<forall>x \<in> set (subs d). on_order (books d) (grant_of x))"
    using True by (simp add: sound_grants_def books_def db_unique_def o_def)
  ultimately show ?thesis
    using True by (simp add: well_formed_def on_order_def books_def)
qed (simp add: well_formed_def)

text \<open>C2. Well-formedness is the type of the database: the empty database the system starts from
  has it, and every state reached from one that has it, by any sequence of updates, polls,
  checks and restarts, has it again. SQLite checks no foreign key here; the code does.\<close>

theorem well_formed_kept:
  assumes "sys_step\<^sup>*\<^sup>* s s'" "well_formed (sy_db s)"
  shows "well_formed (sy_db s') \<and> well_formed (sy_db (fresh_system p))"
proof
  from steps_evolve [OF assms(1)] assms(2) show "well_formed (sy_db s')"
    using posts_sound by (auto simp: well_formed_ledger evolves_def)
  show "well_formed (sy_db (fresh_system p))"
    by (simp add: well_formed_def fresh_system_def sy_db_def db_unique_empty)
      (simp add: empty_db_def)
qed

text \<open>C3. History is kept: once an order is in the database, its code, customer, server, plan,
  price, currency and time stay as they were placed through any further steps; and the audit
  log, the messages of the tickets and the notices already sent stay, in their order.\<close>

theorem history_kept:
  assumes "sys_step\<^sup>*\<^sup>* s s'" "db_unique (sy_db s)"
    and "get_order i (sy_db s) = Some r"
  shows "(\<exists>r'. get_order i (sy_db s') = Some r' \<and> order_entry_of r' = order_entry_of r) \<and>
    (\<exists>es ms ns. audits (sy_db s') = audits (sy_db s) @ es \<and>
       messages (sy_db s') = messages (sy_db s) @ ms \<and>
       notifications (sy_db s') = notifications (sy_db s) @ ns)"
proof -
  from steps_evolve [OF assms(1)] assms(2) have u: "db_unique (sy_db s')"
    and "post\<^sup>*\<^sup>* (books (sy_db s)) (books (sy_db s'))"
    by (simp_all add: evolves_def)
  from posts_extend [OF this(2)] have e: "extends_ledger (books (sy_db s)) (books (sy_db s'))" .
  then obtain es ms ns where "audits (sy_db s') = audits (sy_db s) @ es"
    "messages (sy_db s') = messages (sy_db s) @ ms"
    "notifications (sy_db s') = notifications (sy_db s) @ ns"
    by (auto simp: extends_ledger_def appended_def books_def)
  moreover have "order_entry_of ` set (orders (sy_db s)) \<subseteq> order_entry_of ` set (orders (sy_db s'))"
    using appended_set [of "lg_orders (books (sy_db s))" "lg_orders (books (sy_db s'))"] e
    by (simp add: extends_ledger_def books_def)
  then have "order_entry_of r \<in> order_entry_of ` set (orders (sy_db s'))"
    using find_row_Some [OF assms(3)] by blast
  then obtain r' where r': "r' \<in> set (orders (sy_db s'))" "order_entry_of r' = order_entry_of r"
    by auto
  have "ord_id r' = i"
    using arg_cong [OF r'(2), of oe_id] find_row_Some [OF assms(3)] by simp
  then have "get_order i (sy_db s') = Some r'"
    using r'(1) by (simp add: orders_tab.find_row_iff [OF u])
  ultimately show ?thesis
    using r'(2) by blast
qed

text \<open>The witnesses: an administrator approves the order of the sample database.\<close>

definition system_on :: "db \<Rightarrow> 'p \<Rightarrow> 'p system" where
  "system_on d p =
     \<lparr>sy_bot = \<lparr>bt_db = d, bt_talks = (\<lambda>_. (None, Map.empty)), bt_posts = [], bt_presses = [],
        bt_out = []\<rparr>, sy_peers = p\<rparr>"

abbreviation review_system :: "unit system" where
  "review_system \<equiv> system_on order_db ()"

abbreviation job_system :: "mock_state system" where
  "job_system \<equiv> system_on job_db \<lparr>mk_peers = [], mk_calls = 0\<rparr>"

lemma system_on_db [simp]: "sy_db (system_on d p) = d"
  by (simp add: system_on_def sy_db_def)

definition approved_system :: "unit system" where
  "approved_system = review_system\<lparr>sy_bot := serve sample_ctx (\<lambda>_. None)
     \<lparr>sn_first_name = None, sn_last_name = None, sn_language = None\<rparr> (Pressed review_press)
     (sy_bot review_system)\<rparr>"

lemma approved_step: "sys_step review_system approved_system"
  unfolding approved_system_def by (rule sys_step.update)

theorem steps_refine_ledger_witness:
  "post\<^sup>*\<^sup>* (books order_db) (books (sy_db approved_system)) \<and> db_unique (sy_db approved_system)"
  using steps_refine_ledger [OF approved_step] order_db_unique by simp

theorem well_formed_kept_witness:
  "sub_id sample_sub = 6 \<and> sample_sub \<in> set (subs job_db) \<and>
   (case run_single_batch sample_env 10 40 (\<lambda>_. 41) (\<lambda>_. 95) (job_session job_system) of
      (k, t) \<Rightarrow> well_formed (s_db t))"
proof -
  obtain k t where p: "run_single_batch sample_env 10 40 (\<lambda>_. 41) (\<lambda>_. 95) (job_session job_system)
    = (k, t)" by force
  have "well_formed (sy_db job_system)"
    by (simp add: well_formed_def job_db_unique) (simp add: sample_db_defs)
  from well_formed_kept [where p = "()", OF r_into_rtranclp [of sys_step, OF sys_step.poll [OF p]] this]
  have "well_formed (s_db t)" by simp
  moreover have "sub_id sample_sub = 6 \<and> sample_sub \<in> set (subs job_db)"
    by (simp add: sample_db_defs)
  ultimately show ?thesis
    by (simp add: p)
qed

theorem history_kept_witness:
  "\<exists>r'. get_order 4 (sy_db approved_system) = Some r' \<and> ord_price_amount r' = 500"
proof -
  have r: "get_order 4 (sy_db review_system) = Some sample_order"
    by (simp add: sample_db_defs)
  have u: "db_unique (sy_db review_system)"
    by (simp add: order_db_unique)
  obtain r' where "get_order 4 (sy_db approved_system) = Some r'"
    "order_entry_of r' = order_entry_of sample_order"
    using history_kept [OF r_into_rtranclp [of sys_step, OF approved_step] u r] by blast
  moreover from this have "ord_price_amount r' = ord_price_amount sample_order"
    using arg_cong [of _ _ oe_price] by (fastforce simp: order_entry_of_def)
  ultimately show ?thesis
    by (simp add: sample_order_def)
qed

end
