(* ===== verification/Reconciliation.thy ===== *)
theory Reconciliation
  imports Bot_Samples Provisioner "HOL-Library.List_Lexorder" "HOL-Library.Char_ord"
begin

section \<open>Reconciliation and health\<close>

text \<open>
  \<open>src/app/utils/reconciliation.py\<close> compares the active subscriptions of a server with the peers
  of its provisioner, and \<open>src/app/utils/health.py\<close> asks the database for a sign of life. The
  lemmas: the report splits both sides without overlap, and which provisioners it can read.
\<close>

subsection \<open>The report\<close>

record reconciliation_report =
  rr_server_slug :: string
  rr_total_db_active :: nat
  rr_total_server_peers :: nat
  rr_matched_peers :: "string list"
  rr_missing_on_server :: "string list"
  rr_orphaned_on_server :: "string list"

text \<open>The attributes of a provisioner the function looks for: \<open>_peers\<close>, else \<open>peers\<close>.\<close>

type_synonym peer_attributes = "string list option \<times> string list option"

definition peer_keys :: "peer_attributes \<Rightarrow> string list" where
  "peer_keys attrs =
     (case attrs of
        (Some ks, _) \<Rightarrow> remdups ks
      | (None, Some ks) \<Rightarrow> remdups ks
      | (None, None) \<Rightarrow> [])"

text \<open>The mock keeps its peers in \<open>_peers\<close>; \<open>VpnctlProvisioner\<close> has neither attribute.\<close>

definition mock_attributes :: "mock_state \<Rightarrow> peer_attributes" where
  "mock_attributes m = (Some (map fst (mk_peers m)), None)"

definition vpnctl_attributes :: peer_attributes where
  "vpnctl_attributes = (None, None)"

definition active_peer_ids :: "uuid \<Rightarrow> db \<Rightarrow> string list" where
  "active_peer_ids sid d =
     remdups (concat (map (\<lambda>s. case sub_peer_external_id s of
         None \<Rightarrow> [] | Some p \<Rightarrow> if p = [] then [] else [p])
       (filter (\<lambda>s. sub_server_id s = sid \<and> sub_status s = ACTIVE) (subs d))))"

definition reconcile_server_peers ::
  "db \<Rightarrow> string \<Rightarrow> peer_attributes \<Rightarrow> exn + reconciliation_report" where
  "reconcile_server_peers d slug attrs =
     (case find_row srv_slug slug (servers d) of
        None \<Rightarrow> Inl ValueError
      | Some srv \<Rightarrow>
          (let db_ids = active_peer_ids (srv_id srv) d; server_ids = peer_keys attrs
           in Inr \<lparr>rr_server_slug = slug, rr_total_db_active = length db_ids,
                rr_total_server_peers = length server_ids,
                rr_matched_peers = sort (filter (\<lambda>p. p \<in> set server_ids) db_ids),
                rr_missing_on_server = sort (filter (\<lambda>p. p \<notin> set server_ids) db_ids),
                rr_orphaned_on_server = sort (filter (\<lambda>p. p \<notin> set db_ids) server_ids)\<rparr>))"

lemma active_peer_ids_set:
  "set (active_peer_ids sid d) =
     {p. p \<noteq> [] \<and> (\<exists>s \<in> set (subs d). sub_server_id s = sid \<and> sub_status s = ACTIVE \<and>
        sub_peer_external_id s = Some p)}"
  by (auto simp: active_peer_ids_def split: option.splits if_splits) (metis option.inject)

text \<open>A report splits the two sides: the matched and the missing are the peers of the active
  subscriptions of the server, the matched and the orphaned those of the provisioner, the three
  lists are sorted, without repetition and without a common member, and the totals count them.\<close>

theorem reconcile_splits:
  assumes "reconcile_server_peers d slug attrs = Inr rep"
  shows "(\<exists>srv. find_row srv_slug slug (servers d) = Some srv \<and>
      set (rr_matched_peers rep) \<union> set (rr_missing_on_server rep) =
        {p. p \<noteq> [] \<and> (\<exists>s \<in> set (subs d). sub_server_id s = srv_id srv \<and>
           sub_status s = ACTIVE \<and> sub_peer_external_id s = Some p)}) \<and>
    set (rr_matched_peers rep) \<union> set (rr_orphaned_on_server rep) = set (peer_keys attrs) \<and>
    sorted (rr_matched_peers rep) \<and> sorted (rr_missing_on_server rep) \<and>
    sorted (rr_orphaned_on_server rep) \<and>
    distinct (rr_matched_peers rep @ rr_missing_on_server rep @ rr_orphaned_on_server rep) \<and>
    rr_total_db_active rep = length (rr_matched_peers rep) + length (rr_missing_on_server rep) \<and>
    rr_total_server_peers rep = length (rr_matched_peers rep) + length (rr_orphaned_on_server rep)"
proof -
  obtain srv where srv: "find_row srv_slug slug (servers d) = Some srv"
    using assms by (auto simp: reconcile_server_peers_def split: option.splits)
  let ?db = "active_peer_ids (srv_id srv) d" and ?pv = "peer_keys attrs"
  have rep: "rr_matched_peers rep = sort (filter (\<lambda>p. p \<in> set ?pv) ?db)"
    "rr_missing_on_server rep = sort (filter (\<lambda>p. p \<notin> set ?pv) ?db)"
    "rr_orphaned_on_server rep = sort (filter (\<lambda>p. p \<notin> set ?db) ?pv)"
    "rr_total_db_active rep = length ?db" "rr_total_server_peers rep = length ?pv"
    using assms srv by (auto simp: reconcile_server_peers_def Let_def)
  have dist: "distinct ?db" "distinct ?pv"
    by (auto simp: active_peer_ids_def peer_keys_def split: prod.split option.split)
  have "length (filter (\<lambda>p. p \<in> set ?db) ?pv) = length (filter (\<lambda>p. p \<in> set ?pv) ?db)"
    using dist by (simp only: distinct_card [OF distinct_filter, symmetric])
      (rule arg_cong [of _ _ card], auto)
  then have "length ?pv = length (rr_matched_peers rep) + length (rr_orphaned_on_server rep)"
    using sum_length_filter_compl [of "\<lambda>p. p \<in> set ?db" ?pv] by (simp add: rep)
  moreover have "length ?db = length (rr_matched_peers rep) + length (rr_missing_on_server rep)"
    using sum_length_filter_compl [of "\<lambda>p. p \<in> set ?pv" ?db] by (simp add: rep)
  moreover have "set (rr_matched_peers rep) \<union> set (rr_missing_on_server rep) = set ?db"
    "set (rr_matched_peers rep) \<union> set (rr_orphaned_on_server rep) = set ?pv"
    by (auto simp: rep)
  moreover have "distinct (rr_matched_peers rep @ rr_missing_on_server rep @ rr_orphaned_on_server rep)"
    using dist by (auto simp: rep)
  ultimately show ?thesis
    using srv by (simp add: rep active_peer_ids_set)
qed

text \<open>Run on the provisioner of a deployment the report calls every peer missing.\<close>

lemma vpnctl_all_missing:
  assumes "find_row srv_slug slug (servers d) = Some srv"
  shows "\<exists>rep. reconcile_server_peers d slug vpnctl_attributes = Inr rep \<and>
    rr_missing_on_server rep = sort (active_peer_ids (srv_id srv) d) \<and>
    rr_matched_peers rep = [] \<and> rr_orphaned_on_server rep = []"
  using assms by (simp add: reconcile_server_peers_def Let_def vpnctl_attributes_def peer_keys_def)

theorem reconcile_splits_witness:
  "\<exists>rep. reconcile_server_peers sub_db ''de-1''
       (mock_attributes \<lparr>mk_peers = [], mk_calls = 0\<rparr>) = Inr rep \<and>
     set (rr_matched_peers rep) \<union> set (rr_orphaned_on_server rep) = {} \<and>
     rr_missing_on_server rep = [''p6'']"
proof -
  let ?a = "mock_attributes \<lparr>mk_peers = [], mk_calls = 0\<rparr>"
  obtain rep where r: "reconcile_server_peers sub_db ''de-1'' ?a = Inr rep"
    and m: "rr_missing_on_server rep = [''p6'']"
    by (simp add: reconcile_server_peers_def Let_def mock_attributes_def peer_keys_def
        active_peer_ids_def sample_db_defs)
  from reconcile_splits [OF r] have
    "set (rr_matched_peers rep) \<union> set (rr_orphaned_on_server rep) = set (peer_keys ?a)" by blast
  with r m show ?thesis
    by (simp add: mock_attributes_def peer_keys_def)
qed

subsection \<open>Health\<close>

text \<open>The answer to \<open>SELECT 1\<close>: its value, or the text of the exception.\<close>

record health =
  he_status :: string
  he_db_healthy :: bool
  he_error :: "string option"

definition check_system_health :: "string + int \<Rightarrow> health" where
  "check_system_health answer =
     (let healthy = (answer = Inr 1)
      in \<lparr>he_status = (if healthy then ''ok'' else ''degraded''), he_db_healthy = healthy,
          he_error = (case answer of Inl e \<Rightarrow> Some e | Inr _ \<Rightarrow> None)\<rparr>)"

lemma health_ok: "he_status (check_system_health a) = ''ok'' \<longleftrightarrow> a = Inr 1"
  by (simp add: check_system_health_def Let_def)

end
