(* ===== verification/Db_Session.thy ===== *)
theory Db_Session
  imports Bot_Db
begin

section \<open>Engine, session factory and transactions\<close>

text \<open>
  \<open>src/app/db/session.py\<close>: the process keeps one engine and one session factory in two module
  globals, made on first use, and \<open>get_db_session\<close> runs a block in a transaction. The URL of the
  settings stands for the settings, and the dialect SQLAlchemy reads from a URL is a parameter.
  The lemmas: the engine is made once, from the settings of the first call, and an exception
  leaves the database as it was.
\<close>

subsection \<open>The two globals\<close>

record db_engine =
  en_url :: string
  en_wal :: bool

record db_globals =
  gl_engine :: "db_engine option"
  gl_sessionmaker :: "db_engine option"

text \<open>\<open>create_async_engine\<close>, and the connect listener for SQLite.\<close>

definition make_engine :: "(string \<Rightarrow> string) \<Rightarrow> string \<Rightarrow> db_engine" where
  "make_engine dialect url = \<lparr>en_url = url, en_wal = (dialect url = ''sqlite'')\<rparr>"

text \<open>The settings given, or those of \<open>get_settings\<close>.\<close>

definition get_engine ::
  "(string \<Rightarrow> string) \<Rightarrow> string \<Rightarrow> string option \<Rightarrow> db_globals \<Rightarrow> db_engine \<times> db_globals" where
  "get_engine dialect configured given g =
     (case gl_engine g of
        Some e \<Rightarrow> (e, g)
      | None \<Rightarrow>
          (let e = make_engine dialect (case given of None \<Rightarrow> configured | Some u \<Rightarrow> u)
           in (e, g\<lparr>gl_engine := Some e\<rparr>)))"

definition get_session_factory ::
  "(string \<Rightarrow> string) \<Rightarrow> string \<Rightarrow> string option \<Rightarrow> db_globals \<Rightarrow> db_engine \<times> db_globals" where
  "get_session_factory dialect configured given g =
     (case gl_sessionmaker g of
        Some e \<Rightarrow> (e, g)
      | None \<Rightarrow>
          (case get_engine dialect configured given g of
             (e, g1) \<Rightarrow> (e, g1\<lparr>gl_sessionmaker := Some e\<rparr>)))"

definition dispose_engine :: "db_globals \<Rightarrow> db_globals" where
  "dispose_engine g =
     (if gl_engine g \<noteq> None then g\<lparr>gl_engine := None, gl_sessionmaker := None\<rparr> else g)"

definition no_globals :: db_globals where
  "no_globals = \<lparr>gl_engine = None, gl_sessionmaker = None\<rparr>"

text \<open>The factory is bound to the engine, whichever of the two was asked for first.\<close>

definition bound :: "db_globals \<Rightarrow> bool" where
  "bound g \<longleftrightarrow> (\<forall>e. gl_sessionmaker g = Some e \<longrightarrow> gl_engine g = Some e)"

lemma globals_bound:
  "bound no_globals" "bound g \<Longrightarrow> bound (snd (get_engine dia conf given g))"
  "bound g \<Longrightarrow> bound (snd (get_session_factory dia conf given g))"
  "bound g \<Longrightarrow> bound (dispose_engine g)"
  by (auto simp: bound_def no_globals_def get_engine_def get_session_factory_def dispose_engine_def
      Let_def split: option.splits)

lemma engine_made_once:
  "fst (get_engine dia conf given' (snd (get_engine dia conf given g))) = fst (get_engine dia conf given g)"
  by (auto simp: get_engine_def Let_def split: option.splits)

subsection \<open>A transaction\<close>

text \<open>\<open>get_db_session\<close>: the block on the rows, then the commit, which flushes what is pending; any
  exception rolls back and goes on.\<close>

definition get_db_session :: "(db \<Rightarrow> exn + 'a \<times> db) \<Rightarrow> db \<Rightarrow> (exn + 'a) \<times> db" where
  "get_db_session block d =
     (case block d of
        Inl e \<Rightarrow> (Inl e, d)
      | Inr (x, d1) \<Rightarrow>
          (case flush d1 of Inl e \<Rightarrow> (Inl e, d) | Inr d2 \<Rightarrow> (Inr x, d2)))"

lemma session_all_or_nothing:
  assumes "get_db_session block d = (r, d')"
  shows "(case r of Inl e \<Rightarrow> d' = d | Inr x \<Rightarrow> block d = Inr (x, d') \<and> db_unique d')"
  using assms by (auto simp: get_db_session_def flush_eq_Inr split: sum.splits prod.splits)

end
