(* ===== verification/Texts.thy ===== *)
theory Texts
  imports Bot_Ui
begin

section \<open>Texts with their fields\<close>

text \<open>
  \<open>STRINGS\<close> and \<open>get_text\<close> of \<open>src/app/bot/locales/strings.py\<close>: each key has an English and a Farsi
  template, kept as its pieces, wording (\<open>W\<close>) and the fields between braces. \<open>str.format\<close> raises
  \<open>KeyError\<close> for a field that is not among the arguments, and \<open>get_text\<close> then falls back to the
  template as it is, braces included; without arguments it does not format at all, and an
  unknown key is shown as it is. A text is \<open>complete\<close> when none of this happens, in it or in
  its arguments.
\<close>

datatype piece = W | F string

type_synonym template = "piece list"

definition strings_shop :: "(string \<times> template \<times> template) list" where
  "strings_shop =
     [(''welcome'', [W], [W]),
      (''btn_buy_vpn'', [W], [W]),
      (''btn_my_subs'', [W], [W]),
      (''btn_support'', [W], [W]),
      (''btn_cancel'', [W], [W]),
      (''btn_back'', [W], [W]),
      (''select_server'', [W], [W]),
      (''select_plan'', [W, F ''server_name'', W], [W, F ''server_name'', W]),
      (''order_created'',
       [W, F ''order_code'', W, F ''server_name'', W, F ''plan_title'', W, F ''price'', W,
        F ''currency'', W, F ''instructions'', W],
       [W, F ''order_code'', W, F ''server_name'', W, F ''plan_title'', W, F ''price'', W,
        F ''currency'', W, F ''instructions'', W]),
      (''receipt_received'', [W, F ''order_code'', W], [W, F ''order_code'', W]),
      (''order_cancelled'', [W], [W]),
      (''no_subscriptions'', [W], [W]),
      (''subscription_detail'',
       [W, F ''server_name'', W, F ''status'', W, F ''expires_at'', W, F ''label'', W],
       [W, F ''server_name'', W, F ''status'', W, F ''expires_at'', W, F ''label'', W]),
      (''btn_language'', [W], [W]),
      (''choose_language'', [W], [W]),
      (''no_servers'', [W], [W]),
      (''your_subscriptions'', [W], [W]),
      (''btn_download_config'', [W], [W]),
      (''btn_redeliver'', [W], [W]),
      (''btn_renew'', [W], [W]),
      (''btn_reactivate'', [W], [W]),
      (''subscription_default_label'', [W], [W]),
      (''status_provisioning'', [W], [W]),
      (''status_active'', [W], [W]),
      (''status_expired'', [W], [W]),
      (''status_disabled'', [W], [W]),
      (''status_failed'', [W], [W]),
      (''status_revoked'', [W], [W]),
      (''server_not_found'', [W], [W]),
      (''server_full'', [W], [W]),
      (''server_unavailable'', [W], [W]),
      (''invalid_selection'', [W], [W]),
      (''subscription_not_found'', [W], [W]),
      (''redelivery_limit'', [W, F ''limit'', W], [W, F ''limit'', W])]"

definition strings_status :: "(string \<times> template \<times> template) list" where
  "strings_status =
     [(''redelivery_queued'', [W], [W]),
      (''button_expired'', [W], [W]),
      (''support_prompt'', [W], [W]),
      (''support_received'', [W, F ''ticket_code'', W], [W, F ''ticket_code'', W]),
      (''support_reply'',
       [W, F ''ticket_code'', W, F ''body'', W],
       [W, F ''ticket_code'', W, F ''body'', W]),
      (''ticket_closed'', [W, F ''ticket_code'', W], [W, F ''ticket_code'', W]),
      (''payment_approved'', [W, F ''order_code'', W], [W, F ''order_code'', W]),
      (''renewal_of'', [W, F ''label'', W], [W, F ''label'', W]),
      (''payment_approved_renewal'',
       [W, F ''label'', W, F ''expires_at'', W],
       [W, F ''label'', W, F ''expires_at'', W]),
      (''usage'',
       [W, F ''total'', W, F ''down'', W, F ''up'', W, F ''last_seen''],
       [W, F ''total'', W, F ''down'', W, F ''up'', W, F ''last_seen'']),
      (''usage_unavailable'', [W], [W]),
      (''never_connected'', [W], [W]),
      (''just_now'', [W], [W]),
      (''minutes_ago'', [F ''n'', W], [F ''n'', W]),
      (''hours_ago'', [F ''n'', W], [F ''n'', W]),
      (''payment_rejected'', [W, F ''order_code'', W], [W, F ''order_code'', W]),
      (''config_ready'',
       [W, F ''server_name'', W, F ''expires_at'', W],
       [W, F ''server_name'', W, F ''expires_at'', W]),
      (''config_redelivery'', [W, F ''server_name'', W], [W, F ''server_name'', W]),
      (''vpn_key'', [W, F ''vpn_url'', W], [W, F ''vpn_url'', W]),
      (''expiring_soon'',
       [W, F ''server_name'', W, F ''expires_at'', W, F ''days'', W],
       [W, F ''server_name'', W, F ''expires_at'', W, F ''days'', W]),
      (''expired'', [W, F ''server_name'', W], [W, F ''server_name'', W]),
      (''rate_limited'', [W], [W]),
      (''blocked_user'', [W], [W])]"

definition string_table :: "(string \<times> template \<times> template) list" where
  "string_table = strings_shop @ strings_status"

subsection \<open>Rendering\<close>

datatype rendering =
    Unknown_Key string
  | As_Is template
  | Formatted "arg option list"

fun format_piece :: "(string \<times> arg) list \<Rightarrow> piece \<Rightarrow> arg option option" where
  "format_piece args W = Some None"
| "format_piece args (F f) = map_option Some (map_of args f)"

definition format_template :: "template \<Rightarrow> (string \<times> arg) list \<Rightarrow> arg option list option" where
  "format_template t args = those (map (format_piece args) t)"

definition rendered :: "string \<Rightarrow> string \<Rightarrow> (string \<times> arg) list \<Rightarrow> rendering" where
  "rendered key lang args =
     (case map_of string_table key of
        None \<Rightarrow> Unknown_Key key
      | Some (en, fa) \<Rightarrow>
          (let t = (if lang = ''fa'' then fa else en)
           in if args = [] then As_Is t
              else case format_template t args of None \<Rightarrow> As_Is t | Some ps \<Rightarrow> Formatted ps))"

definition is_field :: "piece \<Rightarrow> bool" where
  "is_field p = (p \<noteq> W)"

fun left_open :: "rendering \<Rightarrow> bool" where
  "left_open (Unknown_Key k) = True"
| "left_open (As_Is t) = list_ex is_field t"
| "left_open (Formatted ps) = False"

fun complete_arg :: "arg \<Rightarrow> bool" and complete :: "msg_text \<Rightarrow> bool" where
  "complete_arg (Plain s) = True"
| "complete_arg (Fa_Country c) = True"
| "complete_arg (Fa_Plan m n d) = True"
| "complete_arg (Text_Arg t) = complete t"
| "complete (Txt key lang args) =
     (\<not> left_open (rendered key lang args) \<and> (\<forall>(k, a) \<in> set args. complete_arg a))"
| "complete (Lit s args) = (\<forall>(k, a) \<in> set args. complete_arg a)"
| "complete (Joined s t) = (complete s \<and> complete t)"

fun complete_out :: "out \<Rightarrow> bool" where
  "complete_out (Answer t kb) = complete t"
| "complete_out (Toast t) = complete t"
| "complete_out Ack = True"
| "complete_out (Show t kb) = complete t"
| "complete_out (Edit t) = complete t"
| "complete_out (Send c t kb) = complete t"
| "complete_out (Send_File c f n t kb) = complete t"
| "complete_out (Send_Media c k f t kb) = complete t"

definition complete_log :: "(out \<times> 'r) list \<Rightarrow> bool" where
  "complete_log os = list_all (\<lambda>(m, a). complete_out m) os"

subsection \<open>Deciding completeness\<close>

fun supplied :: "(string \<times> arg) list \<Rightarrow> piece \<Rightarrow> bool" where
  "supplied args W = True"
| "supplied args (F f) = (f \<in> fst ` set args)"

lemma those_None: "those xs = None \<longleftrightarrow> None \<in> set xs"
  by (induction xs) (auto split: option.splits)

lemma piece_fails: "format_piece args p = None \<longleftrightarrow> \<not> supplied args p"
  by (cases p) (auto simp: map_of_eq_None_iff)

lemma format_fails: "format_template t args = None \<longleftrightarrow> \<not> list_all (supplied args) t"
proof -
  have "None \<in> format_piece args ` set t \<longleftrightarrow> (\<exists>p \<in> set t. format_piece args p = None)"
    by (metis (mono_tags) image_iff)
  then show ?thesis
    by (simp add: format_template_def those_None list_all_iff piece_fails)
qed

lemma field_open: "list_ex is_field t \<longleftrightarrow> \<not> list_all (supplied []) t"
proof -
  have "is_field p \<longleftrightarrow> \<not> supplied [] p" for p
    by (cases p) (auto simp: is_field_def)
  then show ?thesis by (simp add: list_ex_iff list_all_iff)
qed

lemma complete_get_text [simp]:
  "complete (get_text key l args) \<longleftrightarrow>
     (case map_of string_table key of
        None \<Rightarrow> False
      | Some (en, fa) \<Rightarrow>
          list_all (supplied args) (if normalize_lang l = ''fa'' then fa else en) \<and>
          (\<forall>(k, a) \<in> set args. complete_arg a))"
proof (cases "map_of string_table key")
  case None
  then show ?thesis by (simp add: get_text_def rendered_def)
next
  case (Some p)
  obtain en fa where p: "p = (en, fa)" by force
  let ?t = "if normalize_lang l = ''fa'' then fa else en"
  have "left_open (rendered key (normalize_lang l) args) \<longleftrightarrow> \<not> list_all (supplied args) ?t"
  proof (cases "args = []")
    case True
    then show ?thesis by (simp add: rendered_def Some p field_open)
  next
    case False
    have "list_ex is_field ?t" if "\<not> list_all (supplied args) ?t"
    proof -
      have "supplied args q" if "\<not> is_field q" for q
        using that by (cases q) (simp_all add: is_field_def)
      with that show ?thesis unfolding list_ex_iff list_all_iff by blast
    qed
    then show ?thesis
      using False format_fails [of ?t args]
      by (cases "format_template ?t args") (simp_all add: rendered_def Some p Let_def)
  qed
  then show ?thesis
    by (simp add: get_text_def Some p)
qed

lemma table_lookups [simp]:
  "map_of string_table ''button_expired'' = Some ([W], [W])"
  "map_of string_table ''choose_language'' = Some ([W], [W])"
  "map_of string_table ''config_ready'' = Some
     ([W, F ''server_name'', W,
      F ''expires_at'', W],
      [W, F ''server_name'', W,
      F ''expires_at'', W])"
  "map_of string_table ''config_redelivery'' = Some
     ([W,
      F ''server_name'', W],
      [W,
      F ''server_name'', W])"
  "map_of string_table ''expired'' = Some ([W, F ''server_name'', W], [W, F ''server_name'', W])"
  "map_of string_table ''expiring_soon'' = Some
     ([W, F ''server_name'', W,
      F ''expires_at'', W, F ''days'', W],
      [W, F ''server_name'', W,
      F ''expires_at'', W, F ''days'', W])"
  "map_of string_table ''hours_ago'' = Some ([F ''n'', W], [F ''n'', W])"
  "map_of string_table ''invalid_selection'' = Some ([W], [W])"
  "map_of string_table ''just_now'' = Some ([W], [W])"
  "map_of string_table ''minutes_ago'' = Some ([F ''n'', W], [F ''n'', W])"
  "map_of string_table ''never_connected'' = Some ([W], [W])"
  "map_of string_table ''no_servers'' = Some ([W], [W])"
  "map_of string_table ''no_subscriptions'' = Some ([W], [W])"
  "map_of string_table ''order_cancelled'' = Some ([W], [W])"
  "map_of string_table ''order_created'' = Some
     ([W, F ''order_code'', W, F ''server_name'', W, F ''plan_title'', W,
      F ''price'', W, F ''currency'', W, F ''instructions'', W],
      [W, F ''order_code'', W, F ''server_name'', W, F ''plan_title'', W,
      F ''price'', W, F ''currency'', W, F ''instructions'', W])"
  "map_of string_table ''payment_approved'' = Some
     ([W,
      F ''order_code'', W],
      [W,
      F ''order_code'', W])"
  "map_of string_table ''payment_approved_renewal'' = Some
     ([W, F ''label'', W,
      F ''expires_at'', W],
      [W, F ''label'', W,
      F ''expires_at'', W])"
  "map_of string_table ''payment_rejected'' = Some
     ([W,
      F ''order_code'', W],
      [W,
      F ''order_code'', W])"
  "map_of string_table ''receipt_received'' = Some
     ([W,
      F ''order_code'', W],
      [W,
      F ''order_code'', W])"
  "map_of string_table ''redelivery_limit'' = Some ([W, F ''limit'', W], [W, F ''limit'', W])"
  "map_of string_table ''redelivery_queued'' = Some ([W], [W])"
  "map_of string_table ''renewal_of'' = Some ([W, F ''label'', W], [W, F ''label'', W])"
  "map_of string_table ''select_plan'' = Some
     ([W,
      F ''server_name'', W],
      [W,
      F ''server_name'', W])"
  "map_of string_table ''select_server'' = Some ([W], [W])"
  "map_of string_table ''server_full'' = Some ([W], [W])"
  "map_of string_table ''server_not_found'' = Some ([W], [W])"
  "map_of string_table ''server_unavailable'' = Some ([W], [W])"
  "map_of string_table ''subscription_detail'' = Some
     ([W, F ''server_name'', W, F ''status'', W,
      F ''expires_at'', W, F ''label'', W],
      [W, F ''server_name'', W, F ''status'', W,
      F ''expires_at'', W, F ''label'', W])"
  "map_of string_table ''subscription_not_found'' = Some ([W], [W])"
  "map_of string_table ''support_prompt'' = Some ([W], [W])"
  "map_of string_table ''support_received'' = Some
     ([W,
      F ''ticket_code'', W],
      [W,
      F ''ticket_code'', W])"
  "map_of string_table ''support_reply'' = Some
     ([W, F ''ticket_code'', W,
      F ''body'', W],
      [W, F ''ticket_code'', W,
      F ''body'', W])"
  "map_of string_table ''ticket_closed'' = Some
     ([W,
      F ''ticket_code'', W],
      [W,
      F ''ticket_code'', W])"
  "map_of string_table ''usage'' = Some
     ([W, F ''total'', W, F ''down'', W,
      F ''up'', W, F ''last_seen''],
      [W, F ''total'', W, F ''down'', W,
      F ''up'', W, F ''last_seen''])"
  "map_of string_table ''usage_unavailable'' = Some ([W], [W])"
  "map_of string_table ''vpn_key'' = Some ([W, F ''vpn_url'', W], [W, F ''vpn_url'', W])"
  "map_of string_table ''welcome'' = Some ([W], [W])"
  "map_of string_table ''your_subscriptions'' = Some ([W], [W])"
  "map_of string_table ''status_provisioning'' = Some ([W], [W])"
  "map_of string_table ''status_active'' = Some ([W], [W])"
  "map_of string_table ''status_expired'' = Some ([W], [W])"
  "map_of string_table ''status_disabled'' = Some ([W], [W])"
  "map_of string_table ''status_failed'' = Some ([W], [W])"
  "map_of string_table ''status_revoked'' = Some ([W], [W])"
  by (simp_all add: string_table_def strings_shop_def strings_status_def)

end
