(* ===== verification/Texts_Safe.thy ===== *)
theory Texts_Safe
  imports Texts Dispatch Worker Scheduler
begin

section \<open>Every message is complete\<close>

text \<open>
  No customer and no administrator ever reads a template with its braces: every text the bot,
  the worker and the scheduler send has all the fields of its template, in English and in
  Farsi. The locale \<open>speech\<close> proves, step by step, that a handler or an action sends only what
  satisfies a predicate; it is interpreted on \<open>complete_out\<close>.
\<close>

subsection \<open>What a handler says\<close>

locale speech =
  fixes P :: "out \<Rightarrow> bool"
  assumes P_Ack: "P Ack"
begin

definition added :: "(out \<times> 'r) list \<Rightarrow> (out \<times> 'r) list \<Rightarrow> bool" where
  "added before after \<longleftrightarrow> (\<exists>os. after = before @ os \<and> (\<forall>(m, a) \<in> set os. P m))"

lemma added_refl: "added xs xs"
  by (simp add: added_def)

lemma added_one: "P m \<Longrightarrow> added xs (xs @ [(m, a)])"
  by (simp add: added_def)

lemma added_trans: "added xs ys \<Longrightarrow> added ys zs \<Longrightarrow> added xs zs"
  by (fastforce simp: added_def)

definition says :: "'a handler \<Rightarrow> bool" where
  "says m \<longleftrightarrow> (\<forall>c. added (ch_out c) (ch_out (snd (m c))))"

lemma saysD: "says m \<Longrightarrow> added (ch_out c) (ch_out (snd (m c)))"
  by (simp add: says_def)

lemma says_bind: "says m \<Longrightarrow> (\<And>x. says (f x)) \<Longrightarrow> says (act_bind m f)"
  unfolding says_def act_bind_def
  by (auto split: prod.split sum.split) (metis added_trans snd_conv)+

lemma says_silent:
  "says done_act" "says (return_act x)" "says (raise_act e)" "says (attempt_res r)"
  "says (change f)" "says (try_change g)" "says commit" "says (set_state s)"
  "says (update_data kvs)" "says clear_state"
  by (simp_all add: says_def done_act_def return_act_def raise_act_def attempt_res_def
      change_def try_change_def commit_def set_state_def update_data_def clear_state_def
      added_refl split: prod.split sum.split)

lemma says_reading: "(\<And>x. says (k x)) \<Longrightarrow> says (reading q k)"
  by (simp add: says_def reading_def)

lemma says_reading_of: "(\<And>d. says (k (q d))) \<Longrightarrow> says (reading q k)"
  by (simp add: says_def reading_def)

lemma says_state_value: "(\<And>x. says (k x)) \<Longrightarrow> says (state_value n k)"
  by (simp add: says_def state_value_def)

lemma says_find_or: "says m \<Longrightarrow> (\<And>v. says (k v)) \<Longrightarrow> says (find_or x m k)"
  by (simp add: find_or_def split: option.split)

lemma says_call: "P m \<Longrightarrow> says (call cx m)"
  by (simp add: says_def call_def Let_def added_one)

lemma says_tell: "P m \<Longrightarrow> says (tell cx m)"
  unfolding tell_def by (rule says_bind [OF says_call]) (simp_all add: says_silent)

lemma says_try_tell: "P m \<Longrightarrow> says (try_tell cx m)"
  unfolding try_tell_def by (rule says_bind [OF says_call]) (simp_all add: says_silent)

lemma says_toast: "P (Toast t) \<Longrightarrow> says (toast cx t)"
  by (simp add: toast_def says_tell)

lemma says_show:
  assumes "P (Show t kb)" "P (Answer t kb)"
  shows "says (show_menu cx q t kb)"
proof -
  have "says (show_edit cx q t kb)"
    unfolding show_edit_def
    by (auto intro!: says_bind [OF says_call] assms simp: says_silent says_tell assms
        split: tg_answer.split)
  then show ?thesis
    unfolding show_menu_def
    by (auto intro!: says_bind says_call P_Ack simp: says_silent)
qed

lemma says_if: "(b \<Longrightarrow> says m) \<Longrightarrow> (\<not> b \<Longrightarrow> says n) \<Longrightarrow> says (if b then m else n)"
  by simp

lemma says_let: "(\<And>x. says (f x)) \<Longrightarrow> says (Let v f)"
  by simp

lemma says_pair: "(\<And>a b. says (f a b)) \<Longrightarrow> says (case p of (a, b) \<Rightarrow> f a b)"
  by (simp split: prod.split)

lemma says_option:
  "says m \<Longrightarrow> (\<And>v. says (f v)) \<Longrightarrow> says (case x of None \<Rightarrow> m | Some v \<Rightarrow> f v)"
  by (simp split: option.split)

lemmas says_rules = says_bind says_reading says_state_value says_find_or says_if
  says_pair says_option says_silent says_tell says_try_tell says_toast says_show

text \<open>The same for the actions of the worker and the scheduler.\<close>

definition sends :: "('a, 'p) act \<Rightarrow> bool" where
  "sends m \<longleftrightarrow> (\<forall>s. added (s_out s) (s_out (snd (m s))))"

lemma sendsD: "sends m \<Longrightarrow> added (s_out s) (s_out (snd (m s)))"
  by (simp add: sends_def)

lemma sends_bind: "sends m \<Longrightarrow> (\<And>x. sends (f x)) \<Longrightarrow> sends (act_bind m f)"
  unfolding sends_def act_bind_def
  by (auto split: prod.split sum.split) (metis added_trans snd_conv)+

lemma sends_silent:
  "sends done_act" "sends (return_act x)" "sends (raise_act e)" "sends (\<lambda>s. (r, s))"
  "sends (\<lambda>s. (g (s_db s), s))" "sends (db_act f)" "sends (set_act h)" "sends (peer_act k)"
  by (simp_all add: sends_def done_act_def return_act_def raise_act_def db_act_def set_act_def
      peer_act_def added_refl split: prod.split sum.split)

lemma sends_send: "P m \<Longrightarrow> sends (tg_send tg m)"
  by (simp add: sends_def tg_send_def Let_def added_one)

lemma sends_at: "(\<And>s. sends (g s)) \<Longrightarrow> (\<And>s. f s = g s s) \<Longrightarrow> sends f"
  by (simp add: sends_def)

lemma sends_sum: "(\<And>x. sends (f x)) \<Longrightarrow> sends (sum_act f xs)"
proof (induction xs)
  case (Cons x xs)
  have "sends (act_bind (f x) (\<lambda>n. act_bind (sum_act f xs) (\<lambda>m t. (Inr (n + m), t))))"
    using Cons by (intro sends_bind sends_silent) auto
  then show ?case by (simp add: sends_def)
qed (simp add: sends_def added_refl)

lemma sends_transaction: "sends m \<Longrightarrow> sends (in_transaction m)"
  unfolding sends_def in_transaction_def by (auto split: prod.split sum.split) (metis snd_conv)+

end

interpretation whole: speech complete_out
  by unfold_locales simp

subsection \<open>The texts of the handlers\<close>

named_theorems text_parts \<open>definitions of texts and of their arguments\<close>

lemma status_complete [simp]: "complete_arg (status_text s l)"
  by (cases "sub_status s") (simp_all add: status_text_def)

lemma argument_complete [simp]:
  "complete_arg (server_name srv l)" "complete_arg (product_title p l)"
  "complete_arg (format_last_seen seen l now)"
  by (simp_all add: server_name_def product_title_def format_last_seen_def Let_def
      split: option.split)

lemma joined_complete: "complete t \<Longrightarrow> (\<And>s. complete (f s)) \<Longrightarrow> complete (foldl Joined t (map f xs))"
  by (induction xs arbitrary: t) auto

lemma with_line_complete [simp]:
  "complete (with_line t x) \<longleftrightarrow> complete t \<and> (\<forall>u. x = Some u \<longrightarrow> complete u)"
  by (simp add: with_line_def split: option.split)

lemma usage_complete: "usage_text p server s l now = Some t \<Longrightarrow> complete t"
  by (auto simp: usage_text_def usage_of_def split: option.splits if_splits sum.splits)

lemma review_note_complete [simp]:
  "complete (review_note v mm q xs) \<longleftrightarrow> (\<forall>(k, a) \<in> set xs. complete_arg a)"
  by (simp add: review_note_def)

lemmas text_defs = select_plan_text_def order_text_def renewal_of_def subs_menu_text_def
  no_subs_text_def detail_text_def redelivery_refused_def choose_language_def already_def
  rejection_note_def product_line_def usage_line_def user_missing_def profile_text_def
  blocked_text_def extend_usage_def extension_text_def extension_note_def support_alert_def
  reply_text_def closed_text_def unauthorized_def

lemma approval_note_complete [simp]: "complete (approval_note r sub u)"
  by (simp add: approval_note_def split: option.split)

lemma lookup_complete [simp]: "complete (lookup_text cx u ss d)"
proof -
  have "complete (sub_line cx d s)" for s
    by (auto simp: sub_line_def Let_def dest: usage_complete)
  then have "complete (foldl Joined (profile_text u ss) (map (sub_line cx d) (take 10 ss)))"
    by (intro joined_complete) (simp_all add: profile_text_def)
  then show ?thesis
    by (auto simp: lookup_text_def Let_def)
qed

subsection \<open>The handlers\<close>

lemma reading_text:
  "(\<And>d. complete (q d)) \<Longrightarrow> (\<And>t. complete t \<Longrightarrow> whole.says (k t)) \<Longrightarrow> whole.says (reading q k)"
  by (rule whole.says_reading_of) simp

lemma lines_complete [simp]:
  "complete_arg (snd (order_line d r))" "complete_arg (snd (server_line d srv))"
  "complete_arg (snd (ticket_line d t))" "complete_arg (snd (audit_line e))"
  "complete_arg (snd (failed_line now j))"
  by (simp_all add: order_line_def server_line_def ticket_line_def audit_line_def failed_line_def
      Let_def)

lemma renewal_line_complete: "\<forall>x \<in> set (renewal_line r d). complete_arg (snd x)"
  by (cases "ord_renews r") (simp_all add: renewal_line_def)

lemma complete_Lit: "complete (Lit s args) \<longleftrightarrow> (\<forall>x \<in> set args. complete_arg (snd x))"
  by (auto simp: split_beta)

declare complete.simps(2) [simp del] complete_Lit [simp]

lemma lists_complete [simp]:
  "complete (receipt_alert r u note d)" "complete (dashboard_text d)"
  "complete (pending_text rs d)" "complete (servers_text ss d)"
  "complete (open_tickets_text ts d)"
  unfolding receipt_alert_def dashboard_text_def pending_text_def servers_text_def
    open_tickets_text_def
  using renewal_line_complete [of r d] by auto

lemma logs_complete [simp]:
  "complete (Lit x (map audit_line es))" "complete (fst (failed_list now d))"
  by (simp_all add: failed_list_def Let_def)

lemmas says_all = reading_text whole.says_rules

named_theorems spoken \<open>handlers and helpers that send complete messages\<close>

lemma helpers_spoken [spoken]:
  "(\<And>u. complete (note u)) \<Longrightarrow> whole.says (tell_customer cx uid note)"
  "complete t \<Longrightarrow> whole.says (annotate cx mm t)"
  "whole.says (audit_admin cx n a ev ent i meta)"
  "whole.says (sub_missing cx u)"
  "whole.says k \<Longrightarrow> whole.says (admin_press cx q k)"
  "whole.says k \<Longrightarrow> whole.says (admin_post cx m k)"
  "(\<And>tg. whole.says (h tg)) \<Longrightarrow> whole.says (with_target cx m us h)"
  unfolding tell_customer_def annotate_def audit_admin_def sub_missing_def admin_press_def
    admin_post_def with_target_def Let_def
  by (intro says_all; simp add: text_defs)+

lemma start_order_spoken [spoken]: "whole.says (start_order cx u q srv p ren)"
  unfolding start_order_def Let_def
  by (intro says_all) (simp_all add: text_defs split: option.split)

lemma customer_menus_spoken [spoken]:
  "whole.says (cmd_start cx u)"
  "whole.says (callback_main_menu cx u q)"
  "whole.says (callback_menu_buy cx u q)"
  "whole.says (callback_select_server cx u q)"
  "whole.says (callback_cancel_order cx u q)"
  "whole.says (cmd_my_vpn cx u)"
  "whole.says (callback_menu_subs cx u q)"
  "whole.says (callback_renew_subscription cx u q)"
  "whole.says (cmd_language cx)"
  "whole.says (callback_menu_language cx q)"
  "whole.says (callback_unhandled cx u)"
  unfolding cmd_start_def callback_main_menu_def callback_menu_buy_def callback_select_server_def
    callback_cancel_order_def cmd_my_vpn_def callback_menu_subs_def
    callback_renew_subscription_def cmd_language_def callback_menu_language_def
    callback_unhandled_def
  by (intro says_all spoken; simp add: text_defs)+

lemma view_spoken [spoken]: "whole.says (callback_view_subscription cx u q)"
  unfolding callback_view_subscription_def
  by (intro says_all spoken) (auto simp: text_defs dest: usage_complete split: option.split)

lemma plan_picked_spoken [spoken]:
  "whole.says (callback_select_plan cx u q)"
  "whole.says (callback_select_renewal_plan cx u q)"
  "whole.says (callback_set_language cx u q)"
  unfolding callback_select_plan_def callback_select_renewal_plan_def
    callback_set_language_def Let_def
  by (intro says_all spoken; auto simp: text_defs split: option.split)+

lemma receipt_spoken [spoken]: "whole.says (handle_receipt_upload cx u m)"
  unfolding handle_receipt_upload_def Let_def
  by (intro says_all spoken; auto simp: text_defs split: option.split)

lemma redeliver_spoken [spoken]: "whole.says (callback_redeliver_subscription cx u q)"
  unfolding callback_redeliver_subscription_def Let_def
  by (intro says_all spoken; auto simp: text_defs split: option.split)+

lemma support_spoken [spoken]:
  "whole.says (cmd_support cx u)"
  "whole.says (callback_menu_support cx u q)"
  "whole.says (handle_support_message cx u m)"
  "whole.says (callback_admin_open_tickets cx q)"
  "whole.says (callback_admin_reply_ticket cx q)"
  "whole.says (handle_admin_ticket_reply cx m)"
  "whole.says (callback_admin_close_ticket cx q)"
  unfolding cmd_support_def callback_menu_support_def handle_support_message_def file_message_def
    open_ticket_def add_to_ticket_def callback_admin_open_tickets_def
    callback_admin_reply_ticket_def handle_admin_ticket_reply_def callback_admin_close_ticket_def
  by (intro says_all spoken; auto simp: text_defs)+

lemma announced_spoken [spoken]: "whole.says (announce_approval cx q r sub)"
  unfolding announce_approval_def by (intro says_all spoken; simp)

lemma rejected_spoken [spoken]: "whole.says (announce_rejection cx q r)"
  unfolding announce_rejection_def by (intro says_all spoken; simp add: text_defs)

lemma pending_spoken [spoken]: "whole.says (callback_admin_pending_orders cx q)"
  unfolding callback_admin_pending_orders_def
  by (intro says_all spoken; simp add: text_defs)

lemma approve_spoken [spoken]: "whole.says (callback_admin_approve_order cx q)"
  unfolding callback_admin_approve_order_def approve_step_def
  by (intro says_all spoken; simp add: text_defs)

lemma reject_spoken [spoken]: "whole.says (callback_admin_reject_order cx q)"
  unfolding callback_admin_reject_order_def
  by (intro says_all spoken; simp add: text_defs)

lemma servers_spoken [spoken]: "whole.says (cmd_admin_servers cx ev)"
proof (cases ev)
  case (Pressed q)
  then show ?thesis
    unfolding cmd_admin_servers_def Let_def by simp (intro impI conjI says_all; simp)
next
  case (Posted m)
  then show ?thesis
    unfolding cmd_admin_servers_def Let_def by simp (intro impI conjI says_all; simp)
qed

lemma admin_spoken [spoken]:
  "whole.says (cmd_admin_dashboard cx m)"
  "whole.says (callback_admin_back cx q)"
  "whole.says (callback_admin_toggle_server cx q)"
  "whole.says (cmd_admin_products cx m)"
  "whole.says (cmd_admin_user_lookup cx m)"
  "whole.says (cmd_admin_block_user cx m)"
  "whole.says (cmd_admin_unblock_user cx m)"
  "whole.says (cmd_admin_extend cx m)"
  "whole.says (cmd_audit cx m)"
  unfolding cmd_admin_dashboard_def callback_admin_back_def callback_admin_toggle_server_def
    cmd_admin_products_def cmd_admin_user_lookup_def cmd_admin_block_user_def
    cmd_admin_unblock_user_def set_block_def cmd_admin_extend_def extend_step_def
    enable_again_def cmd_audit_def Let_def
  by (intro says_all spoken; auto simp: text_defs)+

lemma failed_list_spoken:
  "(\<And>t kb. complete t \<Longrightarrow> whole.says (f t kb)) \<Longrightarrow>
   whole.says (reading (failed_list now) (\<lambda>(t, kb). f t kb))"
  by (rule whole.says_reading_of) (metis (no_types, lifting) logs_complete(2) split_beta)

lemma retry_spoken [spoken]: "whole.says (cmd_retry cx m)" "whole.says (callback_retry cx q)"
proof -
  have one: "whole.says (retry_one cx n a j)" for n a j
    unfolding retry_one_def requeue_job_def requeue_audit_def
    by (intro says_all spoken)
  have "whole.says (retry_each cx n a js)" for n a js
    by (induction js arbitrary: n) (auto intro!: says_all one)
  then show "whole.says (callback_retry cx q)"
    unfolding callback_retry_def
    by (intro failed_list_spoken says_all spoken; simp)
  show "whole.says (cmd_retry cx m)"
    unfolding cmd_retry_def by (intro failed_list_spoken says_all spoken; simp)
qed

lemma handle_spoken: "whole.says (handle cx cmd u ev)"
proof -
  have p: "whole.says (run_press cx u q h)" for q h
    by (cases h) (simp_all add: spoken)
  have m: "whole.says (run_post cx u m h)" for m h
    by (cases h) (simp_all add: spoken)
  show ?thesis
    unfolding whole.says_def handle_def
    using p m whole.says_silent(1)
    by (auto simp: whole.says_def split: event.split option.split)
qed

lemma serve_spoken: "whole.added (bt_out b) (bt_out (serve cx cmd sn ev b))"
proof -
  obtain ok b1 where t: "throttle_event cx ev b = (ok, b1)" by force
  then have b1: "bt_out b1 = bt_out b"
    by (auto simp: throttle_event_def split: event.splits prod.splits)
  have "whole.added (bt_out b1) (bt_out (with_user cx cmd sn ev b1))"
  proof (cases "known_user cx sn ev (bt_db b1)")
    case (Inr p)
    obtain u d where p: "p = (u, d)" by force
    show ?thesis
      using Inr p whole.saysD [OF handle_spoken, of "open_chat ev d b1"]
      by (simp add: with_user_def close_chat_def open_chat_def whole.added_refl)
  qed (simp add: with_user_def whole.added_refl)
  then show ?thesis
    using t b1 by (auto simp: serve_def whole.added_refl whole.added_one split: bool.split event.split)
qed

subsection \<open>The worker and the scheduler\<close>

lemma complete_SendFile: "complete t \<Longrightarrow> complete_out (Send c t kb)"
  "complete t \<Longrightarrow> complete_out (Send_File c f n t kb)"
  by simp_all

lemmas sends_rules = whole.sends_bind whole.sends_send whole.sends_silent complete_SendFile

lemmas sendsI = whole.sendsD [OF whole.sends_bind] whole.sendsD [OF whole.sends_silent(1)]

lemma deliver_sends: "complete t \<Longrightarrow> whole.sends (deliver_config env c b f t u l)"
  unfolding deliver_config_def by (intro sends_rules) (auto intro!: sends_rules split: option.split)

lemma alert_sends: "complete t \<Longrightarrow> whole.sends (alert_admin env t j)"
  unfolding alert_admin_def by (auto intro!: sends_rules)

lemma event_sends: "whole.sends (system_event now aid ev sid meta)"
  unfolding system_event_def by (rule whole.sends_silent)

lemma create_sends: "whole.sends (create_peer_step env now aid j)"
  unfolding create_peer_step_def activate_rows_def deliver_new_peer_def
  by (intro sends_rules)
    (auto intro!: sends_rules event_sends deliver_sends alert_sends
      simp: create_caption_def undelivered_alert_def)

lemma off_sends: "whole.sends (peer_off_step now j act mark aid ev)"
  unfolding whole.sends_def peer_off_step_def
  by (auto intro!: sendsI sends_rules event_sends split: option.split)

lemma enable_sends: "whole.sends (enable_peer_step env now aid j)"
  unfolding whole.sends_def enable_peer_step_def
  by (auto intro!: sendsI sends_rules event_sends split: option.split)

lemma redeliver_to_sends: "whole.sends (redeliver_to env sub srv u)"
  unfolding redeliver_to_def by (intro sends_rules deliver_sends) (auto intro!: sends_rules)

lemma redeliver_sends: "whole.sends (redeliver_step env j)"
  unfolding whole.sends_def redeliver_step_def
  by (auto intro!: sendsI whole.sendsD [OF redeliver_to_sends] split: option.split)

lemma process_sends: "whole.sends (process_job env now aid jo)"
proof -
  have "whole.sends (process_step env now aid j ty)" for j ty
    by (cases ty) (simp_all add: create_sends disable_peer_step_def remove_peer_step_def off_sends
        enable_sends redeliver_sends)
  then show ?thesis
    unfolding process_job_def by (cases jo) (simp_all add: sends_rules)
qed

lemma run_job_sends: "whole.added (s_out s) (s_out (run_job env now aid jid s))"
proof -
  obtain r s1 where 1: "process_job env now aid (get_job jid (s_db s)) s = (r, s1)" by force
  then have a: "whole.added (s_out s) (s_out s1)"
    using whole.sendsD [OF process_sends] by (metis snd_conv)
  show ?thesis
  proof (cases r)
    case (Inl e)
    obtain fo d where f: "mark_failed jid (exn_str e) (\<not> is_permanent e) default_max_retries now (s_db s)
        = (fo, d)" by force
    have "whole.added (s_out s1) (s_out (snd (alert_admin env (failure_alert j e) x (s1\<lparr>s_db := d\<rparr>))))"
      for j x
      using whole.sendsD [where s = "s1\<lparr>s_db := d\<rparr>", OF alert_sends [of "failure_alert j e"]]
      by (simp add: failure_alert_def)
    then show ?thesis
      using 1 Inl f a whole.added_trans [OF a]
      by (simp add: run_job_def Let_def split: option.split)
  qed (use 1 a in \<open>simp add: run_job_def\<close>)
qed

lemma run_jobs_sends: "whole.added (s_out s) (s_out (run_jobs env clock aids is s))"
  by (induction "is" arbitrary: s)
    (auto simp: whole.added_refl intro: whole.added_trans [OF run_job_sends])

lemma batch_sends:
  "whole.added (s_out s) (s_out (snd (run_single_batch env limit now clock aids s)))"
  using run_jobs_sends [where s = "s\<lparr>s_db := d\<rparr>" for d]
  by (auto simp: run_single_batch_def split: prod.split)

lemma notify_sends: "(\<And>srv u. complete_out (msg srv u)) \<Longrightarrow> whole.sends (notify_owner env s msg)"
  unfolding whole.sends_def notify_owner_def
  by (auto intro!: whole.sendsD [OF whole.sends_send] simp: return_act_def whole.added_refl
      split: option.split)

lemma remind_sends: "whole.sends (remind_one env now nids s)"
  unfolding remind_one_def
  by (auto intro!: sends_rules notify_sends simp: reminder_message_def split: option.split)

lemma expire_sends: "whole.sends (expire_one env now jids nids s)"
proof -
  have queue: "whole.sends (act_bind (enqueue_for (expiry_job now jids s)) (\<lambda>_.
           act_bind (db_act (create_notification_if_not_exists (nids (sub_id s)) (sub_user_id s)
               N_EXPIRED (expired_key s) None)) (\<lambda>created.
             if \<not> created then return_act 1
             else act_bind (notify_owner env s (expired_message s)) (\<lambda>_. return_act 1))))"
    unfolding enqueue_for_def by (auto intro!: sends_rules notify_sends simp: expired_message_def)
  show ?thesis
    unfolding whole.sends_def expire_one_def
    by (simp only: split: if_split) (simp add: whole.added_refl whole.sendsD [OF queue])
qed

lemma cleanup_sends: "whole.sends (cleanup_one now jids s)"
  unfolding whole.sends_def cleanup_one_def enqueue_for_def
  by (auto intro!: sendsI sends_rules simp: whole.added_refl)

lemma loop_sends:
  "(\<And>x. whole.sends (f x)) \<Longrightarrow> whole.added (s_out s) (s_out (snd (in_transaction (sum_act f xs) s)))"
  by (intro whole.sendsD whole.sends_transaction whole.sends_sum)

lemma checks_send:
  "whole.added (s_out s) (s_out (snd (check_expiring_subscriptions env now nids s)))"
  "whole.added (s_out s) (s_out (snd (check_expired_subscriptions env now jids nids s)))"
  "whole.added (s_out s) (s_out (snd (cleanup_removed_peers env now jids s)))"
  unfolding check_expiring_subscriptions_def check_expired_subscriptions_def
    cleanup_removed_peers_def
  by (simp_all add: whole.added_refl loop_sends remind_sends expire_sends cleanup_sends
      split: sum.split)

lemma added_log: "whole.added xs ys \<longleftrightarrow> (\<exists>os. ys = xs @ os \<and> complete_log os)"
  by (simp add: whole.added_def complete_log_def list_all_iff case_prod_beta)

text \<open>A forgotten argument and a misspelt one would show.\<close>

lemma holes_seen:
  "\<not> complete (get_text ''expired'' (Some ''fa'') [])"
  "\<not> complete (get_text ''config_redelivery'' None [(''server'', Plain s)])"
  by simp_all

text \<open>C34. No text reaches anyone with a hole in it: whatever update the bot serves, whatever
  batch the worker runs and whatever check the scheduler makes, in any state of the database
  and with any outcome of the calls to Telegram, every message added to the log has, in the
  language of its reader, a value for every field of its template (and names a key of
  \<open>STRINGS\<close>), so that \<open>get_text\<close> never falls back to the raw template or to the key.\<close>

theorem every_message_complete:
  "(\<exists>os. bt_out (serve cx cmd sn ev b) = bt_out b @ os \<and> complete_log os) \<and>
   (\<exists>os. s_out (snd (run_single_batch wenv limit now clock aids s)) = s_out s @ os \<and>
      complete_log os) \<and>
   (\<exists>os. s_out (snd (check_expiring_subscriptions env now nids t)) = s_out t @ os \<and>
      complete_log os) \<and>
   (\<exists>os. s_out (snd (check_expired_subscriptions env now jids nids t)) = s_out t @ os \<and>
      complete_log os)"
  by (intro conjI serve_spoken [unfolded added_log] batch_sends [unfolded added_log]
      checks_send [unfolded added_log])

end
