(* ===== verification/Py_Ip.thy ===== *)
theory Py_Ip
  imports Py_Text
begin

section \<open>Internet addresses\<close>

text \<open>
  What the vpnctl script uses of Python's \<open>ipaddress\<close>: \<open>ip_address\<close>, \<open>ip_interface\<close>, the hosts of
  a network in order, and \<open>str()\<close>. An address is its number; an IPv6 address may carry a zone
  (\<open>%eth0\<close>). A text that is none is \<open>None\<close> where Python raises \<open>ValueError\<close>. The first host that
  is not taken is searched from the low end, as \<open>next()\<close> over the generator does.
\<close>

subsection \<open>Reading addresses\<close>

datatype ip = IPv4 nat | IPv6 nat "string option"

definition number :: "nat \<Rightarrow> nat list \<Rightarrow> nat" where
  "number base ds = foldl (\<lambda>a d. base * a + d) 0 ds"

text \<open>Up to three ASCII digits, no leading zero, at most 255.\<close>

definition parse_octet :: "string \<Rightarrow> nat option" where
  "parse_octet s =
     (if s \<noteq> [] \<and> list_all is_decimal s \<and> length s \<le> 3 \<and> (s = ''0'' \<or> hd s \<noteq> CHR ''0'')
         \<and> dec_value s \<le> 255
      then Some (dec_value s) else None)"

definition parse_ipv4 :: "string \<Rightarrow> nat option" where
  "parse_ipv4 s =
     (let octets = split_char CHR ''.'' s
      in if length octets = 4 then map_option (number 256) (those (map parse_octet octets))
         else None)"

definition parse_hextet :: "string \<Rightarrow> nat option" where
  "parse_hextet s = (if s \<noteq> [] \<and> length s \<le> 4 then hex_value 0 s else None)"

text \<open>The groups of an IPv6 address between colons, a dotted IPv4 address at the end replaced
  by the two groups it stands for.\<close>

definition hex_groups :: "string \<Rightarrow> string list option" where
  "hex_groups s =
     (let parts = split_char CHR '':'' s
      in if s = [] \<or> length parts < 3 then None
         else if CHR ''.'' \<in> set (last parts)
         then map_option (\<lambda>n. butlast parts @ [hex_digits 4 (n div 65536), hex_digits 4 n])
                (parse_ipv4 (last parts))
         else Some parts)"

text \<open>One empty group inside stands for the zeros left out; an empty group at an end is allowed
  only next to it.\<close>

definition ipv6_halves :: "string list \<Rightarrow> (string list \<times> string list) option" where
  "ipv6_halves parts =
     (case filter (\<lambda>i. parts ! i = []) [1..<length parts - 1] of
        [] \<Rightarrow> if length parts = 8 then Some (parts, []) else None
      | [i] \<Rightarrow>
          (let hi = take i parts; lo = drop (Suc i) parts;
               hi' = (if hd parts = [] then [] else hi);
               lo' = (if last parts = [] then [] else lo)
           in if hd parts = [] \<and> length hi \<noteq> 1 \<or> last parts = [] \<and> length lo \<noteq> 1
                 \<or> 7 < length hi' + length lo' then None
              else Some (hi', lo'))
      | _ \<Rightarrow> None)"

definition parse_ipv6_number :: "string \<Rightarrow> nat option" where
  "parse_ipv6_number s =
     (case hex_groups s of
        None \<Rightarrow> None
      | Some parts \<Rightarrow>
          if 9 < length parts then None
          else (case ipv6_halves parts of
                  None \<Rightarrow> None
                | Some (hi, lo) \<Rightarrow>
                    (case (those (map parse_hextet hi), those (map parse_hextet lo)) of
                       (Some a, Some b) \<Rightarrow>
                         Some (number 65536 a * 65536 ^ (8 - length a) + number 65536 b)
                     | _ \<Rightarrow> None)))"

text \<open>The zone after the first \<open>%\<close>: not empty and without another \<open>%\<close>.\<close>

definition parse_ipv6 :: "string \<Rightarrow> ip option" where
  "parse_ipv6 s =
     (case split_char CHR ''%'' s of
        [a] \<Rightarrow> map_option (\<lambda>n. IPv6 n None) (parse_ipv6_number a)
      | [a, zone] \<Rightarrow>
          if zone = [] then None else map_option (\<lambda>n. IPv6 n (Some zone)) (parse_ipv6_number a)
      | _ \<Rightarrow> None)"

definition ip_address :: "string \<Rightarrow> ip option" where
  "ip_address s =
     (if CHR ''/'' \<in> set s then None
      else case parse_ipv4 s of Some n \<Rightarrow> Some (IPv4 n) | None \<Rightarrow> parse_ipv6 s)"

text \<open>\<open>ipv4_mapped\<close>.\<close>

definition unmapped :: "ip \<Rightarrow> ip" where
  "unmapped a =
     (case a of
        IPv6 n zone \<Rightarrow> if n div 4294967296 = 65535 then IPv4 (n mod 4294967296) else a
      | IPv4 n \<Rightarrow> a)"

subsection \<open>Interfaces\<close>

text \<open>An address with the length of its network prefix.\<close>

type_synonym ip_iface = "ip \<times> nat"

definition prefix_digits :: "nat \<Rightarrow> string \<Rightarrow> nat option" where
  "prefix_digits width s =
     (if s \<noteq> [] \<and> list_all is_decimal s \<and> dec_value s \<le> width then Some (dec_value s) else None)"

text \<open>A dotted netmask, or the complement of one, as the length of the prefix.\<close>

definition netmask_of :: "nat \<Rightarrow> nat" where
  "netmask_of p = 4294967296 - 2 ^ (32 - p)"

definition mask_length :: "nat \<Rightarrow> nat option" where
  "mask_length n = find (\<lambda>p. netmask_of p = n) [0..<33]"

definition ipv4_prefix :: "string \<Rightarrow> nat option" where
  "ipv4_prefix s =
     (case prefix_digits 32 s of
        Some p \<Rightarrow> Some p
      | None \<Rightarrow>
          (case parse_ipv4 s of
             None \<Rightarrow> None
           | Some n \<Rightarrow>
               (case mask_length n of Some p \<Rightarrow> Some p | None \<Rightarrow> mask_length (4294967295 - n))))"

definition ip_interface :: "string \<Rightarrow> ip_iface option" where
  "ip_interface s =
     (case split_char CHR ''/'' s of
        [a] \<Rightarrow>
          (case parse_ipv4 a of
             Some n \<Rightarrow> Some (IPv4 n, 32) | None \<Rightarrow> map_option (\<lambda>i. (i, 128)) (parse_ipv6 a))
      | [a, m] \<Rightarrow>
          (case (parse_ipv4 a, ipv4_prefix m) of
             (Some n, Some p) \<Rightarrow> Some (IPv4 n, p)
           | _ \<Rightarrow>
               (case (parse_ipv6 a, prefix_digits 128 m) of
                  (Some i, Some p) \<Rightarrow> Some (i, p) | _ \<Rightarrow> None))
      | _ \<Rightarrow> None)"

subsection \<open>The hosts of a network\<close>

definition net_base :: "nat \<Rightarrow> nat \<Rightarrow> nat \<Rightarrow> nat" where
  "net_base width p n = n - n mod 2 ^ (width - p)"

text \<open>First and last host: without the network and, for IPv4, the broadcast address; the
  networks of one and two addresses have all of them.\<close>

definition host_range :: "ip_iface \<Rightarrow> nat \<times> nat" where
  "host_range ifc =
     (case ifc of
        (IPv4 n, p) \<Rightarrow>
          (let net = net_base 32 p n; top = net + 2 ^ (32 - p) - 1
           in if p < 31 then (net + 1, top - 1) else (net, top))
      | (IPv6 n zone, p) \<Rightarrow>
          (let net = net_base 128 p n; top = net + 2 ^ (128 - p) - 1
           in if p < 127 then (net + 1, top) else (net, top)))"

text \<open>The hosts carry no zone, except that the only host of a network of one address is the
  address as it was written.\<close>

definition host_at :: "ip_iface \<Rightarrow> nat \<Rightarrow> ip" where
  "host_at ifc k =
     (case ifc of
        (IPv4 n, p) \<Rightarrow> IPv4 k
      | (IPv6 n zone, p) \<Rightarrow> IPv6 k (if p = 128 then zone else None))"

function first_free :: "(nat \<Rightarrow> bool) \<Rightarrow> nat \<Rightarrow> nat \<Rightarrow> nat option" where
  "first_free taken lo hi =
     (if hi < lo then None else if taken lo then first_free taken (Suc lo) hi else Some lo)"
  by pat_completeness auto
termination
  by (relation "measure (\<lambda>(taken, lo, hi). Suc hi - lo)") auto

declare first_free.simps [simp del]

definition free_host :: "ip_iface \<Rightarrow> ip list \<Rightarrow> ip option" where
  "free_host ifc used =
     (case host_range ifc of (lo, hi) \<Rightarrow>
        map_option (host_at ifc) (first_free (\<lambda>k. host_at ifc k \<in> set used) lo hi))"

subsection \<open>Writing addresses\<close>

definition show_ipv4 :: "nat \<Rightarrow> string" where
  "show_ipv4 n =
     py_join ''.'' (map show_nat [n div 16777216, n div 65536 mod 256, n div 256 mod 256, n mod 256])"

text \<open>Groups without leading zeros; the first longest run of two or more zero groups is left
  out.\<close>

definition show_hextet :: "nat \<Rightarrow> string" where
  "show_hextet n =
     (let s = dropWhile (\<lambda>c. c = CHR ''0'') (hex_digits 4 n) in if s = [] then ''0'' else s)"

definition hextets :: "nat \<Rightarrow> nat list" where
  "hextets n = map (\<lambda>i. n div 65536 ^ (7 - i) mod 65536) [0..<8]"

definition zero_run :: "nat list \<Rightarrow> nat \<Rightarrow> nat" where
  "zero_run hs i = length (takeWhile (\<lambda>h. h = 0) (drop i hs))"

definition longest_run :: "nat list \<Rightarrow> nat" where
  "longest_run hs = foldl (\<lambda>b i. if zero_run hs b < zero_run hs i then i else b) 0 [0..<length hs]"

definition show_ipv6 :: "nat \<Rightarrow> string" where
  "show_ipv6 n =
     (let hs = hextets n; i = longest_run hs; k = zero_run hs i; gs = map show_hextet hs
      in if k \<le> 1 then py_join '':'' gs
         else py_join '':'' ((if i = 0 then [''''] else []) @ take i gs @ [''''] @ drop (i + k) gs
                @ (if i + k = 8 then [''''] else [])))"

definition show_ip :: "ip \<Rightarrow> string" where
  "show_ip a =
     (case a of
        IPv4 n \<Rightarrow> show_ipv4 n
      | IPv6 n zone \<Rightarrow> show_ipv6 n @ (case zone of None \<Rightarrow> [] | Some z \<Rightarrow> CHR ''%'' # z))"

definition show_network :: "ip_iface \<Rightarrow> string" where
  "show_network ifc =
     (case ifc of
        (IPv4 n, p) \<Rightarrow> show_ipv4 (net_base 32 p n) @ ''/'' @ show_nat p
      | (IPv6 n zone, p) \<Rightarrow> show_ip (IPv6 (net_base 128 p n) zone) @ ''/'' @ show_nat p)"

subsection \<open>Examples\<close>

lemmas ip_reading = ip_address_def ip_interface_def parse_ipv4_def parse_octet_def number_def
  dec_value_def digit_val_def is_decimal_def ipv4_prefix_def prefix_digits_def mask_length_def
  netmask_of_def parse_ipv6_def parse_ipv6_number_def hex_groups_def

lemma hex_digits_numeral:
  "hex_digits (numeral k) n = hex_digits (pred_numeral k) (n div 16) @ [hex_char (n mod 16)]"
  by (simp only: numeral_eq_Suc hex_digits.simps)

lemmas ipv6_reading = ipv6_halves_def parse_hextet_def hex_val_def hex_char_def
  hex_digits_numeral nth_Cons'

lemma ipv4_examples:
  "ip_address ''10.8.0.1'' = Some (IPv4 168296449)"
  "ip_address ''010.8.0.1'' = None"
  "ip_interface ''10.8.0.1/255.255.255.0'' = Some (IPv4 168296449, 24)"
  by (simp_all add: ip_reading upt_conv_Cons)

lemma ipv6_examples:
  "ip_address ''::ffff:10.8.0.1'' = Some (IPv6 281470850039809 None)"
  "ip_address ''fd7a::1%wg0'' = Some (IPv6 (64890 * 65536 ^ 7 + 1) (Some ''wg0''))"
  "ip_address ''1::2::3'' = None"
  by (simp_all add: ip_reading ipv6_reading)

subsection \<open>Lemmas\<close>

lemma first_free_Some:
  "first_free taken lo hi = Some k \<Longrightarrow> lo \<le> k \<and> k \<le> hi \<and> \<not> taken k \<and> (\<forall>j. lo \<le> j \<and> j < k \<longrightarrow> taken j)"
proof (induction taken lo hi rule: first_free.induct)
  case (1 taken lo hi)
  then show ?case
    by (subst (asm) (2) first_free.simps)
      (auto split: if_splits simp: not_less Suc_le_eq dest: le_imp_less_or_eq)
qed

lemma first_free_None:
  "first_free taken lo hi = None \<Longrightarrow> lo \<le> j \<Longrightarrow> j \<le> hi \<Longrightarrow> taken j"
proof (induction taken lo hi rule: first_free.induct)
  case (1 taken lo hi)
  show ?case
  proof (cases "j = lo")
    case False
    then show ?thesis
      using 1 by (subst (asm) (2) first_free.simps) (auto split: if_splits)
  qed (use 1 in \<open>subst (asm) (2) first_free.simps, auto split: if_splits\<close>)
qed

lemma free_host_new: "free_host ifc used = Some a \<Longrightarrow> a \<notin> set used"
  by (auto simp: free_host_def split: prod.splits dest: first_free_Some)

lemma parse_show_octet: "n < 256 \<Longrightarrow> parse_octet (show_nat n) = Some n"
proof -
  assume n: "n < 256"
  have "length (show_nat n) \<le> 3"
    using n by (subst show_nat.simps, subst show_nat.simps, subst show_nat.simps)
      (auto simp: show_nat.simps)
  moreover have "show_nat n = ''0'' \<or> hd (show_nat n) \<noteq> CHR ''0''"
    using show_nat_zero [of n] by (cases "show_nat n") auto
  ultimately show ?thesis
    using n show_nat_decimal [of n] by (simp add: parse_octet_def dec_value_show_nat)
qed

lemma no_dot: "CHR ''.'' \<notin> set (show_nat n)" "CHR ''/'' \<notin> set (show_nat n)"
  "CHR '','' \<notin> set (show_nat n)"
  using show_nat_decimal [of n] by (auto simp: list_all_iff is_decimal_def)

lemma ipv4_number: "number 256 [n div 16777216, n div 65536 mod 256, n div 256 mod 256, n mod 256] = n"
proof -
  have "n div 65536 = n div 256 div 256" "n div 16777216 = n div 256 div 256 div 256"
    by (simp_all flip: div_mult2_eq)
  then show ?thesis
    by (simp add: number_def)
qed

lemma parse_show_ipv4: "n < 4294967296 \<Longrightarrow> parse_ipv4 (show_ipv4 n) = Some n"
proof -
  let ?ns = "[n div 16777216, n div 65536 mod 256, n div 256 mod 256, n mod 256]"
  assume "n < 4294967296"
  then have "n div 16777216 < 256"
    by (simp add: less_mult_imp_div_less)
  then have "those (map parse_octet (map show_nat ?ns)) = Some ?ns"
    by (simp add: parse_show_octet)
  moreover have "split_char CHR ''.'' (show_ipv4 n) = map show_nat ?ns"
    unfolding show_ipv4_def by (rule split_char_join) (auto simp: no_dot)
  ultimately show ?thesis
    using ipv4_number [of n] by (simp only: parse_ipv4_def Let_def) simp
qed

lemma show_ipv4_chars: "c \<in> set (show_ipv4 n) \<Longrightarrow> is_decimal c \<or> c = CHR ''.''"
  using show_nat_decimal by (auto simp: show_ipv4_def list_all_iff)

text \<open>The hosts of an IPv4 network are addresses of that network.\<close>

lemma net_base_mult: "net_base w p n = 2 ^ (w - p) * (n div 2 ^ (w - p))"
  unfolding net_base_def by (metis minus_mod_eq_mult_div)

lemma net_base_same:
  assumes "net_base w p n \<le> k" "k < net_base w p n + 2 ^ (w - p)"
  shows "net_base w p k = net_base w p n"
proof -
  have "k div 2 ^ (w - p) = n div 2 ^ (w - p)"
    using assms by (intro div_nat_eqI) (auto simp: net_base_mult mult.commute algebra_simps)
  then show ?thesis by (simp add: net_base_mult)
qed

lemma net_base_top:
  assumes "n < 2 ^ w" "p \<le> w"
  shows "net_base w p n + 2 ^ (w - p) \<le> 2 ^ w"
proof -
  let ?m = "2 ^ (w - p) :: nat"
  have w: "(2 :: nat) ^ w = ?m * 2 ^ p"
    using assms(2) by (simp flip: power_add)
  have "n div ?m < 2 ^ p"
    using assms(1) by (simp add: w less_mult_imp_div_less mult.commute)
  then have "?m * (n div ?m + 1) \<le> ?m * 2 ^ p"
    by (intro mult_le_mono2) simp
  then show ?thesis
    by (simp add: net_base_mult w algebra_simps)
qed

lemma free_host_ipv4:
  assumes "free_host (IPv4 n, p) used = Some a" "n < 4294967296" "p \<le> 32"
  obtains k where "a = IPv4 k" "k < 4294967296" "net_base 32 p k = net_base 32 p n"
proof -
  from assms(1) obtain lo hi k where r: "host_range (IPv4 n, p) = (lo, hi)"
    and k: "lo \<le> k" "k \<le> hi" "a = host_at (IPv4 n, p) k"
    by (auto simp: free_host_def split: prod.splits dest: first_free_Some)
  have "net_base 32 p n \<le> lo" "hi < net_base 32 p n + 2 ^ (32 - p)"
    using r by (auto simp: host_range_def Let_def split: if_splits)
  with k have i: "net_base 32 p n \<le> k" "k < net_base 32 p n + 2 ^ (32 - p)"
    by simp_all
  show ?thesis
  proof (rule that)
    show "a = IPv4 k" using k(3) by (simp add: host_at_def)
    show "k < 4294967296" using i(2) net_base_top [of n 32 p] assms(2,3) by simp
    show "net_base 32 p k = net_base 32 p n" by (rule net_base_same [OF i])
  qed
qed

lemma number_bound: "list_all (\<lambda>d. d < b) ds \<Longrightarrow> number b ds < b ^ length ds"
proof (induction ds rule: rev_induct)
  case (snoc d ds)
  then have "number b ds + 1 \<le> b ^ length ds" "d < b"
    by simp_all
  then have "b * (number b ds + 1) \<le> b * b ^ length ds"
    by (intro mult_le_mono2)
  with \<open>d < b\<close> show ?case
    by (simp add: number_def)
qed (simp add: number_def)

lemma those_all: "those (map f xs) = Some ys \<Longrightarrow> length ys = length xs \<and> (\<forall>y \<in> set ys. \<exists>x. f x = Some y)"
  by (induction xs arbitrary: ys) (auto split: option.splits)

lemma parse_ipv4_bound: "parse_ipv4 s = Some n \<Longrightarrow> n < 4294967296"
proof -
  assume "parse_ipv4 s = Some n"
  then obtain ds where ds: "those (map parse_octet (split_char CHR ''.'' s)) = Some ds"
    "length (split_char CHR ''.'' s) = 4" "n = number 256 ds"
    by (auto simp: parse_ipv4_def Let_def split: if_splits)
  from those_all [OF ds(1)] have "list_all (\<lambda>d. d < 256) ds" "length ds = 4"
    by (auto simp: ds(2) list_all_iff parse_octet_def split: if_splits)
  with number_bound [of 256 ds] show ?thesis
    by (simp add: ds(3))
qed

lemma mask_length_bound: "mask_length m = Some p \<Longrightarrow> p \<le> 32"
  unfolding mask_length_def by (auto simp: find_Some_iff)

lemma ip_interface_ipv4:
  assumes "ip_interface s = Some (IPv4 n, p)"
  shows "n < 4294967296 \<and> p \<le> 32"
  using assms
  by (auto simp: ip_interface_def parse_ipv6_def ipv4_prefix_def prefix_digits_def
      dest: parse_ipv4_bound mask_length_bound split: list.splits option.splits if_splits)

end
