(* ===== verification/Vpnctl_Conf.thy ===== *)
theory Vpnctl_Conf
  imports Py_Ip Provisioner
begin

section \<open>The server config of the VPN host\<close>

text \<open>
  The text functions of \<open>src/scripts/provisioner/vpnctl\<close> on \<open>awg1.conf\<close>: sections, the values
  in them, the block of a client, the addresses in use. A text is what \<open>read()\<close> returns, with
  universal newlines; its lines are those of \<open>str.splitlines\<close>. The regular expressions are
  written out, with what backtracking makes of a value that is only white space.
\<close>

subsection \<open>Lines\<close>

definition cr :: char where
  "cr = CHR 0x0D"

fun universal_newlines :: "string \<Rightarrow> string" where
  "universal_newlines [] = []"
| "universal_newlines (c # s) =
     (if c = cr
      then nl # (case s of
                   [] \<Rightarrow> []
                 | d # r \<Rightarrow> if d = nl then universal_newlines r else universal_newlines s)
      else c # universal_newlines s)"

definition is_break :: "char \<Rightarrow> bool" where
  "is_break c = ((of_char c :: nat) \<in> {10, 11, 12, 13, 28, 29, 30, 133})"

text \<open>\<open>splitlines(keepends=True)\<close>, and \<open>splitlines()\<close>.\<close>

fun splitlines_keep :: "string \<Rightarrow> string list" where
  "splitlines_keep [] = []"
| "splitlines_keep (c # s) =
     (if is_break c
      then (case s of
              [] \<Rightarrow> [[c]]
            | d # r \<Rightarrow> if c = cr \<and> d = nl then [c, d] # splitlines_keep r
                       else [c] # splitlines_keep s)
      else (case splitlines_keep s of [] \<Rightarrow> [[c]] | l # ls \<Rightarrow> (c # l) # ls))"

definition splitlines :: "string \<Rightarrow> string list" where
  "splitlines s = map (\<lambda>l. rev (dropWhile is_break (rev l))) (splitlines_keep s)"

definition rstrip_nl :: "string \<Rightarrow> string" where
  "rstrip_nl s = rev (dropWhile (\<lambda>c. c = nl) (rev s))"

subsection \<open>Sections\<close>

definition is_letter :: "char \<Rightarrow> bool" where
  "is_letter c = (let n = of_char c :: nat in (65 \<le> n \<and> n \<le> 90) \<or> (97 \<le> n \<and> n \<le> 122))"

definition section_header :: "string \<Rightarrow> bool" where
  "section_header line =
     (let w = py_strip line
      in 3 \<le> length w \<and> hd w = CHR ''['' \<and> last w = CHR '']'' \<and> list_all is_letter (butlast (tl w)))"

type_synonym conf_section = "string option \<times> string list"

fun collect :: "conf_section \<Rightarrow> string list \<Rightarrow> conf_section list" where
  "collect current [] = [current]"
| "collect current (line # lines) =
     (if section_header line then current # collect (Some (py_strip line), [line]) lines
      else collect (fst current, snd current @ [line]) lines)"

definition sections_of :: "string list \<Rightarrow> conf_section list" where
  "sections_of ls = filter (\<lambda>(h, lines). h \<noteq> None \<or> lines \<noteq> []) (collect (None, []) ls)"

definition split_sections :: "string \<Rightarrow> conf_section list" where
  "split_sections s = sections_of (splitlines_keep s)"

text \<open>\<open>None\<close>: there is no \<open>[Interface]\<close>.\<close>

definition interface_lines :: "string \<Rightarrow> string list option" where
  "interface_lines conf =
     map_option (\<lambda>(h, lines). map rstrip_nl (tl lines))
       (find (\<lambda>(h, lines). h = Some ''[Interface]'') (split_sections conf))"

subsection \<open>Values and names\<close>

text \<open>\<open>^\s*key\s*=\s*(.+?)\s*$\<close> on a line: the value without white space around it, or the
  last character before the end of a line whose value is only white space.\<close>

definition value_of :: "string \<Rightarrow> string \<Rightarrow> string option" where
  "value_of key line =
     (let l = py_lstrip line
      in if starts_with l key
         then (case py_lstrip (drop (length key) l) of
                 [] \<Rightarrow> None
               | c # r \<Rightarrow>
                   if c = CHR ''=''
                   then (if py_strip r \<noteq> [] then Some (py_strip r)
                         else case rev (filter (\<lambda>c. c \<noteq> nl) r) of
                                [] \<Rightarrow> None | w # ws \<Rightarrow> Some [w])
                   else None)
         else None)"

fun get_value :: "string list \<Rightarrow> string \<Rightarrow> string option" where
  "get_value [] key = None"
| "get_value (line # lines) key =
     (case value_of key line of Some v \<Rightarrow> Some v | None \<Rightarrow> get_value lines key)"

definition name_comment :: "string \<Rightarrow> string option" where
  "name_comment line =
     (case rstrip_nl line of
        [] \<Rightarrow> None
      | c # r \<Rightarrow>
          (let w = py_strip r
           in if c = CHR ''#'' \<and> w \<noteq> [] \<and> list_all (\<lambda>c. \<not> is_space c) w then Some w else None))"

definition peer_name :: "string list \<Rightarrow> string option" where
  "peer_name lines = (if 1 < length lines then name_comment (lines ! 1) else None)"

definition is_peer :: "string \<Rightarrow> conf_section \<Rightarrow> bool" where
  "is_peer name sec = (fst sec = Some ''[Peer]'' \<and> peer_name (snd sec) = Some name)"

text \<open>The block of the first peer of that name and its public key.\<close>

definition find_peer :: "string \<Rightarrow> string \<Rightarrow> (string \<times> string option) option" where
  "find_peer conf name =
     map_option (\<lambda>(h, lines). (concat lines, get_value lines ''PublicKey''))
       (find (is_peer name) (split_sections conf))"

definition without_peer :: "string \<Rightarrow> string \<Rightarrow> string" where
  "without_peer conf name =
     concat (map (\<lambda>(h, lines). concat lines) (filter (\<lambda>sec. \<not> is_peer name sec) (split_sections conf)))"

subsection \<open>Addresses in use\<close>

text \<open>\<open>^\s*AllowedIPs\s*=\s*(.+)$\<close> at the start of a line, over the rest of the text (white
  space may span lines): the value and what follows it. A value of white space only, which
  holds no address, counts as no match.\<close>

definition allowed_at :: "string \<Rightarrow> (string \<times> string) option" where
  "allowed_at t =
     (let l = py_lstrip t
      in if starts_with l ''AllowedIPs''
         then (case py_lstrip (drop 10 l) of
                 [] \<Rightarrow> None
               | c # r \<Rightarrow>
                   if c = CHR ''='' \<and> py_lstrip r \<noteq> []
                   then Some (takeWhile (\<lambda>c. c \<noteq> nl) (py_lstrip r),
                              dropWhile (\<lambda>c. c \<noteq> nl) (py_lstrip r))
                   else None)
         else None)"

definition next_line :: "string \<Rightarrow> string" where
  "next_line t = tl (dropWhile (\<lambda>c. c \<noteq> nl) t)"

lemma length_dropWhile_le: "length (dropWhile P xs) \<le> length xs"
  by (induction xs) auto

lemma next_line_shorter: "t \<noteq> [] \<Longrightarrow> length (next_line t) < length t"
  using length_dropWhile_le [of "\<lambda>c. c \<noteq> nl" t]
  by (cases "dropWhile (\<lambda>c. c \<noteq> nl) t")
    (auto simp: next_line_def simp del: dropWhile_eq_Nil_conv)

lemma allowed_at_shorter: "allowed_at t = Some (v, r) \<Longrightarrow> length r < length t"
proof -
  assume a: "allowed_at t = Some (v, r)"
  obtain c q where q: "py_lstrip (drop 10 (py_lstrip t)) = c # q" and
    r: "r = dropWhile (\<lambda>c. c \<noteq> nl) (py_lstrip q)"
    using a by (auto simp: allowed_at_def Let_def split: if_splits list.splits)
  have "length r \<le> length (py_lstrip q)"
    by (simp add: r length_dropWhile_le)
  also have "\<dots> \<le> length q"
    by (simp add: py_lstrip_def length_dropWhile_le)
  also have "length q < length (py_lstrip (drop 10 (py_lstrip t)))"
    by (simp add: q)
  also have "\<dots> \<le> length (drop 10 (py_lstrip t))"
    unfolding py_lstrip_def by (rule length_dropWhile_le)
  also have "\<dots> \<le> length t"
    using length_dropWhile_le [of is_space t] by (simp add: py_lstrip_def)
  finally show ?thesis .
qed

function allowed_values :: "string \<Rightarrow> string list" where
  "allowed_values t =
     (if t = [] then []
      else case allowed_at t of
             None \<Rightarrow> allowed_values (next_line t)
           | Some (v, r) \<Rightarrow> v # (if r = [] then [] else allowed_values (next_line r)))"
  by pat_completeness auto
termination
proof (relation "measure length")
  fix t :: string and x v r
  assume "allowed_at t = Some x" "(v, r) = x" "r \<noteq> []"
  then show "(next_line r, t) \<in> measure length"
    using next_line_shorter [of r] allowed_at_shorter [of t v r] by simp
qed (simp_all add: next_line_shorter)

declare allowed_values.simps [simp del]

definition addresses_in :: "string \<Rightarrow> ip list" where
  "addresses_in text =
     concat (map (\<lambda>v. List.map_filter (\<lambda>part. map_option fst (ip_interface (py_strip part)))
                        (split_char CHR '','' v))
       (allowed_values text))"

end
