(* ===== verification/Vpnctl_Text.thy ===== *)
theory Vpnctl_Text
  imports Vpnctl_Conf
begin

section \<open>Editing the server config\<close>

text \<open>
  The config is taken apart into lines and sections and put together again. What the lemmas
  show: removing a client's blocks leaves every other section as it was, byte for byte;
  appending a block adds its peer and no other, whatever newlines the config ended with.
\<close>

subsection \<open>Lines\<close>

named_theorems line_simps \<open>splitting a text into lines\<close>

definition full_line :: "string \<Rightarrow> bool" where
  "full_line l \<longleftrightarrow> l \<noteq> [] \<and> is_break (last l) \<and> list_all (\<lambda>c. \<not> is_break c) (butlast l) \<and> cr \<notin> set l"

definition part_line :: "string \<Rightarrow> bool" where
  "part_line l \<longleftrightarrow> l \<noteq> [] \<and> list_all (\<lambda>c. \<not> is_break c) l"

fun line_list :: "string list \<Rightarrow> bool" where
  "line_list [] = True"
| "line_list [l] = (full_line l \<or> part_line l)"
| "line_list (l # ls) = (full_line l \<and> line_list ls)"

lemma nl_break [simp]: "is_break nl" "cr \<noteq> nl" "nl \<noteq> cr"
  by (simp_all add: is_break_def nl_def cr_def)

lemma keep_break [line_simps]:
  "is_break c \<Longrightarrow> c \<noteq> cr \<Longrightarrow> splitlines_keep (c # s) = [c] # splitlines_keep s"
  by (cases s) simp_all

lemma keep_char [line_simps]:
  "\<not> is_break c \<Longrightarrow> splitlines_keep (c # s) =
     (case splitlines_keep s of [] \<Rightarrow> [[c]] | l # ls \<Rightarrow> (c # l) # ls)"
  by simp

lemma keep_cr: "splitlines_keep (cr # s) =
    (case s of [] \<Rightarrow> [[cr]]
     | d # r \<Rightarrow> if d = nl then [cr, nl] # splitlines_keep r else [cr] # splitlines_keep s)"
  by (simp add: is_break_def cr_def split: list.split)

declare splitlines_keep.simps(2) [simp del]

lemma keep_Nil [simp]: "splitlines_keep s = [] \<longleftrightarrow> s = []"
  by (cases s) (auto simp: splitlines_keep.simps(2) split: list.split)

lemma keep_concat: "concat (splitlines_keep s) = s"
proof (induction s rule: length_induct)
  case (1 s)
  show ?case
  proof (cases s)
    case (Cons c r)
    consider "is_break c" "c \<noteq> cr" | "c = cr" | "\<not> is_break c" by blast
    then show ?thesis
      by cases (use 1 Cons in \<open>auto simp: line_simps keep_cr split: list.splits\<close>)
  qed simp
qed

lemma keep_append:
  "a = [] \<or> is_break (last a) \<Longrightarrow> cr \<notin> set a \<Longrightarrow>
   splitlines_keep (a @ b) = splitlines_keep a @ splitlines_keep b"
proof (induction a)
  case (Cons c a)
  show ?case
  proof (cases "is_break c")
    case True
    with Cons show ?thesis by (cases "a = []") (auto simp: keep_break)
  next
    case False
    with Cons.prems have "a \<noteq> []" by auto
    with Cons False show ?thesis
      by (auto simp: keep_char split: list.splits)
  qed
qed simp

lemma keep_part: "part_line l \<Longrightarrow> splitlines_keep l = [l]"
proof (induction l)
  case (Cons c l)
  then show ?case by (cases l) (auto simp: part_line_def keep_char)
qed (simp add: part_line_def)

lemma keep_full: "full_line l \<Longrightarrow> splitlines_keep l = [l]"
proof (induction l)
  case (Cons c l)
  show ?case
  proof (cases "l = []")
    case True
    with Cons.prems show ?thesis by (auto simp: full_line_def keep_break)
  next
    case False
    with Cons.prems have "full_line l" "\<not> is_break c"
      by (auto simp: full_line_def)
    with Cons.IH show ?thesis by (simp add: keep_char)
  qed
qed (simp add: full_line_def)

lemma keep_full_Cons [line_simps]: "full_line l \<Longrightarrow> splitlines_keep (l @ s) = l # splitlines_keep s"
  using keep_append [of l s] by (simp add: keep_full) (simp add: full_line_def)

lemma keep_lines: "line_list ls \<Longrightarrow> splitlines_keep (concat ls) = ls"
  by (induction ls rule: line_list.induct)
    (auto simp: keep_part keep_full keep_full_Cons)

lemma line_list_Cons: "line_list (l # ls) \<longleftrightarrow> (if ls = [] then full_line l \<or> part_line l else full_line l \<and> line_list ls)"
  by (cases ls) simp_all

lemma line_list_append:
  "line_list (xs @ ys) \<longleftrightarrow> (if ys = [] then line_list xs else list_all full_line xs \<and> line_list ys)"
  by (induction xs) (auto simp: line_list_Cons)

lemma lines_of_text: "cr \<notin> set s \<Longrightarrow> line_list (splitlines_keep s)"
proof (induction s)
  case (Cons c s)
  show ?case
  proof (cases "is_break c")
    case True
    with Cons show ?thesis
      by (auto simp: keep_break line_list_Cons full_line_def)
  next
    case False
    show ?thesis
    proof (cases "splitlines_keep s")
      case Nil
      with False show ?thesis by (simp add: keep_char part_line_def)
    next
      case (Cons l ls)
      moreover have "full_line l \<Longrightarrow> full_line (c # l)" "part_line l \<Longrightarrow> part_line (c # l)"
        using False Cons.prems by (auto simp: full_line_def part_line_def)
      ultimately show ?thesis
        using Cons.IH Cons.prems False
        by (auto simp: keep_char line_list_Cons split: if_splits)
    qed
  qed
qed simp

subsection \<open>Sections\<close>

definition plain_lines :: "string list \<Rightarrow> bool" where
  "plain_lines ls \<longleftrightarrow> list_all (\<lambda>l. \<not> section_header l) ls"

fun well_section :: "conf_section \<Rightarrow> bool" where
  "well_section (h, []) = False"
| "well_section (h, l # ls) = (section_header l \<and> h = Some (py_strip l) \<and> plain_lines ls)"

lemma plain_simps [simp]:
  "plain_lines []" "plain_lines (l # ls) \<longleftrightarrow> \<not> section_header l \<and> plain_lines ls"
  "plain_lines (xs @ ys) \<longleftrightarrow> plain_lines xs \<and> plain_lines ys"
  by (simp_all add: plain_lines_def)

lemma collect_plain: "plain_lines pre \<Longrightarrow> collect (h, xs) (pre @ ls) = collect (h, xs @ pre) ls"
  by (induction pre arbitrary: xs) simp_all

lemma collect_sections:
  "list_all well_section T \<Longrightarrow> collect (h, xs) (concat (map snd T)) = (h, xs) # T"
proof (induction T arbitrary: h xs)
  case (Cons sec T)
  then obtain l ls where s: "sec = (Some (py_strip l), l # ls)" "section_header l" "plain_lines ls"
    by (cases sec rule: well_section.cases) auto
  with Cons show ?case
    by (simp add: collect_plain)
qed simp

lemma collect_cases:
  obtains pre T where "ls = pre @ concat (map snd T)" "plain_lines pre" "list_all well_section T"
proof -
  have "\<exists>pre T. ls = pre @ concat (map snd T) \<and> plain_lines pre \<and> list_all well_section T"
  proof (induction ls)
    case (Cons l ls)
    then obtain pre T where p: "ls = pre @ concat (map snd T)" "plain_lines pre" "list_all well_section T"
      by blast
    show ?case
    proof (cases "section_header l")
      case True
      then have "l # ls = [] @ concat (map snd ((Some (py_strip l), l # pre) # T)) \<and>
          plain_lines [] \<and> list_all well_section ((Some (py_strip l), l # pre) # T)"
        using p by simp
      then show ?thesis by blast
    next
      case False
      then have "l # ls = (l # pre) @ concat (map snd T) \<and> plain_lines (l # pre) \<and> list_all well_section T"
        using p by simp
      then show ?thesis by blast
    qed
  next
    case Nil
    show ?case by (intro exI [of _ "[]"]) simp
  qed
  then show ?thesis using that by blast
qed

definition before_sections :: "string list \<Rightarrow> conf_section list" where
  "before_sections pre = (if pre = [] then [] else [(None, pre)])"

lemma well_section_header: "well_section sec \<Longrightarrow> fst sec \<noteq> None"
  by (cases sec rule: well_section.cases) auto

lemma sections_build:
  assumes "plain_lines pre" "list_all well_section T"
  shows "sections_of (pre @ concat (map snd T)) = before_sections pre @ T"
proof -
  have c: "collect (None, []) (pre @ concat (map snd T)) = (None, pre) # T"
    using assms by (simp add: collect_plain collect_sections)
  have f: "filter (\<lambda>(h, lines). h \<noteq> None \<or> lines \<noteq> []) T = T"
    using assms(2) by (intro filter_True) (auto simp: list_all_iff dest: well_section_header)
  show ?thesis
    unfolding sections_of_def c using f by (simp add: before_sections_def)
qed

text \<open>A config is what comes before the first section and the sections.\<close>

lemma sections_cases:
  obtains pre T where "splitlines_keep s = pre @ concat (map snd T)" "plain_lines pre"
    "list_all well_section T" "split_sections s = before_sections pre @ T"
proof -
  obtain pre T where p: "splitlines_keep s = pre @ concat (map snd T)" "plain_lines pre"
    "list_all well_section T"
    by (rule collect_cases)
  show ?thesis
    by (rule that [OF p]) (simp only: split_sections_def p(1) sections_build [OF p(2,3)])
qed

subsection \<open>Removing a client\<close>

lemma line_list_filter:
  "line_list (concat (map snd secs)) \<Longrightarrow> line_list (concat (map snd (filter P secs)))"
proof (induction secs)
  case (Cons sec secs)
  have full: "list_all full_line ls \<Longrightarrow> line_list ls" for ls
    by (induction ls) (auto simp: line_list_Cons)
  have tail: "line_list (concat (map snd secs))"
    using Cons.prems by (simp add: line_list_append del: concat_eq_Nil_conv split: if_splits)
  have "concat (map snd secs) = [] \<Longrightarrow> concat (map snd (filter P secs)) = []"
    by auto
  with Cons.IH [OF tail] Cons.prems show ?case
    by (auto simp add: line_list_append full simp del: concat_eq_Nil_conv split: if_splits)
qed simp

lemma concat_sections: "concat (map (\<lambda>(h, lines). concat lines) secs) = concat (concat (map snd secs))"
  by (induction secs) auto

lemma without_peer_sections:
  assumes "cr \<notin> set conf"
  shows "split_sections (without_peer conf n) = filter (\<lambda>sec. \<not> is_peer n sec) (split_sections conf)"
proof -
  obtain pre T where s: "splitlines_keep conf = pre @ concat (map snd T)" "plain_lines pre"
    "list_all well_section T" "split_sections conf = before_sections pre @ T"
    by (rule sections_cases)
  let ?T = "filter (\<lambda>sec. \<not> is_peer n sec) T"
  have f: "filter (\<lambda>sec. \<not> is_peer n sec) (split_sections conf) = before_sections pre @ ?T"
    by (simp add: s before_sections_def is_peer_def)
  have k: "concat (map snd (before_sections pre @ ?T)) = pre @ concat (map snd ?T)"
    by (simp add: before_sections_def)
  have "without_peer conf n = concat (concat (map snd (before_sections pre @ ?T)))"
    unfolding without_peer_def f by (rule concat_sections)
  moreover have "line_list (pre @ concat (map snd ?T))"
  proof -
    have "line_list (concat (map snd ((None, pre) # T)))"
      using lines_of_text [OF assms] s(1) by simp
    from line_list_filter [OF this, of "\<lambda>sec. \<not> is_peer n sec"]
    show ?thesis by (simp add: is_peer_def)
  qed
  ultimately have "splitlines_keep (without_peer conf n) = pre @ concat (map snd ?T)"
    by (simp only: k keep_lines)
  moreover have "list_all well_section ?T"
    using s(3) by (simp add: list_all_iff)
  ultimately show ?thesis
    by (simp add: split_sections_def sections_build s(2) flip: f)
qed

subsection \<open>The peers of a config\<close>

text \<open>Each block by the name in its comment and its public key.\<close>

definition peers_of :: "conf_section list \<Rightarrow> (string option \<times> string option) list" where
  "peers_of secs =
     map (\<lambda>(h, ls). (peer_name ls, get_value ls ''PublicKey''))
       (filter (\<lambda>(h, ls). h = Some ''[Peer]'') secs)"

definition conf_peers :: "string \<Rightarrow> (string option \<times> string option) list" where
  "conf_peers conf = peers_of (split_sections conf)"

lemma peers_of_append: "peers_of (xs @ ys) = peers_of xs @ peers_of ys"
  by (simp add: peers_of_def)

lemma peers_before [simp]: "peers_of (before_sections pre) = []"
  by (simp add: before_sections_def peers_of_def)

lemma find_peer_map_of:
  "map_option snd (find_peer conf n) = map_of (conf_peers conf) (Some n)"
proof -
  have "map_option (\<lambda>x. get_value (snd x) ''PublicKey'') (find (is_peer n) secs) =
      map_of (peers_of secs) (Some n)" for secs
    by (induction secs) (auto simp: peers_of_def is_peer_def)
  from this [of "split_sections conf"] show ?thesis
    by (simp add: find_peer_def conf_peers_def option.map_comp comp_def case_prod_beta)
qed

lemma find_peer_None: "find_peer conf n = None \<longleftrightarrow> Some n \<notin> fst ` set (conf_peers conf)"
  using find_peer_map_of [of conf n] by (metis map_of_eq_None_iff option.map_disc_iff)

lemma find_peer_Some: "find_peer conf n = Some (block, pub) \<Longrightarrow> map_of (conf_peers conf) (Some n) = Some pub"
  using find_peer_map_of [of conf n] by simp

lemma without_peer_peers:
  assumes "cr \<notin> set conf"
  shows "conf_peers (without_peer conf n) = filter (\<lambda>(name, pub). name \<noteq> Some n) (conf_peers conf)"
proof -
  have "peers_of (filter (\<lambda>sec. \<not> is_peer n sec) secs) =
      filter (\<lambda>(name, pub). name \<noteq> Some n) (peers_of secs)" for secs
    by (induction secs) (auto simp: peers_of_def is_peer_def)
  then show ?thesis
    by (simp add: conf_peers_def without_peer_sections [OF assms])
qed

lemma concat_keep: "cr \<notin> set conf \<Longrightarrow> set (without_peer conf n) \<subseteq> set conf"
proof -
  have "set (concat (map (\<lambda>(h, lines). concat lines) (filter P secs))) \<subseteq>
      set (concat (concat (map snd secs)))" for P and secs :: "conf_section list"
    by (induction secs) auto
  moreover obtain pre T where "splitlines_keep conf = pre @ concat (map snd T)"
    "split_sections conf = before_sections pre @ T"
    by (rule sections_cases)
  then have "concat (concat (map snd (split_sections conf))) = concat (splitlines_keep conf)"
    by (simp add: before_sections_def)
  ultimately show ?thesis
    unfolding without_peer_def by (metis keep_concat)
qed

subsection \<open>Appending a block\<close>

definition more_nl :: "string list \<Rightarrow> string list" where
  "more_nl ls =
     (if ls = [] \<or> is_break (last (last ls)) then ls @ [[nl]] else butlast ls @ [last ls @ [nl]])"

lemma nl_space [simp]: "is_space nl"
  by (simp add: is_space_def nl_def)

lemma strip_nl [simp]: "py_strip (l @ [nl]) = py_strip l"
proof -
  have "dropWhile is_space (l @ [nl]) = (if list_all is_space l then [] else dropWhile is_space l @ [nl])"
    by (auto simp: dropWhile_append3 list_all_iff dropWhile_append)
  moreover have "list_all is_space l \<Longrightarrow> dropWhile is_space l = []"
    by (simp add: list_all_iff)
  ultimately show ?thesis
    unfolding py_strip_def py_lstrip_def py_rstrip_def
    by (cases "list_all is_space l") (auto dest: set_dropWhileD simp: list_all_iff)
qed

lemma header_nl [simp]: "section_header (l @ [nl]) = section_header l" "\<not> section_header [nl]"
  by (simp_all add: section_header_def)
    (simp add: py_strip_def py_lstrip_def py_rstrip_def)

lemma keep_nonempty: "[] \<notin> set (splitlines_keep s)"
proof (induction s rule: length_induct)
  case (1 s)
  show ?case
  proof (cases s)
    case (Cons c r)
    consider "is_break c" "c \<noteq> cr" | "c = cr" | "\<not> is_break c" by blast
    then show ?thesis
      by cases (use 1 Cons in \<open>auto simp: line_simps keep_cr split: list.splits\<close>)
  qed simp
qed

lemma more_nl_Cons: "ls \<noteq> [] \<Longrightarrow> more_nl (l # ls) = l # more_nl ls"
  by (simp add: more_nl_def)

lemma keep_nl: "cr \<notin> set s \<Longrightarrow> splitlines_keep (s @ [nl]) = more_nl (splitlines_keep s)"
proof (induction s)
  case Nil
  show ?case by (simp add: more_nl_def keep_break)
next
  case (Cons c s)
  show ?case
  proof (cases "is_break c")
    case True
    with Cons show ?thesis
      by (cases "s = []") (auto simp: keep_break more_nl_Cons, simp add: more_nl_def)
  next
    case False
    show ?thesis
    proof (cases "splitlines_keep s")
      case Nil
      with False show ?thesis by (simp add: line_simps more_nl_def)
    next
      case (Cons l ls)
      then have "l \<noteq> []" using keep_nonempty [of s] by auto
      with Cons Cons.IH Cons.prems False show ?thesis
        by (cases "ls = []") (auto simp: keep_char more_nl_Cons, auto simp: more_nl_def)
    qed
  qed
qed

lemma lstrip_nl: "py_lstrip (l @ [nl]) = (if list_all is_space l then [] else py_lstrip l @ [nl])"
  by (auto simp: py_lstrip_def list_all_iff dropWhile_append)

lemma rstrip_nl_nl [simp]: "rstrip_nl (l @ [nl]) = rstrip_nl l" "rstrip_nl [nl] = []"
  by (simp_all add: rstrip_nl_def)

lemma starts_with_nl: "nl \<notin> set p \<Longrightarrow> starts_with (l @ [nl]) p = starts_with l p"
  by (induction l p rule: starts_with.induct) auto

lemma starts_with_length: "starts_with l p \<Longrightarrow> length p \<le> length l"
  by (induction l p rule: starts_with.induct) auto

lemma all_space_lstrip: "list_all is_space l \<longleftrightarrow> py_lstrip l = []"
  by (simp add: py_lstrip_def list_all_iff)

text \<open>A newline more at the end of a line changes no value, name or header in it.\<close>

lemma value_nl [simp]:
  assumes "nl \<notin> set key"
  shows "value_of key (l @ [nl]) = value_of key l"
proof (cases "py_lstrip l = [] \<or> \<not> starts_with (py_lstrip l) key")
  case True
  then show ?thesis
    using starts_with_nl [OF assms, of "py_lstrip l"] by (auto simp: value_of_def lstrip_nl all_space_lstrip)
next
  case False
  let ?d = "drop (length key) (py_lstrip l)"
  have d: "drop (length key) (py_lstrip (l @ [nl])) = ?d @ [nl]"
    using False starts_with_length [of "py_lstrip l" key] by (simp add: lstrip_nl all_space_lstrip)
  have w: "starts_with (py_lstrip (l @ [nl])) key"
    using False starts_with_nl [OF assms] by (simp add: lstrip_nl all_space_lstrip)
  show ?thesis
  proof (cases "py_lstrip ?d")
    case Nil
    with False d w show ?thesis by (simp add: value_of_def lstrip_nl all_space_lstrip)
  next
    case (Cons c r)
    then have "py_lstrip (?d @ [nl]) = c # (r @ [nl])"
      by (simp add: lstrip_nl all_space_lstrip)
    with False d w Cons show ?thesis by (simp add: value_of_def)
  qed
qed

lemma value_only_nl [simp]: "key \<noteq> [] \<Longrightarrow> value_of key [nl] = None"
  by (cases key) (simp_all add: value_of_def py_lstrip_def)

lemma name_nl [simp]: "name_comment (l @ [nl]) = name_comment l" "name_comment [nl] = None"
  by (simp_all add: name_comment_def)

lemma get_value_append:
  "get_value (xs @ ys) key = (case get_value xs key of None \<Rightarrow> get_value ys key | Some v \<Rightarrow> Some v)"
  by (induction xs) (auto split: option.split)

lemma more_nl_cases:
  assumes "ls \<noteq> []"
  obtains "more_nl ls = ls @ [[nl]]"
    | xs l where "ls = xs @ [l]" "more_nl ls = xs @ [l @ [nl]]"
proof (cases "is_break (last (last ls))")
  case True
  then show ?thesis by (intro that(1)) (simp add: more_nl_def)
next
  case False
  with assms show ?thesis by (intro that(2) [of "butlast ls" "last ls"]) (simp_all add: more_nl_def)
qed

lemma more_nl_section:
  assumes "ls \<noteq> []" "nl \<notin> set key" "key \<noteq> []"
  shows "get_value (more_nl ls) key = get_value ls key" "peer_name (more_nl ls) = peer_name ls"
proof -
  show "get_value (more_nl ls) key = get_value ls key"
    using assms by (cases rule: more_nl_cases [OF assms(1)])
      (auto simp: get_value_append split: option.split)
  show "peer_name (more_nl ls) = peer_name ls"
  proof (cases rule: more_nl_cases [OF assms(1)])
    case 1
    with assms(1) show ?thesis by (auto simp: peer_name_def nth_append less_Suc_eq)
  next
    case (2 xs l)
    then show ?thesis
      by (cases xs) (auto simp: peer_name_def nth_append nth_Cons' less_Suc_eq)
  qed
qed

lemma more_nl_well: "well_section (h, ls) \<Longrightarrow> well_section (h, more_nl ls)"
proof -
  assume w: "well_section (h, ls)"
  then have "ls \<noteq> []" by auto
  then show ?thesis
  proof (cases rule: more_nl_cases)
    case 1
    with w show ?thesis by (cases ls) auto
  next
    case (2 xs l)
    with w show ?thesis by (cases xs) auto
  qed
qed

lemma more_nl_plain: "plain_lines ls \<Longrightarrow> plain_lines (more_nl ls)"
  by (cases ls rule: rev_cases) (auto simp: more_nl_def)

lemma more_nl_append: "ys \<noteq> [] \<Longrightarrow> more_nl (xs @ ys) = xs @ more_nl ys"
  by (simp add: more_nl_def butlast_append)

text \<open>Where a newline more at the end of a text ends up: before the first section, or in the
  last one.\<close>

lemma split_nl_cases:
  assumes "cr \<notin> set s"
  obtains pre where "split_sections s = before_sections pre"
      "split_sections (s @ [nl]) = before_sections (more_nl pre)"
    | secs h ls where "ls \<noteq> []" "split_sections s = secs @ [(h, ls)]"
      "split_sections (s @ [nl]) = secs @ [(h, more_nl ls)]"
proof -
  obtain pre T where p: "splitlines_keep s = pre @ concat (map snd T)" "plain_lines pre"
    "list_all well_section T" "split_sections s = before_sections pre @ T"
    by (rule sections_cases)
  show ?thesis
  proof (cases T rule: rev_cases)
    case Nil
    then have "split_sections (s @ [nl]) = before_sections (more_nl pre)"
      using sections_build [of "more_nl pre" "[]"] p(1,2)
      by (simp add: split_sections_def keep_nl [OF assms] more_nl_plain)
    with Nil p(4) show ?thesis by (intro that(1)) simp_all
  next
    case (snoc T' sec)
    obtain h ls where sec: "sec = (h, ls)" by force
    then have w: "well_section (h, ls)" "ls \<noteq> []" "list_all well_section T'"
      using p(3) snoc by auto
    have "splitlines_keep (s @ [nl]) = pre @ concat (map snd (T' @ [(h, more_nl ls)]))"
      using w(2) by (simp add: keep_nl [OF assms] p(1) snoc sec more_nl_append)
    then have "split_sections (s @ [nl]) = (before_sections pre @ T') @ [(h, more_nl ls)]"
      using sections_build [of pre "T' @ [(h, more_nl ls)]"] p(2) w more_nl_well [OF w(1)]
      by (simp add: split_sections_def)
    with p(4) w(2) show ?thesis by (intro that(2) [of ls "before_sections pre @ T'" h]) (simp_all add: snoc sec)
  qed
qed

lemma conf_peers_nl:
  assumes "cr \<notin> set s"
  shows "conf_peers (s @ [nl]) = conf_peers s"
proof (cases rule: split_nl_cases [OF assms])
  case (2 secs h ls)
  then have "peers_of [(h, more_nl ls)] = peers_of [(h, ls)]"
    using more_nl_section [of ls "''PublicKey''"] by (simp add: peers_of_def nl_def)
  with 2 show ?thesis by (simp add: conf_peers_def peers_of_append)
qed (simp add: conf_peers_def)

subsection \<open>What belongs to the other clients\<close>

text \<open>The whole text of a config but the blocks of one client: every other section in its order,
  \<open>[Interface]\<close> and what stands before the first header among them, with its header and its
  text to the letter. Only the newlines that end a section do not count, since a block is
  written after an empty line.\<close>

definition section_texts :: "conf_section list \<Rightarrow> (string option \<times> string) list" where
  "section_texts secs = filter (\<lambda>(h, t). h \<noteq> None \<or> t \<noteq> [])
     (map (\<lambda>(h, ls). (h, rstrip_nl (concat ls))) secs)"

definition other_sections :: "string \<Rightarrow> string \<Rightarrow> (string option \<times> string) list" where
  "other_sections n conf = section_texts (filter (\<lambda>sec. \<not> is_peer n sec) (split_sections conf))"

lemma section_texts_append: "section_texts (xs @ ys) = section_texts xs @ section_texts ys"
  by (simp add: section_texts_def)

lemma without_peer_other:
  "cr \<notin> set conf \<Longrightarrow> other_sections n (without_peer conf n) = other_sections n conf"
  by (simp add: other_sections_def without_peer_sections)

lemma more_nl_text: "rstrip_nl (concat (more_nl ls)) = rstrip_nl (concat ls)"
proof (cases "ls = []")
  case False
  then have "concat (more_nl ls) = concat ls @ [nl]"
    by (cases rule: more_nl_cases [OF False]) simp_all
  then show ?thesis by simp
qed (simp add: more_nl_def rstrip_nl_def)

lemma section_texts_before:
  assumes "\<And>ls. P (None, ls)"
  shows "section_texts (filter P (before_sections pre)) =
    (if rstrip_nl (concat pre) = [] then [] else [(None, rstrip_nl (concat pre))])"
proof -
  have "rstrip_nl [] = []" by (simp add: rstrip_nl_def)
  then show ?thesis
    using assms by (simp add: before_sections_def section_texts_def del: concat_eq_Nil_conv)
qed

lemma other_sections_nl:
  assumes "cr \<notin> set s"
  shows "other_sections n (s @ [nl]) = other_sections n s"
proof (cases rule: split_nl_cases [OF assms])
  case (1 pre)
  have "\<not> is_peer n (None, ls)" for ls by (simp add: is_peer_def)
  then have "section_texts (filter (\<lambda>sec. \<not> is_peer n sec) (before_sections (more_nl pre))) =
      section_texts (filter (\<lambda>sec. \<not> is_peer n sec) (before_sections pre))"
    by (simp only: section_texts_before more_nl_text simp_thms)
  with 1 show ?thesis by (simp only: other_sections_def)
next
  case (2 secs h ls)
  then have "is_peer n (h, more_nl ls) = is_peer n (h, ls)"
    using more_nl_section(2) [of ls "''PublicKey''"] by (simp add: is_peer_def nl_def)
  moreover have "section_texts [(h, more_nl ls)] = section_texts [(h, ls)]"
    by (simp add: section_texts_def more_nl_text)
  ultimately show ?thesis using 2 by (simp add: other_sections_def section_texts_append)
qed

lemma rstrip_nl_split: obtains k where "s = rstrip_nl s @ replicate k nl"
proof -
  have "\<exists>k. s = rstrip_nl s @ replicate k nl"
  proof (induction s rule: rev_induct)
    case (snoc c s)
    then obtain k where k: "s = rstrip_nl s @ replicate k nl" by blast
    show ?case
    proof (cases "c = nl")
      case True
      with k have "s @ [c] = rstrip_nl (s @ [c]) @ replicate (Suc k) nl"
        by (simp flip: replicate_append_same)
      then show ?thesis by blast
    next
      case False
      then have "s @ [c] = rstrip_nl (s @ [c]) @ replicate 0 nl" by (simp add: rstrip_nl_def)
      then show ?thesis by blast
    qed
  qed (simp add: rstrip_nl_def)
  then show ?thesis using that by blast
qed

lemma conf_peers_newlines:
  "cr \<notin> set s \<Longrightarrow> conf_peers (s @ replicate k nl) = conf_peers s"
proof (induction k)
  case (Suc k)
  then have "conf_peers ((s @ replicate k nl) @ [nl]) = conf_peers (s @ replicate k nl)"
    by (intro conf_peers_nl) auto
  with Suc show ?case by (simp add: replicate_append_same)
qed simp

lemma other_sections_newlines:
  "cr \<notin> set s \<Longrightarrow> other_sections n (s @ replicate k nl) = other_sections n s"
proof (induction k)
  case (Suc k)
  then have "other_sections n ((s @ replicate k nl) @ [nl]) = other_sections n (s @ replicate k nl)"
    by (intro other_sections_nl) auto
  with Suc show ?case by (simp add: replicate_append_same)
qed simp

text \<open>The config with a block after it, the way \<open>create\<close> and \<open>enable\<close> write it.\<close>

definition with_block :: "string \<Rightarrow> string \<Rightarrow> string" where
  "with_block conf block = rstrip_nl conf @ [nl, nl] @ block"

lemma with_block_sections:
  assumes "cr \<notin> set conf" "splitlines_keep block = l # ls" "section_header l"
  obtains t where "split_sections (with_block conf block) = split_sections t @ split_sections block"
    "conf_peers t = conf_peers conf" "\<And>n. other_sections n t = other_sections n conf"
proof -
  obtain k where k: "conf = rstrip_nl conf @ replicate k nl"
    by (rule rstrip_nl_split)
  then have cr: "cr \<notin> set (rstrip_nl conf)"
    using assms(1) by (metis UnCI set_append)
  let ?t = "rstrip_nl conf @ [nl, nl]"
  have t: "conf_peers ?t = conf_peers conf"
    using conf_peers_newlines [OF cr, of 2] conf_peers_newlines [OF cr, of k] k
    by (simp add: numeral_2_eq_2)
  have o: "other_sections n ?t = other_sections n conf" for n
    using other_sections_newlines [OF cr, of n 2] other_sections_newlines [OF cr, of n k] k
    by (simp add: numeral_2_eq_2)
  have "splitlines_keep (?t @ block) = splitlines_keep ?t @ splitlines_keep block"
    using cr by (intro keep_append) auto
  moreover obtain pre T where p: "splitlines_keep ?t = pre @ concat (map snd T)" "plain_lines pre"
    "list_all well_section T" "split_sections ?t = before_sections pre @ T"
    by (rule sections_cases)
  moreover obtain bpre B where b: "splitlines_keep block = bpre @ concat (map snd B)"
    "plain_lines bpre" "list_all well_section B" "split_sections block = before_sections bpre @ B"
    by (rule sections_cases)
  moreover have "bpre = []"
    using b(1,2) assms(2,3) by (cases bpre) auto
  ultimately have "split_sections (?t @ block) = split_sections ?t @ split_sections block"
    using sections_build [of pre "T @ B"] by (simp add: split_sections_def before_sections_def)
  then show ?thesis
    by (intro that [OF _ t o]) (simp add: with_block_def)
qed

lemma with_block_peers:
  assumes "cr \<notin> set conf" "splitlines_keep block = l # ls" "section_header l"
  shows "conf_peers (with_block conf block) = conf_peers conf @ conf_peers block"
    "other_sections n (with_block conf block) = other_sections n conf @ other_sections n block"
  by (rule with_block_sections [OF assms],
      simp add: conf_peers_def peers_of_append other_sections_def section_texts_append)+

end
