(* ===== verification/Vpnctl_Host.thy ===== *)
theory Vpnctl_Host
  imports Vpnctl_Text Vpnctl_Client
begin

section \<open>The vpnctl script: commands\<close>

text \<open>
  \<open>src/scripts/provisioner/vpnctl\<close>, which runs as root on the VPN host: its settings and its six
  commands. The host is the server config, the files of \<open>clients/\<close>, and what the script did to
  the outside so far: every run of \<open>awg\<close> and every attempt to replace a file. What \<open>awg\<close>
  answers and whether the disk takes a file are functions of how much was done before
  (\<open>vh_awg\<close>, \<open>vh_disk\<close>), with nothing assumed about them. A command holds the lock from its
  first read to its last write, so it is one step. Replacing a file is atomic
  (\<open>write_private\<close>); reading one that is there succeeds. \<open>hl_*\<close> are functions of Python's library
  the result of which only goes into a message, is a digest, or is the compressor.
\<close>

subsection \<open>Errors\<close>

text \<open>The exceptions of the script with their messages (kept to the first 256 code points, as
  the client reads them); \<open>Crash\<close> is any other exception, which ends the process with a
  traceback.\<close>

datatype vpnctl_error =
    Vpnctl_Error string
  | Invalid_Input string
  | Not_Found string
  | Refused string
  | Os_Error string
  | Crash exn

text \<open>Exit code and message; none for a crash.\<close>

fun exit_of :: "vpnctl_error \<Rightarrow> (int \<times> string) option" where
  "exit_of (Vpnctl_Error m) = Some (1, m)"
| "exit_of (Invalid_Input m) = Some (2, m)"
| "exit_of (Not_Found m) = Some (3, m)"
| "exit_of (Refused m) = Some (4, m)"
| "exit_of (Os_Error m) = Some (1, m)"
| "exit_of (Crash e) = None"

datatype whois = Whois_Failed string | Whois_Done int string string

record host_lib =
  hl_repr :: "jvalue \<Rightarrow> string"
  hl_sorted :: "jvalue list \<Rightarrow> string option"
  hl_float_zero :: "utext \<Rightarrow> bool"
  hl_uuid :: "utext \<Rightarrow> bool"
  hl_sha256 :: "bytes \<Rightarrow> string"
  hl_compress :: "bytes \<Rightarrow> bytes"
  hl_whois :: "ip \<Rightarrow> whois"
  hl_now :: datetime

definition text_identifier :: "utext \<Rightarrow> bool" where
  "text_identifier t = (list_all (\<lambda>c. c < 128) t \<and> identifier_match (narrow t))"

definition validate_identifier :: "host_lib \<Rightarrow> string \<Rightarrow> utext \<Rightarrow> vpnctl_error + string" where
  "validate_identifier lib name v =
     (if text_identifier v then Inr (narrow v)
      else Inl (Invalid_Input (''Invalid '' @ name @ '': '' @ hl_repr lib (W_Str v)
             @ ''. Must match ^[a-zA-Z0-9_-]{1,64}$'')))"

text \<open>\<open>uuid.UUID\<close> is \<open>parse_uuid\<close> on the code points below 256.\<close>

definition validate_uuid :: "host_lib \<Rightarrow> utext \<Rightarrow> vpnctl_error + unit" where
  "validate_uuid lib v =
     (if (if list_all (\<lambda>c. c < 256) v then \<not> isl (parse_uuid (narrow v)) else hl_uuid lib v)
      then Inr () else Inl (Invalid_Input (''Invalid UUID: '' @ hl_repr lib (W_Str v))))"

subsection \<open>Settings\<close>

type_synonym vpnctl_conf = "(string \<times> string) list"

definition vpnctl_defaults :: vpnctl_conf where
  "vpnctl_defaults =
     [(''INTERFACE'', ''awg1''), (''CONF_DIR'', ''/etc/amnezia/amneziawg''), (''AWG_BIN'', ''awg''),
      (''ENDPOINT_HOST'', ''''), (''ENDPOINT_PORT'', ''''), (''CLIENT_DNS'', ''1.1.1.1, 9.9.9.9''),
      (''CLIENT_MTU'', ''1280''), (''CLIENT_ALLOWED_IPS'', ''0.0.0.0/0, ::/0''),
      (''PERSISTENT_KEEPALIVE'', ''25''), (''ALLOWED_CLIENTS'', ''''),
      (''CLIENT_TOKEN_SHA256'', ''''), (''REQUIRED_TAILSCALE_TAGS'', ''''),
      (''TAILSCALE_BIN'', ''tailscale'')]"

definition strip_char :: "char \<Rightarrow> string \<Rightarrow> string" where
  "strip_char q s = rev (dropWhile (\<lambda>c. c = q) (rev (dropWhile (\<lambda>c. c = q) s)))"

definition apply_line :: "vpnctl_conf \<Rightarrow> string \<Rightarrow> vpnctl_conf" where
  "apply_line cfg raw =
     (let line = py_strip raw
      in if line \<noteq> [] \<and> hd line \<noteq> CHR ''#'' \<and> CHR ''='' \<in> set line
         then (case split_char_max CHR ''='' 1 line of
                 [k, v] \<Rightarrow> dict_put (py_upper (py_strip k))
                            (strip_char (CHR 0x27) (strip_char (CHR 0x22) (py_strip v))) cfg
               | _ \<Rightarrow> cfg)
         else cfg)"

definition setting :: "vpnctl_conf \<Rightarrow> string \<Rightarrow> string" where
  "setting cfg k = (case map_of cfg k of None \<Rightarrow> [] | Some v \<Rightarrow> v)"

text \<open>The text of the settings file, if there is one.\<close>

definition load_settings :: "host_lib \<Rightarrow> string option \<Rightarrow> vpnctl_error + vpnctl_conf" where
  "load_settings lib file =
     (let cfg = (case file of
                   None \<Rightarrow> vpnctl_defaults
                 | Some s \<Rightarrow> foldl apply_line vpnctl_defaults (split_char nl (universal_newlines s)))
      in bind_res (validate_identifier lib ''INTERFACE'' (utext (setting cfg ''INTERFACE'')))
           (\<lambda>_. Inr cfg))"

definition interface_name :: "vpnctl_conf \<Rightarrow> string" where
  "interface_name cfg = setting cfg ''INTERFACE''"

definition conf_path :: "vpnctl_conf \<Rightarrow> string" where
  "conf_path cfg =
     (let dir = setting cfg ''CONF_DIR''
      in dir @ (if dir = [] \<or> last dir = CHR ''/'' then [] else ''/'') @ interface_name cfg @ ''.conf'')"

subsection \<open>The host\<close>

datatype awg_call =
    Awg_Genkey
  | Awg_Genpsk
  | Awg_Pubkey string
  | Awg_Set string string string string
  | Awg_Remove string string
  | Awg_Show string string

text \<open>Exit status, output and error output; or the binary could not be started.\<close>

datatype awg_result = Awg_Done int string string | Awg_Missing string

datatype host_file = Server_Conf | Client_File string string | Temp_File

datatype host_event = Ran awg_call bool | Wrote host_file bool

record vpn_host =
  vh_conf :: "string option"
  vh_clients :: "((string \<times> string) \<times> string) list"
  vh_awg :: "nat \<Rightarrow> awg_call \<Rightarrow> awg_result"
  vh_disk :: "nat \<Rightarrow> string option"
  vh_ip :: "string list \<Rightarrow> string + string"
  vh_log :: "host_event list"

type_synonym 'a command = "vpn_host \<Rightarrow> (vpnctl_error + 'a) \<times> vpn_host"

definition from_res :: "vpnctl_error + 'a \<Rightarrow> 'a command" where
  "from_res r h = (r, h)"

definition logged :: "host_event \<Rightarrow> vpn_host \<Rightarrow> vpn_host" where
  "logged e h = h\<lparr>vh_log := vh_log h @ [e]\<rparr>"

text \<open>The first two words after \<open>awg\<close>, for the message.\<close>

fun awg_words :: "awg_call \<Rightarrow> string" where
  "awg_words Awg_Genkey = ''genkey''"
| "awg_words Awg_Genpsk = ''genpsk''"
| "awg_words (Awg_Pubkey k) = ''pubkey''"
| "awg_words (Awg_Set i p k a) = ''set '' @ i"
| "awg_words (Awg_Remove i p) = ''set '' @ i"
| "awg_words (Awg_Show i f) = ''show '' @ i"

definition awg_run :: "awg_call \<Rightarrow> string command" where
  "awg_run call h =
     (case vh_awg h (length (vh_log h)) call of
        Awg_Missing m \<Rightarrow> (Inl (Os_Error m), logged (Ran call False) h)
      | Awg_Done status out err \<Rightarrow>
          if status \<noteq> 0
          then (Inl (Vpnctl_Error (''awg '' @ awg_words call @ '' failed: ''
                  @ (if py_strip err \<noteq> [] then py_strip err else py_strip out))),
                logged (Ran call False) h)
          else (Inr (py_strip out), logged (Ran call True) h))"

text \<open>\<open>write_private\<close>: the file is replaced, or it stays and \<open>OSError\<close> is raised.\<close>

definition put_file :: "host_file \<Rightarrow> string \<Rightarrow> vpn_host \<Rightarrow> vpn_host" where
  "put_file f s h =
     (case f of
        Server_Conf \<Rightarrow> h\<lparr>vh_conf := Some s\<rparr>
      | Client_File name ext \<Rightarrow> h\<lparr>vh_clients := dict_put (name, ext) s (vh_clients h)\<rparr>
      | Temp_File \<Rightarrow> h)"

definition write_private :: "host_file \<Rightarrow> string \<Rightarrow> unit command" where
  "write_private f s h =
     (case vh_disk h (length (vh_log h)) of
        None \<Rightarrow> (Inr (), logged (Wrote f True) (put_file f s h))
      | Some m \<Rightarrow> (Inl (Os_Error m), logged (Wrote f False) h))"

text \<open>\<open>awg_set_peer\<close>: the preshared key goes through a temporary file. A value that is missing
  cannot be written or passed as an argument.\<close>

definition awg_set_peer ::
  "string \<Rightarrow> string option \<Rightarrow> string option \<Rightarrow> string option \<Rightarrow> unit command" where
  "awg_set_peer iface pub psk ips =
     act_bind (write_private Temp_File []) (\<lambda>_.
       case (psk, pub, ips) of
         (Some k, Some p, Some a) \<Rightarrow> act_bind (awg_run (Awg_Set iface p k a)) (\<lambda>_. done_act)
       | _ \<Rightarrow> raise_act (Crash TypeError))"

definition awg_remove_peer :: "string \<Rightarrow> string \<Rightarrow> unit command" where
  "awg_remove_peer iface pub = act_bind (awg_run (Awg_Remove iface pub)) (\<lambda>_. done_act)"

definition read_conf :: "vpnctl_conf \<Rightarrow> string command" where
  "read_conf cfg h =
     (case vh_conf h of
        None \<Rightarrow> (Inl (Vpnctl_Error (''Server config not found: '' @ conf_path cfg)), h)
      | Some s \<Rightarrow> (Inr (universal_newlines s), h))"

definition client_file :: "string \<Rightarrow> string \<Rightarrow> vpn_host \<Rightarrow> string option" where
  "client_file name ext h = map_option universal_newlines (map_of (vh_clients h) (name, ext))"

definition read_client_file :: "string \<Rightarrow> string \<Rightarrow> string option command" where
  "read_client_file name ext h = (Inr (client_file name ext h), h)"

definition remove_file :: "string \<Rightarrow> string \<Rightarrow> unit command" where
  "remove_file name ext h =
     (Inr (), h\<lparr>vh_clients := filter (\<lambda>(k, s). k \<noteq> (name, ext)) (vh_clients h)\<rparr>)"

definition saved_blocks :: "vpn_host \<Rightarrow> string list" where
  "saved_blocks h =
     map (\<lambda>(k, s). universal_newlines s) (filter (\<lambda>(k, s). snd k = ''peer'') (vh_clients h))"

definition used_addresses :: "string \<Rightarrow> bool \<Rightarrow> vpn_host \<Rightarrow> ip list" where
  "used_addresses conf include_saved h =
     concat (map addresses_in (conf # (if include_saved then saved_blocks h else [])))"

definition used_now :: "string \<Rightarrow> bool \<Rightarrow> ip list command" where
  "used_now conf include_saved h = (Inr (used_addresses conf include_saved h), h)"

text \<open>The word after the first occurrence of one: absent, an \<open>IndexError\<close>, or the word.\<close>

definition word_after :: "string \<Rightarrow> string list \<Rightarrow> string option option" where
  "word_after w ws =
     (case dropWhile (\<lambda>v. v \<noteq> w) ws of
        [] \<Rightarrow> None | [v] \<Rightarrow> Some None | v # x # vs \<Rightarrow> Some (Some x))"

definition run_ip :: "string list \<Rightarrow> string list command" where
  "run_ip args h =
     (case vh_ip h args of
        Inl m \<Rightarrow> (Inl (Os_Error m), h)
      | Inr out \<Rightarrow> (Inr (split_ws out), h))"

definition detect_endpoint_host :: "string command" where
  "detect_endpoint_host =
     (let fail = raise_act (Vpnctl_Error
            ''Could not detect the public IP; set ENDPOINT_HOST in vpnctl.conf'')
      in act_bind (run_ip [''-4'', ''route'', ''show'', ''table'', ''main'', ''default'']) (\<lambda>route.
           case word_after ''dev'' route of
             None \<Rightarrow> fail
           | Some None \<Rightarrow> raise_act (Crash IndexError)
           | Some (Some dev) \<Rightarrow>
               act_bind (run_ip [''-4'', ''-o'', ''addr'', ''show'', ''dev'', dev, ''scope'', ''global''])
                 (\<lambda>out.
                   case word_after ''inet'' out of
                     None \<Rightarrow> fail
                   | Some None \<Rightarrow> raise_act (Crash IndexError)
                   | Some (Some w) \<Rightarrow> return_act (hd (split_char CHR ''/'' w)))))"

end
