(* ===== verification/Vpnctl_Commands.thy ===== *)
theory Vpnctl_Commands
  imports Vpnctl_Host
begin

section \<open>The vpnctl script: the six commands\<close>

text \<open>
  \<open>cmd_create_peer\<close>, \<open>cmd_disable_peer\<close>, \<open>cmd_enable_peer\<close>, \<open>cmd_remove_peer\<close>,
  \<open>cmd_peer_status\<close> and \<open>cmd_get_config\<close> of \<open>src/scripts/provisioner/vpnctl\<close>, whole, in the order
  of their reads, writes and runs of \<open>awg\<close>; a result is the members of the JSON object.
\<close>

type_synonym members = "(utext \<times> jvalue) list"

definition member_str :: "string \<Rightarrow> string \<Rightarrow> utext \<times> jvalue" where
  "member_str k v = (utext k, W_Str (utext v))"

definition member_bool :: "string \<Rightarrow> bool \<Rightarrow> utext \<times> jvalue" where
  "member_bool k v = (utext k, W_Bool v)"

definition member_int :: "string \<Rightarrow> int \<Rightarrow> utext \<times> jvalue" where
  "member_int k v = (utext k, W_Int v)"

subsection \<open>Results\<close>

text \<open>\<open>base64.b64encode\<close>.\<close>

definition std_char :: "nat \<Rightarrow> char" where
  "std_char v = (if v = 62 then CHR ''+'' else if v = 63 then CHR ''/'' else sextet_char v)"

definition b64encode :: "bytes \<Rightarrow> string" where
  "b64encode bs = (let s = map std_char (sextets bs) in s @ padding (length s))"

definition peer_result :: "host_lib \<Rightarrow> string \<Rightarrow> string \<Rightarrow> members \<Rightarrow> members command" where
  "peer_result lib name config_text extra =
     (case encode_vpn_url (hl_compress lib) (utext config_text) of
        Inl e \<Rightarrow> raise_act (Crash e)
      | Inr url \<Rightarrow> return_act
          ([member_str ''status'' ''success'', member_str ''peer_id'' name, member_str ''label'' name,
            member_str ''filename'' (name @ ''.conf''),
            member_str ''config_b64'' (b64encode (utf8_encode (utext config_text))),
            member_str ''vpn_url'' url] @ extra))"

subsection \<open>create-peer\<close>

definition obfuscation_keys :: "string list" where
  "obfuscation_keys =
     [''Jc'', ''Jmin'', ''Jmax'', ''S1'', ''S2'', ''S3'', ''S4'', ''H1'', ''H2'', ''H3'', ''H4'',
      ''I1'', ''I2'', ''I3'', ''I4'', ''I5'', ''HeaderProtectionKey'', ''ContentPaddingAddition'',
      ''RekeyAfterTime'', ''RekeyTimeout'', ''RejectAfterTime'', ''KeepaliveTimeout'',
      ''MaxHandshakeAttempts'', ''RandomTrailers'', ''DisableCookies'']"

definition obfuscation_line :: "string \<Rightarrow> bool" where
  "obfuscation_line l =
     list_ex (\<lambda>k. starts_with l k \<and>
       (case dropWhile (\<lambda>c. c = CHR '' '') (drop (length k) l) of
          [] \<Rightarrow> False | c # r \<Rightarrow> c = CHR ''='')) obfuscation_keys"

definition text_of_lines :: "string list \<Rightarrow> string" where
  "text_of_lines ls = concat (map (\<lambda>l. l @ [nl]) ls)"

definition peer_block :: "string \<Rightarrow> string \<Rightarrow> string \<Rightarrow> string \<Rightarrow> string" where
  "peer_block name pub psk client_ip =
     text_of_lines [''[Peer]'', ''# '' @ name, ''PublicKey = '' @ pub, ''PresharedKey = '' @ psk,
       ''AllowedIPs = '' @ client_ip @ ''/32'']"

definition obfuscation_of :: "string list \<Rightarrow> string" where
  "obfuscation_of iface = py_join [nl] (filter obfuscation_line (map py_strip iface))"

definition client_config ::
  "vpnctl_conf \<Rightarrow> string list \<Rightarrow> string \<Rightarrow> string \<Rightarrow> string \<Rightarrow> string \<Rightarrow> string \<Rightarrow> string" where
  "client_config cfg iface priv client_ip server_pub psk endpoint =
     text_of_lines
       [''[Interface]'', ''PrivateKey = '' @ priv, ''Address = '' @ client_ip @ ''/32'',
        ''DNS = '' @ setting cfg ''CLIENT_DNS'', ''MTU = '' @ setting cfg ''CLIENT_MTU'',
        obfuscation_of iface, '''', ''[Peer]'', ''PublicKey = '' @ server_pub,
        ''PresharedKey = '' @ psk, ''AllowedIPs = '' @ setting cfg ''CLIENT_ALLOWED_IPS'',
        ''Endpoint = '' @ endpoint,
        ''PersistentKeepalive = '' @ setting cfg ''PERSISTENT_KEEPALIVE'']"

text \<open>What a new client takes from the server's \<open>[Interface]\<close>: its lines, the port and the
  server's key, the address for the client.\<close>

definition given :: "string option \<Rightarrow> bool" where
  "given v = (case v of None \<Rightarrow> False | Some s \<Rightarrow> s \<noteq> [])"

definition interface_of :: "vpnctl_conf \<Rightarrow> string \<Rightarrow> vpnctl_error + string list \<times> string \<times> string \<times> string" where
  "interface_of cfg conf =
     (case interface_lines conf of
        None \<Rightarrow> Inl (Vpnctl_Error ''No [Interface] section in server config'')
      | Some iface \<Rightarrow>
          (let address = get_value iface ''Address'';
               port = (if setting cfg ''ENDPOINT_PORT'' \<noteq> [] then Some (setting cfg ''ENDPOINT_PORT'')
                       else get_value iface ''ListenPort'');
               server_priv = get_value iface ''PrivateKey''
           in if given address \<and> given port \<and> given server_priv
              then Inr (iface, the address, the port, the server_priv)
              else Inl (Vpnctl_Error
                ''Server [Interface] needs Address, ListenPort and PrivateKey'')))"

definition pick_address :: "string \<Rightarrow> string \<Rightarrow> ip command" where
  "pick_address conf address =
     (case ip_interface (py_strip (hd (split_char CHR '','' address))) of
        None \<Rightarrow> raise_act (Crash ValueError)
      | Some server_if \<Rightarrow>
          act_bind (used_now conf True) (\<lambda>used.
            case free_host server_if (fst server_if # used) of
              None \<Rightarrow> raise_act (Vpnctl_Error (''Subnet '' @ show_network server_if @ '' is full''))
            | Some client_ip \<Rightarrow> return_act client_ip))"

definition endpoint_host :: "vpnctl_conf \<Rightarrow> string command" where
  "endpoint_host cfg =
     act_bind (if setting cfg ''ENDPOINT_HOST'' \<noteq> [] then return_act (setting cfg ''ENDPOINT_HOST'')
               else detect_endpoint_host) (\<lambda>host.
       return_act (if CHR '':'' \<in> set host \<and> hd host \<noteq> CHR ''['' then ''['' @ host @ '']'' else host))"

text \<open>The three files, and the live peer taken away again when one of them fails.\<close>

definition on_error :: "'a command \<Rightarrow> unit command \<Rightarrow> 'a command" where
  "on_error m cleanup h =
     (case m h of (Inl e, h1) \<Rightarrow> (Inl e, snd (cleanup h1)) | (Inr x, h1) \<Rightarrow> (Inr x, h1))"

definition save_client :: "string \<Rightarrow> string \<Rightarrow> string \<Rightarrow> string \<Rightarrow> unit command" where
  "save_client name conf block config_text =
     act_bind (write_private (Client_File name ''peer'') block) (\<lambda>_.
     act_bind (write_private Server_Conf (with_block conf block)) (\<lambda>_.
       write_private (Client_File name ''conf'') config_text))"

definition new_client ::
  "vpnctl_conf \<Rightarrow> host_lib \<Rightarrow> string \<Rightarrow> string \<Rightarrow> members command" where
  "new_client cfg lib name conf =
     act_bind (from_res (interface_of cfg conf)) (\<lambda>(iface, address, port, server_priv).
     act_bind (pick_address conf address) (\<lambda>client_ip.
     act_bind (awg_run Awg_Genkey) (\<lambda>priv.
     act_bind (awg_run (Awg_Pubkey (priv @ [nl]))) (\<lambda>pub.
     act_bind (awg_run Awg_Genpsk) (\<lambda>psk.
     act_bind (awg_run (Awg_Pubkey (server_priv @ [nl]))) (\<lambda>server_pub.
     act_bind (endpoint_host cfg) (\<lambda>host.
       let ip = show_ip client_ip;
           config_text = client_config cfg iface priv ip server_pub psk (host @ '':'' @ port)
       in act_bind (awg_set_peer (interface_name cfg) (Some pub) (Some psk) (Some (ip @ ''/32'')))
            (\<lambda>_.
          act_bind (on_error (save_client name conf (peer_block name pub psk ip) config_text)
              (awg_remove_peer (interface_name cfg) pub)) (\<lambda>_.
            peer_result lib name config_text
              [member_str ''address'' (ip @ ''/32''), member_bool ''existing'' False])))))))))"

definition cmd_create_peer :: "vpnctl_conf \<Rightarrow> host_lib \<Rightarrow> utext \<Rightarrow> utext \<Rightarrow> members command" where
  "cmd_create_peer cfg lib subscription_id label =
     act_bind (from_res (validate_uuid lib subscription_id)) (\<lambda>_.
     act_bind (from_res (validate_identifier lib ''label'' label)) (\<lambda>name.
     act_bind (read_client_file name ''conf'') (\<lambda>existing.
       case existing of
         Some config_text \<Rightarrow> peer_result lib name config_text [member_bool ''existing'' True]
       | None \<Rightarrow> act_bind (read_conf cfg) (\<lambda>conf. new_client cfg lib name conf))))"

subsection \<open>disable-peer, enable-peer, remove-peer\<close>

definition done_with :: "string \<Rightarrow> bool \<Rightarrow> members" where
  "done_with name found =
     [member_str ''status'' ''success'', member_str ''peer_id'' name, member_bool ''found'' found]"

definition take_off :: "vpnctl_conf \<Rightarrow> string option \<Rightarrow> unit command" where
  "take_off cfg pub = (if given pub then awg_remove_peer (interface_name cfg) (the pub) else done_act)"

definition disable_found ::
  "vpnctl_conf \<Rightarrow> string \<Rightarrow> string \<Rightarrow> string \<Rightarrow> string option \<Rightarrow> unit command" where
  "disable_found cfg name conf block pub =
     act_bind (read_client_file name ''peer'') (\<lambda>saved.
     act_bind (if saved = None
               then write_private (Client_File name ''peer'') (rstrip_nl block @ [nl])
               else done_act) (\<lambda>_.
     act_bind (write_private Server_Conf (without_peer conf name)) (\<lambda>_.
       take_off cfg pub)))"

definition cmd_disable_peer :: "vpnctl_conf \<Rightarrow> host_lib \<Rightarrow> utext \<Rightarrow> members command" where
  "cmd_disable_peer cfg lib peer_id =
     act_bind (from_res (validate_identifier lib ''peer_id'' peer_id)) (\<lambda>name.
     act_bind (read_conf cfg) (\<lambda>conf.
       case find_peer conf name of
         None \<Rightarrow>
           act_bind (read_client_file name ''peer'') (\<lambda>saved.
             return_act (done_with name (saved \<noteq> None) @ [member_bool ''enabled'' False]))
       | Some (block, pub) \<Rightarrow>
           act_bind (disable_found cfg name conf block pub) (\<lambda>_.
             return_act (done_with name True @ [member_bool ''enabled'' False]))))"

definition with_live ::
  "vpnctl_conf \<Rightarrow> string \<Rightarrow> unit command" where
  "with_live cfg block =
     (let lines = splitlines block
      in awg_set_peer (interface_name cfg) (get_value lines ''PublicKey'')
           (get_value lines ''PresharedKey'') (get_value lines ''AllowedIPs''))"

text \<open>A saved block goes back into the config unless its address was handed out since.\<close>

definition restore_block :: "vpnctl_conf \<Rightarrow> string \<Rightarrow> string \<Rightarrow> string \<Rightarrow> unit command" where
  "restore_block cfg name conf block =
     (case get_value (splitlines block) ''AllowedIPs'' of
        None \<Rightarrow> raise_act (Crash AttributeError)
      | Some v \<Rightarrow>
          (case ip_interface (py_strip (hd (split_char CHR '','' v))) of
             None \<Rightarrow> raise_act (Crash ValueError)
           | Some (addr, p) \<Rightarrow>
               act_bind (used_now conf False) (\<lambda>used.
                 if addr \<in> set used
                 then raise_act (Vpnctl_Error ((show_ip addr @ '' is now used by another peer; remove ''
                        @ name @ '' and create a new one'')))
                 else write_private Server_Conf (with_block conf (rstrip_nl block @ [nl])))))"

definition cmd_enable_peer :: "vpnctl_conf \<Rightarrow> host_lib \<Rightarrow> utext \<Rightarrow> members command" where
  "cmd_enable_peer cfg lib peer_id =
     act_bind (from_res (validate_identifier lib ''peer_id'' peer_id)) (\<lambda>name.
     act_bind (read_conf cfg) (\<lambda>conf.
     act_bind
       (case find_peer conf name of
          Some (block, pub) \<Rightarrow> return_act block
        | None \<Rightarrow>
            act_bind (read_client_file name ''peer'') (\<lambda>saved.
              case saved of
                None \<Rightarrow> raise_act (Not_Found (''No client named '' @ name))
              | Some block \<Rightarrow>
                  act_bind (restore_block cfg name conf block) (\<lambda>_. return_act block)))
       (\<lambda>block. act_bind (with_live cfg block) (\<lambda>_.
          return_act (done_with name True @ [member_bool ''enabled'' True])))))"

text \<open>The public key in a saved block; an empty file has none.\<close>

definition saved_key :: "string option \<Rightarrow> string option" where
  "saved_key saved =
     (case saved of None \<Rightarrow> None | Some s \<Rightarrow> get_value (splitlines s) ''PublicKey'')"

definition cmd_remove_peer :: "vpnctl_conf \<Rightarrow> host_lib \<Rightarrow> utext \<Rightarrow> members command" where
  "cmd_remove_peer cfg lib peer_id =
     act_bind (from_res (validate_identifier lib ''peer_id'' peer_id)) (\<lambda>name.
     act_bind (read_conf cfg) (\<lambda>conf.
     act_bind
       (case find_peer conf name of
          Some (block, pub) \<Rightarrow>
            act_bind (write_private Server_Conf (without_peer conf name)) (\<lambda>_. return_act pub)
        | None \<Rightarrow>
            act_bind (read_client_file name ''peer'') (\<lambda>saved. return_act (saved_key saved))) (\<lambda>pub.
     act_bind (take_off cfg pub) (\<lambda>_.
     act_bind (read_client_file name ''conf'') (\<lambda>config.
     act_bind (remove_file name ''conf'') (\<lambda>_.
     act_bind (remove_file name ''peer'') (\<lambda>_.
       return_act (done_with name (pub \<noteq> None \<or> config \<noteq> None)))))))))"

subsection \<open>peer-status, get-config\<close>

text \<open>\<open>_awg_show_table\<close>: the words of each line by its first word; a later line wins.\<close>

definition awg_show_table :: "vpnctl_conf \<Rightarrow> string \<Rightarrow> (string \<times> string list) list command" where
  "awg_show_table cfg field =
     act_bind (awg_run (Awg_Show (interface_name cfg) field)) (\<lambda>out.
       return_act (foldl (\<lambda>t line. case split_ws line of [] \<Rightarrow> t | w # ws \<Rightarrow> dict_put w ws t) []
         (splitlines out)))"

definition word_int :: "string list \<Rightarrow> nat \<Rightarrow> vpnctl_error + int" where
  "word_int ws i =
     (if i < length ws
      then (case py_int (ws ! i) of Inl e \<Rightarrow> Inl (Crash e) | Inr n \<Rightarrow> Inr n)
      else Inl (Crash IndexError))"

definition isoformat :: "int \<Rightarrow> string" where
  "isoformat ts =
     (case civil (ts * second div day) of (y, m, d) \<Rightarrow>
        show_int y @ ''-'' @ pad2 m @ ''-'' @ pad2 d @ ''T'' @ pad2 (ts mod 86400 div 3600) @ '':''
        @ pad2 (ts mod 3600 div 60) @ '':'' @ pad2 (ts mod 60) @ ''+00:00'')"

definition active_handshake_seconds :: int where
  "active_handshake_seconds = 180"

definition status_members ::
  "string \<Rightarrow> bool \<Rightarrow> bool \<Rightarrow> bool \<Rightarrow> jvalue \<Rightarrow> int \<Rightarrow> int \<Rightarrow> members" where
  "status_members name existing enabled active seen rx tx =
     [member_str ''status'' ''success'', member_str ''peer_id'' name, member_bool ''exists'' existing,
      member_bool ''enabled'' enabled, member_bool ''is_active'' active,
      (utext ''last_handshake'', seen), member_int ''bytes_received'' rx,
      member_int ''bytes_sent'' tx]"

definition live_status :: "vpnctl_conf \<Rightarrow> host_lib \<Rightarrow> string \<Rightarrow> string \<Rightarrow> members command" where
  "live_status cfg lib name pub =
     act_bind (awg_show_table cfg ''latest-handshakes'') (\<lambda>handshakes.
     act_bind (awg_show_table cfg ''transfer'') (\<lambda>transfer.
     act_bind (from_res (word_int (case map_of handshakes pub of None \<Rightarrow> [''0''] | Some ws \<Rightarrow> ws) 0)) (\<lambda>ts.
     act_bind (if 0 < ts \<and> max_datetime < ts * second then raise_act (Crash ValueError) else done_act) (\<lambda>_.
       let seen = (if 0 < ts then W_Str (utext (isoformat ts)) else W_Null);
           active = (0 < ts \<and> hl_now lib - ts * second < active_handshake_seconds * second);
           rx_tx = (case map_of transfer pub of None \<Rightarrow> [''0'', ''0''] | Some ws \<Rightarrow> ws)
       in act_bind (from_res (word_int rx_tx 0)) (\<lambda>rx.
          act_bind (from_res (word_int rx_tx 1)) (\<lambda>tx.
            return_act (status_members name True True active seen rx tx
              @ [member_bool ''live'' (map_of handshakes pub \<noteq> None)])))))))"

definition cmd_peer_status :: "vpnctl_conf \<Rightarrow> host_lib \<Rightarrow> utext \<Rightarrow> members command" where
  "cmd_peer_status cfg lib peer_id =
     act_bind (from_res (validate_identifier lib ''peer_id'' peer_id)) (\<lambda>name.
     act_bind (read_conf cfg) (\<lambda>conf.
     act_bind (read_client_file name ''peer'') (\<lambda>saved.
       let found = find_peer conf name; enabled = (found \<noteq> None);
           block_key = (case found of None \<Rightarrow> None | Some (block, pub) \<Rightarrow> pub);
           key = (if block_key = None then saved_key saved else block_key)
       in case key of
            Some pub \<Rightarrow>
              if enabled then live_status cfg lib name pub
              else return_act (status_members name True False False W_Null 0 0)
          | None \<Rightarrow> return_act (status_members name False enabled False W_Null 0 0))))"

definition cmd_get_config :: "host_lib \<Rightarrow> utext \<Rightarrow> members command" where
  "cmd_get_config lib peer_id =
     act_bind (from_res (validate_identifier lib ''peer_id'' peer_id)) (\<lambda>name.
     act_bind (read_client_file name ''conf'') (\<lambda>config.
       case config of
         None \<Rightarrow> raise_act (Not_Found (''No client config for '' @ name))
       | Some s \<Rightarrow> peer_result lib name s []))"

end
