(* ===== verification/Vpnctl_Serve.thy ===== *)
theory Vpnctl_Serve
  imports Vpnctl_Commands
begin

section \<open>The vpnctl script: serve\<close>

text \<open>
  \<open>read_request\<close>, \<open>check_caller\<close>, \<open>check_tailscale_tags\<close>, \<open>handle\<close> and \<open>cmd_serve\<close> of
  \<open>src/scripts/provisioner/vpnctl\<close>: systemd starts the script for each connection, with the
  connection as its standard input. It reads one request, of at most 4096 bytes, before it
  refuses anyone; a caller over TCP must come from an allowed address and know the token; the
  request names one of six commands and exactly its arguments.
\<close>

subsection \<open>The connection\<close>

text \<open>Standard input is a pipe, the Unix socket, or TCP with the address of the peer (\<open>None\<close>:
  \<open>getpeername\<close> fails). What arrives: pieces of bytes, and perhaps the timeout or an \<open>OSError\<close>.\<close>

datatype caller = Pipe | Unix | Tcp_Peer "string option"

datatype incoming = Piece bytes | Silence | Broken string

definition max_request_bytes :: nat where
  "max_request_bytes = 4096"

text \<open>\<open>recv(n)\<close> returns at most \<open>n\<close> bytes of the next piece; nothing more is the end.\<close>

definition recv :: "nat \<Rightarrow> incoming list \<Rightarrow> vpnctl_error + bytes \<times> incoming list" where
  "recv n ins =
     (case ins of
        [] \<Rightarrow> Inr ([], [])
      | Silence # r \<Rightarrow> Inl (Invalid_Input ''Timed out reading the request'')
      | Broken m # r \<Rightarrow> Inl (Os_Error m)
      | Piece c # r \<Rightarrow> if length c \<le> n then Inr (c, r) else Inr (take n c, Piece (drop n c) # r))"

fun piece_bytes :: "incoming \<Rightarrow> bytes" where
  "piece_bytes (Piece c) = c"
| "piece_bytes _ = []"

definition stream_size :: "incoming list \<Rightarrow> nat" where
  "stream_size ins = length ins + length (concat (map piece_bytes ins))"

lemma recv_shorter:
  "recv n ins = Inr (c, r) \<Longrightarrow> c \<noteq> [] \<Longrightarrow> stream_size r < stream_size ins"
  by (auto simp: recv_def stream_size_def split: list.splits incoming.splits if_splits)

function read_loop :: "bytes \<Rightarrow> incoming list \<Rightarrow> vpnctl_error + bytes" where
  "read_loop raw ins =
     (if 10 \<in> set raw \<or> max_request_bytes < length raw then Inr raw
      else case recv (max_request_bytes + 1 - length raw) ins of
             Inl e \<Rightarrow> Inl e
           | Inr (chunk, r) \<Rightarrow> if chunk = [] then Inr raw else read_loop (raw @ chunk) r)"
  by pat_completeness auto
termination
  by (relation "measure (\<lambda>(raw, ins). stream_size ins)") (auto intro: recv_shorter)

declare read_loop.simps [simp del]

definition read_raw :: "caller \<Rightarrow> incoming list \<Rightarrow> vpnctl_error + bytes" where
  "read_raw from ins =
     (case from of
        Pipe \<Rightarrow> Inr (take (max_request_bytes + 1) (concat (map piece_bytes ins)))
      | _ \<Rightarrow> read_loop [] ins)"

subsection \<open>The request\<close>

definition known_members :: "string list" where
  "known_members = [''command'', ''args'', ''token'']"

definition read_request :: "caller \<Rightarrow> incoming list \<Rightarrow> vpnctl_error + members" where
  "read_request from ins =
     bind_res (read_raw from ins) (\<lambda>raw.
       if max_request_bytes < length raw then Inl (Invalid_Input ''Request too large'')
       else case Option.bind (utf8_decode (takeWhile (\<lambda>b. b \<noteq> 10) raw)) loads of
              None \<Rightarrow> Inl (Invalid_Input ''Request is not JSON'')
            | Some request \<Rightarrow>
                (case as_object request of
                   None \<Rightarrow> Inl (Invalid_Input ''Request must be an object with an args object'')
                 | Some ms \<Rightarrow>
                     if as_object (json_member ''args'' ms (W_Obj [])) = None
                     then Inl (Invalid_Input ''Request must be an object with an args object'')
                     else if list_all (\<lambda>(k, v). k \<in> set (map utext known_members)) ms then Inr ms
                     else Inl (Invalid_Input ''Request may only have command, args and token'')))"

subsection \<open>Who may call\<close>

text \<open>The truth value of a JSON value, and what \<open>set(v or [])\<close> makes of the tags of a node.\<close>

definition json_true :: "host_lib \<Rightarrow> jvalue \<Rightarrow> bool" where
  "json_true lib v =
     (case v of
        W_Null \<Rightarrow> False | W_Bool b \<Rightarrow> b | W_Int n \<Rightarrow> n \<noteq> 0 | W_Float t \<Rightarrow> \<not> hl_float_zero lib t
      | W_Str t \<Rightarrow> t \<noteq> [] | W_Arr vs \<Rightarrow> vs \<noteq> [] | W_Obj ms \<Rightarrow> ms \<noteq> [])"

fun hashable :: "jvalue \<Rightarrow> bool" where
  "hashable (W_Arr vs) = False"
| "hashable (W_Obj ms) = False"
| "hashable v = True"

definition tags_of :: "host_lib \<Rightarrow> jvalue \<Rightarrow> vpnctl_error + jvalue list" where
  "tags_of lib v =
     (if \<not> json_true lib v then Inr []
      else case v of
             W_Arr vs \<Rightarrow> if list_all hashable vs then Inr vs else Inl (Crash TypeError)
           | W_Str t \<Rightarrow> Inr (map (\<lambda>c. W_Str [c]) t)
           | W_Obj ms \<Rightarrow> Inr (map (\<lambda>(k, w). W_Str k) ms)
           | _ \<Rightarrow> Inl (Crash TypeError))"

text \<open>The tags of the caller's node by \<open>tailscale whois\<close>.\<close>

definition whois_error :: "string \<Rightarrow> vpnctl_error" where
  "whois_error m = Vpnctl_Error (''Could not check the caller with tailscale whois: '' @ m)"

definition node_tags :: "host_lib \<Rightarrow> ip \<Rightarrow> vpnctl_error + jvalue list" where
  "node_tags lib peer =
     (case hl_whois lib peer of
        Whois_Failed m \<Rightarrow> Inl (whois_error m)
      | Whois_Done status out err \<Rightarrow>
          if status \<noteq> 0
          then Inl (Vpnctl_Error (''tailscale whois failed: ''
                 @ (if py_strip err \<noteq> [] then py_strip err else py_strip out)))
          else (case loads (utext out) of
                  None \<Rightarrow> Inl (whois_error (exn_str ValueError))
                | Some w \<Rightarrow>
                    (case as_object w of
                       None \<Rightarrow> Inl (whois_error (exn_str AttributeError))
                     | Some ms \<Rightarrow>
                         (let node = json_member ''Node'' ms W_Null
                          in if \<not> json_true lib node then Inr []
                             else case as_object node of
                                    None \<Rightarrow> Inl (whois_error (exn_str AttributeError))
                                  | Some nms \<Rightarrow> tags_of lib (json_member ''Tags'' nms W_Null)))))"

definition words_of_list :: "string \<Rightarrow> string list" where
  "words_of_list s = filter (\<lambda>w. w \<noteq> []) (map py_strip (split_char CHR '','' s))"

definition check_tailscale_tags :: "vpnctl_conf \<Rightarrow> host_lib \<Rightarrow> ip \<Rightarrow> vpnctl_error + unit" where
  "check_tailscale_tags cfg lib peer =
     (let required = map (\<lambda>w. W_Str (utext w)) (words_of_list (setting cfg ''REQUIRED_TAILSCALE_TAGS''))
      in if required = [] then Inr ()
         else bind_res (node_tags lib peer) (\<lambda>tags.
           if set tags \<inter> set required \<noteq> {} then Inr ()
           else case (hl_sorted lib tags, hl_sorted lib required) of
                  (Some ts, Some rs) \<Rightarrow>
                    Inl (Refused (show_ip peer @ '' has Tailscale tags ''
                      @ (if tags = [] then ''none'' else ts) @ '', needs one of '' @ rs))
                | _ \<Rightarrow> Inl (Crash TypeError)))"

definition allowed_clients :: "vpnctl_conf \<Rightarrow> ip list" where
  "allowed_clients cfg =
     List.map_filter (\<lambda>part. ip_address (py_strip part)) (split_char CHR '','' (setting cfg ''ALLOWED_CLIENTS''))"

definition token_hashes :: "vpnctl_conf \<Rightarrow> string list" where
  "token_hashes cfg = map py_lower (words_of_list (setting cfg ''CLIENT_TOKEN_SHA256''))"

text \<open>The digest of the token; a lone surrogate cannot be encoded. \<open>compare_digest\<close> takes
  ASCII only.\<close>

definition token_digest :: "host_lib \<Rightarrow> members option \<Rightarrow> vpnctl_error + string" where
  "token_digest lib request =
     (case Option.bind request (\<lambda>ms. as_text (json_member ''token'' ms W_Null)) of
        None \<Rightarrow> Inr []
      | Some t \<Rightarrow>
          if list_all code_point t then Inr (hl_sha256 lib (utf8_encode t))
          else Inl (Crash ValueError))"

definition check_token :: "vpnctl_conf \<Rightarrow> host_lib \<Rightarrow> members option \<Rightarrow> vpnctl_error + unit" where
  "check_token cfg lib request =
     (let expected = token_hashes cfg
      in if expected = []
         then Inl (Refused ''CLIENT_TOKEN_SHA256 is not set, so no TCP caller is accepted'')
         else bind_res (token_digest lib request) (\<lambda>digest.
           if \<not> list_all (list_all (\<lambda>c. (of_char c :: nat) < 128)) expected then Inl (Crash TypeError)
           else if digest \<in> set expected then Inr ()
           else Inl (Refused ''Wrong or missing token'')))"

definition check_caller ::
  "vpnctl_conf \<Rightarrow> host_lib \<Rightarrow> caller \<Rightarrow> members option \<Rightarrow> vpnctl_error + unit" where
  "check_caller cfg lib from request =
     (case from of
        Tcp_Peer name \<Rightarrow>
          (case Option.bind name ip_address of
             None \<Rightarrow> Inl (Refused ''Cannot tell who is calling'')
           | Some a \<Rightarrow>
               (let peer = unmapped a
                in if peer \<notin> set (allowed_clients cfg)
                   then Inl (Refused (show_ip peer @ '' is not in ALLOWED_CLIENTS''))
                   else bind_res (check_token cfg lib request) (\<lambda>_.
                     check_tailscale_tags cfg lib peer)))
      | _ \<Rightarrow> Inr ())"

subsection \<open>One request\<close>

datatype serve_command =
    Create_Peer | Disable_Peer | Enable_Peer | Remove_Peer | Peer_Status | Get_Config

definition serve_commands :: "(string \<times> serve_command \<times> string list) list" where
  "serve_commands =
     [(''create-peer'', Create_Peer, [''subscription_id'', ''label'']),
      (''disable-peer'', Disable_Peer, [''peer_id'']), (''enable-peer'', Enable_Peer, [''peer_id'']),
      (''remove-peer'', Remove_Peer, [''peer_id'']), (''peer-status'', Peer_Status, [''peer_id'']),
      (''get-config'', Get_Config, [''peer_id''])]"

definition arg_text :: "string \<Rightarrow> members \<Rightarrow> utext" where
  "arg_text k args = (case as_text (json_member k args W_Null) of None \<Rightarrow> [] | Some t \<Rightarrow> t)"

fun run_command :: "serve_command \<Rightarrow> vpnctl_conf \<Rightarrow> host_lib \<Rightarrow> members \<Rightarrow> members command" where
  "run_command Create_Peer cfg lib args =
     cmd_create_peer cfg lib (arg_text ''subscription_id'' args) (arg_text ''label'' args)"
| "run_command Disable_Peer cfg lib args = cmd_disable_peer cfg lib (arg_text ''peer_id'' args)"
| "run_command Enable_Peer cfg lib args = cmd_enable_peer cfg lib (arg_text ''peer_id'' args)"
| "run_command Remove_Peer cfg lib args = cmd_remove_peer cfg lib (arg_text ''peer_id'' args)"
| "run_command Peer_Status cfg lib args = cmd_peer_status cfg lib (arg_text ''peer_id'' args)"
| "run_command Get_Config cfg lib args = cmd_get_config lib (arg_text ''peer_id'' args)"

definition unknown_command :: "host_lib \<Rightarrow> jvalue \<Rightarrow> vpnctl_error" where
  "unknown_command lib v = Invalid_Input (''Unknown command: '' @ hl_repr lib v)"

text \<open>A list or an object cannot be looked up in \<open>SERVE_COMMANDS\<close>: that is a \<open>TypeError\<close>.\<close>

definition handle_request :: "vpnctl_conf \<Rightarrow> host_lib \<Rightarrow> members \<Rightarrow> members command" where
  "handle_request cfg lib request =
     (let command = json_member ''command'' request W_Null
      in if \<not> hashable command then raise_act (Crash TypeError)
         else case find (\<lambda>(name, f, expected). command = W_Str (utext name)) serve_commands of
                None \<Rightarrow> raise_act (unknown_command lib command)
              | Some (name, f, expected) \<Rightarrow>
                  (case as_object (json_member ''args'' request (W_Obj [])) of
                     None \<Rightarrow> raise_act (Crash AttributeError)
                   | Some args \<Rightarrow>
                       if fst ` set args = utext ` set expected
                          \<and> list_all (\<lambda>(k, v). as_text v \<noteq> None) args
                       then run_command f cfg lib args
                       else raise_act (Invalid_Input (name @ '' takes exactly: ''
                              @ py_join '', '' (sort expected)))))"

text \<open>A request that is not valid is refused after the caller was checked.\<close>

definition answer_request ::
  "vpnctl_conf \<Rightarrow> host_lib \<Rightarrow> caller \<Rightarrow> incoming list \<Rightarrow> members command" where
  "answer_request cfg lib from ins =
     (case read_request from ins of
        Inr ms \<Rightarrow>
          act_bind (from_res (check_caller cfg lib from (Some ms))) (\<lambda>_. handle_request cfg lib ms)
      | Inl (Invalid_Input m) \<Rightarrow>
          act_bind (from_res (check_caller cfg lib from None)) (\<lambda>_. raise_act (Invalid_Input m))
      | Inl e \<Rightarrow> raise_act e)"

text \<open>The response, or none after a crash.\<close>

definition response_of :: "vpnctl_error + members \<Rightarrow> jvalue option" where
  "response_of r =
     (case r of
        Inr result \<Rightarrow> Some (W_Obj [member_int ''exit_code'' 0, (utext ''result'', W_Obj result)])
      | Inl e \<Rightarrow>
          map_option (\<lambda>(code, m). W_Obj [member_int ''exit_code'' code, member_str ''error'' m])
            (exit_of e))"

definition cmd_serve ::
  "host_lib \<Rightarrow> string option \<Rightarrow> caller \<Rightarrow> incoming list \<Rightarrow> vpn_host \<Rightarrow> bytes option \<times> vpn_host" where
  "cmd_serve lib settings_file from ins h =
     (case act_bind (from_res (load_settings lib settings_file))
             (\<lambda>cfg. answer_request cfg lib from ins) h of
        (r, h') \<Rightarrow> (map_option request_line (response_of r), h'))"

subsection \<open>encode and decode\<close>

text \<open>Run by hand only: \<open>encode\<close> prints the link of the text on standard input, \<open>decode\<close> the
  text of a link.\<close>

definition cmd_encode :: "host_lib \<Rightarrow> utext \<Rightarrow> vpnctl_error + string" where
  "cmd_encode lib stdin =
     (case encode_vpn_url (hl_compress lib) stdin of Inl e \<Rightarrow> Inl (Crash e) | Inr url \<Rightarrow> Inr url)"

definition cmd_decode :: "(bytes \<Rightarrow> bytes option) \<Rightarrow> string \<Rightarrow> vpnctl_error + utext" where
  "cmd_decode zd url =
     (case decode_vpn_url zd url of
        Some (c # t) \<Rightarrow> Inr (c # t)
      | _ \<Rightarrow> Inl (Invalid_Input ''Could not decode vpn:// URL''))"

end
