(* ===== verification/Vpnctl_Logic.thy ===== *)
theory Vpnctl_Logic
  imports Vpnctl_Serve
begin

section \<open>Reasoning about vpnctl commands\<close>

text \<open>
  A weakest precondition for commands, with one postcondition for a result and one for an
  error, since an error leaves behind what was done before it; and the frame of a command:
  the clients it did not name keep their files and their blocks in the server config, in any
  outcome.
\<close>

subsection \<open>Weakest preconditions\<close>

named_theorems wp_rules \<open>introduction rules for the weakest precondition\<close>

definition wp ::
  "'a command \<Rightarrow> ('a \<Rightarrow> vpn_host \<Rightarrow> bool) \<Rightarrow> (vpnctl_error \<Rightarrow> vpn_host \<Rightarrow> bool) \<Rightarrow> vpn_host \<Rightarrow> bool" where
  "wp m R E h = (case m h of (Inl e, h') \<Rightarrow> E e h' | (Inr x, h') \<Rightarrow> R x h')"

lemma wp_Inr: "wp m R E h \<Longrightarrow> m h = (Inr x, h') \<Longrightarrow> R x h'"
  and wp_Inl: "wp m R E h \<Longrightarrow> m h = (Inl e, h') \<Longrightarrow> E e h'"
  by (simp_all add: wp_def)

lemma wp_any: "wp m (\<lambda>x. Q) (\<lambda>e. Q) h \<longleftrightarrow> Q (snd (m h))"
  by (simp add: wp_def split: prod.split sum.split)

lemma wp_mono:
  "wp m R E h \<Longrightarrow> (\<And>x h'. R x h' \<Longrightarrow> R' x h') \<Longrightarrow> (\<And>e h'. E e h' \<Longrightarrow> E' e h') \<Longrightarrow> wp m R' E' h"
  by (auto simp: wp_def split: prod.splits sum.splits)

lemma wp_bind [wp_rules]: "wp m (\<lambda>x. wp (f x) R E) E h \<Longrightarrow> wp (act_bind m f) R E h"
  by (auto simp: wp_def act_bind_def split: prod.splits sum.splits)

lemma wp_return [wp_rules]: "R x h \<Longrightarrow> wp (return_act x) R E h"
  by (simp add: wp_def return_act_def)

lemma wp_done [wp_rules]: "R () h \<Longrightarrow> wp done_act R E h"
  by (simp add: wp_def done_act_def)

lemma wp_raise [wp_rules]: "E e h \<Longrightarrow> wp (raise_act e) R E h"
  by (simp add: wp_def raise_act_def)

lemma wp_res [wp_rules]:
  "(\<And>x. r = Inr x \<Longrightarrow> R x h) \<Longrightarrow> (\<And>e. r = Inl e \<Longrightarrow> E e h) \<Longrightarrow> wp (from_res r) R E h"
  by (simp add: wp_def from_res_def split: sum.split)

lemma wp_read_conf [wp_rules]:
  assumes "\<And>s. vh_conf h = Some s \<Longrightarrow> R (universal_newlines s) h"
    "\<And>m. vh_conf h = None \<Longrightarrow> E (Vpnctl_Error m) h"
  shows "wp (read_conf cfg) R E h"
  using assms by (simp add: wp_def read_conf_def split: option.split)

lemma wp_read_client [wp_rules]:
  "R (client_file name ext h) h \<Longrightarrow> wp (read_client_file name ext) R E h"
  by (simp add: wp_def read_client_file_def)

lemma wp_used [wp_rules]: "R (used_addresses conf b h) h \<Longrightarrow> wp (used_now conf b) R E h"
  by (simp add: wp_def used_now_def)

lemma wp_if [wp_rules]: "(b \<Longrightarrow> wp m R E h) \<Longrightarrow> (\<not> b \<Longrightarrow> wp n R E h) \<Longrightarrow> wp (if b then m else n) R E h"
  by simp

lemma wp_option [wp_rules]:
  "(x = None \<Longrightarrow> wp m R E h) \<Longrightarrow> (\<And>v. x = Some v \<Longrightarrow> wp (f v) R E h) \<Longrightarrow>
   wp (case x of None \<Rightarrow> m | Some v \<Rightarrow> f v) R E h"
  by (simp split: option.split)

lemma wp_prod [wp_rules]: "(\<And>a b. p = (a, b) \<Longrightarrow> wp (f a b) R E h) \<Longrightarrow> wp (case p of (a, b) \<Rightarrow> f a b) R E h"
  by (simp split: prod.split)

lemma wp_awg [wp_rules]:
  assumes "\<And>m. E m (logged (Ran c False) h)"
    "\<And>out err. vh_awg h (length (vh_log h)) c = Awg_Done 0 out err \<Longrightarrow>
       R (py_strip out) (logged (Ran c True) h)"
  shows "wp (awg_run c) R E h"
  using assms by (auto simp: wp_def awg_run_def split: awg_result.split)

lemma wp_write [wp_rules]:
  assumes "\<And>m. E (Os_Error m) (logged (Wrote f False) h)"
    "R () (logged (Wrote f True) (put_file f s h))"
  shows "wp (write_private f s) R E h"
  using assms by (simp add: wp_def write_private_def split: option.split)

lemma wp_run_ip [wp_rules]:
  "(\<And>ws. R ws h) \<Longrightarrow> (\<And>m. E (Os_Error m) h) \<Longrightarrow> wp (run_ip args) R E h"
  by (simp add: wp_def run_ip_def split: sum.split)

lemma wp_on_error [wp_rules]:
  "wp m R (\<lambda>e. wp c (\<lambda>x. E e) (\<lambda>e'. E e)) h \<Longrightarrow> wp (on_error m c) R E h"
  by (auto simp: wp_def on_error_def split: prod.splits sum.splits)

subsection \<open>The state after a step\<close>

named_theorems host_simps \<open>the parts of a host after a step\<close>

definition conf_text :: "vpn_host \<Rightarrow> string" where
  "conf_text h = (case vh_conf h of None \<Rightarrow> [] | Some s \<Rightarrow> universal_newlines s)"

definition host_peers :: "vpn_host \<Rightarrow> (string option \<times> string option) list" where
  "host_peers h = conf_peers (conf_text h)"

lemma newlines_no_cr: "cr \<notin> set (universal_newlines s)"
  by (induction s rule: universal_newlines.induct) (auto split: list.split)

lemma newlines_id: "cr \<notin> set s \<Longrightarrow> universal_newlines s = s"
  by (induction s) auto

lemma conf_text_no_cr: "cr \<notin> set (conf_text h)"
  by (simp add: conf_text_def newlines_no_cr split: option.split)

lemma host_fields [host_simps]:
  "vh_conf (logged e h) = vh_conf h" "vh_clients (logged e h) = vh_clients h"
  "vh_awg (logged e h) = vh_awg h" "vh_disk (logged e h) = vh_disk h"
  "vh_ip (logged e h) = vh_ip h" "vh_log (logged e h) = vh_log h @ [e]"
  "vh_awg (put_file f s h) = vh_awg h" "vh_disk (put_file f s h) = vh_disk h"
  "vh_ip (put_file f s h) = vh_ip h" "vh_log (put_file f s h) = vh_log h"
  "vh_conf (put_file Server_Conf s h) = Some s"
  "vh_conf (put_file (Client_File name ext) s h) = vh_conf h"
  "vh_conf (put_file Temp_File s h) = vh_conf h"
  "vh_clients (put_file Server_Conf s h) = vh_clients h"
  "vh_clients (put_file Temp_File s h) = vh_clients h"
  "vh_clients (put_file (Client_File name ext) s h) = dict_put (name, ext) s (vh_clients h)"
  by (simp_all add: logged_def put_file_def split: host_file.split)

lemma host_derived [host_simps]:
  "conf_text (logged e h) = conf_text h" "host_peers (logged e h) = host_peers h"
  "client_file n ext (logged e h) = client_file n ext h"
  "conf_text (put_file (Client_File name ext) s h) = conf_text h"
  "conf_text (put_file Temp_File s h) = conf_text h"
  "conf_text (put_file Server_Conf s h) = universal_newlines s"
  "host_peers (put_file (Client_File name ext) s h) = host_peers h"
  "host_peers (put_file Temp_File s h) = host_peers h"
  "client_file n x (put_file Server_Conf s h) = client_file n x h"
  "client_file n x (put_file Temp_File s h) = client_file n x h"
  "client_file n x (put_file (Client_File name ext) s h) =
     (if (n, x) = (name, ext) then Some (universal_newlines s) else client_file n x h)"
  by (simp_all add: conf_text_def host_peers_def client_file_def host_fields map_of_dict_put)

subsection \<open>What a command touches\<close>

text \<open>Only the named client: the files of all others stay, and of the server's config every
  section that is not a block of that client, to the letter (\<open>other_sections\<close>); so does the
  rest of the world.\<close>

definition touches :: "string \<Rightarrow> vpn_host \<Rightarrow> vpn_host \<Rightarrow> bool" where
  "touches n h h' \<longleftrightarrow>
     vh_awg h' = vh_awg h \<and> vh_disk h' = vh_disk h \<and> vh_ip h' = vh_ip h \<and>
     (\<forall>m ext. m \<noteq> n \<longrightarrow> client_file m ext h' = client_file m ext h) \<and>
     filter (\<lambda>(name, pub). name \<noteq> Some n) (host_peers h') =
       filter (\<lambda>(name, pub). name \<noteq> Some n) (host_peers h) \<and>
     other_sections n (conf_text h') = other_sections n (conf_text h) \<and>
     (\<exists>es. vh_log h' = vh_log h @ es)"

lemma touches_refl: "touches n h h"
  by (simp add: touches_def)

lemma touches_trans: "touches n h h1 \<Longrightarrow> touches n h1 h2 \<Longrightarrow> touches n h h2"
  by (fastforce simp: touches_def)

lemma touches_logged: "touches n h h1 \<Longrightarrow> touches n h (logged e h1)"
  by (auto simp: touches_def host_simps)

lemma touches_client: "touches n h h1 \<Longrightarrow> touches n h (put_file (Client_File n ext) s h1)"
  by (auto simp: touches_def host_simps)

lemma touches_temp: "touches n h h1 \<Longrightarrow> touches n h (put_file Temp_File s h1)"
  by (auto simp: touches_def host_simps)

definition unlinked :: "string \<Rightarrow> string \<Rightarrow> vpn_host \<Rightarrow> vpn_host" where
  "unlinked name ext h = h\<lparr>vh_clients := filter (\<lambda>(k, s). k \<noteq> (name, ext)) (vh_clients h)\<rparr>"

lemma wp_remove_file [wp_rules]: "R () (unlinked name ext h) \<Longrightarrow> wp (remove_file name ext) R E h"
  by (simp add: wp_def remove_file_def unlinked_def)

lemma unlinked_simps [host_simps]:
  "vh_conf (unlinked name ext h) = vh_conf h" "vh_awg (unlinked name ext h) = vh_awg h"
  "vh_disk (unlinked name ext h) = vh_disk h" "vh_ip (unlinked name ext h) = vh_ip h"
  "vh_log (unlinked name ext h) = vh_log h" "conf_text (unlinked name ext h) = conf_text h"
  "host_peers (unlinked name ext h) = host_peers h"
  "client_file n x (unlinked name ext h) = (if (n, x) = (name, ext) then None else client_file n x h)"
proof -
  have "map_of (filter (\<lambda>(k, s). k \<noteq> (name, ext)) xs) (n, x) =
      (if (n, x) = (name, ext) then None else map_of xs (n, x))" for xs :: "((string \<times> string) \<times> string) list"
    by (induction xs) auto
  then show "client_file n x (unlinked name ext h) = (if (n, x) = (name, ext) then None else client_file n x h)"
    by (simp add: client_file_def unlinked_def)
qed (simp_all add: unlinked_def conf_text_def host_peers_def)

lemma touches_unlink: "touches n h h1 \<Longrightarrow> touches n h (unlinked n ext h1)"
  by (auto simp: touches_def host_simps)

lemma touches_conf:
  assumes "touches n h h1" "cr \<notin> set s"
    "filter (\<lambda>(name, pub). name \<noteq> Some n) (conf_peers s) =
     filter (\<lambda>(name, pub). name \<noteq> Some n) (host_peers h1)"
    "other_sections n s = other_sections n (conf_text h1)"
  shows "touches n h (put_file Server_Conf s h1)"
  using assms
  by (auto simp: touches_def host_simps newlines_id) (simp_all add: host_peers_def host_simps newlines_id)

lemma touches_without:
  assumes "touches n h h1" "conf_text h1 = conf"
  shows "touches n h (put_file Server_Conf (without_peer conf n) h1)"
proof (rule touches_conf [OF assms(1)])
  have c: "cr \<notin> set conf" using assms(2) conf_text_no_cr by blast
  then show "cr \<notin> set (without_peer conf n)" using concat_keep by blast
  show "filter (\<lambda>(name, pub). name \<noteq> Some n) (conf_peers (without_peer conf n)) =
      filter (\<lambda>(name, pub). name \<noteq> Some n) (host_peers h1)"
    by (simp add: without_peer_peers [OF c] host_peers_def assms(2))
  show "other_sections n (without_peer conf n) = other_sections n (conf_text h1)"
    by (simp add: without_peer_other [OF c] assms(2))
qed

text \<open>A text that is one block, with that name, and holds nothing else.\<close>

definition block_of :: "string \<Rightarrow> string \<Rightarrow> bool" where
  "block_of n b \<longleftrightarrow> cr \<notin> set b \<and> (\<exists>l ls. splitlines_keep b = l # ls \<and> section_header l) \<and>
     (\<exists>pub. conf_peers b = [(Some n, pub)]) \<and> other_sections n b = []"

lemma rstrip_nl_subset: "set (rstrip_nl s) \<subseteq> set s"
  unfolding rstrip_nl_def using set_dropWhileD by fastforce

lemma with_block_no_cr: "cr \<notin> set conf \<Longrightarrow> cr \<notin> set b \<Longrightarrow> cr \<notin> set (with_block conf b)"
  using rstrip_nl_subset [of conf] by (auto simp: with_block_def)

lemma with_block_of:
  assumes "block_of n b" "cr \<notin> set conf"
  obtains pub where "conf_peers b = [(Some n, pub)]"
    "conf_peers (with_block conf b) = conf_peers conf @ [(Some n, pub)]"
    "other_sections n (with_block conf b) = other_sections n conf"
  using assms with_block_peers [OF assms(2)] unfolding block_of_def by (metis append_Nil2)

lemma touches_with:
  assumes "touches n h h1" "conf_text h1 = conf" "block_of n b"
  shows "touches n h (put_file Server_Conf (with_block conf b) h1)"
proof (rule touches_conf [OF assms(1)])
  have c: "cr \<notin> set conf" using assms(2) conf_text_no_cr by blast
  then show "cr \<notin> set (with_block conf b)"
    using assms(3) by (intro with_block_no_cr) (simp_all add: block_of_def)
  show "filter (\<lambda>(name, pub). name \<noteq> Some n) (conf_peers (with_block conf b)) =
      filter (\<lambda>(name, pub). name \<noteq> Some n) (host_peers h1)"
    by (rule with_block_of [OF assms(3) c]) (simp add: host_peers_def assms(2))
  show "other_sections n (with_block conf b) = other_sections n (conf_text h1)"
    by (rule with_block_of [OF assms(3) c]) (simp add: assms(2))
qed

end
