(* ===== verification/Vpnctl_Clients.thy ===== *)
theory Vpnctl_Clients
  imports Vpnctl_Logic
begin

section \<open>What the vpnctl commands do to the clients\<close>

text \<open>
  The invariant of the host (every saved block is one block with the name of its file) and the
  outcome of each command on the clients that are on, those with a block in the server config,
  and those that are known, on or saved for later. Everything holds for any behaviour of the
  disk and of \<open>awg\<close>, except that a key \<open>awg\<close> prints is one word.
\<close>

subsection \<open>The invariant\<close>

definition one_word :: "string \<Rightarrow> bool" where
  "one_word w \<longleftrightarrow> w \<noteq> [] \<and> list_all (\<lambda>c. \<not> is_space c) w"

fun prints_key :: "awg_call \<Rightarrow> bool" where
  "prints_key Awg_Genkey = True"
| "prints_key Awg_Genpsk = True"
| "prints_key (Awg_Pubkey k) = True"
| "prints_key c = False"

definition awg_keys :: "vpn_host \<Rightarrow> bool" where
  "awg_keys h \<longleftrightarrow>
     (\<forall>k c out err. prints_key c \<longrightarrow> vh_awg h k c = Awg_Done 0 out err \<longrightarrow> one_word (py_strip out))"

definition ended :: "string \<Rightarrow> string" where
  "ended s = rstrip_nl s @ [nl]"

definition host_ok :: "vpn_host \<Rightarrow> bool" where
  "host_ok h \<longleftrightarrow> awg_keys h \<and>
     (\<forall>n s. client_file n ''peer'' h = Some s \<longrightarrow> is_identifier n \<longrightarrow> block_of n (ended s))"

definition host_on :: "vpn_host \<Rightarrow> string set" where
  "host_on h = {n. Some n \<in> fst ` set (host_peers h)}"

definition host_known :: "vpn_host \<Rightarrow> string set" where
  "host_known h = host_on h \<union> {n. client_file n ''peer'' h \<noteq> None}"

lemma ok_keys: "host_ok h \<Longrightarrow> awg_keys h"
  by (simp add: host_ok_def)

lemma ok_saved:
  "host_ok h \<Longrightarrow> client_file n ''peer'' h = Some s \<Longrightarrow> is_identifier n \<Longrightarrow> block_of n (ended s)"
  by (simp add: host_ok_def)

lemma ok_step [host_simps]:
  "host_ok (logged e h) = host_ok h" "host_ok (put_file Temp_File s h) = host_ok h"
  "host_ok (put_file Server_Conf s h) = host_ok h"
  "host_ok (put_file (Client_File n ''conf'') s h) = host_ok h"
  by (simp_all add: host_ok_def awg_keys_def host_simps)

lemma ended_no_cr: "cr \<notin> set (ended s) \<Longrightarrow> cr \<notin> set s"
proof -
  obtain k where k: "s = rstrip_nl s @ replicate k nl"
    by (rule rstrip_nl_split)
  have "set s = set (rstrip_nl s @ replicate k nl)" by (rule arg_cong [OF k])
  also have "\<dots> \<subseteq> insert nl (set (rstrip_nl s))" by auto
  finally have "set s \<subseteq> insert nl (set (rstrip_nl s))" .
  then show "cr \<notin> set (ended s) \<Longrightarrow> ?thesis"
    by (auto simp: ended_def)
qed

lemma ok_saves:
  assumes "host_ok h" "block_of n (ended s)"
  shows "host_ok (put_file (Client_File n ''peer'') s h)"
proof -
  have "cr \<notin> set s" using assms(2) unfolding block_of_def by (blast dest: ended_no_cr)
  with assms show ?thesis
    by (auto simp: host_ok_def awg_keys_def host_simps newlines_id split: if_splits)
qed

lemma ok_unlink: "host_ok h \<Longrightarrow> host_ok (unlinked n ext h)"
  by (simp add: host_ok_def awg_keys_def host_simps)

lemma known_step [host_simps]:
  "host_on (logged e h) = host_on h" "host_on (put_file Temp_File s h) = host_on h"
  "host_on (put_file (Client_File n ext) s h) = host_on h" "host_on (unlinked n ext h) = host_on h"
  "host_known (logged e h) = host_known h" "host_known (put_file Temp_File s h) = host_known h"
  "host_known (put_file (Client_File n ''conf'') s h) = host_known h"
  "host_known (put_file (Client_File n ''peer'') s h) = insert n (host_known h)"
  "host_known (unlinked n ''conf'' h) = host_known h"
  by (auto simp: host_on_def host_known_def host_simps)

lemma on_conf:
  assumes "cr \<notin> set s"
  shows "host_on (put_file Server_Conf s h) = {n. Some n \<in> fst ` set (conf_peers s)}"
    "host_known (put_file Server_Conf s h) =
       {n. Some n \<in> fst ` set (conf_peers s)} \<union> {n. client_file n ''peer'' h \<noteq> None}"
  by (simp_all add: host_on_def host_known_def host_peers_def host_simps newlines_id [OF assms])

lemma on_without:
  assumes "conf_text h = conf"
  shows "host_on (put_file Server_Conf (without_peer conf n) h) = host_on h - {n}"
    "host_known (put_file Server_Conf (without_peer conf n) h) =
       (host_on h - {n}) \<union> {n. client_file n ''peer'' h \<noteq> None}"
proof -
  have c: "cr \<notin> set conf" using assms conf_text_no_cr by blast
  then have w: "cr \<notin> set (without_peer conf n)" using concat_keep by blast
  have "{m. Some m \<in> fst ` set (conf_peers (without_peer conf n))} = host_on h - {n}"
    by (force simp: without_peer_peers [OF c] host_on_def host_peers_def assms)
  then show "host_on (put_file Server_Conf (without_peer conf n) h) = host_on h - {n}"
    "host_known (put_file Server_Conf (without_peer conf n) h) =
       (host_on h - {n}) \<union> {n. client_file n ''peer'' h \<noteq> None}"
    by (simp_all add: on_conf [OF w])
qed

lemma on_with:
  assumes "conf_text h = conf" "block_of n b"
  shows "host_on (put_file Server_Conf (with_block conf b) h) = insert n (host_on h)"
    "host_known (put_file Server_Conf (with_block conf b) h) = insert n (host_known h)"
proof -
  have c: "cr \<notin> set conf" using assms conf_text_no_cr by blast
  have w: "cr \<notin> set (with_block conf b)"
    using assms(2) c by (intro with_block_no_cr) (simp_all add: block_of_def)
  have "{m. Some m \<in> fst ` set (conf_peers (with_block conf b))} = insert n (host_on h)"
    by (rule with_block_of [OF assms(2) c]) (auto simp: host_on_def host_peers_def assms)
  then show "host_on (put_file Server_Conf (with_block conf b) h) = insert n (host_on h)"
    "host_known (put_file Server_Conf (with_block conf b) h) = insert n (host_known h)"
    by (simp_all add: on_conf [OF w] host_known_def host_simps)
qed

lemma find_peer_on: "find_peer (conf_text h) n = None \<longleftrightarrow> n \<notin> host_on h"
  by (simp add: find_peer_None host_on_def host_peers_def)

subsection \<open>Blocks\<close>

definition starts_header :: "string \<Rightarrow> bool" where
  "starts_header s \<longleftrightarrow> (\<exists>l ls. splitlines_keep s = l # ls \<and> section_header l)"

lemma starts_header_nl: "cr \<notin> set s \<Longrightarrow> starts_header (s @ [nl]) \<longleftrightarrow> starts_header s"
proof -
  assume c: "cr \<notin> set s"
  show ?thesis
  proof (cases "splitlines_keep s")
    case Nil
    then show ?thesis by (auto simp: starts_header_def keep_break)
  next
    case (Cons l ls)
    then show ?thesis
      by (cases ls) (auto simp: starts_header_def keep_nl [OF c] more_nl_def)
  qed
qed

lemma starts_header_newlines: "cr \<notin> set s \<Longrightarrow> starts_header (s @ replicate k nl) \<longleftrightarrow> starts_header s"
proof (induction k)
  case (Suc k)
  then have "starts_header ((s @ replicate k nl) @ [nl]) \<longleftrightarrow> starts_header (s @ replicate k nl)"
    by (intro starts_header_nl) auto
  with Suc show ?case by (simp add: replicate_append_same)
qed simp

lemma block_of_ended:
  assumes "cr \<notin> set s" "starts_header s" "conf_peers s = [(Some n, pub)]" "other_sections n s = []"
  shows "block_of n (ended s)"
proof -
  obtain k where k: "s = rstrip_nl s @ replicate k nl"
    by (rule rstrip_nl_split)
  have c: "cr \<notin> set (rstrip_nl s)"
    using assms(1) rstrip_nl_subset by blast
  have "starts_header (ended s) \<longleftrightarrow> starts_header s" "conf_peers (ended s) = conf_peers s"
    "other_sections n (ended s) = other_sections n s"
    using other_sections_newlines [OF c, of n k] other_sections_nl [OF c, of n] starts_header_newlines [OF c, of k] starts_header_nl [OF c] conf_peers_newlines [OF c, of k]
      conf_peers_nl [OF c] k by (simp_all add: ended_def)
  then show ?thesis
    using assms c by (simp add: block_of_def starts_header_def ended_def)
qed

text \<open>The block \<open>find_peer\<close> returns.\<close>

lemma find_peer_block:
  assumes "find_peer conf n = Some (block, pub)" "cr \<notin> set conf"
  shows "block_of n (ended block)"
proof -
  obtain h lines where f: "find (is_peer n) (split_sections conf) = Some (h, lines)"
    and b: "block = concat lines"
    using assms(1) by (auto simp: find_peer_def)
  obtain pre T where s: "splitlines_keep conf = pre @ concat (map snd T)" "plain_lines pre"
    "list_all well_section T" "split_sections conf = before_sections pre @ T"
    by (rule sections_cases)
  have p: "is_peer n (h, lines)" and m: "(h, lines) \<in> set (split_sections conf)"
    using f by (auto simp: find_Some_iff)
  then have "(h, lines) \<in> set T"
    by (auto simp: s(4) before_sections_def is_peer_def split: if_splits)
  then obtain T1 T2 where T: "T = T1 @ (h, lines) # T2" by (meson split_list)
  have w: "well_section (h, lines)" using s(3) T by simp
  have "line_list (splitlines_keep conf)" by (rule lines_of_text [OF assms(2)])
  moreover have "splitlines_keep conf = (pre @ concat (map snd T1)) @ (lines @ concat (map snd T2))"
    by (simp add: s(1) T)
  moreover have full: "list_all full_line ls \<Longrightarrow> line_list ls" for ls
    by (induction ls) (auto simp: line_list_Cons)
  ultimately have "line_list lines"
    by (auto simp only: line_list_append line_list.simps split: if_splits)
  then have k: "splitlines_keep block = lines" by (simp add: b keep_lines)
  have "sections_of lines = [(h, lines)]"
    using sections_build [of "[]" "[(h, lines)]"] w by (simp add: before_sections_def)
  then have "conf_peers block = [(Some n, get_value lines ''PublicKey'')]" "other_sections n block = []"
    using p by (simp_all add: conf_peers_def split_sections_def k peers_of_def is_peer_def
      other_sections_def section_texts_def)
  moreover have "starts_header block"
    using w by (cases lines) (auto simp: starts_header_def k)
  moreover have "set block \<subseteq> set conf"
    using keep_concat [of conf] by (auto simp: b s(1) T)
  ultimately show ?thesis
    using assms(2) by (intro block_of_ended) auto
qed

subsection \<open>A new block\<close>

definition no_space :: "string \<Rightarrow> bool" where
  "no_space s \<longleftrightarrow> list_all (\<lambda>c. \<not> is_space c) s"

lemma break_space: "is_break c \<Longrightarrow> is_space c"
  by (auto simp: is_break_def is_space_def)

lemma identifier_space: "identifier_char c \<Longrightarrow> \<not> is_space c"
  by (auto simp: identifier_char_def is_space_def Let_def)

lemma identifier_no_space: "is_identifier n \<Longrightarrow> no_space n \<and> n \<noteq> []"
  by (auto simp: is_identifier_def no_space_def list_all_iff identifier_space)

lemma strip_no_space: "no_space s \<Longrightarrow> py_strip s = s"
  by (simp add: no_space_def strip_id)

lemma strip_space: "py_strip (CHR '' '' # s) = py_strip s"
  by (simp add: py_strip_def py_lstrip_def is_space_def)

lemma strip_keeps_first: "\<not> is_space c \<Longrightarrow> \<exists>r. py_strip (c # l) = c # r"
proof -
  assume c: "\<not> is_space c"
  have "dropWhile is_space (rev l @ [c]) = dropWhile is_space (rev l) @ [c]"
    using c by (induction "rev l") (auto simp: dropWhile_append)
  with c show ?thesis
    by (simp add: py_strip_def py_lstrip_def py_rstrip_def)
qed

lemma not_header: "\<not> is_space c \<Longrightarrow> c \<noteq> CHR ''['' \<Longrightarrow> \<not> section_header (c # l)"
  using strip_keeps_first [of c l] by (auto simp: section_header_def)

lemma cr_break [simp]: "is_break cr"
  by (simp add: is_break_def cr_def)

lemma full_line_nl: "list_all (\<lambda>c. \<not> is_break c) l \<Longrightarrow> full_line (l @ [nl])"
  using cr_break by (auto simp: full_line_def list_all_iff simp del: cr_break)

lemma lstrip_Cons: "py_lstrip (c # s) = (if is_space c then py_lstrip s else c # s)"
  by (simp add: py_lstrip_def)

lemma blank_space: "is_space (CHR '' '')" "\<not> is_space (CHR ''='')"
  by (simp_all add: is_space_def)

lemma no_space_breaks: "no_space s \<Longrightarrow> list_all (\<lambda>c. \<not> is_break c) s"
  using break_space by (auto simp: no_space_def list_all_iff)

lemma text_lines:
  "\<forall>l \<in> set ls. list_all (\<lambda>c. \<not> is_break c) l \<Longrightarrow>
   splitlines_keep (text_of_lines ls) = map (\<lambda>l. l @ [nl]) ls"
proof -
  assume "\<forall>l \<in> set ls. list_all (\<lambda>c. \<not> is_break c) l"
  then have "line_list (map (\<lambda>l. l @ [nl]) ls)"
    by (induction ls) (auto simp: line_list_Cons full_line_nl)
  from keep_lines [OF this] show ?thesis
    by (simp add: text_of_lines_def)
qed

lemma text_no_cr: "\<forall>l \<in> set ls. list_all (\<lambda>c. \<not> is_break c) l \<Longrightarrow> cr \<notin> set (text_of_lines ls)"
proof (induction ls)
  case (Cons l ls)
  then have "cr \<notin> set l"
    using cr_break by (auto simp: list_all_iff simp del: cr_break)
  with Cons show ?case by (simp add: text_of_lines_def)
qed (simp add: text_of_lines_def)

lemma value_written:
  assumes "no_space v" "v \<noteq> []" "key \<noteq> []" "no_space key" "CHR ''='' \<notin> set key"
  shows "value_of key (key @ '' = '' @ v) = Some v"
proof -
  have s: "starts_with (key @ r) key" for r
    by (induction key) auto
  have "py_lstrip (key @ r) = key @ r" for r
    using assms(3,4) by (cases key) (simp_all add: py_lstrip_def no_space_def)
  then show ?thesis
    using strip_no_space [OF assms(1)] assms(2)
    by (simp add: value_of_def s strip_space lstrip_Cons blank_space)
qed

lemma name_written:
  assumes "is_identifier n"
  shows "name_comment (''# '' @ n) = Some n"
proof -
  have n: "no_space n" "n \<noteq> []" using identifier_no_space [OF assms] by simp_all
  have "rstrip_nl (x @ n) = x @ n" for x
    using n by (cases n rule: rev_cases) (auto simp: rstrip_nl_def no_space_def)
  from this [of "''# ''"] show ?thesis
    using n strip_no_space [OF n(1)] by (simp add: name_comment_def strip_space no_space_def)
qed

lemma ended_text: "s = x @ [c, nl] \<Longrightarrow> c \<noteq> nl \<Longrightarrow> ended s = s"
  by (simp add: ended_def rstrip_nl_def)

definition block_lines :: "string \<Rightarrow> string \<Rightarrow> string \<Rightarrow> string \<Rightarrow> string list" where
  "block_lines name pub psk client_ip =
     [''[Peer]'', ''# '' @ name, ''PublicKey = '' @ pub, ''PresharedKey = '' @ psk,
       ''AllowedIPs = '' @ client_ip @ ''/32'']"

lemma block_lines_plain:
  assumes "is_identifier n" "one_word pub" "one_word psk" "no_space ip"
  shows "\<forall>l \<in> set (block_lines n pub psk ip). list_all (\<lambda>c. \<not> is_break c) l"
  using assms identifier_no_space [OF assms(1)] no_space_breaks
  by (auto simp: block_lines_def one_word_def no_space_def is_break_def)

lemma peer_block_lines:
  assumes "is_identifier n" "one_word pub" "one_word psk" "no_space ip"
  shows "splitlines_keep (peer_block n pub psk ip) = map (\<lambda>l. l @ [nl]) (block_lines n pub psk ip)"
    "splitlines (peer_block n pub psk ip) = block_lines n pub psk ip"
proof -
  show k: "splitlines_keep (peer_block n pub psk ip) = map (\<lambda>l. l @ [nl]) (block_lines n pub psk ip)"
    using text_lines [OF block_lines_plain [OF assms]] by (simp add: peer_block_def block_lines_def)
  have "rev (dropWhile is_break (rev (l @ [nl]))) = l"
    if "list_all (\<lambda>c. \<not> is_break c) l" for l
    using that by (cases l rule: rev_cases) auto
  then show "splitlines (peer_block n pub psk ip) = block_lines n pub psk ip"
    using block_lines_plain [OF assms] by (simp add: splitlines_def k map_idI)
qed

lemma peer_block_of:
  assumes "is_identifier n" "one_word pub" "one_word psk" "no_space ip"
  shows "conf_peers (peer_block n pub psk ip) = [(Some n, Some pub)]"
    "block_of n (peer_block n pub psk ip)" "ended (peer_block n pub psk ip) = peer_block n pub psk ip"
proof -
  let ?b = "peer_block n pub psk ip" and ?ls = "map (\<lambda>l. l @ [nl]) (block_lines n pub psk ip)"
  note k = peer_block_lines(1) [OF assms]
  have h: "section_header ''[Peer]''" "py_strip ''[Peer]'' = ''[Peer]''"
    by (simp_all add: section_header_def py_strip_def py_lstrip_def py_rstrip_def is_space_def is_letter_def)
  have "well_section (Some ''[Peer]'', ?ls)"
    using h header_nl(1) [of "''[Peer]''"] strip_nl [of "''[Peer]''"]
    by (auto simp: block_lines_def not_header is_space_def)
  then have "sections_of ?ls = [(Some ''[Peer]'', ?ls)]"
    using sections_build [of "[]" "[(Some ''[Peer]'', ?ls)]"] by (simp add: before_sections_def)
  moreover have "peer_name ?ls = Some n"
    using name_written [OF assms(1)] name_nl(1) [of "''# '' @ n"] by (simp add: peer_name_def block_lines_def)
  moreover have "get_value ?ls ''PublicKey'' = Some pub"
    using value_nl [of "''PublicKey''" "''PublicKey = '' @ pub"] value_written [of pub "''PublicKey''"] assms(2)
    by (simp add: block_lines_def one_word_def no_space_def is_space_def)
      (simp add: value_of_def py_lstrip_def is_space_def nl_def)
  ultimately have s: "conf_peers ?b = [(Some n, Some pub)]" "other_sections n ?b = []"
    by (simp_all add: conf_peers_def split_sections_def k peers_of_def other_sections_def is_peer_def
      section_texts_def)
  then show c: "conf_peers ?b = [(Some n, Some pub)]" by simp
  have "cr \<notin> set ?b"
    using text_no_cr [OF block_lines_plain [OF assms]] by (simp add: peer_block_def block_lines_def)
  then show "block_of n ?b"
    using c s(2) h header_nl(1) [of "''[Peer]''"] by (simp add: block_of_def k block_lines_def)
  have "?b = (text_of_lines (butlast (block_lines n pub psk ip)) @ ''AllowedIPs = '' @ ip @ ''/3'')
      @ [CHR ''2'', nl]"
    by (simp add: peer_block_def text_of_lines_def block_lines_def)
  then show "ended ?b = ?b"
    by (rule ended_text) (simp add: nl_def)
qed

subsection \<open>The address of a new client\<close>

lemma hex_no_space: "is_hex_char c \<Longrightarrow> \<not> is_space c"
  by (auto simp: is_hex_char_def is_space_def hex_val_def Let_def split: if_splits)

lemma decimal_no_space: "is_decimal c \<Longrightarrow> \<not> is_space c"
  by (auto simp: is_decimal_def is_space_def Let_def)

lemma no_space_simps [simp]:
  "no_space []" "no_space (c # s) \<longleftrightarrow> \<not> is_space c \<and> no_space s"
  "no_space (s @ t) \<longleftrightarrow> no_space s \<and> no_space t"
  by (auto simp: no_space_def)

lemma no_space_join: "no_space sep \<Longrightarrow> \<forall>w \<in> set ws. no_space w \<Longrightarrow> no_space (py_join sep ws)"
  by (induction sep ws rule: py_join.induct) auto

lemma no_space_hextet: "no_space (show_hextet n)"
proof -
  have "set (show_hextet n) \<subseteq> insert CHR ''0'' (set (hex_digits 4 n))"
    unfolding show_hextet_def Let_def by (auto dest: set_dropWhileD)
  then show ?thesis
    using hex_digits_hex [of 4 n] hex_no_space
    by (fastforce simp: no_space_def list_all_iff is_space_def)
qed

lemma no_space_show_ip:
  "no_space (show_ipv4 n)" "no_space (show_ipv6 n)"
proof -
  have "no_space (show_nat k)" for k
    using show_nat_decimal [of k] decimal_no_space by (auto simp: no_space_def list_all_iff)
  then show "no_space (show_ipv4 n)"
    unfolding show_ipv4_def by (intro no_space_join) (auto simp: is_space_def)
  show "no_space (show_ipv6 n)"
    unfolding show_ipv6_def Let_def
    by (auto intro!: no_space_join no_space_hextet simp: is_space_def dest!: in_set_takeD in_set_dropD)
qed

lemma free_host_text:
  assumes "free_host ifc used = Some a" "fst ifc \<in> set used"
  shows "no_space (show_ip a)"
proof (cases ifc)
  case (Pair i p)
  show ?thesis
  proof (cases i)
    case (IPv4 n)
    with assms(1) Pair show ?thesis
      by (auto simp: free_host_def host_at_def show_ip_def no_space_show_ip split: prod.splits)
  next
    case (IPv6 n zone)
    obtain k where k: "a = host_at ifc k" "fst (host_range ifc) \<le> k" "k \<le> snd (host_range ifc)"
      using assms(1) by (auto simp: free_host_def split: prod.splits dest: first_free_Some)
    show ?thesis
    proof (cases "p = 128")
      case True
      with k(2,3) Pair IPv6 have "k = n"
        by (simp add: host_range_def net_base_def)
      with k(1) Pair IPv6 True have "a = fst ifc"
        by (simp add: host_at_def)
      with free_host_new [OF assms(1)] assms(2) show ?thesis by simp
    next
      case False
      with k(1) Pair IPv6 show ?thesis
        by (simp add: host_at_def show_ip_def no_space_show_ip)
    qed
  qed
qed

lemma wp_pick:
  assumes "\<And>e. E e h"
    "\<And>server_if a. ip_interface (py_strip (hd (split_char CHR '','' address))) = Some server_if \<Longrightarrow>
       free_host server_if (fst server_if # used_addresses conf True h) = Some a \<Longrightarrow>
       no_space (show_ip a) \<Longrightarrow> R a h"
  shows "wp (pick_address conf address) R E h"
  unfolding pick_address_def
  by (intro wp_rules assms) (auto dest: free_host_text)

lemma wp_endpoint: "(\<And>x. R x h) \<Longrightarrow> (\<And>e. E e h) \<Longrightarrow> wp (endpoint_host cfg) R E h"
  unfolding endpoint_host_def detect_endpoint_host_def Let_def
  by (intro wp_rules; simp)

lemma wp_result: "(\<And>ms. R ms h) \<Longrightarrow> (\<And>e. E e h) \<Longrightarrow> wp (peer_result lib name s extra) R E h"
  unfolding peer_result_def by (auto intro!: wp_rules split: sum.split)

lemma key_word:
  "awg_keys h \<Longrightarrow> vh_awg h k c = Awg_Done 0 out err \<Longrightarrow> prints_key c \<Longrightarrow> one_word (py_strip out)"
  unfolding awg_keys_def by blast

subsection \<open>create-peer\<close>

lemmas touches_intros = touches_logged touches_client touches_temp touches_refl

definition created :: "string \<Rightarrow> vpn_host \<Rightarrow> vpn_host \<Rightarrow> bool" where
  "created n h h' \<longleftrightarrow> touches n h h' \<and> host_ok h' \<and>
     host_on h' = insert n (host_on h) \<and> host_known h' = insert n (host_known h)"

lemma save_client_wp:
  assumes "touches n g h" "host_ok h" "conf_text h = conf" "block_of n b" "ended b = b"
    "host_on h = host_on g" "host_known h = host_known g"
  shows "wp (save_client n conf b c) (\<lambda>x h'. created n g h') (\<lambda>e h'. touches n g h' \<and> host_ok h') h"
  unfolding save_client_def created_def
  by (intro wp_rules conjI)
    (auto intro!: touches_intros touches_with ok_saves
      simp: assms host_simps on_with [OF _ assms(4)])

lemma createdD: "created n g h \<Longrightarrow> touches n g h" "created n g h \<Longrightarrow> host_ok h"
  by (simp_all add: created_def)

lemma save_wp:
  assumes "touches n g h" "host_ok h" "conf_text h = conf" "block_of n b" "ended b = b"
    "host_on h = host_on g" "host_known h = host_known g"
    "\<And>x h'. created n g h' \<Longrightarrow> R x h'"
    "\<And>e h'. touches n g h' \<Longrightarrow> host_ok h' \<Longrightarrow> E e h'"
  shows "wp (save_client n conf b c) R E h"
  using wp_mono [OF save_client_wp [OF assms(1-7)]] assms(8,9) by blast

lemma new_client_wp:
  assumes "host_ok h" "is_identifier n"
  shows "wp (new_client cfg lib n (conf_text h)) (\<lambda>x h'. created n h h')
    (\<lambda>e h'. touches n h h' \<and> host_ok h') h"
  unfolding new_client_def Let_def awg_set_peer_def awg_remove_peer_def
  by (intro wp_rules wp_pick wp_endpoint wp_result save_wp [where g = h] conjI)
    (auto intro!: touches_intros peer_block_of key_word [OF ok_keys [OF assms(1)]]
      simp: assms host_simps dest: createdD)

text \<open>A label that is not plain (it may end in a newline) is not covered.\<close>

definition plain_id :: "utext \<Rightarrow> bool" where
  "plain_id v \<longleftrightarrow> (text_identifier v \<longrightarrow> is_identifier (narrow v))"

lemma create_wp:
  assumes "host_ok h" "plain_id label"
  shows "wp (cmd_create_peer cfg lib sid label)
    (\<lambda>x h'. h' = h \<or> created (narrow label) h h')
    (\<lambda>e h'. touches (narrow label) h h' \<and> host_ok h') h"
proof -
  have "wp (new_client cfg lib n (universal_newlines s)) (\<lambda>x h'. h' = h \<or> created n h h')
    (\<lambda>e h'. touches n h h' \<and> host_ok h') h" if "vh_conf h = Some s" "is_identifier n" for n s
  proof -
    have "conf_text h = universal_newlines s" using that(1) by (simp add: conf_text_def)
    from wp_mono [OF new_client_wp [OF assms(1) that(2), of cfg lib]] this show ?thesis by auto
  qed
  then show ?thesis
    unfolding cmd_create_peer_def
    using assms(2)
    by (intro wp_rules wp_result)
      (auto simp: assms(1) touches_refl plain_id_def validate_identifier_def split: if_splits)
qed

subsection \<open>disable-peer, enable-peer, remove-peer\<close>

lemma wp_take_off:
  "(\<And>ok. R () (logged (Ran (Awg_Remove (interface_name cfg) (the pub)) True) h)) \<Longrightarrow> R () h \<Longrightarrow>
   (\<And>e. E e (logged (Ran (Awg_Remove (interface_name cfg) (the pub)) False) h)) \<Longrightarrow>
   wp (take_off cfg pub) R E h"
  unfolding take_off_def awg_remove_peer_def by (intro wp_rules; simp)

definition turned_off :: "string \<Rightarrow> vpn_host \<Rightarrow> vpn_host \<Rightarrow> bool" where
  "turned_off n h h' \<longleftrightarrow> touches n h h' \<and> host_ok h' \<and>
     host_on h' = host_on h - {n} \<and> host_known h' = host_known h"

lemma disable_found_wp:
  assumes "host_ok h" "find_peer (conf_text h) n = Some (block, pub)"
  shows "wp (disable_found cfg n (conf_text h) block pub) (\<lambda>x h'. turned_off n h h')
    (\<lambda>e h'. touches n h h' \<and> host_ok h') h"
proof -
  have b: "block_of n (ended block)"
    by (rule find_peer_block [OF assms(2) conf_text_no_cr])
  have b2: "ended (ended block) = ended block"
    by (simp add: ended_def rstrip_nl_def)
  have on: "n \<in> host_on h"
    using assms(2) find_peer_on [of h n] by auto
  show ?thesis
    unfolding disable_found_def ended_def [symmetric] turned_off_def
    by (intro wp_rules wp_take_off conjI)
      (use on in \<open>auto intro!: touches_intros touches_without ok_saves
        simp: b b2 assms host_simps on_without host_known_def\<close>)
qed

lemma conf_textI: "vh_conf h = Some s \<Longrightarrow> conf_text h = universal_newlines s"
  by (simp add: conf_text_def)

lemma disable_found_rule:
  assumes "host_ok h" "vh_conf h = Some s" "find_peer (universal_newlines s) n = Some (block, pub)"
    "\<And>h'. turned_off n h h' \<Longrightarrow> R () h'" "\<And>e h'. touches n h h' \<Longrightarrow> host_ok h' \<Longrightarrow> E e h'"
  shows "wp (disable_found cfg n (universal_newlines s) block pub) R E h"
  using wp_mono [OF disable_found_wp [OF assms(1), unfolded conf_textI [OF assms(2)], OF assms(3)]]
    assms(4,5) by (metis old.unit.exhaust)

lemma turned_offI:
  "host_ok h \<Longrightarrow> vh_conf h = Some s \<Longrightarrow> find_peer (universal_newlines s) n = None \<Longrightarrow> turned_off n h h"
  using find_peer_on [of h n] by (auto simp: turned_off_def touches_refl conf_text_def)

lemma validate_cases:
  "validate_identifier lib name v = Inr n \<Longrightarrow> text_identifier v \<and> n = narrow v"
  by (simp add: validate_identifier_def split: if_splits)

lemma disable_wp:
  assumes "host_ok h"
  shows "wp (cmd_disable_peer cfg lib x) (\<lambda>r h'. turned_off (narrow x) h h')
    (\<lambda>e h'. touches (narrow x) h h' \<and> host_ok h') h"
  unfolding cmd_disable_peer_def
  by (intro wp_rules disable_found_rule)
    (auto dest!: validate_cases intro: turned_offI simp: assms touches_refl)

definition turned_on :: "string \<Rightarrow> vpn_host \<Rightarrow> vpn_host \<Rightarrow> bool" where
  "turned_on n h h' \<longleftrightarrow> touches n h h' \<and> host_ok h' \<and> n \<in> host_known h \<and>
     host_on h' = insert n (host_on h) \<and> host_known h' = host_known h"

lemma wp_with_live:
  assumes "touches n g h" "host_ok h" "n \<in> host_known g" "host_on h = insert n (host_on g)"
    "host_known h = host_known g"
    "\<And>e h'. touches n g h' \<Longrightarrow> host_ok h' \<Longrightarrow> E e h'" "\<And>h'. turned_on n g h' \<Longrightarrow> R () h'"
  shows "wp (with_live cfg block) R E h"
  unfolding with_live_def awg_set_peer_def Let_def
  by (intro wp_rules assms) (auto intro!: touches_intros simp: turned_on_def assms host_simps)

lemma wp_restore:
  assumes "host_ok h" "is_identifier n" "client_file n ''peer'' h = Some block" "vh_conf h = Some s"
    "\<And>e h'. touches n h h' \<Longrightarrow> host_ok h' \<Longrightarrow> E e h'"
    "\<And>h'. touches n h h' \<Longrightarrow> host_ok h' \<Longrightarrow> n \<in> host_known h \<Longrightarrow>
       host_on h' = insert n (host_on h) \<Longrightarrow> host_known h' = host_known h \<Longrightarrow> R () h'"
  shows "wp (restore_block cfg n (universal_newlines s) block) R E h"
proof -
  have b: "block_of n (ended block)" by (rule ok_saved [OF assms(1,3,2)])
  have k: "n \<in> host_known h" using assms(3) by (simp add: host_known_def)
  show ?thesis
    unfolding restore_block_def ended_def [symmetric]
    by (intro wp_rules assms(5,6))
      (use k in \<open>auto intro!: touches_intros touches_with
        simp: b assms(1) conf_textI [OF assms(4)] host_simps on_with [OF _ b]\<close>)
qed

lemma enable_wp:
  assumes "host_ok h" "plain_id x"
  shows "wp (cmd_enable_peer cfg lib x) (\<lambda>r h'. turned_on (narrow x) h h')
    (\<lambda>e h'. touches (narrow x) h h' \<and> host_ok h') h"
proof -
  have on: "n \<in> host_on h" "n \<in> host_known h"
    if "vh_conf h = Some s" "find_peer (universal_newlines s) n = Some p" for s n p
    using that find_peer_on [of h n] by (auto simp: conf_textI host_known_def)
  show ?thesis
    unfolding cmd_enable_peer_def
    by (intro wp_rules wp_restore wp_with_live [where n = "narrow x" and g = h])
      (use assms on in \<open>auto dest!: validate_cases simp: plain_id_def touches_refl insert_absorb\<close>)
qed

definition taken_out :: "string \<Rightarrow> vpn_host \<Rightarrow> vpn_host \<Rightarrow> bool" where
  "taken_out n h h' \<longleftrightarrow> touches n h h' \<and> host_ok h' \<and>
     host_on h' = host_on h - {n} \<and> host_known h' = host_known h - {n}"

lemma remove_wp:
  assumes "host_ok h"
  shows "wp (cmd_remove_peer cfg lib x) (\<lambda>r h'. taken_out (narrow x) h h')
    (\<lambda>e h'. touches (narrow x) h h' \<and> host_ok h') h"
proof -
  have off: "n \<notin> host_on h" if "vh_conf h = Some s" "find_peer (universal_newlines s) n = None" for s n
    using that find_peer_on [of h n] by (simp add: conf_textI)
  show ?thesis
    unfolding cmd_remove_peer_def taken_out_def
    by (intro wp_rules wp_take_off conjI)
      (use off in \<open>auto dest!: validate_cases intro!: touches_intros touches_without touches_unlink ok_unlink
        simp: assms host_simps conf_textI on_without host_known_def\<close>)
qed

end
