(* ===== verification/Vpnctl_Wire.thy ===== *)
theory Vpnctl_Wire
  imports Vpnctl_Clients Vpnctl_Safe
begin

section \<open>The client and the server of vpnctl, connected\<close>

text \<open>
  The world behind the client (\<open>vc_net\<close>) is now a VPN host that runs the script. A request may
  get lost, or be carried out and its answer get lost; what arrives arrives in pieces of any
  size. The lemmas say that the server runs the command the client asked for, or nothing, and
  that the client takes an answer for a success only if the command succeeded.
\<close>

subsection \<open>The connection\<close>

fun cut :: "nat list \<Rightarrow> bytes \<Rightarrow> bytes list" where
  "cut [] bs = (if bs = [] then [] else [bs])"
| "cut (n # ns) bs =
     (if bs = [] then [] else take (Suc n) bs # cut ns (drop (Suc n) bs))"

lemma concat_cut: "concat (cut ns bs) = bs"
  by (induction ns bs rule: cut.induct) auto

lemma cut_nonempty: "[] \<notin> set (cut ns bs)"
  by (induction ns bs rule: cut.induct) auto

text \<open>What happens to an exchange: it breaks (\<open>None\<close>: the timeout, or an \<open>OSError\<close>) before or
  after the work, or the answer arrives.\<close>

datatype fate =
    Lost_Before "string option"
  | Lost_After "nat list" "string option"
  | Answered "nat list" "nat list"

record net_world =
  nw_host :: vpn_host
  nw_calls :: nat

definition broken :: "string option \<Rightarrow> wire" where
  "broken m = (case m of None \<Rightarrow> Wire_Timeout | Some e \<Rightarrow> Wire_Error e)"

definition caller_by :: "string option \<Rightarrow> route \<Rightarrow> caller" where
  "caller_by me r =
     (case r of Unix_Socket path \<Rightarrow> Unix | Dev_Command command \<Rightarrow> Pipe | Tcp host port \<Rightarrow> Tcp_Peer me)"

definition serve_world ::
  "host_lib \<Rightarrow> string option \<Rightarrow> caller \<Rightarrow> nat list \<Rightarrow> bytes \<Rightarrow> net_world \<Rightarrow> bytes option \<times> net_world" where
  "serve_world lib settings_file from asked q w =
     (case cmd_serve lib settings_file from (map Piece (cut asked q)) (nw_host w) of
        (reply, h') \<Rightarrow> (reply, \<lparr>nw_host = h', nw_calls = nw_calls w + 1\<rparr>))"

definition host_net ::
  "host_lib \<Rightarrow> string option \<Rightarrow> string option \<Rightarrow> (nat \<Rightarrow> route \<Rightarrow> fate)
     \<Rightarrow> route \<Rightarrow> bytes \<Rightarrow> net_world \<Rightarrow> wire \<times> net_world" where
  "host_net lib settings_file me fates r q w =
     (case fates (nw_calls w) r of
        Lost_Before m \<Rightarrow> (broken m, w\<lparr>nw_calls := nw_calls w + 1\<rparr>)
      | Lost_After asked m \<Rightarrow>
          (broken m, snd (serve_world lib settings_file (caller_by me r) asked q w))
      | Answered asked replied \<Rightarrow>
          (case serve_world lib settings_file (caller_by me r) asked q w of
             (reply, w') \<Rightarrow>
               (Chunks (case reply of None \<Rightarrow> [] | Some bs \<Rightarrow> cut replied bs), w')))"

subsection \<open>The request arrives\<close>

lemma line_prefix:
  "raw @ rest = line @ [c] \<Longrightarrow> c \<notin> set line \<Longrightarrow> c \<in> set raw \<Longrightarrow> raw = line @ [c] \<and> rest = []"
  by (cases rest rule: rev_cases) auto

lemma read_loop_whole:
  assumes "read_loop raw (map Piece cs) = Inr r" "length r \<le> max_request_bytes" "[] \<notin> set cs"
    "raw @ concat cs = line @ [10]" "10 \<notin> set line"
  shows "r = line @ [10]"
  using assms
proof (induction raw "map Piece cs" arbitrary: cs rule: read_loop.induct)
  case (1 raw)
  consider "10 \<in> set raw" | "10 \<notin> set raw" "max_request_bytes < length raw"
    | "10 \<notin> set raw" "length raw \<le> max_request_bytes" by linarith
  then show ?case
  proof cases
    case 1
    then show ?thesis
      using "1.prems" line_prefix [OF "1.prems"(4,5)] by (simp add: read_loop.simps)
  next
    case 2
    then show ?thesis
      using "1.prems" by (auto simp: read_loop.simps)
  next
    case 3
    let ?n = "max_request_bytes + 1 - length raw"
    obtain c cs' where cs: "cs = c # cs'"
      using 3 "1.prems"(4) by (cases cs) auto
    have n: "0 < ?n" using 3 by simp
    have c: "c \<noteq> []" using cs "1.prems"(3) by auto
    define d where "d = (if length c \<le> ?n then cs' else drop ?n c # cs')"
    have recv: "recv ?n (map Piece cs) = Inr (take ?n c, map Piece d)"
      by (simp add: recv_def cs d_def)
    have d: "[] \<notin> set d" "(raw @ take ?n c) @ concat d = line @ [10]"
      using "1.prems"(3,4) by (auto simp: d_def cs) (simp flip: append_assoc)
    have t: "take ?n c \<noteq> []" using n c by simp
    have cond: "\<not> (10 \<in> set raw \<or> max_request_bytes < length raw)"
      using 3 by simp
    have "read_loop (raw @ take ?n c) (map Piece d) = Inr r"
      using "1.prems"(1) cond recv t by (subst (asm) read_loop.simps) simp
    from "1.hyps" [OF cond recv refl t this "1.prems"(2) d "1.prems"(5)] show ?thesis by simp
  qed
qed

lemma concat_pieces: "concat (map (piece_bytes \<circ> Piece) cs) = concat cs"
  by (induction cs) auto

lemma read_raw_whole:
  assumes "read_raw from (map Piece (cut ns (line @ [10]))) = Inr raw" "length raw \<le> max_request_bytes"
    "10 \<notin> set line"
  shows "raw = line @ [10]"
proof (cases "from = Pipe")
  case True
  then have "raw = take (max_request_bytes + 1) (line @ [10])"
    using assms(1) by (simp add: read_raw_def concat_pieces concat_cut)
  moreover from this have "length (line @ [10]) \<le> max_request_bytes"
    using assms(2) by (cases "length (line @ [10]) \<le> max_request_bytes") simp_all
  ultimately show ?thesis by simp
next
  case False
  then have "read_loop [] (map Piece (cut ns (line @ [10]))) = Inr raw"
    using assms(1) by (cases "from") (simp_all add: read_raw_def)
  then show ?thesis
    by (rule read_loop_whole) (simp_all only: assms concat_cut cut_nonempty append.simps simp_thms)
qed

lemma read_request_whole:
  assumes "distinct (map fst args)"
    "read_request from (map Piece (cut ns (request_line (request_body vc srv command args)))) = Inr ms"
  shows "W_Obj ms = request_body vc srv command args"
proof -
  obtain line where line: "request_line (request_body vc srv command args) = line @ [10]"
    "10 \<notin> set line" "Option.bind (utf8_decode line) loads = Some (request_body vc srv command args)"
    by (rule request_line_read [OF assms(1)])
  have "takeWhile (\<lambda>b. b \<noteq> 10) (line @ [10]) = line"
    using line(2) by (subst takeWhile_append2) auto
  then show ?thesis
    using assms(2) read_raw_whole [OF _ _ line(2), of "from" ns] line(3)
    by (fastforce simp: read_request_def line(1) bind_res_eq_Inr as_object_def
        split: if_splits option.splits jvalue.splits)
qed

subsection \<open>The command the client asked for, or nothing\<close>

definition wire_args :: "(string \<times> string) list \<Rightarrow> members" where
  "wire_args args = map (\<lambda>(k, v). (utext k, W_Str (utext v))) args"

definition wire_ins :: "'p vpnctl_client \<Rightarrow> vpn_server \<Rightarrow> nat list \<Rightarrow> string \<Rightarrow> (string \<times> string) list
  \<Rightarrow> incoming list" where
  "wire_ins vc srv ns command args =
     map Piece (cut ns (request_line (request_body vc srv command args)))"

lemma distinct_expected: "(command, f, ks) \<in> set serve_commands \<Longrightarrow> distinct ks"
  by (auto simp: serve_commands_def)

lemma find_command:
  "(command, f, ks) \<in> set serve_commands \<Longrightarrow>
   find (\<lambda>(name, g, expected). W_Str (utext command) = W_Str (utext name)) serve_commands =
     Some (command, f, ks)"
  by (auto simp: serve_commands_def utext_inj simp del: utext_simps)

lemma wire_args_keys:
  "fst ` set (wire_args args) = utext ` fst ` set args"
  "list_all (\<lambda>(k, v). as_text v \<noteq> None) (wire_args args)"
  by (force simp: wire_args_def) (auto simp: wire_args_def list_all_iff as_text_def)

lemma handle_wire:
  assumes "(command, f, map fst args) \<in> set serve_commands"
    "W_Obj ms = request_body vc srv command args"
  shows "handle_request cfg lib ms = run_command f cfg lib (wire_args args)"
proof -
  have "json_member ''command'' ms W_Null = W_Str (utext command)"
    "json_member ''args'' ms (W_Obj []) = W_Obj (wire_args args)"
    using assms(2) by (simp_all add: request_body_def json_member_def wire_args_def)
  then show ?thesis
    using find_command [OF assms(1)] wire_args_keys [of args]
    by (simp add: handle_request_def as_object_def)
qed

lemma served:
  assumes "(command, f, map fst args) \<in> set serve_commands"
  obtains (refused) e where
    "cmd_serve lib st from (wire_ins vc srv ns command args) h =
       (map_option request_line (response_of (Inl e)), h)"
  | (ran) cfg r h' where "load_settings lib st = Inr cfg"
    "cmd_serve lib st from (wire_ins vc srv ns command args) h =
       (map_option request_line (response_of r), h')"
    "run_command f cfg lib (wire_args args) h = (r, h')"
proof -
  let ?ins = "wire_ins vc srv ns command args"
  have d: "distinct (map fst args)" by (rule distinct_expected [OF assms])
  have raised: thesis if "load_settings lib st = Inr cfg" "answer_request cfg lib from ?ins h = (Inl e, h)"
    for cfg e
    using refused [of e] that by (simp add: cmd_serve_def act_bind_def from_res_def)
  show thesis
  proof (cases "load_settings lib st")
    case (Inl e)
    then show thesis
      using refused [of e] by (simp add: cmd_serve_def act_bind_def from_res_def)
  next
    case cfg: (Inr cfg)
    show thesis
    proof (cases "read_request from ?ins")
      case (Inl e)
      have "\<exists>e'. answer_request cfg lib from ?ins h = (Inl e', h)"
        by (cases e) (auto simp: answer_request_def Inl act_bind_def from_res_def raise_act_def
            split: prod.split sum.split)
      with raised cfg show thesis by blast
    next
      case (Inr ms)
      then have ms: "W_Obj ms = request_body vc srv command args"
        unfolding wire_ins_def by (rule read_request_whole [OF d])
      show thesis
      proof (cases "check_caller cfg lib from (Some ms)")
        case (Inl e)
        with raised cfg Inr show thesis
          by (simp add: answer_request_def act_bind_def from_res_def)
      next
        case (Inr u)
        obtain r h' where "run_command f cfg lib (wire_args args) h = (r, h')" by force
        with ran cfg Inr \<open>read_request from ?ins = Inr ms\<close> handle_wire [OF assms ms] show thesis
          by (simp add: cmd_serve_def answer_request_def act_bind_def from_res_def)
      qed
    qed
  qed
qed

subsection \<open>The answer\<close>

lemma loads_line:
  assumes "writable (W_Obj (m # ms))"
  shows "loads (dumps (W_Obj (m # ms)) @ [10]) = Some (W_Obj (m # ms))"
proof -
  obtain k v where m: "m = (k, v)" by force
  let ?t = "dump_members (m # ms) @ 125 # [10]"
  have "read_members (Suc (length ?t)) ?t = Some (m # ms, [10])"
    using read_dumps(3) [of "m # ms" "Suc (length ?t)" "[10]"] assms by simp
  moreover have "starts_value ?t" unfolding m by (rule starts_members)
  moreover have "take 1 ?t \<noteq> [125]"
    using \<open>starts_value ?t\<close> by (rule starts_value_Cons) simp
  moreover have "dict_of (m # ms) = m # ms"
    using assms by (intro dict_of_distinct) simp
  ultimately have "read_value (Suc (Suc (length ?t))) (123 # ?t) = Some (W_Obj (m # ms), [10])"
    by (subst read_value.simps) (simp del: dump_members.simps read_members.simps)
  moreover have "skip_ws (123 # ?t) = 123 # ?t" "skip_ws [10] = []"
    by (simp_all add: skip_ws_def)
  ultimately show ?thesis
    by (simp add: loads_def del: read_value.simps dump_members.simps)
qed

lemma decoded_line:
  assumes "writable v"
  shows "utf8_decode (request_line v) = Some (dumps v @ [10])"
proof -
  have "list_all (\<lambda>c. c < 128) (dumps v @ [10])"
    using printable_ascii [OF printable_dumps(1) [OF assms]] by simp
  then show ?thesis
    by (simp add: request_line_def ascii_utf8 ascii_utf8_decode)
qed

lemma read_chunks_whole:
  "[] \<notin> set cs \<Longrightarrow> length (read_chunks r cs) \<le> max_response_bytes \<Longrightarrow> read_chunks r cs = r @ concat cs"
  by (induction r cs rule: read_chunks.induct) (auto split: if_splits)

lemma received_whole:
  "length (received r (cut ns bs)) \<le> max_response_bytes \<Longrightarrow> received r (cut ns bs) = bs"
  using read_chunks_whole [of "cut ns bs" "[]"] cut_nonempty [of ns bs]
  by (auto simp: received_def concat_cut split: route.splits)

lemma received_nil: "received r [] = []"
  by (simp add: received_def split: route.split)

lemma member_keys:
  "utext ''exit_code'' \<noteq> utext ''result''" "utext ''exit_code'' \<noteq> utext ''error''"
  "utext ''error'' \<noteq> utext ''result''"
  by (simp_all only: utext_inj) simp_all

lemma writable_digit: "0 \<le> n \<Longrightarrow> n < 10 \<Longrightarrow> writable (W_Int n)"
proof -
  assume "0 \<le> n" "n < 10"
  then have "nat \<bar>n\<bar> < 10" by simp
  then have "length (show_nat (nat \<bar>n\<bar>)) = 1" by (subst show_nat.simps) simp
  then show ?thesis by simp
qed

lemma exit_codes: "exit_of e = Some (code, m) \<Longrightarrow> code \<in> {1, 2, 3, 4}"
  by (cases e) auto

lemma parse_line:
  assumes "writable (W_Obj ms)" "map_of ms (utext ''exit_code'') = Some (W_Int k)"
    "parse_answer vc (request_line (W_Obj ms)) = Inr (code, result, err)"
  shows "code = k \<and> as_object (json_member ''result'' ms (W_Obj [])) = Some result"
proof -
  obtain m ms' where ms: "ms = m # ms'" using assms(2) by (cases ms) auto
  have "Option.bind (utf8_decode (request_line (W_Obj ms))) loads = Some (W_Obj ms)"
    by (simp only: decoded_line [OF assms(1)] loads_line [OF assms(1) [unfolded ms], folded ms]
        Option.bind.simps)
  with assms(2,3) show ?thesis
    by (simp add: parse_answer_def json_get_def json_int_def as_object_def Let_def split: option.splits jvalue.splits)
qed

lemma parse_success:
  assumes "writable (W_Obj ms)" "response_of (Inr ms) = Some v"
    "parse_answer vc (request_line v) = Inr (code, result, err)"
  shows "result = ms"
proof -
  let ?rs = "[member_int ''exit_code'' 0, (utext ''result'', W_Obj ms)]"
  have v: "v = W_Obj ?rs" using assms(2) by (simp add: response_of_def)
  have "writable (W_Obj ?rs)"
    using assms(1) writable_digit [of 0] member_keys
    by (simp add: member_int_def utext_code_points del: utext_simps)
  from parse_line [OF this, of 0 vc code result err] assms(3) show ?thesis
    using member_keys by (simp add: v member_int_def json_member_def as_object_def del: utext_simps)
qed

lemma parse_failure:
  assumes "response_of (Inl e) = Some v" "parse_answer vc (request_line v) = Inr (code, result, err)"
  shows "code \<noteq> 0"
proof -
  obtain k m where k: "exit_of e = Some (k, m)" "v = W_Obj [member_int ''exit_code'' k, member_str ''error'' m]"
    using assms(1) by (auto simp: response_of_def)
  have "0 \<le> k \<and> k < 10" "k \<noteq> 0" using exit_codes [OF k(1)] by auto
  then have "writable (W_Obj [member_int ''exit_code'' k, member_str ''error'' m])"
    using writable_digit [of k] member_keys
    by (simp add: member_int_def member_str_def utext_code_points del: utext_simps)
  from parse_line [OF this, of k vc code result err] assms(2) \<open>k \<noteq> 0\<close> show ?thesis
    by (simp add: k(2) member_int_def del: utext_simps)
qed

lemma no_answer: "parse_answer vc [] = Inl ValueError"
proof -
  have "loads [] = None"
    by (simp add: loads_def skip_ws_def)
  then show ?thesis
    by (simp add: parse_answer_def utf8_decode.simps)
qed

subsection \<open>One call\<close>

lemma call_result:
  "vpnctl_call vc srv command args w = (res, w') \<Longrightarrow> res = Inr a \<Longrightarrow>
   \<exists>cs. fst (vc_net vc (route_to vc srv) (request_line (request_body vc srv command args)) w) = Chunks cs \<and>
     length (received (route_to vc srv) cs) \<le> max_response_bytes \<and>
     parse_answer vc (received (route_to vc srv) cs) = Inr a"
  by (auto simp: vpnctl_call_def Let_def split: prod.splits wire.splits if_splits sum.splits)

lemma call_world:
  "snd (vpnctl_call vc srv command args w) =
     snd (vc_net vc (route_to vc srv) (request_line (request_body vc srv command args)) w)"
  by (simp add: vpnctl_call_def Let_def split: prod.split)

lemma answer_success:
  assumes "parse_answer vc (case map_option request_line (response_of r) of None \<Rightarrow> [] | Some bs \<Rightarrow> bs)
    = Inr (0, result, err)"
  obtains ms where "r = Inr ms" "writable (W_Obj ms) \<Longrightarrow> result = ms"
proof (cases r)
  case (Inl e)
  with assms parse_failure [of e _ vc 0] show thesis
    by (auto simp: no_answer split: option.splits)
next
  case (Inr ms)
  obtain v where v: "response_of (Inr ms) = Some v" by (simp add: response_of_def)
  show thesis
  proof (rule that)
    show "r = Inr ms" by (rule Inr)
    show "result = ms" if "writable (W_Obj ms)"
      using assms parse_success [OF that v] by (auto simp: Inr v)
  qed
qed

lemma called:
  assumes "(command, f, map fst args) \<in> set serve_commands" "vc_net vc = host_net lib st me fates"
    "vpnctl_call vc srv command args w = (res, w')"
  obtains (same) "nw_host w' = nw_host w" "\<And>result err. res \<noteq> Inr (0, result, err)"
  | (ran) cfg r where "load_settings lib st = Inr cfg"
      "run_command f cfg lib (wire_args args) (nw_host w) = (r, nw_host w')"
      "\<And>result err. res = Inr (0, result, err) \<Longrightarrow>
         \<exists>ms. r = Inr ms \<and> (writable (W_Obj ms) \<longrightarrow> result = ms)"
proof -
  let ?r = "route_to vc srv" and ?q = "request_line (request_body vc srv command args)"
  let ?from = "caller_by me ?r"
  have w': "w' = snd (host_net lib st me fates ?r ?q w)"
    using call_world [of vc srv command args w] assms(2,3) by simp
  have res: "\<exists>cs. fst (host_net lib st me fates ?r ?q w) = Chunks cs \<and>
      length (received ?r cs) \<le> max_response_bytes \<and> parse_answer vc (received ?r cs) = Inr a"
    if "res = Inr a" for a
    using call_result [OF assms(3) that] by (simp add: assms(2))
  show thesis
  proof (cases "fates (nw_calls w) ?r")
    case (Lost_Before m)
    show thesis
      by (rule same) (use res Lost_Before in \<open>auto simp: w' host_net_def broken_def split: option.splits\<close>)
  next
    case (Lost_After ns m)
    have no: "res \<noteq> Inr a" for a
      using res [of a] Lost_After by (cases m) (auto simp: host_net_def broken_def)
    have h: "nw_host w' = snd (cmd_serve lib st ?from (wire_ins vc srv ns command args) (nw_host w))"
      by (simp add: w' host_net_def Lost_After serve_world_def wire_ins_def split: prod.split)
    show thesis
    proof (rule served [OF assms(1), of lib st ?from vc srv ns "nw_host w"])
      fix e
      assume e: "cmd_serve lib st ?from (wire_ins vc srv ns command args) (nw_host w) =
        (map_option request_line (response_of (Inl e)), nw_host w)"
      show thesis by (rule same) (simp_all add: h e no)
    next
      fix cfg r k
      assume c: "load_settings lib st = Inr cfg" "run_command f cfg lib (wire_args args) (nw_host w) = (r, k)"
        "cmd_serve lib st ?from (wire_ins vc srv ns command args) (nw_host w) =
          (map_option request_line (response_of r), k)"
      show thesis by (rule ran [OF c(1)]) (simp_all add: h c no)
    qed
  next
    case (Answered ns ks)
    obtain reply h' where s: "cmd_serve lib st ?from (wire_ins vc srv ns command args) (nw_host w) = (reply, h')"
      by force
    then have w: "host_net lib st me fates ?r ?q w =
        (Chunks (case reply of None \<Rightarrow> [] | Some bs \<Rightarrow> cut ks bs), \<lparr>nw_host = h', nw_calls = nw_calls w + 1\<rparr>)"
      by (simp add: host_net_def Answered serve_world_def wire_ins_def)
    have h: "nw_host w' = h'" by (simp add: w' w)
    have ok: "parse_answer vc (case reply of None \<Rightarrow> [] | Some bs \<Rightarrow> bs) = Inr a" if "res = Inr a" for a
      using res [OF that] received_whole [of ?r ks "the reply"]
      by (cases reply) (auto simp: w received_nil)
    show thesis
    proof (rule served [OF assms(1), of lib st ?from vc srv ns "nw_host w"])
      fix e
      assume e: "cmd_serve lib st ?from (wire_ins vc srv ns command args) (nw_host w) =
        (map_option request_line (response_of (Inl e)), nw_host w)"
      then have rep: "reply = map_option request_line (response_of (Inl e))" using s by simp
      have no: "res \<noteq> Inr (0, result, err)" for result err
        using answer_success [OF ok [unfolded rep]] by blast
      show thesis
        by (rule same) (use no e s h in simp_all)
    next
      fix cfg r k
      assume c: "load_settings lib st = Inr cfg"
        and k: "cmd_serve lib st ?from (wire_ins vc srv ns command args) (nw_host w) =
          (map_option request_line (response_of r), k)"
        and r: "run_command f cfg lib (wire_args args) (nw_host w) = (r, k)"
      have rep: "reply = map_option request_line (response_of r)" using k s by simp
      have yes: "\<exists>ms. r = Inr ms \<and> (writable (W_Obj ms) \<longrightarrow> result = ms)" if "res = Inr (0, result, err)"
        for result err
        using answer_success [OF ok [OF that, unfolded rep]] by blast
      show thesis
        by (rule ran [OF c _ yes]) (use r k s h in simp_all)
    qed
  qed
qed

end
