(* ===== verification/Vpnctl_System.thy ===== *)
theory Vpnctl_System
  imports Vpnctl_Wire
begin

section \<open>The contract of a provisioner, kept by the VPN host\<close>

text \<open>
  What the worker is told over the network is what happened on the host: the client, the wire
  and the server script together satisfy \<open>peer_service\<close>, the contract the mock satisfies too,
  for every behaviour of the network, the disk and \<open>awg\<close> (of which only the keys it prints
  must be one word).
\<close>

subsection \<open>Every command keeps the host in order\<close>

lemma ok_saves_other: "host_ok h \<Longrightarrow> \<not> is_identifier n \<Longrightarrow> host_ok (put_file (Client_File n ''peer'') s h)"
  by (auto simp: host_ok_def awg_keys_def host_simps split: if_splits)

lemma new_client_ok:
  assumes "host_ok h" "\<not> is_identifier n"
  shows "wp (new_client cfg lib n conf) (\<lambda>x. host_ok) (\<lambda>e. host_ok) h"
  unfolding new_client_def Let_def awg_set_peer_def awg_remove_peer_def save_client_def
  by (intro wp_rules wp_pick wp_endpoint wp_result)
    (auto simp: host_simps ok_saves_other assms)

lemma create_ok: "host_ok h \<Longrightarrow> wp (cmd_create_peer cfg lib sid label) (\<lambda>x. host_ok) (\<lambda>e. host_ok) h"
proof (cases "plain_id label")
  case True
  assume "host_ok h"
  from wp_mono [OF create_wp [OF this True]] show ?thesis
    by (rule wp_mono) (use \<open>host_ok h\<close> in \<open>auto dest: createdD\<close>)
next
  case False
  assume "host_ok h"
  then show ?thesis
    using False unfolding cmd_create_peer_def
    by (intro wp_rules wp_result new_client_ok) (auto simp: plain_id_def dest!: validate_cases)
qed

lemma enable_ok: "host_ok h \<Longrightarrow> wp (cmd_enable_peer cfg lib x) (\<lambda>x. host_ok) (\<lambda>e. host_ok) h"
  unfolding cmd_enable_peer_def restore_block_def with_live_def awg_set_peer_def Let_def
  by (intro wp_rules) (auto simp: host_simps)

lemma status_same_wp:
  assumes "\<And>c b. Q (logged (Ran c b) h) = Q h" "\<And>c b c' b'. Q (logged (Ran c b) (logged (Ran c' b') h)) = Q h" "Q h"
  shows "wp (cmd_peer_status cfg lib x) (\<lambda>x. Q) (\<lambda>e. Q) h"
  unfolding cmd_peer_status_def live_status_def awg_show_table_def Let_def
  by (intro wp_rules) (auto simp: assms)

lemma config_same_wp: "Q h \<Longrightarrow> wp (cmd_get_config lib x) (\<lambda>x. Q) (\<lambda>e. Q) h"
  unfolding cmd_get_config_def by (intro wp_rules wp_result) auto

lemma run_ok:
  assumes "host_ok h"
  shows "host_ok (snd (run_command f cfg lib args h))"
proof -
  have "wp (run_command f cfg lib args) (\<lambda>x. host_ok) (\<lambda>e. host_ok) h"
  proof (cases f)
    case Disable_Peer
    show ?thesis
      unfolding Disable_Peer run_command.simps
      by (rule wp_mono [OF disable_wp [OF assms]]) (simp_all add: turned_off_def)
  next
    case Remove_Peer
    show ?thesis
      unfolding Remove_Peer run_command.simps
      by (rule wp_mono [OF remove_wp [OF assms]]) (simp_all add: taken_out_def)
  qed (simp_all add: create_ok enable_ok status_same_wp config_same_wp host_simps assms)
  then show ?thesis by (simp add: wp_any)
qed

subsection \<open>Results that reach the client\<close>

lemma wp_conj:
  "wp m R E h \<Longrightarrow> wp m R' E' h \<Longrightarrow> wp m (\<lambda>x h'. R x h' \<and> R' x h') (\<lambda>e h'. E e h' \<and> E' e h') h"
  by (auto simp: wp_def split: prod.splits sum.splits)

definition names_peer :: "string \<Rightarrow> members \<Rightarrow> bool" where
  "names_peer n ms \<longleftrightarrow>
     writable (W_Obj ms) \<and> map_of ms (utext ''peer_id'') = Some (W_Str (utext n))"

lemma keys_distinct: "distinct (map fst (map (\<lambda>(k, v). (utext k, v)) ms)) \<longleftrightarrow> distinct (map fst ms)"
proof -
  have "map fst (map (\<lambda>(k, v). (utext k, v)) ms) = map utext (map fst ms)"
    by auto
  then show ?thesis
    by (simp add: distinct_map inj_on_def utext_inj)
qed

lemma member_pair:
  "member_str k v = (\<lambda>(k, v). (utext k, v)) (k, W_Str (utext v))"
  "member_bool k b = (\<lambda>(k, v). (utext k, v)) (k, W_Bool b)"
  by (simp_all add: member_str_def member_bool_def)

lemma writable_named:
  assumes "list_all (\<lambda>(k, v). writable v) ms" "distinct (map fst ms)"
  shows "writable (W_Obj (map (\<lambda>(k, v). (utext k, v)) ms))"
proof -
  have "writable_members (map (\<lambda>(k, v). (utext k, v)) ms)"
    using assms(1) by (induction ms) (auto simp: utext_code_points)
  then show ?thesis
    using assms(2) by (simp add: keys_distinct [unfolded map_map])
qed

lemma map_of_named: "map_of (map (\<lambda>(k, v). (utext k, v)) ms) (utext k) = map_of ms k"
  by (induction ms) (auto simp: utext_inj)

lemma names_peerI:
  assumes "ms = map (\<lambda>(k, v). (utext k, v)) ks" "list_all (\<lambda>(k, v). writable v) ks"
    "distinct (map fst ks)" "map_of ks ''peer_id'' = Some (W_Str (utext n))"
  shows "names_peer n ms"
  using assms by (simp only: names_peer_def writable_named map_of_named simp_thms)

lemma done_names: "names_peer n (done_with n b @ [member_bool ''enabled'' c])" "names_peer n (done_with n b)"
  by (rule names_peerI [of _ "[(''status'', W_Str (utext ''success'')), (''peer_id'', W_Str (utext n)),
      (''found'', W_Bool b), (''enabled'', W_Bool c)]"];
      simp add: done_with_def member_pair utext_code_points del: utext_simps)
    (rule names_peerI [of _ "[(''status'', W_Str (utext ''success'')), (''peer_id'', W_Str (utext n)),
      (''found'', W_Bool b)]"];
      simp add: done_with_def member_pair utext_code_points del: utext_simps)

lemma result_names:
  assumes "extra = map (\<lambda>(k, v). (utext k, v)) ks" "list_all (\<lambda>(k, v). writable v) ks"
    "distinct (map fst ks)"
    "set (map fst ks) \<inter> {''status'', ''peer_id'', ''label'', ''filename'', ''config_b64'', ''vpn_url''} = {}"
  shows "wp (peer_result lib n s extra) (\<lambda>ms h'. names_peer n ms) (\<lambda>e h'. True) h"
proof -
  have "names_peer n ([member_str ''status'' ''success'', member_str ''peer_id'' n, member_str ''label'' n,
      member_str ''filename'' (n @ ''.conf''), member_str ''config_b64'' c, member_str ''vpn_url'' url] @ extra)"
    for c url
    by (rule names_peerI [of _ "[(''status'', W_Str (utext ''success'')), (''peer_id'', W_Str (utext n)),
        (''label'', W_Str (utext n)), (''filename'', W_Str (utext (n @ ''.conf''))),
        (''config_b64'', W_Str (utext c)), (''vpn_url'', W_Str (utext url))] @ ks"])
      (use assms in \<open>auto simp: member_pair utext_code_points simp del: utext_simps\<close>)
  then show ?thesis
    unfolding peer_result_def by (auto intro!: wp_rules split: sum.split)
qed

lemma result_names_new:
  "wp (peer_result lib n s [member_bool ''existing'' b]) (\<lambda>ms h'. names_peer n ms) (\<lambda>e h'. True) h"
  "wp (peer_result lib n s [member_str ''address'' a, member_bool ''existing'' b])
     (\<lambda>ms h'. names_peer n ms) (\<lambda>e h'. True) h"
  by (rule result_names [of _ "[(''existing'', W_Bool b)]"]; simp add: member_pair)
    (rule result_names [of _ "[(''address'', W_Str (utext a)), (''existing'', W_Bool b)]"];
      simp add: member_pair utext_code_points del: utext_simps)

lemma create_names:
  "wp (cmd_create_peer cfg lib sid label) (\<lambda>ms h'. names_peer (narrow label) ms) (\<lambda>e h'. True) h"
  unfolding cmd_create_peer_def new_client_def Let_def awg_set_peer_def awg_remove_peer_def save_client_def
  by (intro wp_rules wp_pick wp_endpoint)
    (auto intro!: result_names_new dest!: validate_cases)

lemma toggle_names:
  "wp (cmd_disable_peer cfg lib x) (\<lambda>ms h'. names_peer (narrow x) ms) (\<lambda>e h'. True) h"
  "wp (cmd_enable_peer cfg lib x) (\<lambda>ms h'. names_peer (narrow x) ms) (\<lambda>e h'. True) h"
  "wp (cmd_remove_peer cfg lib x) (\<lambda>ms h'. names_peer (narrow x) ms) (\<lambda>e h'. True) h"
  unfolding cmd_disable_peer_def disable_found_def cmd_enable_peer_def restore_block_def with_live_def
    awg_set_peer_def cmd_remove_peer_def take_off_def awg_remove_peer_def Let_def
  by (intro wp_rules; auto intro: done_names dest!: validate_cases)+

subsection \<open>The client's operations on the host\<close>

definition wired ::
  "net_world vpnctl_client \<Rightarrow> host_lib \<Rightarrow> string option \<Rightarrow> string option \<Rightarrow> (nat \<Rightarrow> route \<Rightarrow> fate)
     \<Rightarrow> net_world vpnctl_client" where
  "wired vc lib st me fates = vc\<lparr>vc_net := host_net lib st me fates\<rparr>"

lemma wired_net: "vc_net (wired vc lib st me fates) = host_net lib st me fates"
  by (simp add: wired_def)

definition in_order :: "net_world \<Rightarrow> bool" where
  "in_order w = host_ok (nw_host w)"

definition wire_known :: "net_world \<Rightarrow> string set" where
  "wire_known w = host_known (nw_host w)"

definition wire_on :: "net_world \<Rightarrow> string set" where
  "wire_on w = host_on (nw_host w)"

definition peer_calls :: "(string \<times> serve_command) list" where
  "peer_calls =
     [(''disable-peer'', Disable_Peer), (''enable-peer'', Enable_Peer), (''remove-peer'', Remove_Peer),
      (''peer-status'', Peer_Status), (''get-config'', Get_Config)]"

lemma peer_calls_served:
  "(command, f) \<in> set peer_calls \<Longrightarrow> (command, f, map fst [(''peer_id'', x)]) \<in> set serve_commands"
  by (auto simp: peer_calls_def serve_commands_def)

lemma arg_wire:
  "arg_text ''peer_id'' (wire_args [(''peer_id'', x)]) = utext x"
  "arg_text ''subscription_id'' (wire_args [(''subscription_id'', y), (''label'', x)]) = utext y"
  "arg_text ''label'' (wire_args [(''subscription_id'', y), (''label'', x)]) = utext x"
  by (simp_all add: arg_text_def wire_args_def json_member_def as_text_def)

lemma plain_utext: "is_identifier x \<Longrightarrow> plain_id (utext x)"
  by (simp add: plain_id_def narrow_utext)

lemma peer_command_ran:
  assumes "(command, f) \<in> set peer_calls"
    "vpnctl_peer_command command (wired vc lib st me fates) srv x w = (res, w')"
  obtains (same) e where "nw_host w' = nw_host w" "res = Inl e"
  | (ran) cfg r where "run_command f cfg lib (wire_args [(''peer_id'', x)]) (nw_host w) = (r, nw_host w')"
      "\<And>u. res = Inr u \<Longrightarrow> \<exists>ms. r = Inr ms"
proof (cases "sanitize_identifier x")
  case (Inl e)
  show thesis by (rule same [of e]) (use assms(2) Inl in \<open>simp_all add: vpnctl_peer_command_def\<close>)
next
  case (Inr y)
  then have y: "y = x" by (simp add: sanitize_identifier_def split: if_splits)
  let ?vc = "wired vc lib st me fates"
  obtain a where call: "vpnctl_call ?vc srv command [(''peer_id'', x)] w = (a, w')"
    using assms(2) Inr y
    by (auto simp: vpnctl_peer_command_def run_checked_def split: prod.splits sum.splits if_splits)
  have ok: "\<exists>result err. a = Inr (0, result, err)" if "res = Inr u" for u
    using assms(2) Inr y call that
    by (auto simp: vpnctl_peer_command_def run_checked_def split: prod.splits sum.splits if_splits)
  show thesis
  proof (rule called [OF peer_calls_served [OF assms(1)] wired_net call])
    assume h: "nw_host w' = nw_host w" "\<And>result err. a \<noteq> Inr (0, result, err)"
    then obtain e where "res = Inl e" using ok by (cases res) auto
    with h(1) show thesis by (rule same)
  next
    fix cfg r
    assume r: "run_command f cfg lib (wire_args [(''peer_id'', x)]) (nw_host w) = (r, nw_host w')"
      "\<And>result err. a = Inr (0, result, err) \<Longrightarrow> \<exists>ms. r = Inr ms \<and> (writable (W_Obj ms) \<longrightarrow> result = ms)"
    show thesis
      by (rule ran [OF r(1)]) (use ok r(2) in blast)
  qed
qed

lemma status_ran:
  "\<exists>f cfg. nw_host (snd (vpnctl_get_peer_status (wired vc lib st me fates) srv x w)) = nw_host w \<or>
     nw_host (snd (vpnctl_get_peer_status (wired vc lib st me fates) srv x w)) =
       snd (cmd_peer_status cfg lib (utext x) (nw_host w))"
proof (cases "sanitize_identifier x")
  case (Inr y)
  then have y: "y = x" by (simp add: sanitize_identifier_def split: if_splits)
  let ?vc = "wired vc lib st me fates"
  obtain a w' where call: "vpnctl_call ?vc srv ''peer-status'' [(''peer_id'', x)] w = (a, w')"
    by force
  have "snd (vpnctl_get_peer_status ?vc srv x w) = w'"
    using Inr y call by (auto simp: vpnctl_get_peer_status_def split: sum.splits)
  moreover have "(''peer-status'', Peer_Status) \<in> set peer_calls" by (simp add: peer_calls_def)
  ultimately show ?thesis
    by (rule_tac called [OF peer_calls_served wired_net call]) (auto simp: arg_wire, metis snd_conv)
qed (simp add: vpnctl_get_peer_status_def)

lemma create_ran:
  assumes "vpnctl_create_peer (wired vc lib st me fates) srv sid tg w = (res, w')"
  obtains (same) e where "nw_host w' = nw_host w" "res = Inl e"
  | (ran) cfg r where "load_settings lib st = Inr cfg"
      "cmd_create_peer cfg lib (utext (uuid_str sid)) (utext (vpnctl_label srv sid tg))
      (nw_host w) = (r, nw_host w')"
      "\<And>peer. res = Inr peer \<Longrightarrow> \<exists>ms. r = Inr ms \<and>
         pp_external_id peer = vpnctl_label srv sid tg \<and>
         peer_of_reply (wired vc lib st me fates) (vpnctl_label srv sid tg) ms = Inr peer"
proof (cases "sanitize_identifier (vpnctl_label srv sid tg)")
  case (Inl e)
  show thesis by (rule same [of e]) (use assms Inl in \<open>simp_all add: vpnctl_create_peer_def\<close>)
next
  case (Inr y)
  let ?l = "vpnctl_label srv sid tg" and ?vc = "wired vc lib st me fates"
  let ?args = "[(''subscription_id'', uuid_str sid), (''label'', ?l)]"
  have y: "y = ?l" using Inr by (simp add: sanitize_identifier_def split: if_splits)
  obtain a where call: "vpnctl_call ?vc srv ''create-peer'' ?args w = (a, w')"
    using assms Inr y
    by (auto simp: vpnctl_create_peer_def run_checked_def split: prod.splits sum.splits if_splits)
  have ok: "\<exists>result err. a = Inr (0, result, err) \<and> peer_of_reply ?vc ?l result = Inr peer"
    if "res = Inr peer" for peer
    using assms Inr y call that
    by (auto simp: vpnctl_create_peer_def run_checked_def split: prod.splits sum.splits if_splits)
  have c: "(''create-peer'', Create_Peer, map fst ?args) \<in> set serve_commands"
    by (simp add: serve_commands_def)
  show thesis
  proof (rule called [OF c wired_net call])
    assume h: "nw_host w' = nw_host w" "\<And>result err. a \<noteq> Inr (0, result, err)"
    then obtain e where "res = Inl e" using ok by (cases res) auto
    with h(1) show thesis by (rule same)
  next
    fix cfg r
    assume cfg: "load_settings lib st = Inr cfg"
      and "run_command Create_Peer cfg lib (wire_args ?args) (nw_host w) = (r, nw_host w')"
      and s: "\<And>result err. a = Inr (0, result, err) \<Longrightarrow> \<exists>ms. r = Inr ms \<and> (writable (W_Obj ms) \<longrightarrow> result = ms)"
    then have r: "cmd_create_peer cfg lib (utext (uuid_str sid)) (utext ?l) (nw_host w) = (r, nw_host w')"
      by (simp add: arg_wire)
    show thesis
    proof (rule ran [OF cfg r])
      fix peer assume "res = Inr peer"
      then obtain result err where p: "a = Inr (0, result, err)" "peer_of_reply ?vc ?l result = Inr peer"
        using ok by blast
      obtain ms where ms: "r = Inr ms" "writable (W_Obj ms) \<longrightarrow> result = ms" using s [OF p(1)] by blast
      have n: "names_peer ?l ms"
        using wp_Inr [OF create_names r [unfolded ms(1)]] by (simp add: narrow_utext)
      then have "result = ms" "json_get ''peer_id'' (W_Obj ms) = Inr (W_Str (utext ?l))"
        using ms(2) by (simp_all add: names_peer_def json_get_def)
      then have "pp_external_id peer = ?l"
        using p(2) Inr by (auto simp: peer_of_reply_def bind_res_eq_Inr json_identifier_text y)
      then show "\<exists>ms. r = Inr ms \<and> pp_external_id peer = ?l \<and> peer_of_reply ?vc ?l ms = Inr peer"
        using ms(1) p(2) \<open>result = ms\<close> by blast
    qed
  qed
qed

subsection \<open>The contract\<close>

lemma touches_on: "touches n h h' \<Longrightarrow> host_on h' - {n} = host_on h - {n}"
proof -
  have "host_on g - {n} = {m. Some m \<in> fst ` set (filter (\<lambda>(name, pub). name \<noteq> Some n) (host_peers g))}"
    for g
    by (force simp: host_on_def)
  then show "touches n h h' \<Longrightarrow> ?thesis"
    unfolding touches_def by (simp only:)
qed

lemma peer_command_touches:
  assumes "(command, f) \<in> set peer_calls" "f \<in> {Disable_Peer, Enable_Peer, Remove_Peer}"
    "in_order w" "is_identifier x"
  shows "touches x (nw_host w)
    (nw_host (snd (vpnctl_peer_command command (wired vc lib st me fates) srv x w)))"
proof -
  obtain res w' where c: "vpnctl_peer_command command (wired vc lib st me fates) srv x w = (res, w')"
    by force
  have ok: "host_ok (nw_host w)" using assms(3) by (simp add: in_order_def)
  have "touches x (nw_host w) (nw_host w')"
  proof (rule peer_command_ran [OF assms(1) c])
    fix cfg r
    assume r: "run_command f cfg lib (wire_args [(''peer_id'', x)]) (nw_host w) = (r, nw_host w')"
    have "wp (run_command f cfg lib (wire_args [(''peer_id'', x)])) (\<lambda>r. touches x (nw_host w))
        (\<lambda>e. touches x (nw_host w)) (nw_host w)"
      using assms(2)
        wp_mono [OF disable_wp [OF ok, of cfg lib "utext x"], of "\<lambda>r. touches x (nw_host w)" "\<lambda>e. touches x (nw_host w)"]
        wp_mono [OF enable_wp [OF ok plain_utext [OF assms(4)], of cfg lib], of "\<lambda>r. touches x (nw_host w)" "\<lambda>e. touches x (nw_host w)"]
        wp_mono [OF remove_wp [OF ok, of cfg lib "utext x"], of "\<lambda>r. touches x (nw_host w)" "\<lambda>e. touches x (nw_host w)"]
      by (auto simp: arg_wire narrow_utext turned_off_def turned_on_def taken_out_def)
    then show ?thesis by (simp add: wp_any r)
  qed (simp add: touches_refl)
  then show ?thesis by (simp add: c)
qed

lemma peer_command_order:
  assumes "(command, f) \<in> set peer_calls" "in_order w"
  shows "in_order (snd (vpnctl_peer_command command (wired vc lib st me fates) srv x w))"
proof -
  obtain res w' where c: "vpnctl_peer_command command (wired vc lib st me fates) srv x w = (res, w')"
    by force
  have "host_ok (nw_host w')"
  proof (rule peer_command_ran [OF assms(1) c])
    fix cfg r
    assume r: "run_command f cfg lib (wire_args [(''peer_id'', x)]) (nw_host w) = (r, nw_host w')"
    then show ?thesis
      using run_ok [of "nw_host w" f cfg lib "wire_args [(''peer_id'', x)]"] assms(2)
      by (simp add: in_order_def)
  qed (use assms(2) in \<open>simp add: in_order_def\<close>)
  then show ?thesis by (simp add: c in_order_def)
qed

lemma disabled_over_wire:
  assumes "in_order w" "vpnctl_peer_command ''disable-peer'' (wired vc lib st me fates) srv x w = (Inr u, w')"
  shows "turned_off x (nw_host w) (nw_host w')"
proof (rule peer_command_ran [OF _ assms(2), of Disable_Peer])
  fix cfg r
  assume "run_command Disable_Peer cfg lib (wire_args [(''peer_id'', x)]) (nw_host w) = (r, nw_host w')"
    "\<And>v. Inr u = Inr v \<Longrightarrow> \<exists>ms. r = Inr ms"
  then show ?thesis
    using wp_Inr [OF disable_wp, of "nw_host w" cfg lib "utext x"] assms(1)
    by (auto simp: arg_wire narrow_utext in_order_def)
qed (simp_all add: peer_calls_def)

lemma enabled_over_wire:
  assumes "in_order w" "is_identifier x"
    "vpnctl_peer_command ''enable-peer'' (wired vc lib st me fates) srv x w = (Inr u, w')"
  shows "turned_on x (nw_host w) (nw_host w')"
proof (rule peer_command_ran [OF _ assms(3), of Enable_Peer])
  fix cfg r
  assume "run_command Enable_Peer cfg lib (wire_args [(''peer_id'', x)]) (nw_host w) = (r, nw_host w')"
    "\<And>v. Inr u = Inr v \<Longrightarrow> \<exists>ms. r = Inr ms"
  then show ?thesis
    using wp_Inr [OF enable_wp [OF _ plain_utext [OF assms(2)]], of "nw_host w" cfg lib] assms(1)
    by (auto simp: arg_wire narrow_utext in_order_def)
qed (simp_all add: peer_calls_def)

lemma removed_over_wire:
  assumes "in_order w" "vpnctl_peer_command ''remove-peer'' (wired vc lib st me fates) srv x w = (Inr u, w')"
  shows "taken_out x (nw_host w) (nw_host w')"
proof (rule peer_command_ran [OF _ assms(2), of Remove_Peer])
  fix cfg r
  assume "run_command Remove_Peer cfg lib (wire_args [(''peer_id'', x)]) (nw_host w) = (r, nw_host w')"
    "\<And>v. Inr u = Inr v \<Longrightarrow> \<exists>ms. r = Inr ms"
  then show ?thesis
    using wp_Inr [OF remove_wp, of "nw_host w" cfg lib "utext x"] assms(1)
    by (auto simp: arg_wire narrow_utext in_order_def)
qed (simp_all add: peer_calls_def)

lemma created_over_wire:
  assumes "in_order w" "vpnctl_create_peer (wired vc lib st me fates) srv sid tg w = (Inr peer, w')"
    "is_identifier (pp_external_id peer)"
  shows "nw_host w' = nw_host w \<or> created (pp_external_id peer) (nw_host w) (nw_host w')"
proof (rule create_ran [OF assms(2)])
  fix cfg r
  assume r: "cmd_create_peer cfg lib (utext (uuid_str sid)) (utext (vpnctl_label srv sid tg)) (nw_host w)
      = (r, nw_host w')"
    "\<And>peer'. Inr peer = Inr peer' \<Longrightarrow> \<exists>ms. r = Inr ms \<and> pp_external_id peer' = vpnctl_label srv sid tg \<and>
       peer_of_reply (wired vc lib st me fates) (vpnctl_label srv sid tg) ms = Inr peer'"
  then obtain ms where ms: "r = Inr ms" "pp_external_id peer = vpnctl_label srv sid tg" by blast
  then show ?thesis
    using wp_Inr [OF create_wp [OF _ plain_utext [OF assms(3)]], of "nw_host w" cfg lib] r(1) assms(1)
    by (auto simp: narrow_utext in_order_def)
qed simp

lemma create_order:
  assumes "in_order w"
  shows "in_order (snd (vpnctl_create_peer (wired vc lib st me fates) srv sid tg w))"
proof -
  obtain res w' where c: "vpnctl_create_peer (wired vc lib st me fates) srv sid tg w = (res, w')"
    by force
  have "host_ok (nw_host w')"
  proof (rule create_ran [OF c])
    fix cfg r
    assume "cmd_create_peer cfg lib (utext (uuid_str sid)) (utext (vpnctl_label srv sid tg)) (nw_host w)
      = (r, nw_host w')"
    then show ?thesis
      using create_ok [of "nw_host w" cfg lib "utext (uuid_str sid)" "utext (vpnctl_label srv sid tg)"] assms
      by (simp add: wp_any in_order_def)
  qed (use assms in \<open>simp add: in_order_def\<close>)
  then show ?thesis by (simp add: c in_order_def)
qed

lemma status_same_host:
  "wire_known (snd (vpnctl_get_peer_status (wired vc lib st me fates) srv x w)) = wire_known w \<and>
   wire_on (snd (vpnctl_get_peer_status (wired vc lib st me fates) srv x w)) = wire_on w"
proof -
  have "host_known (snd (cmd_peer_status cfg lib y h)) = host_known h \<and>
      host_on (snd (cmd_peer_status cfg lib y h)) = host_on h" for cfg y h
    using status_same_wp [of "\<lambda>g. host_known g = host_known h \<and> host_on g = host_on h" h cfg lib y]
    by (simp add: wp_any host_simps)
  then show ?thesis
    using status_ran [of vc lib st me fates srv x w] by (auto simp: wire_known_def wire_on_def)
qed

lemma wire_sets:
  "turned_off x (nw_host w) (nw_host w') \<Longrightarrow> wire_on w' = wire_on w - {x} \<and> wire_known w' = wire_known w"
  "turned_on x (nw_host w) (nw_host w') \<Longrightarrow>
     x \<in> wire_known w \<and> wire_on w' = insert x (wire_on w) \<and> wire_known w' = wire_known w"
  "taken_out x (nw_host w) (nw_host w') \<Longrightarrow>
     wire_on w' = wire_on w - {x} \<and> wire_known w' = wire_known w - {x}"
  "created x (nw_host w) (nw_host w') \<Longrightarrow>
     wire_on w' = insert x (wire_on w) \<and> wire_known w' = insert x (wire_known w)"
  "touches x (nw_host w) (nw_host w') \<Longrightarrow> wire_on w' - {x} = wire_on w - {x}"
  by (simp_all add: wire_on_def wire_known_def turned_off_def turned_on_def taken_out_def
      created_def touches_on)

lemma wire_create:
  assumes "in_order w" "vpnctl_create_peer (wired vc lib st me fates) srv sid tg w = (Inr peer, w')"
    "is_identifier (pp_external_id peer)"
  shows "wire_known w' = insert (pp_external_id peer) (wire_known w) \<and>
      wire_on w' = insert (pp_external_id peer) (wire_on w) \<or>
    wire_known w' = wire_known w \<and> wire_on w' = wire_on w"
  using created_over_wire [OF assms] wire_sets(4) by (auto simp: wire_on_def wire_known_def)

lemma wire_frame:
  assumes "command \<in> {''disable-peer'', ''enable-peer'', ''remove-peer''}" "in_order w" "is_identifier x"
  shows "wire_on (snd (vpnctl_peer_command command (wired vc lib st me fates) srv x w)) - {x} = wire_on w - {x}"
proof -
  obtain f where "(command, f) \<in> set peer_calls" "f \<in> {Disable_Peer, Enable_Peer, Remove_Peer}"
    using assms(1) by (auto simp: peer_calls_def)
  then show ?thesis
    by (rule wire_sets(5) [OF peer_command_touches [OF _ _ assms(2,3)]])
qed

lemma wire_order:
  assumes "command \<in> {''disable-peer'', ''enable-peer'', ''remove-peer''}" "in_order w"
  shows "in_order (snd (vpnctl_peer_command command (wired vc lib st me fates) srv x w))"
  using peer_command_order [OF _ assms(2), of command _ vc lib st me fates srv x] assms(1)
  by (auto simp: peer_calls_def)

interpretation vpn_host:
  peer_service "vpnctl_provisioner (wired vc lib st me fates)" in_order "{x. is_identifier x}"
    wire_known wire_on
proof (unfold_locales, goal_cases)
  case (1 p)
  then show ?case by (simp add: wire_on_def wire_known_def host_known_def)
next
  case (9 p x srv u p')
  then show ?case
    using wire_sets(2) [OF enabled_over_wire, of p x vc lib st me fates srv u p']
    by (simp add: vpnctl_provisioner_def)
qed (auto simp: vpnctl_provisioner_def create_order wire_order status_same_host wire_frame
    dest: wire_create disabled_over_wire [THEN wire_sets(1)] removed_over_wire [THEN wire_sets(3)])

subsection \<open>A host with one client\<close>

definition sample_lib :: host_lib where
  "sample_lib =
     \<lparr>hl_repr = (\<lambda>v. []), hl_sorted = (\<lambda>vs. Some []), hl_float_zero = (\<lambda>t. False), hl_uuid = (\<lambda>t. False),
      hl_sha256 = (\<lambda>b. ''00''), hl_compress = stored, hl_whois = (\<lambda>a. Whois_Failed ''none''), hl_now = 0\<rparr>"

definition sample_vc :: "net_world vpnctl_client" where
  "sample_vc =
     \<lparr>vc_token = [], vc_socket_path = default_socket_path, vc_dev_command = [],
      vc_settings = default_settings, vc_net = (\<lambda>r q p. (Chunks [], p)), vc_compress = stored, vc_now = 0,
      lib_float_int = (\<lambda>t. Some 0), lib_float_zero = (\<lambda>t. False), lib_str = (\<lambda>v. []),
      lib_iso = (\<lambda>t. None)\<rparr>"

definition sample_vpn_host :: vpn_host where
  "sample_vpn_host =
     \<lparr>vh_conf = Some (peer_block ''p_6'' ''K'' ''S'' ''10.0.0.2''), vh_clients = [],
      vh_awg = (\<lambda>k c. Awg_Done 0 ''K'' []), vh_disk = (\<lambda>k. None), vh_ip = (\<lambda>args. Inl ''none''),
      vh_log = []\<rparr>"

definition sample_net :: net_world where
  "sample_net = \<lparr>nw_host = sample_vpn_host, nw_calls = 0\<rparr>"

lemma sample_words: "is_identifier ''p_6''" "one_word ''K''" "one_word ''S''" "no_space ''10.0.0.2''"
  by (simp_all add: is_identifier_def identifier_char_def one_word_def is_space_def)

lemma sample_host_ok: "host_ok sample_vpn_host"
proof -
  have "py_strip ''K'' = ''K''" by (rule strip_no_space) (simp add: is_space_def)
  then have "awg_keys sample_vpn_host"
    by (simp add: awg_keys_def sample_vpn_host_def sample_words)
  then show ?thesis
    by (simp add: host_ok_def client_file_def sample_vpn_host_def)
qed

lemma sample_in_order: "in_order sample_net"
  by (simp add: in_order_def sample_net_def sample_host_ok)

lemma sample_on: "wire_on sample_net = {''p_6''}"
proof -
  note b = peer_block_of [OF sample_words]
  have "cr \<notin> set (peer_block ''p_6'' ''K'' ''S'' ''10.0.0.2'')"
    using b(2) by (simp add: block_of_def)
  then show ?thesis
    by (simp add: wire_on_def sample_net_def host_on_def host_peers_def conf_text_def sample_vpn_host_def
        newlines_id b(1))
qed

lemma sample_settings: "load_settings lib None = Inr vpnctl_defaults"
proof -
  have i: "setting vpnctl_defaults ''INTERFACE'' = ''awg1''"
    by (simp add: setting_def vpnctl_defaults_def)
  have "text_identifier (utext ''awg1'')"
    unfolding text_identifier_def narrow_utext
    by (simp add: identifier_match_def is_identifier_def identifier_char_def)
  then show ?thesis
    by (simp add: load_settings_def i validate_identifier_def del: utext_simps)
qed

end

