(* ===== verification/Vpnctl_Works.thy ===== *)
theory Vpnctl_Works
  imports Vpnctl_System
begin

section \<open>When nothing fails, vpnctl does its work\<close>

text \<open>
  The other direction of the contract: if the exchange is answered, the settings are in order
  and the disk and \<open>awg\<close> work, then turning a client off and removing it succeed. The sizes of
  the request and of the answer are within the limits of both sides.
\<close>

subsection \<open>The request is read\<close>

lemma read_loop_gets:
  assumes "raw @ concat cs = line @ [10]" "[] \<notin> set cs" "10 \<notin> set line" "length line < max_request_bytes"
  shows "read_loop raw (map Piece cs) = Inr (line @ [10])"
  using assms
proof (induction cs arbitrary: raw)
  case Nil
  then show ?case by (simp add: read_loop.simps)
next
  case (Cons c cs)
  show ?case
  proof (cases "10 \<in> set raw")
    case True
    then show ?thesis
      using line_prefix [OF Cons.prems(1,3)] by (simp add: read_loop.simps)
  next
    case False
    let ?n = "max_request_bytes + 1 - length raw"
    have l: "length raw + length c \<le> Suc (length line)"
      using arg_cong [OF Cons.prems(1), of length] by simp
    then have "length raw \<le> max_request_bytes" "length c \<le> ?n"
      using Cons.prems(4) by linarith+
    moreover have "c \<noteq> []" using Cons.prems(2) by auto
    moreover have "read_loop (raw @ c) (map Piece cs) = Inr (line @ [10])"
      using Cons by simp
    ultimately show ?thesis
      using False by (subst read_loop.simps) (simp add: recv_def)
  qed
qed

lemma read_request_gets:
  assumes "distinct (map fst args)" "length (request_line (request_body vc srv command args)) \<le> max_request_bytes"
  obtains ms where "read_request from (wire_ins vc srv ns command args) = Inr ms"
    "W_Obj ms = request_body vc srv command args"
proof -
  obtain line where line: "request_line (request_body vc srv command args) = line @ [10]"
    "10 \<notin> set line" "Option.bind (utf8_decode line) loads = Some (request_body vc srv command args)"
    by (rule request_line_read [OF assms(1)])
  let ?pieces = "cut ns (line @ [10])"
  have len: "length line < max_request_bytes" using assms(2) by (simp add: line(1))
  have raw: "read_raw from (map Piece ?pieces) = Inr (line @ [10])"
  proof (cases "from = Pipe")
    case True
    then show ?thesis using len by (simp add: read_raw_def concat_pieces concat_cut)
  next
    case False
    have "read_loop [] (map Piece ?pieces) = Inr (line @ [10])"
      by (rule read_loop_gets [OF _ cut_nonempty line(2) len]) (simp add: concat_cut)
    with False show ?thesis by (cases "from") (simp_all add: read_raw_def)
  qed
  have "takeWhile (\<lambda>b. b \<noteq> 10) (line @ [10]) = line"
    using line(2) by (subst takeWhile_append2) auto
  moreover obtain ms where ms: "request_body vc srv command args = W_Obj ms"
    "as_object (json_member ''args'' ms (W_Obj [])) \<noteq> None"
    "list_all (\<lambda>(k, v). k \<in> set (map utext known_members)) ms"
    by (simp add: request_body_def json_member_def as_object_def known_members_def)
  ultimately have "read_request from (wire_ins vc srv ns command args) = Inr ms"
    using len by (simp add: read_request_def wire_ins_def line(1) [unfolded ms(1)] raw
        line(3) [unfolded ms(1)] as_object_def)
  then show thesis using ms(1) that by simp
qed

lemma served_ok:
  assumes "(command, f, map fst args) \<in> set serve_commands" "load_settings lib st = Inr cfg"
    "length (request_line (request_body vc srv command args)) \<le> max_request_bytes"
    "from = Pipe \<or> from = Unix"
    "run_command f cfg lib (wire_args args) h = (r, h')"
  shows "cmd_serve lib st from (wire_ins vc srv ns command args) h =
    (map_option request_line (response_of r), h')"
proof -
  have d: "distinct (map fst args)" by (rule distinct_expected [OF assms(1)])
  obtain ms where ms: "read_request from (wire_ins vc srv ns command args) = Inr ms"
    "W_Obj ms = request_body vc srv command args"
    by (rule read_request_gets [OF d assms(3)])
  have "check_caller cfg lib from (Some ms) = Inr ()"
    using assms(4) by (auto simp: check_caller_def)
  then show ?thesis
    using handle_wire [OF assms(1) ms(2)] assms(5)
    by (simp add: cmd_serve_def assms(2) answer_request_def ms(1) act_bind_def from_res_def)
qed

subsection \<open>The answer is understood\<close>

lemma success_line:
  assumes "writable (W_Obj ms)"
  shows "parse_answer vc (request_line (W_Obj [member_int ''exit_code'' 0, (utext ''result'', W_Obj ms)]))
    = Inr (0, ms, [])"
proof -
  let ?rs = "[member_int ''exit_code'' 0, (utext ''result'', W_Obj ms)]"
  have "writable (W_Obj ?rs)"
    using assms writable_digit [of 0] member_keys
    by (simp add: member_int_def utext_code_points del: utext_simps)
  then have "Option.bind (utf8_decode (request_line (W_Obj ?rs))) loads = Some (W_Obj ?rs)"
    by (simp only: decoded_line loads_line Option.bind.simps)
  then show ?thesis
    using member_keys
    by (simp add: parse_answer_def json_get_def json_int_def as_object_def json_member_def member_int_def
        truthy_def del: utext_simps)
qed

lemma read_chunks_all:
  "length r + length (concat cs) \<le> max_response_bytes \<Longrightarrow> [] \<notin> set cs \<Longrightarrow> read_chunks r cs = r @ concat cs"
  by (induction r cs rule: read_chunks.induct) auto

lemma received_all: "length bs \<le> max_response_bytes \<Longrightarrow> received r (cut ns bs) = bs"
  using read_chunks_all [of "[]" "cut ns bs"] cut_nonempty
  by (simp add: received_def concat_cut split: route.split)

lemma call_ok:
  assumes "(command, f, map fst args) \<in> set serve_commands" "load_settings lib st = Inr cfg"
    "length (request_line (request_body vc srv command args)) \<le> max_request_bytes"
    "is_local_host (srv_host srv)" "vc_net vc = host_net lib st me fates"
    "fates (nw_calls w) (route_to vc srv) = Answered asked replied"
    "run_command f cfg lib (wire_args args) (nw_host w) = (Inr ms, h')" "writable (W_Obj ms)"
    "length (request_line (W_Obj [member_int ''exit_code'' 0, (utext ''result'', W_Obj ms)])) \<le> max_response_bytes"
  shows "vpnctl_call vc srv command args w = (Inr (0, ms, []), \<lparr>nw_host = h', nw_calls = nw_calls w + 1\<rparr>)"
proof -
  let ?from = "caller_by me (route_to vc srv)"
  have "?from = Pipe \<or> ?from = Unix"
    using assms(4) by (simp add: route_to_def caller_by_def)
  from served_ok [OF assms(1-3) this assms(7), of asked]
  have "cmd_serve lib st ?from (map Piece (cut asked (request_line (request_body vc srv command args)))) (nw_host w)
      = (Some (request_line (W_Obj [member_int ''exit_code'' 0, (utext ''result'', W_Obj ms)])), h')"
    by (simp add: response_of_def wire_ins_def)
  then show ?thesis
    using assms(5,6,9) received_all success_line [OF assms(8), of vc]
    by (simp add: vpnctl_call_def host_net_def serve_world_def)
qed

subsection \<open>Sizes\<close>

lemma escape_length: "length (escape c) \<le> 12"
  by (simp add: escape_def units_def hex4_def)

lemma dump_str_length: "length (dump_str t) \<le> 2 + 12 * length t"
proof (induction t)
  case (Cons c t)
  then show ?case using escape_length [of c] by (simp add: dump_str_def)
qed (simp add: dump_str_def)

lemma line_length: "writable v \<Longrightarrow> length (request_line v) = length (dumps v) + 1"
proof -
  assume "writable v"
  then have "list_all (\<lambda>c. c < 128) (dumps v @ [10])"
    using printable_ascii [OF printable_dumps(1)] by simp
  then show ?thesis by (simp add: request_line_def ascii_utf8)
qed

lemma request_size:
  assumes "is_local_host (srv_host srv)" "length command \<le> 16" "length x \<le> 64"
  shows "length (request_line (request_body vc srv command [(''peer_id'', x)])) \<le> max_request_bytes"
proof -
  have "length (dump_str (utext k)) \<le> 2 + 12 * length k" for k
    using dump_str_length [of "utext k"] by simp
  from this [of "''command''"] this [of command] this [of "''args''"] this [of "''peer_id''"] this [of x]
  show ?thesis
    using assms writable_request [of "[(''peer_id'', x)]" vc srv command]
    by (simp add: line_length request_body_def max_request_bytes_def)
qed

lemma done_size:
  assumes "length n \<le> 64"
  shows "length (request_line (W_Obj [member_int ''exit_code'' 0,
      (utext ''result'', W_Obj (done_with n b @ (if e then [member_bool ''enabled'' c] else [])))])) \<le> max_response_bytes"
    (is "length (request_line ?v) \<le> _")
proof -
  have d: "length (dump_str (utext k)) \<le> 2 + 12 * length k" for k
    using dump_str_length [of "utext k"] by simp
  have w: "writable ?v"
    using done_names(1) [of n b c] done_names(2) [of n b] writable_digit [of 0] member_keys
    by (cases e) (simp_all add: names_peer_def member_int_def utext_code_points del: utext_simps)
  have "length (show_int 0) = 1"
    by (simp add: show_int_def) (subst show_nat.simps, simp)
  with assms d [of "''exit_code''"] d [of "''result''"] d [of "''status''"] d [of "''success''"] d [of "''peer_id''"]
    d [of n] d [of "''found''"] d [of "''enabled''"] show ?thesis
    unfolding line_length [OF w]
    by (cases e) (simp_all add: member_int_def member_str_def member_bool_def done_with_def max_response_bytes_def)
qed

subsection \<open>A host on which everything works\<close>

definition host_works :: "vpn_host \<Rightarrow> bool" where
  "host_works h \<longleftrightarrow> vh_conf h \<noteq> None \<and> (\<forall>k. vh_disk h k = None) \<and>
     (\<forall>k c. case vh_awg h k c of Awg_Done status out err \<Rightarrow> status = 0 | Awg_Missing m \<Rightarrow> False)"

lemma works_steps [host_simps]:
  "host_works (logged e h) = host_works h"
  "host_works (put_file (Client_File n ext) s h) = host_works h"
  "host_works (put_file Temp_File s h) = host_works h"
  "host_works h \<Longrightarrow> host_works (put_file Server_Conf s h)"
  "host_works (unlinked n ext h) = host_works h"
  by (simp_all add: host_works_def host_simps)

lemma works_awg:
  assumes "host_works h" "\<And>out. R out (logged (Ran c True) h)"
  shows "wp (awg_run c) R E h"
proof -
  have "case vh_awg h (length (vh_log h)) c of Awg_Done status out err \<Rightarrow> status = 0 | Awg_Missing m \<Rightarrow> False"
    using assms(1) unfolding host_works_def by blast
  then obtain out err where "vh_awg h (length (vh_log h)) c = Awg_Done 0 out err"
    by (auto split: awg_result.splits)
  with assms(2) show ?thesis by (simp add: wp_def awg_run_def)
qed

lemma works_write:
  "host_works h \<Longrightarrow> R () (logged (Wrote f True) (put_file f s h)) \<Longrightarrow> wp (write_private f s) R E h"
  by (simp add: wp_def write_private_def host_works_def)

lemma works_read:
  "host_works h \<Longrightarrow> (\<And>s. vh_conf h = Some s \<Longrightarrow> R (universal_newlines s) h) \<Longrightarrow> wp (read_conf cfg) R E h"
  by (auto simp: wp_def read_conf_def host_works_def)

lemma identifier_ascii: "identifier_char c \<Longrightarrow> (of_char c :: nat) < 128"
  by (auto simp: identifier_char_def Let_def)

lemma works_name: "is_identifier x \<Longrightarrow> validate_identifier lib k (utext x) = Inr x"
proof -
  assume x: "is_identifier x"
  then have "list_all (\<lambda>c. c < 128) (utext x)"
    using identifier_ascii by (simp add: is_identifier_def utext_def list_all_iff)
  with x show ?thesis
    by (simp add: validate_identifier_def text_identifier_def identifier_match_def narrow_utext)
qed

lemmas works_rules = works_awg works_write works_read wp_bind wp_return wp_done wp_read_client wp_remove_file
  wp_if wp_option wp_prod

lemma disable_works:
  assumes "host_works h" "is_identifier x"
  shows "wp (cmd_disable_peer cfg lib (utext x))
    (\<lambda>ms h'. \<exists>b. ms = done_with x b @ [member_bool ''enabled'' False]) (\<lambda>e h'. False) h"
  unfolding cmd_disable_peer_def disable_found_def take_off_def awg_remove_peer_def works_name [OF assms(2)]
  by (intro works_rules wp_res) (auto simp: assms host_simps)

lemma remove_works:
  assumes "host_works h" "is_identifier x"
  shows "wp (cmd_remove_peer cfg lib (utext x)) (\<lambda>ms h'. \<exists>b. ms = done_with x b) (\<lambda>e h'. False) h"
  unfolding cmd_remove_peer_def take_off_def awg_remove_peer_def works_name [OF assms(2)]
  by (intro works_rules wp_res) (auto simp: assms host_simps)

subsection \<open>Over the network\<close>

definition answered :: "(nat \<Rightarrow> route \<Rightarrow> fate) \<Rightarrow> net_world \<Rightarrow> net_world vpnctl_client \<Rightarrow> vpn_server \<Rightarrow> bool" where
  "answered fates w vc srv = (\<exists>a b. fates (nw_calls w) (route_to vc srv) = Answered a b)"

lemma route_wired: "route_to (wired vc lib st me fates) srv = route_to vc srv"
  by (simp add: route_to_def wired_def)

lemma command_works:
  assumes "(command, f) \<in> set peer_calls" "load_settings lib st = Inr cfg" "is_identifier x"
    "is_local_host (srv_host srv)" "answered fates w vc srv"
    "run_command f cfg lib (wire_args [(''peer_id'', x)]) (nw_host w)
       = (Inr (done_with x b @ (if e then [member_bool ''enabled'' c] else [])), h')"
  shows "vpnctl_peer_command command (wired vc lib st me fates) srv x w
    = (Inr (), \<lparr>nw_host = h', nw_calls = nw_calls w + 1\<rparr>)"
proof -
  obtain asked replied where fate: "fates (nw_calls w) (route_to (wired vc lib st me fates) srv) = Answered asked replied"
    using assms(5) by (auto simp: answered_def route_wired)
  have len: "length x \<le> 64" "length command \<le> 16"
    using assms(1,3) by (auto simp: is_identifier_def peer_calls_def)
  have w: "writable (W_Obj (done_with x b @ (if e then [member_bool ''enabled'' c] else [])))"
    using done_names(1) [of x b c] done_names(2) [of x b] by (cases e) (simp_all add: names_peer_def)
  have "vpnctl_call (wired vc lib st me fates) srv command [(''peer_id'', x)] w =
      (Inr (0, done_with x b @ (if e then [member_bool ''enabled'' c] else []), []),
       \<lparr>nw_host = h', nw_calls = nw_calls w + 1\<rparr>)"
    by (rule call_ok [where args = "[(''peer_id'', x)]" and lib = lib and st = st and me = me and fates = fates,
      OF _ assms(2) request_size [OF assms(4) len(2,1)] assms(4) wired_net fate assms(6) w
        done_size [OF len(1), of b e c]])
      (rule peer_calls_served [OF assms(1)])
  then show ?thesis
    using assms(3) by (simp add: vpnctl_peer_command_def sanitize_identifier_def identifier_match_def run_checked_def)
qed

lemma disable_ok_wire:
  assumes "in_order w" "host_works (nw_host w)" "load_settings lib st = Inr cfg" "is_identifier x"
    "is_local_host (srv_host srv)" "answered fates w vc srv"
  obtains w' where "vpnctl_peer_command ''disable-peer'' (wired vc lib st me fates) srv x w = (Inr (), w')"
proof -
  obtain b h' where "cmd_disable_peer cfg lib (utext x) (nw_host w) =
      (Inr (done_with x b @ [member_bool ''enabled'' False]), h')"
    using disable_works [OF assms(2,4), of cfg lib] by (auto simp: wp_def split: prod.splits sum.splits)
  then have "run_command Disable_Peer cfg lib (wire_args [(''peer_id'', x)]) (nw_host w) =
      (Inr (done_with x b @ (if True then [member_bool ''enabled'' False] else [])), h')"
    by (simp add: arg_wire)
  from command_works [OF _ assms(3-6) this, of "''disable-peer''"] show thesis
    using that by (simp add: peer_calls_def)
qed

lemma remove_ok_wire:
  assumes "in_order w" "host_works (nw_host w)" "load_settings lib st = Inr cfg" "is_identifier x"
    "is_local_host (srv_host srv)" "answered fates w vc srv"
  obtains w' where "vpnctl_peer_command ''remove-peer'' (wired vc lib st me fates) srv x w = (Inr (), w')"
proof -
  obtain b h' where "cmd_remove_peer cfg lib (utext x) (nw_host w) = (Inr (done_with x b), h')"
    using remove_works [OF assms(2,4), of cfg lib] by (auto simp: wp_def split: prod.splits sum.splits)
  then have "run_command Remove_Peer cfg lib (wire_args [(''peer_id'', x)]) (nw_host w) =
      (Inr (done_with x b @ (if False then [member_bool ''enabled'' False] else [])), h')"
    by (simp add: arg_wire)
  from command_works [OF _ assms(3-6) this, of "''remove-peer''"] show thesis
    using that by (simp add: peer_calls_def)
qed

text \<open>A peer can be turned off and removed. If the exchange with a local vpnctl is answered (in
  pieces of any size), its settings are valid and its disk and \<open>awg\<close> work, then disabling and
  removing any peer succeed for the worker: afterwards exactly that peer is out of the server
  config, and after a removal it is gone from the host.\<close>

theorem vpn_off_works:
  assumes "in_order w" "host_works (nw_host w)" "load_settings lib st = Inr cfg" "is_identifier x"
    and "is_local_host (srv_host srv)" "answered fates w vc srv"
  shows "(\<exists>w'. pv_disable (vpnctl_provisioner (wired vc lib st me fates)) srv x w = (Inr (), w') \<and>
       wire_on w' = wire_on w - {x} \<and> wire_known w' = wire_known w) \<and>
    (\<exists>w'. pv_remove (vpnctl_provisioner (wired vc lib st me fates)) srv x w = (Inr (), w') \<and>
       wire_on w' = wire_on w - {x} \<and> wire_known w' = wire_known w - {x})"
proof -
  obtain w1 where w1: "pv_disable (vpnctl_provisioner (wired vc lib st me fates)) srv x w = (Inr (), w1)"
    by (rule disable_ok_wire [OF assms]) (simp add: vpnctl_provisioner_def)
  obtain w2 where w2: "pv_remove (vpnctl_provisioner (wired vc lib st me fates)) srv x w = (Inr (), w2)"
    by (rule remove_ok_wire [OF assms]) (simp add: vpnctl_provisioner_def)
  show ?thesis
    using w1 w2 vpn_host.disable_off [OF assms(1) _ w1] vpn_host.remove_gone [OF assms(1) _ w2] assms(4)
    by auto
qed

text \<open>C12. Retries finish the job. An attempt to turn a peer off or to remove it may fail in any way:
  the answer is lost after the work was done, the disk fails between two files, \<open>awg\<close> fails. If a
  later attempt succeeds, exactly that peer is out of the server config (or gone from the host),
  no other peer was touched by either attempt, and enabling it after the removal does not bring
  it back. (The running interface is another matter: \<open>removed_is_off\<close> and
  \<open>disable_retry_leaves_live\<close> in \<open>Vpnctl_Live\<close>.)\<close>

theorem vpn_retry_finishes:
  assumes "in_order w" "is_identifier x"
  shows "(pv_disable (vpnctl_provisioner (wired vc lib st me fates)) srv x w = (Inl e, w1) \<longrightarrow>
       pv_disable (vpnctl_provisioner (wired vc lib st me fates)) srv x w1 = (Inr u, w2) \<longrightarrow>
         wire_on w2 = wire_on w - {x}) \<and>
    (pv_remove (vpnctl_provisioner (wired vc lib st me fates)) srv x w = (Inl e, w1) \<longrightarrow>
       pv_remove (vpnctl_provisioner (wired vc lib st me fates)) srv x w1 = (Inr u, w2) \<longrightarrow>
         wire_on w2 = wire_on w - {x} \<and> x \<notin> wire_known w2 \<and>
         (pv_enable (vpnctl_provisioner (wired vc lib st me fates)) srv x w2 = (Inr v, w3) \<longrightarrow>
            x \<notin> wire_on w3))"
proof -
  have x: "x \<in> {x. is_identifier x}" using assms(2) by simp
  show ?thesis
    using vpn_host.disable_retried [OF assms(1) x] vpn_host.remove_retried [OF assms(1) x]
      vpn_host.remove_stays_off [OF vpn_host.remove_invar [OF assms(1)] x]
    by (metis snd_conv)
qed

subsection \<open>Witnesses\<close>

lemma sample_works: "host_works (nw_host sample_net)"
  by (simp add: host_works_def sample_net_def sample_vpn_host_def)

definition local_server :: vpn_server where
  "local_server = sample_server\<lparr>srv_host := ''localhost''\<rparr>"

lemma local_server_local: "is_local_host (srv_host local_server)"
  by (simp add: local_server_def is_local_host_def local_hosts_def py_strip_def py_lstrip_def py_rstrip_def
      is_space_def py_lower_def py_lower_char_def)

theorem vpn_off_works_witness:
  "\<exists>w'. pv_disable (vpnctl_provisioner (wired sample_vc sample_lib None None (\<lambda>n r. Answered [] [3]))) local_server
      ''p_6'' sample_net = (Inr (), w') \<and> wire_on w' = {}"
  using vpn_off_works [OF sample_in_order sample_works sample_settings sample_words(1) local_server_local,
      of "\<lambda>n r. Answered [] [3]" sample_vc sample_lib None]
  by (auto simp: answered_def sample_on)

text \<open>The first request gets lost, the second is answered.\<close>

definition second_answered :: "nat \<Rightarrow> route \<Rightarrow> fate" where
  "second_answered n r = (if n = 0 then Lost_Before None else Answered [] [])"

theorem vpn_retry_finishes_witness:
  "\<exists>e w1 w2. let P = vpnctl_provisioner (wired sample_vc sample_lib None None second_answered) in
     pv_disable P local_server ''p_6'' sample_net = (Inl e, w1) \<and>
     pv_disable P local_server ''p_6'' w1 = (Inr (), w2) \<and> wire_on w2 = {}"
proof -
  let ?vc = "wired sample_vc sample_lib None None second_answered"
  let ?w = "sample_net\<lparr>nw_calls := 1\<rparr>"
  have san: "sanitize_identifier ''p_6'' = Inr ''p_6''"
    using sample_words(1) by (simp add: sanitize_identifier_def identifier_match_def)
  have "\<exists>e. vpnctl_peer_command ''disable-peer'' ?vc local_server ''p_6'' sample_net = (Inl e, ?w)"
    by (simp add: vpnctl_peer_command_def san run_checked_def vpnctl_call_def wired_net host_net_def
        second_answered_def broken_def sample_net_def)
  then obtain e where one: "pv_disable (vpnctl_provisioner ?vc) local_server ''p_6'' sample_net = (Inl e, ?w)"
    by (auto simp: vpnctl_provisioner_def)
  have w: "in_order ?w" "host_works (nw_host ?w)" "answered second_answered ?w sample_vc local_server"
    using sample_in_order sample_works by (simp_all add: in_order_def answered_def second_answered_def)
  obtain w2 where two: "pv_disable (vpnctl_provisioner ?vc) local_server ''p_6'' ?w = (Inr (), w2)"
    by (rule disable_ok_wire [OF w(1,2) sample_settings [of sample_lib] sample_words(1) local_server_local w(3)])
      (simp add: vpnctl_provisioner_def)
  have "wire_on w2 = {}"
    using vpn_retry_finishes [OF sample_in_order sample_words(1), of sample_vc sample_lib None None second_answered
        local_server e ?w "()" w2] one two by (simp add: sample_on)
  with one two show ?thesis by (auto simp: Let_def)
qed

end
