(* ===== verification/Vpnctl_Access.thy ===== *)
theory Vpnctl_Access
  imports Vpnctl_Works
begin

section \<open>Who may do what on a VPN host\<close>

text \<open>
  Two properties of \<open>serve\<close> itself, for whatever bytes arrive on a connection: over TCP nothing
  happens for a caller without an allowed address, the token and (if tags are asked for) a tag;
  and a request touches the one client it names.
\<close>

subsection \<open>Callers over TCP\<close>

text \<open>What a caller has to show: the address of an allowed client, a token with a listed hash,
  and one of the required tags if there are any.\<close>

definition may_call :: "vpnctl_conf \<Rightarrow> host_lib \<Rightarrow> string option \<Rightarrow> members \<Rightarrow> bool" where
  "may_call cfg lib name ms =
     (case (Option.bind name ip_address, as_text (json_member ''token'' ms W_Null)) of
        (Some a, Some token) \<Rightarrow>
          unmapped a \<in> set (allowed_clients cfg) \<and> hl_sha256 lib (utf8_encode token) \<in> set (token_hashes cfg) \<and>
          (words_of_list (setting cfg ''REQUIRED_TAILSCALE_TAGS'') = [] \<or>
           (case node_tags lib (unmapped a) of
              Inl e \<Rightarrow> False
            | Inr tags \<Rightarrow>
                list_ex (\<lambda>w. W_Str (utext w) \<in> set tags)
                  (words_of_list (setting cfg ''REQUIRED_TAILSCALE_TAGS''))))
      | _ \<Rightarrow> False)"

lemma tags_checked:
  assumes "check_tailscale_tags cfg lib a = Inr u"
  shows "words_of_list (setting cfg ''REQUIRED_TAILSCALE_TAGS'') = [] \<or>
    (case node_tags lib a of Inl e \<Rightarrow> False
     | Inr tags \<Rightarrow> list_ex (\<lambda>w. W_Str (utext w) \<in> set tags) (words_of_list (setting cfg ''REQUIRED_TAILSCALE_TAGS'')))"
  using assms
  by (auto simp: check_tailscale_tags_def Let_def bind_res_eq_Inr list_ex_iff split: if_splits option.splits)

lemma no_empty_hash: "[] \<notin> set (token_hashes cfg)"
  by (auto simp: token_hashes_def words_of_list_def py_lower_def)

lemma token_checked:
  assumes "check_token cfg lib (Some ms) = Inr u"
  obtains t where "as_text (json_member ''token'' ms W_Null) = Some t"
    "hl_sha256 lib (utf8_encode t) \<in> set (token_hashes cfg)"
  using assms no_empty_hash [of cfg]
  by (auto simp: check_token_def token_digest_def Let_def bind_res_eq_Inr split: if_splits option.splits)

lemma caller_checked:
  "check_caller cfg lib (Tcp_Peer name) (Some ms) = Inr u \<Longrightarrow> may_call cfg lib name ms"
  by (auto simp: check_caller_def may_call_def Let_def bind_res_eq_Inr
      elim!: token_checked dest: tags_checked split: if_splits option.splits)

text \<open>C8. Over TCP only the bot gets anything done. Whatever bytes a TCP connection sends, either
  they are a request whose sender has an allowed address, a token with a listed hash and, if
  tags are required, one of them by \<open>tailscale whois\<close>; or the host stays as it was and the answer
  is an error (or the process crashed and there is none).\<close>

theorem tcp_needs_credentials:
  "case cmd_serve lib st (Tcp_Peer name) ins h of
     (reply, h') \<Rightarrow>
       (\<exists>cfg ms. load_settings lib st = Inr cfg \<and> read_request (Tcp_Peer name) ins = Inr ms \<and>
          may_call cfg lib name ms) \<or>
       (h' = h \<and> (\<exists>e. reply = map_option request_line (response_of (Inl e))))"
proof (cases "load_settings lib st")
  case (Inl e)
  then show ?thesis by (auto simp: cmd_serve_def act_bind_def from_res_def)
next
  case cfg: (Inr cfg)
  show ?thesis
  proof (cases "read_request (Tcp_Peer name) ins")
    case (Inl e)
    then show ?thesis
      by (cases e)
        (auto simp: cmd_serve_def cfg answer_request_def act_bind_def from_res_def raise_act_def
          split: prod.split sum.split)
  next
    case ms: (Inr ms)
    show ?thesis
    proof (cases "check_caller cfg lib (Tcp_Peer name) (Some ms)")
      case (Inl e)
      then show ?thesis
        by (auto simp: cmd_serve_def cfg ms answer_request_def act_bind_def from_res_def)
    next
      case (Inr u)
      then show ?thesis
        using caller_checked cfg ms by (auto split: prod.split)
    qed
  qed
qed

subsection \<open>One client at a time\<close>

definition named_client :: "members \<Rightarrow> string" where
  "named_client ms =
     (case as_object (json_member ''args'' ms (W_Obj [])) of
        None \<Rightarrow> []
      | Some args \<Rightarrow>
          narrow (if map_of args (utext ''label'') = None then arg_text ''peer_id'' args
                  else arg_text ''label'' args))"

lemma touches_if_same: "touches n h h' \<Longrightarrow> vh_log h'' = vh_log h' @ es \<Longrightarrow>
    vh_conf h'' = vh_conf h' \<Longrightarrow> vh_clients h'' = vh_clients h' \<Longrightarrow> vh_awg h'' = vh_awg h' \<Longrightarrow>
    vh_disk h'' = vh_disk h' \<Longrightarrow> vh_ip h'' = vh_ip h' \<Longrightarrow> touches n h h''"
  by (auto simp: touches_def client_file_def host_peers_def conf_text_def)

definition plain_args :: "members \<Rightarrow> bool" where
  "plain_args args = (plain_id (arg_text ''label'' args) \<and> plain_id (arg_text ''peer_id'' args))"

lemma run_touches:
  assumes "host_ok h" "plain_args args"
    "n = narrow (if f = Create_Peer then arg_text ''label'' args else arg_text ''peer_id'' args)"
  shows "touches n h (snd (run_command f cfg lib args h))"
proof -
  let ?T = "touches n h"
  have "wp (run_command f cfg lib args) (\<lambda>x. ?T) (\<lambda>e. ?T) h"
  proof (cases f)
    case Create_Peer
    show ?thesis
      unfolding Create_Peer run_command.simps
      by (rule wp_mono [OF create_wp [OF assms(1)]])
        (use assms in \<open>auto simp: plain_args_def Create_Peer touches_refl created_def\<close>)
  next
    case Disable_Peer
    show ?thesis
      unfolding Disable_Peer run_command.simps
      by (rule wp_mono [OF disable_wp [OF assms(1)]]) (simp_all add: assms(3) Disable_Peer turned_off_def)
  next
    case Enable_Peer
    show ?thesis
      unfolding Enable_Peer run_command.simps
      by (rule wp_mono [OF enable_wp [OF assms(1)]])
        (use assms in \<open>auto simp: plain_args_def Enable_Peer turned_on_def\<close>)
  next
    case Remove_Peer
    show ?thesis
      unfolding Remove_Peer run_command.simps
      by (rule wp_mono [OF remove_wp [OF assms(1)]])
        (simp_all add: assms(3) Remove_Peer taken_out_def)
  next
    case Peer_Status
    have "touches n h (logged e g) = True" if "touches n h g" for e g
      using touches_logged that by blast
    then show ?thesis
      unfolding Peer_Status run_command.simps
      by (intro status_same_wp) (auto simp: touches_refl)
  qed (auto intro: config_same_wp simp: touches_refl)
  then show ?thesis by (simp add: wp_any)
qed

lemma handle_cases:
  obtains (refused) e where "handle_request cfg lib ms = raise_act e"
  | (ran) name f ks args where "(name, f, ks) \<in> set serve_commands"
      "as_object (json_member ''args'' ms (W_Obj [])) = Some args"
      "fst ` set args = utext ` set ks" "handle_request cfg lib ms = run_command f cfg lib args"
proof -
  let ?c = "json_member ''command'' ms W_Null" and ?a = "as_object (json_member ''args'' ms (W_Obj []))"
  let ?f = "find (\<lambda>(name, f, expected). ?c = W_Str (utext name)) serve_commands"
  show thesis
  proof (cases "hashable ?c \<and> ?f \<noteq> None \<and> ?a \<noteq> None")
    case False
    then show thesis
      by (intro refused [of "if \<not> hashable ?c then Crash TypeError
          else if ?f = None then unknown_command lib ?c else Crash AttributeError"])
        (auto simp: handle_request_def Let_def)
  next
    case True
    then obtain name f ks args where f: "?f = Some (name, f, ks)" and a: "?a = Some args" by auto
    have m: "(name, f, ks) \<in> set serve_commands"
      using f unfolding find_Some_iff by (metis nth_mem)
    show thesis
    proof (cases "fst ` set args = utext ` set ks \<and> list_all (\<lambda>(k, v). as_text v \<noteq> None) args")
      case True
      with \<open>hashable ?c \<and> ?f \<noteq> None \<and> ?a \<noteq> None\<close> show thesis
        by (intro ran [OF m a]) (simp_all add: handle_request_def Let_def f a)
    next
      case no: False
      have "handle_request cfg lib ms = raise_act (Invalid_Input (name @ '' takes exactly: ''
          @ py_join '', '' (sort ks)))"
        using True by (simp only: handle_request_def Let_def f a option.case prod.case no if_False simp_thms)
      then show thesis by (rule refused)
    qed
  qed
qed

lemma expected_label:
  assumes "(name, f, ks) \<in> set serve_commands" "fst ` set args = utext ` set ks"
  shows "map_of args (utext ''label'') = None \<longleftrightarrow> f \<noteq> Create_Peer"
proof -
  have "map_of args (utext ''label'') = None \<longleftrightarrow> utext ''label'' \<notin> utext ` set ks"
    by (simp add: map_of_eq_None_iff assms(2) del: utext_simps)
  also have "\<dots> \<longleftrightarrow> ''label'' \<notin> set ks"
    by (auto simp: utext_inj simp del: utext_simps)
  finally show ?thesis using assms(1) by (auto simp: serve_commands_def simp del: utext_simps)
qed

lemma handle_touches:
  assumes "host_ok h" "\<And>args. as_object (json_member ''args'' ms (W_Obj [])) = Some args \<Longrightarrow> plain_args args"
  shows "touches (named_client ms) h (snd (handle_request cfg lib ms h))"
proof (rule handle_cases [of cfg lib ms])
  fix name f ks args
  assume f: "(name, f, ks) \<in> set serve_commands" "as_object (json_member ''args'' ms (W_Obj [])) = Some args"
    "fst ` set args = utext ` set ks" "handle_request cfg lib ms = run_command f cfg lib args"
  show ?thesis
    unfolding f(4)
    by (rule run_touches [OF assms(1) assms(2) [OF f(2)]])
      (simp add: named_client_def f(2) expected_label [OF f(1,3)] del: utext_simps)
qed (simp add: raise_act_def touches_refl)

text \<open>The texts of a request are taken as they are written. A name that ends in a newline passes
  the pattern of the code (its \<open>$\<close> accepts one) and can then reach the block of the client whose
  name is the same without it: such a name is not covered by the next property.\<close>

definition plain_request :: "members \<Rightarrow> bool" where
  "plain_request ms =
     (case as_object (json_member ''args'' ms (W_Obj [])) of None \<Rightarrow> True | Some args \<Rightarrow> plain_args args)"

text \<open>C9. A request changes the client it names and no other, however it ends. The hypotheses: the
  host is in order (\<open>host_ok\<close>: \<open>awg\<close> prints each key as one word, and a saved \<open>.peer\<close> file is one
  block of its client), and the names in the request do not end in a newline
  (\<open>plain_request\<close>). After any request on any connection, either everything is as it was, or
  the request was read and \<open>touches\<close> its client only: the files of every other client are the
  same, and the server's config has, to the letter but for the newlines between sections, the
  same text outside that client's blocks (the \<open>[Interface]\<close> section, the blocks of all other
  clients, what stands before them, in the same order) and gives the other clients the same
  names and keys. This holds whether the command succeeded or broke off half way (the disk or
  \<open>awg\<close> failed).\<close>

theorem request_touches_one_client:
  assumes "host_ok h"
    and "\<forall>ms. read_request from ins = Inr ms \<longrightarrow> plain_request ms"
  shows "case cmd_serve lib st from ins h of
     (reply, h') \<Rightarrow> h' = h \<or> (\<exists>ms. read_request from ins = Inr ms \<and> touches (named_client ms) h h')"
proof -
  have "snd (cmd_serve lib st from ins h) = h \<or> (\<exists>ms. read_request from ins = Inr ms \<and>
      touches (named_client ms) h (snd (cmd_serve lib st from ins h)))"
  proof (cases "load_settings lib st")
    case cfg: (Inr cfg)
    show ?thesis
    proof (cases "read_request from ins")
      case (Inl e)
      then show ?thesis
        by (cases e) (auto simp: cmd_serve_def cfg answer_request_def act_bind_def from_res_def
            raise_act_def split: prod.split sum.split)
    next
      case ms: (Inr ms)
      then have "plain_request ms" using assms(2) by blast
      then have "touches (named_client ms) h (snd (handle_request cfg lib ms h))"
        by (intro handle_touches [OF assms(1)]) (simp add: plain_request_def)
      then show ?thesis
        by (cases "check_caller cfg lib from (Some ms)")
          (auto simp: cmd_serve_def cfg ms answer_request_def act_bind_def from_res_def split: prod.split)
    qed
  qed (simp add: cmd_serve_def act_bind_def from_res_def)
  then show ?thesis by (cases "cmd_serve lib st from ins h") simp
qed

theorem request_touches_one_client_witness:
  "\<exists>ins reply h'. cmd_serve sample_lib None Unix ins sample_vpn_host = (reply, h') \<and>
     (h' = sample_vpn_host \<or> touches ''p_6'' sample_vpn_host h') \<and> host_on h' = {}"
proof -
  let ?args = "[(''peer_id'', ''p_6'')]"
  let ?body = "request_body sample_vc local_server ''disable-peer'' ?args"
  let ?ins = "wire_ins sample_vc local_server [4] ''disable-peer'' ?args"
  have size: "length (request_line ?body) \<le> max_request_bytes"
    by (rule request_size [OF local_server_local]) simp_all
  obtain ms where ms: "read_request Unix ?ins = Inr ms" "W_Obj ms = ?body"
    by (rule read_request_gets [OF _ size]) simp
  then have a: "json_member ''args'' ms (W_Obj []) = W_Obj (wire_args ?args)"
    by (simp add: request_body_def json_member_def wire_args_def)
  have n: "narrow [] = []" using narrow_utext [of "[]"] by simp
  have no: "map_of (wire_args ?args) (utext ''label'') = None" "arg_text ''label'' (wire_args ?args) = []"
    by (simp_all add: wire_args_def arg_text_def json_member_def as_text_def)
  have "plain_id []" "plain_id (utext ''p_6'')"
    using sample_words(1) by (simp_all only: plain_utext)
      (simp add: plain_id_def text_identifier_def identifier_match_def is_identifier_def n)
  then have "plain_request ms"
    by (simp add: plain_request_def a as_object_def plain_args_def no arg_wire del: utext_simps)
  then have "\<forall>ms. read_request Unix ?ins = Inr ms \<longrightarrow> plain_request ms" by (simp add: ms(1))
  note t = request_touches_one_client [OF sample_host_ok this, of sample_lib None]
  have "named_client ms = ''p_6''"
    by (simp add: named_client_def a as_object_def no arg_wire narrow_utext del: utext_simps)
  with t ms(1) have t: "case cmd_serve sample_lib None Unix ?ins sample_vpn_host of
      (reply, h') \<Rightarrow> h' = sample_vpn_host \<or> touches ''p_6'' sample_vpn_host h'" by simp
  obtain r h' where r: "cmd_disable_peer vpnctl_defaults sample_lib (utext ''p_6'') sample_vpn_host = (r, h')"
    by force
  have "host_works sample_vpn_host" using sample_works by (simp add: sample_net_def)
  from disable_works [OF this sample_words(1), of vpnctl_defaults sample_lib] r obtain x where x: "r = Inr x"
    by (cases r) (auto simp: wp_def)
  from wp_Inr [OF disable_wp [OF sample_host_ok] r [unfolded x]] sample_on have "host_on h' = {}"
    by (simp add: turned_off_def narrow_utext wire_on_def sample_net_def del: utext_simps)
  moreover have "cmd_serve sample_lib None Unix ?ins sample_vpn_host = (map_option request_line (response_of r), h')"
    by (rule served_ok [OF peer_calls_served sample_settings size, of Disable_Peer])
      (use r in \<open>simp_all add: peer_calls_def arg_wire\<close>)
  ultimately show ?thesis using t by auto
qed

end
