(* ===== verification/Vpnctl_Live.thy ===== *)
theory Vpnctl_Live
  imports Vpnctl_Works
begin

section \<open>The live interface\<close>

text \<open>
  \<open>awg set\<close> changes the running interface, and the server config is only read when the interface
  comes up: a customer is off when the key is gone from the interface. The keys on it are
  followed through the log. Removing a client takes its key off whenever it succeeds. Disabling
  does not, on a second attempt: the first one takes the block out of the config before it asks
  \<open>awg\<close>, and the second finds no block and no key.
\<close>

fun live_step :: "string set \<Rightarrow> host_event \<Rightarrow> string set" where
  "live_step L (Ran (Awg_Set i p k a) True) = insert p L"
| "live_step L (Ran (Awg_Remove i p) True) = L - {p}"
| "live_step L e = L"

definition live :: "string set \<Rightarrow> host_event list \<Rightarrow> string set" where
  "live L es = foldl live_step L es"

lemma live_append [host_simps]:
  "live L [] = L" "live L (es @ fs) = foldl live_step (live L es) fs"
  by (simp_all add: live_def)

lemma live_step_wrote [simp]: "live_step L (Wrote f b) = L" "live_step L (Ran c False) = L"
  by (cases b; simp) (cases c; simp)

subsection \<open>Removing\<close>

text \<open>The key \<open>remove-peer\<close> goes by.\<close>

definition key_of :: "string \<Rightarrow> vpn_host \<Rightarrow> string option" where
  "key_of n h =
     (case find_peer (conf_text h) n of
        Some (block, pub) \<Rightarrow> pub
      | None \<Rightarrow> saved_key (client_file n ''peer'' h))"

lemma wp_take_off_live:
  assumes "\<And>h'. (given pub \<Longrightarrow> the pub \<notin> live L (vh_log h')) \<Longrightarrow> R () h'" "\<And>e h'. E e h'"
  shows "wp (take_off cfg pub) R E h"
  unfolding take_off_def awg_remove_peer_def
  by (intro wp_rules assms) (simp_all add: host_simps)

text \<open>C13. A removed customer is off. Whenever \<open>remove-peer\<close> succeeds, on a first attempt or a later
  one, the key of the client (from its block in the server config or, when that is gone, from
  the block saved for it) is not on the running interface.\<close>

theorem removed_is_off:
  assumes "cmd_remove_peer cfg lib x h = (Inr ms, h')"
    and "key_of (narrow x) h = Some pub" "pub \<noteq> []"
  shows "pub \<notin> live L (vh_log h')"
proof -
  have "wp (cmd_remove_peer cfg lib x) (\<lambda>ms h'. pub \<notin> live L (vh_log h')) (\<lambda>e h'. True) h"
    unfolding cmd_remove_peer_def
    by (intro wp_rules wp_take_off_live [where L = L])
      (use assms(2,3) in \<open>auto dest!: validate_cases
        simp: key_of_def host_simps conf_textI given_def\<close>)
  from wp_Inr [OF this assms(1)] show ?thesis .
qed

subsection \<open>Disabling\<close>

lemma disable_failed_live:
  "wp (cmd_disable_peer cfg lib x) (\<lambda>ms h'. True)
     (\<lambda>e h'. live L (vh_log h') = live L (vh_log h) \<and> (vh_conf h \<noteq> None \<longrightarrow> vh_conf h' \<noteq> None)) h"
  unfolding cmd_disable_peer_def disable_found_def take_off_def awg_remove_peer_def
  by (intro wp_rules) (auto simp: host_simps)

text \<open>C39. A disabled customer can stay on. If \<open>disable-peer\<close> fails after it took the block out of
  the server config (\<open>awg\<close> failed), every key on the running interface is still there; and the
  retry the worker makes reports success without doing anything, so the job counts as done
  while the customer's key keeps working until the interface is restarted.\<close>

theorem disable_retry_leaves_live:
  assumes "cmd_disable_peer cfg lib x h = (Inl e, h1)" "narrow x \<notin> host_on h1"
    and "text_identifier x" "vh_conf h \<noteq> None"
  shows "live L (vh_log h1) = live L (vh_log h) \<and>
    (\<exists>b. cmd_disable_peer cfg lib x h1 = (Inr (done_with (narrow x) b @ [member_bool ''enabled'' False]), h1))"
proof -
  from wp_Inl [OF disable_failed_live assms(1)] assms(4)
  have l: "live L (vh_log h1) = live L (vh_log h)" and c: "vh_conf h1 \<noteq> None" by blast+
  obtain s where s: "vh_conf h1 = Some s" using c by auto
  have "find_peer (universal_newlines s) (narrow x) = None"
    using assms(2) find_peer_on [of h1 "narrow x"] by (simp add: conf_textI [OF s])
  then show ?thesis
    using l assms(3)
    by (auto simp: cmd_disable_peer_def act_bind_def from_res_def validate_identifier_def read_conf_def s
        read_client_file_def return_act_def)
qed

subsection \<open>Witnesses\<close>

definition stuck_awg :: vpn_host where
  "stuck_awg = sample_vpn_host\<lparr>vh_awg :=
     (\<lambda>k c. case c of Awg_Remove i p \<Rightarrow> Awg_Done 1 [] ''busy'' | _ \<Rightarrow> Awg_Done 0 ''K'' [])\<rparr>"

lemma sample_conf:
  "conf_text sample_vpn_host = peer_block ''p_6'' ''K'' ''S'' ''10.0.0.2''"
  "conf_peers (conf_text sample_vpn_host) = [(Some ''p_6'', Some ''K'')]"
proof -
  note b = peer_block_of [OF sample_words]
  show "conf_text sample_vpn_host = peer_block ''p_6'' ''K'' ''S'' ''10.0.0.2''"
    using b(2) by (simp add: conf_text_def sample_vpn_host_def newlines_id block_of_def)
  with b(1) show "conf_peers (conf_text sample_vpn_host) = [(Some ''p_6'', Some ''K'')]" by simp
qed

lemma sample_find: "\<exists>block. find_peer (conf_text sample_vpn_host) ''p_6'' = Some (block, Some ''K'')"
  using find_peer_map_of [of "conf_text sample_vpn_host" "''p_6''"]
  by (auto simp: sample_conf(2))

theorem removed_is_off_witness:
  "\<exists>ms h'. cmd_remove_peer vpnctl_defaults sample_lib (utext ''p_6'') sample_vpn_host = (Inr ms, h') \<and>
     ''K'' \<notin> live {''K''} (vh_log h')"
proof -
  have "host_works sample_vpn_host" using sample_works by (simp add: sample_net_def)
  from remove_works [OF this sample_words(1), of vpnctl_defaults sample_lib]
  obtain ms h' where r: "cmd_remove_peer vpnctl_defaults sample_lib (utext ''p_6'') sample_vpn_host = (Inr ms, h')"
    by (auto simp: wp_def split: prod.splits sum.splits)
  have "key_of (narrow (utext ''p_6'')) sample_vpn_host = Some ''K''"
    using sample_find by (auto simp: key_of_def narrow_utext simp del: utext_simps)
  from removed_is_off [OF r this] r show ?thesis by blast
qed

lemma stuck_disable:
  "wp (cmd_disable_peer vpnctl_defaults sample_lib (utext ''p_6'')) (\<lambda>ms h'. False)
     (\<lambda>e h'. ''p_6'' \<notin> host_on h') stuck_awg"
proof -
  have t: "conf_text stuck_awg = conf_text sample_vpn_host"
    by (simp add: stuck_awg_def conf_text_def)
  obtain block where f: "find_peer (conf_text stuck_awg) ''p_6'' = Some (block, Some ''K'')"
    using sample_find t by auto
  have d: "vh_disk stuck_awg = (\<lambda>k. None)"
    by (simp add: stuck_awg_def sample_vpn_host_def)
  have on: "''p_6'' \<notin> host_on (put_file Server_Conf (without_peer conf ''p_6'') h)"
    if "conf = conf_text stuck_awg" "conf_text h = conf_text stuck_awg" for conf h
    using on_without(1) [of h conf "''p_6''"] that by simp
  have w: "wp (write_private g s) R E h" if "vh_disk h = (\<lambda>k. None)" "R () (logged (Wrote g True) (put_file g s h))"
    for g s R E h
    using that by (simp add: wp_def write_private_def)
  have a: "wp (awg_run (Awg_Remove i p)) R E h"
    if "vh_awg h = vh_awg stuck_awg" "\<And>m. E m (logged (Ran (Awg_Remove i p) False) h)" for i p R E h
    using that by (simp add: wp_def awg_run_def stuck_awg_def)
  have s: "vh_conf stuck_awg \<noteq> None" by (simp add: stuck_awg_def sample_vpn_host_def)
  show ?thesis
    unfolding cmd_disable_peer_def disable_found_def take_off_def awg_remove_peer_def works_name [OF sample_words(1)]
    by (intro wp_bind wp_res wp_read_conf wp_option wp_prod wp_read_client wp_if w a wp_return wp_done)
      (use f s on d in \<open>auto simp: host_simps conf_textI given_def\<close>)
qed

theorem disable_retry_leaves_live_witness:
  "\<exists>e ms h1. cmd_disable_peer vpnctl_defaults sample_lib (utext ''p_6'') stuck_awg = (Inl e, h1) \<and>
     cmd_disable_peer vpnctl_defaults sample_lib (utext ''p_6'') h1 = (Inr ms, h1) \<and>
     ''K'' \<in> live {''K''} (vh_log h1)"
proof -
  obtain e h1 where r: "cmd_disable_peer vpnctl_defaults sample_lib (utext ''p_6'') stuck_awg = (Inl e, h1)"
    and off: "''p_6'' \<notin> host_on h1"
    using stuck_disable by (auto simp: wp_def split: prod.splits sum.splits)
  have "text_identifier (utext ''p_6'')"
    using works_name [OF sample_words(1), of sample_lib "''peer_id''"]
    by (simp add: validate_identifier_def del: utext_simps split: if_splits)
  moreover have "vh_conf stuck_awg \<noteq> None" "vh_log stuck_awg = []"
    by (simp_all add: stuck_awg_def sample_vpn_host_def)
  ultimately show ?thesis
    using disable_retry_leaves_live [OF r, of "{''K''}"] off r
    by (auto simp: narrow_utext host_simps simp del: utext_simps)
qed

end
