(* ===== verification/Vpnctl_Delivery.thy ===== *)
theory Vpnctl_Delivery
  imports Vpnctl_Works
begin

section \<open>The config of a new client, from the host to the customer\<close>

text \<open>
  What \<open>create-peer\<close> writes into \<open>clients/\<close> is what the worker gets, byte for byte: through the
  text of the file, UTF-8, base64, JSON and the strict decoder of the client. A second create
  returns the same and changes nothing. The address of a new client is not that of the server
  nor of any client in the config or saved for later.
\<close>

subsection \<open>base64\<close>

lemma std_char_code:
  "v < 64 \<Longrightarrow> std_sextet (of_char (std_char v)) = Some v \<and> (of_char (std_char v) :: nat) \<noteq> 61"
proof -
  assume "v < 64"
  then consider "v < 62" | "v = 62" | "v = 63" by fastforce
  then show ?thesis
    by cases (auto simp: std_char_def std_sextet_def sextet_char_code)
qed

lemma pack_16: "(m :: nat) < 16 \<Longrightarrow> (k * 16 + m) div 16 = k \<and> (k * 16 + m) mod 16 = m"
  and pack_4: "(m :: nat) < 4 \<Longrightarrow> (k * 4 + m) div 4 = k \<and> (k * 4 + m) mod 4 = m"
  by simp_all

lemma b64_strict_roundtrip: "is_bytes bs \<Longrightarrow> b64decode_strict (utext (b64encode bs)) = Some bs"
proof (induction bs rule: sextets.induct)
  case (2 a)
  then have "a div 4 < 64" "a mod 4 * 16 < 64" by (auto simp: is_bytes_def)
  then show ?case
    using std_char_code by (simp add: b64encode_def padding_def numeral_2_eq_2)
next
  case (3 a b)
  then have "a div 4 < 64" "a mod 4 * 16 + b div 16 < 64" "b mod 16 * 4 < 64" by (auto simp: is_bytes_def)
  moreover have "utext (b64encode [a, b]) = [of_char (std_char (a div 4)),
      of_char (std_char (a mod 4 * 16 + b div 16)), of_char (std_char (b mod 16 * 4)), 61]"
    by (simp add: b64encode_def padding_def)
  moreover have "b div 16 < 16" using 3 by (simp add: is_bytes_def less_mult_imp_div_less)
  then have "a div 4 * 4 + (a mod 4 * 16 + b div 16) div 16 = a"
    "(a mod 4 * 16 + b div 16) mod 16 * 16 + (b mod 16 * 4) div 4 = b"
    by (simp_all add: pack_16 mult.commute)
  ultimately show ?case
    using std_char_code by simp
next
  case (4 a b c r)
  then have v: "a div 4 < 64" "a mod 4 * 16 + b div 16 < 64" "b mod 16 * 4 + c div 64 < 64" "c mod 64 < 64"
    by (auto simp: is_bytes_def)
  have "padding (length (sextets (a # b # c # r))) = padding (length (sextets r))"
    by (rule padding_mod) simp
  then have "utext (b64encode (a # b # c # r)) =
      [of_char (std_char (a div 4)), of_char (std_char (a mod 4 * 16 + b div 16)),
       of_char (std_char (b mod 16 * 4 + c div 64)), of_char (std_char (c mod 64))] @ utext (b64encode r)"
    by (simp add: b64encode_def Let_def)
  moreover have "b64decode_strict (utext (b64encode r)) = Some r" using 4 by (simp add: is_bytes_def)
  moreover have "b div 16 < 16" "c div 64 < 4" using 4 by (simp_all add: is_bytes_def less_mult_imp_div_less)
  then have "a div 4 * 4 + (a mod 4 * 16 + b div 16) div 16 = a"
    "(a mod 4 * 16 + b div 16) mod 16 * 16 + (b mod 16 * 4 + c div 64) div 4 = b"
    "(b mod 16 * 4 + c div 64) mod 4 * 64 + c mod 64 = c"
    by (simp_all add: pack_16 pack_4)
  ultimately show ?case
    using v std_char_code by simp
qed (simp add: b64encode_def padding_def)

subsection \<open>Nothing the script writes has a carriage return\<close>

abbreviation no_cr :: "string \<Rightarrow> bool" where
  "no_cr s \<equiv> cr \<notin> set s"

lemma cr_chars [simp]: "cr \<noteq> CHR '':''" "cr \<noteq> CHR ''[''" "cr \<noteq> CHR '']''"
  by (simp_all add: cr_def)

lemma strip_subset: "set (py_strip s) \<subseteq> set s"
  by (auto simp: py_strip_def py_lstrip_def py_rstrip_def dest!: set_dropWhileD)

lemma strip_char_subset: "set (strip_char q s) \<subseteq> set s"
  by (auto simp: strip_char_def dest!: set_dropWhileD)

lemma split_char_subset: "w \<in> set (split_char sep s) \<Longrightarrow> c \<in> set w \<Longrightarrow> c \<in> set s"
  by (induction sep s arbitrary: w rule: split_char.induct) (fastforce split: if_splits list.splits)+

lemma split_max_subset: "w \<in> set (split_char_max sep n s) \<Longrightarrow> c \<in> set w \<Longrightarrow> c \<in> set s"
  by (induction sep n s arbitrary: w rule: split_char_max.induct) (fastforce split: if_splits list.splits)+

definition conf_no_cr :: "vpnctl_conf \<Rightarrow> bool" where
  "conf_no_cr cfg = (\<forall>(k, v) \<in> set cfg. no_cr v)"

lemma apply_line_no_cr:
  assumes "conf_no_cr cfg" "no_cr raw"
  shows "conf_no_cr (apply_line cfg raw)"
proof -
  have "no_cr (strip_char a (strip_char b (py_strip v)))"
    if "split_char_max CHR ''='' 1 (py_strip raw) = [k, v]" for k v a b
  proof
    assume "cr \<in> set (strip_char a (strip_char b (py_strip v)))"
    then have "cr \<in> set v" using strip_char_subset strip_subset by blast
    then have "cr \<in> set (py_strip raw)"
      using split_max_subset [of v "CHR ''=''" 1 "py_strip raw" cr] that by simp
    then show False using strip_subset assms(2) by blast
  qed
  with assms(1) show ?thesis
    by (auto simp: apply_line_def Let_def conf_no_cr_def dest!: set_dict_put split: list.split)
qed

lemma setting_no_cr:
  assumes "load_settings lib st = Inr cfg"
  shows "no_cr (setting cfg k)"
proof -
  have d: "conf_no_cr vpnctl_defaults"
    by (simp add: conf_no_cr_def vpnctl_defaults_def cr_def)
  have "conf_no_cr (foldl apply_line c ls)" if "conf_no_cr c" "\<forall>l \<in> set ls. no_cr l" for c ls
    using that by (induction ls arbitrary: c) (auto simp: apply_line_no_cr)
  moreover have "\<forall>l \<in> set (split_char nl (universal_newlines s)). no_cr l" for s
    using split_char_subset newlines_no_cr by blast
  ultimately have "conf_no_cr cfg"
    using assms d by (auto simp: load_settings_def Let_def bind_res_eq_Inr split: option.splits)
  then show ?thesis
    by (auto simp: setting_def conf_no_cr_def split: option.split dest!: map_of_SomeD [OF sym])
qed

lemma collect_lines:
  "sec \<in> set (collect cur ls) \<Longrightarrow> set (snd sec) \<subseteq> set (snd cur) \<union> set ls"
  by (induction cur ls rule: collect.induct) (fastforce split: if_splits)+

lemma interface_no_cr:
  assumes "interface_lines conf = Some ls" "no_cr conf" "l \<in> set ls"
  shows "no_cr l"
proof -
  obtain h lines where f: "find (\<lambda>(h, lines). h = Some ''[Interface]'') (split_sections conf) = Some (h, lines)"
    and ls: "ls = map rstrip_nl (tl lines)"
    using assms(1) by (auto simp: interface_lines_def)
  have "(h, lines) \<in> set (split_sections conf)"
    using f unfolding find_Some_iff by (metis nth_mem)
  then have "set lines \<subseteq> set (splitlines_keep conf)"
    using collect_lines [of "(h, lines)" "(None, [])"] by (auto simp: split_sections_def sections_of_def)
  moreover obtain k where k: "k \<in> set (tl lines)" "l = rstrip_nl k" using assms(3) by (auto simp: ls)
  moreover have "k \<in> set lines" using k(1) by (cases lines) auto
  ultimately have "set k \<subseteq> set conf"
    using keep_concat [of conf] by (metis (no_types, lifting) UN_upper set_concat subset_iff)
  then show ?thesis
    using assms(2) rstrip_nl_subset [of k] k(2) by blast
qed

lemma value_subset:
  assumes "value_of key l = Some v" "c \<in> set v"
  shows "c \<in> set l"
proof -
  have d: "x \<in> set (py_lstrip t) \<Longrightarrow> x \<in> set t" for t x
    by (auto simp: py_lstrip_def dest: set_dropWhileD)
  obtain e r where r: "py_lstrip (drop (length key) (py_lstrip l)) = e # r"
    and v: "v = py_strip r \<or> (\<exists>w ws. rev (filter (\<lambda>c. c \<noteq> nl) r) = w # ws \<and> v = [w])"
    using assms(1) by (auto simp: value_of_def Let_def split: if_splits list.splits)
  have "c \<in> set r"
  proof (cases "v = py_strip r")
    case True
    then show ?thesis using assms(2) strip_subset by blast
  next
    case False
    then obtain w ws where w: "rev (filter (\<lambda>c. c \<noteq> nl) r) = w # ws" "v = [w]" using v by blast
    then have "w \<in> set (rev (filter (\<lambda>c. c \<noteq> nl) r))" by simp
    with w(2) assms(2) show ?thesis by auto
  qed
  then have "c \<in> set (py_lstrip (drop (length key) (py_lstrip l)))" by (simp add: r)
  then show ?thesis by (blast dest: d in_set_dropD)
qed

lemma get_value_no_cr: "get_value ls k = Some v \<Longrightarrow> \<forall>l \<in> set ls. no_cr l \<Longrightarrow> no_cr v"
  by (induction ls k rule: get_value.induct) (auto split: option.splits dest: value_subset)

lemma words_no_cr: "w \<in> set (split_ws s) \<Longrightarrow> no_cr w"
proof -
  have "w \<in> set (split_ws_from u s) \<Longrightarrow> list_all (\<lambda>c. \<not> is_space c) u \<Longrightarrow> list_all (\<lambda>c. \<not> is_space c) w" for u
    by (induction u s rule: split_ws_from.induct) (auto split: if_splits)
  moreover have "is_space cr" by (simp add: break_space)
  ultimately show "w \<in> set (split_ws s) \<Longrightarrow> no_cr w"
    unfolding split_ws_def by (fastforce simp: list_all_iff)
qed

lemma no_space_cr: "no_space s \<Longrightarrow> no_cr s"
  using break_space [of cr] by (auto simp: no_space_def list_all_iff)

subsection \<open>What create-peer leaves and returns\<close>

definition carries :: "string \<Rightarrow> members \<Rightarrow> bool" where
  "carries s ms \<longleftrightarrow>
     map_of ms (utext ''config_b64'') = Some (W_Str (utext (b64encode (utf8_encode (utext s)))))"

lemma wp_carries:
  "(\<And>ms. carries s ms \<Longrightarrow> R ms h) \<Longrightarrow> (\<And>e. E e h) \<Longrightarrow> wp (peer_result lib n s extra) R E h"
  unfolding peer_result_def
  by (auto intro!: wp_rules simp: carries_def member_str_def utext_inj simp del: utext_simps split: sum.split)

lemma wp_endpoint_no_cr:
  assumes "no_cr (setting cfg ''ENDPOINT_HOST'')" "\<And>x. no_cr x \<Longrightarrow> R x h" "\<And>e. E e h"
  shows "wp (endpoint_host cfg) R E h"
proof -
  have after: "no_cr w" if "word_after k ws = Some (Some w)" "\<forall>v \<in> set ws. no_cr v" for k w ws
  proof -
    have "w \<in> set (dropWhile (\<lambda>v. v \<noteq> k) ws)"
      using that(1) by (auto simp: word_after_def split: list.splits)
    then show ?thesis using that(2) set_dropWhileD by fast
  qed
  have first: "no_cr (hd (split_char c w))" if "no_cr w" for c w
    using that split_char_subset [of "hd (split_char c w)" c w] by fastforce
  have ip: "wp (run_ip args) Q E h" if "\<And>ws. \<forall>w \<in> set ws. no_cr w \<Longrightarrow> Q ws h" for args Q
    using that words_no_cr assms(3) by (simp add: wp_def run_ip_def split: sum.split)
  have found: "wp detect_endpoint_host (\<lambda>x h'. no_cr x \<and> h' = h) E h"
    unfolding detect_endpoint_host_def Let_def
    by (intro wp_bind ip wp_option wp_raise wp_return assms(3) conjI refl)
      (simp add: first after)
  show ?thesis
    unfolding endpoint_host_def
    by (intro wp_bind wp_if wp_return wp_mono [OF found]) (use assms in \<open>auto intro!: wp_return\<close>)
qed

lemma config_no_cr:
  assumes "load_settings lib st = Inr cfg" "\<forall>l \<in> set iface. no_cr l" "no_cr priv" "no_cr ip"
    "no_cr pub" "no_cr psk" "no_cr endpoint"
  shows "no_cr (client_config cfg iface priv ip pub psk endpoint)"
proof -
  have join: "no_cr (py_join [nl] ws)" if "\<forall>w \<in> set ws. no_cr w" for ws
    using that by (induction "[nl]" ws rule: py_join.induct) auto
  have "no_cr (obfuscation_of iface)"
    unfolding obfuscation_of_def using assms(2) strip_subset by (intro join) auto
  with assms setting_no_cr [OF assms(1)] show ?thesis
    by (simp add: client_config_def text_of_lines_def) (simp add: cr_def nl_def)
qed

definition saved_as :: "string \<Rightarrow> members \<Rightarrow> vpn_host \<Rightarrow> bool" where
  "saved_as n ms h = (\<exists>s. client_file n ''conf'' h = Some s \<and> carries s ms)"

lemma new_client_saved:
  assumes "load_settings lib st = Inr cfg" "awg_keys h" "no_cr conf"
  shows "wp (new_client cfg lib n conf) (\<lambda>ms h'. saved_as n ms h') (\<lambda>e h'. True) h"
proof -
  have key: "no_cr (py_strip out)"
    if "vh_awg h k c = Awg_Done 0 out err" "prints_key c" for k c out err
    using key_word [OF assms(2) that] no_space_cr [of "py_strip out"] by (simp add: one_word_def no_space_def)
  have keys: "vh_awg h k Awg_Genkey = Awg_Done 0 out err \<Longrightarrow> no_cr (py_strip out)"
    "vh_awg h k Awg_Genpsk = Awg_Done 0 out err \<Longrightarrow> no_cr (py_strip out)"
    "vh_awg h k (Awg_Pubkey p) = Awg_Done 0 out err \<Longrightarrow> no_cr (py_strip out)" for k p out err
    by (auto dest!: key)
  have iface: "(\<forall>l \<in> set iface. no_cr l) \<and> no_cr port"
    if "interface_of cfg conf = Inr (iface, address, port, priv)" for iface address port priv
  proof -
    have i: "interface_lines conf = Some iface"
      and p: "port = setting cfg ''ENDPOINT_PORT'' \<or> get_value iface ''ListenPort'' = Some port"
      using that by (auto simp: interface_of_def Let_def given_def split: option.splits if_splits)
    have "\<forall>l \<in> set iface. no_cr l" using interface_no_cr [OF i assms(3)] by blast
    with p setting_no_cr [OF assms(1)] get_value_no_cr show ?thesis by blast
  qed
  show ?thesis
    unfolding new_client_def Let_def awg_set_peer_def awg_remove_peer_def save_client_def
    by (intro wp_rules wp_pick wp_endpoint_no_cr wp_carries setting_no_cr [OF assms(1)])
      (auto simp: saved_as_def host_simps,
        subst newlines_id, rule config_no_cr [OF assms(1)], auto dest: iface no_space_cr keys)
qed

lemma create_saved:
  assumes "load_settings lib st = Inr cfg" "awg_keys h"
  shows "wp (cmd_create_peer cfg lib sid label)
    (\<lambda>ms h'. saved_as (narrow label) ms h' \<and>
       (client_file (narrow label) ''conf'' h \<noteq> None \<longrightarrow> h' = h)) (\<lambda>e h'. True) h"
proof -
  have new: "wp (new_client cfg lib n (universal_newlines s)) (\<lambda>ms h'. saved_as n ms h' \<and> (False \<longrightarrow> h' = h))
      (\<lambda>e h'. True) h" for n s
    using new_client_saved [OF assms newlines_no_cr] by simp
  show ?thesis
    unfolding cmd_create_peer_def
    by (intro wp_rules wp_carries)
      (auto simp: saved_as_def dest!: validate_cases intro: wp_mono [OF new])
qed

subsection \<open>To the customer\<close>

lemma carries_bytes:
  assumes "carries s ms"
  shows "json_bytes (json_get ''config_b64'' (W_Obj ms)) = Inr (utf8_encode (utext s))"
proof -
  have "b64decode_strict (utext (b64encode (utf8_encode (utext s)))) = Some (utf8_encode (utext s))"
    by (intro b64_strict_roundtrip is_bytes_utf8 utext_code_points)
  with assms show ?thesis
    by (simp add: carries_def json_get_def json_bytes_def as_text_def)
qed

lemma create_delivers:
  assumes "in_order w"
    and "pv_create (vpnctl_provisioner (wired vc lib st me fates)) srv sid tg w = (Inr peer, w')"
  shows "pp_external_id peer = vpnctl_label srv sid tg \<and>
    (\<exists>s. client_file (pp_external_id peer) ''conf'' (nw_host w') = Some s \<and>
       pp_config peer = map char_of (utf8_encode (utext s))) \<and>
    (client_file (pp_external_id peer) ''conf'' (nw_host w) \<noteq> None \<longrightarrow> nw_host w' = nw_host w)"
proof -
  let ?l = "vpnctl_label srv sid tg"
  have "vpnctl_create_peer (wired vc lib st me fates) srv sid tg w = (Inr peer, w')"
    using assms(2) by (simp add: vpnctl_provisioner_def)
  then show ?thesis
  proof (rule create_ran)
    fix cfg r
    assume cfg: "load_settings lib st = Inr cfg"
      and r: "cmd_create_peer cfg lib (utext (uuid_str sid)) (utext ?l) (nw_host w) = (r, nw_host w')"
      and "\<And>p. Inr peer = Inr p \<Longrightarrow> \<exists>ms. r = Inr ms \<and> pp_external_id p = ?l \<and>
        peer_of_reply (wired vc lib st me fates) ?l ms = Inr p"
    then obtain ms where ms: "r = Inr ms" "pp_external_id peer = ?l"
      "peer_of_reply (wired vc lib st me fates) ?l ms = Inr peer" by blast
    have "awg_keys (nw_host w)" using assms(1) by (simp add: in_order_def host_ok_def)
    from wp_Inr [OF create_saved [OF cfg this] r [unfolded ms(1)]]
    obtain s where s: "client_file ?l ''conf'' (nw_host w') = Some s" "carries s ms"
      and same: "client_file ?l ''conf'' (nw_host w) \<noteq> None \<longrightarrow> nw_host w' = nw_host w"
      by (auto simp: saved_as_def narrow_utext)
    from carries_bytes [OF s(2)] have "pp_config peer = map char_of (utf8_encode (utext s))"
      using ms(3) by (auto simp: peer_of_reply_def bind_res_eq_Inr)
    with ms(2) s(1) same show ?thesis by simp
  qed simp
qed

text \<open>The same of a config that is asked for again.\<close>

lemma get_config_saved:
  "wp (cmd_get_config lib x) (\<lambda>ms h'. h' = h \<and> saved_as (narrow x) ms h) (\<lambda>e h'. True) h"
  "wp (cmd_get_config lib x) (\<lambda>ms h'. names_peer (narrow x) ms) (\<lambda>e h'. True) h"
  unfolding cmd_get_config_def
  by (intro wp_rules wp_carries; auto simp: saved_as_def dest!: validate_cases)
    (intro wp_rules, auto intro!: result_names [of _ "[]"] dest!: validate_cases)

lemma config_delivers:
  assumes "pv_config (vpnctl_provisioner (wired vc lib st me fates)) srv x w = (Inr config, w')"
  shows "nw_host w' = nw_host w \<and> (\<exists>s. client_file x ''conf'' (nw_host w') = Some s \<and>
    config = map char_of (utf8_encode (utext s)))"
proof -
  let ?vc = "wired vc lib st me fates"
  have y: "sanitize_identifier x = Inr x"
    using assms by (auto simp: vpnctl_provisioner_def vpnctl_get_peer_config_def sanitize_identifier_def
        split: if_splits)
  obtain result err where call: "vpnctl_call ?vc srv ''get-config'' [(''peer_id'', x)] w = (Inr (0, result, err), w')"
    and c: "\<And>bs. json_bytes (json_get ''config_b64'' (W_Obj result)) = Inr bs \<Longrightarrow> config = map char_of bs"
    using assms y by (auto simp: vpnctl_provisioner_def vpnctl_get_peer_config_def run_checked_def
        split: prod.splits sum.splits if_splits)
  have "(''get-config'', Get_Config) \<in> set peer_calls" by (simp add: peer_calls_def)
  from called [OF peer_calls_served [OF this] wired_net call]
  obtain cfg r where r: "run_command Get_Config cfg lib (wire_args [(''peer_id'', x)]) (nw_host w) = (r, nw_host w')"
    and "\<exists>ms. r = Inr ms \<and> (writable (W_Obj ms) \<longrightarrow> result = ms)"
    by (metis (no_types, lifting))
  then obtain ms where ms: "cmd_get_config lib (utext x) (nw_host w) = (Inr ms, nw_host w')"
    "writable (W_Obj ms) \<longrightarrow> result = ms"
    by (auto simp: arg_wire)
  from wp_Inr [OF get_config_saved(1) ms(1)] wp_Inr [OF get_config_saved(2) ms(1)] ms(2)
  have "nw_host w' = nw_host w" "saved_as x result (nw_host w)"
    by (simp_all add: narrow_utext names_peer_def)
  with c carries_bytes show ?thesis by (auto simp: saved_as_def)
qed

text \<open>C10. The config a customer gets is the one the VPN host has saved. When creating a peer
  succeeds over the network, the name the worker is told is the label it asked for, the host
  has a config file of that name, and the config that is delivered is, byte for byte, the
  UTF-8 text of that file. If the host had the config already (an earlier attempt lost its
  answer), it is that one, and nothing on the host has changed.\<close>

theorem delivered_is_saved:
  assumes "in_order w"
    and "pv_create (vpnctl_provisioner (wired vc lib st me fates)) srv sid tg w = (Inr peer, w')"
  shows "pp_external_id peer = vpnctl_label srv sid tg \<and>
    (\<exists>s. client_file (pp_external_id peer) ''conf'' (nw_host w') = Some s \<and>
       pp_config peer = map char_of (utf8_encode (utext s))) \<and>
    (client_file (pp_external_id peer) ''conf'' (nw_host w) \<noteq> None \<longrightarrow> nw_host w' = nw_host w)"
  by (rule create_delivers [OF assms])

subsection \<open>Witness\<close>

text \<open>The host has the client's config already, from an attempt the answer of which was lost.\<close>

definition sample_label :: string where
  "sample_label = vpnctl_label local_server 6 5001"

definition host_with_config :: vpn_host where
  "host_with_config = sample_vpn_host\<lparr>vh_clients := [((sample_label, ''conf''), ''A'')]\<rparr>"

definition config_net :: net_world where
  "config_net = \<lparr>nw_host = host_with_config, nw_calls = 0\<rparr>"

lemma sample_label_plain: "is_identifier sample_label"
  unfolding sample_label_def
  by (simp add: vpnctl_label_identifier local_server_def sample_server_def show_int_def show_nat.simps
      identifier_char_def)

lemma config_net_order: "in_order config_net"
  using sample_host_ok
  by (simp add: in_order_def config_net_def host_with_config_def host_ok_def awg_keys_def client_file_def)

lemma config_found: "client_file sample_label ''conf'' host_with_config = Some ''A''"
  by (simp add: client_file_def host_with_config_def cr_def)

lemma sample_link: "\<exists>url. encode_vpn_url stored (utext ''A'') = Inr url \<and> length url \<le> 100"
  by (simp add: encode_vpn_url_def q_compress_def stored_def be32_def utf8_encode_def utf8_char_def
      urlsafe_b64encode_def rstrip_eq_def padding_def bind_res_def)

lemma create_size:
  assumes "is_local_host (srv_host srv)" "length x \<le> 64" "length y \<le> 64"
  shows "length (request_line (request_body vc srv ''create-peer'' [(''subscription_id'', x), (''label'', y)]))
    \<le> max_request_bytes"
proof -
  have "length (dump_str (utext k)) \<le> 2 + 12 * length k" for k
    using dump_str_length [of "utext k"] by simp
  from this [of "''command''"] this [of "''create-peer''"] this [of "''args''"] this [of "''subscription_id''"]
    this [of x] this [of "''label''"] this [of y]
  show ?thesis
    using assms writable_request [of "[(''subscription_id'', x), (''label'', y)]" vc srv "''create-peer''"]
    by (simp add: line_length request_body_def max_request_bytes_def)
qed

definition existing_result :: "string \<Rightarrow> string \<Rightarrow> members" where
  "existing_result n url =
     [member_str ''status'' ''success'', member_str ''peer_id'' n, member_str ''label'' n,
      member_str ''filename'' (n @ ''.conf''), member_str ''config_b64'' ''QQ=='',
      member_str ''vpn_url'' url, member_bool ''existing'' True]"

lemma existing_size:
  assumes "length n \<le> 64" "length url \<le> 100"
  shows "writable (W_Obj (existing_result n url)) \<and>
    length (request_line (W_Obj [member_int ''exit_code'' 0, (utext ''result'', W_Obj (existing_result n url))]))
      \<le> max_response_bytes"
proof -
  let ?v = "W_Obj [member_int ''exit_code'' 0, (utext ''result'', W_Obj (existing_result n url))]"
  have d: "length (dump_str (utext k)) \<le> 2 + 12 * length k" for k
    using dump_str_length [of "utext k"] by simp
  have w: "writable (W_Obj (existing_result n url))"
    using writable_named [of "[(''status'', W_Str (utext ''success'')), (''peer_id'', W_Str (utext n)),
        (''label'', W_Str (utext n)), (''filename'', W_Str (utext (n @ ''.conf''))),
        (''config_b64'', W_Str (utext ''QQ=='')), (''vpn_url'', W_Str (utext url)), (''existing'', W_Bool True)]"]
    by (simp add: existing_result_def member_pair utext_code_points del: utext_simps)
  then have v: "writable ?v"
    using writable_digit [of 0] member_keys by (simp add: member_int_def utext_code_points del: utext_simps)
  have "length (show_int 0) = 1"
    by (simp add: show_int_def) (subst show_nat.simps, simp)
  with assms d [of "''exit_code''"] d [of "''result''"] d [of "''status''"] d [of "''success''"] d [of "''peer_id''"]
    d [of n] d [of "''label''"] d [of "''filename''"] d [of "n @ ''.conf''"] d [of "''config_b64''"]
    d [of "''QQ==''"] d [of "''vpn_url''"] d [of url] d [of "''existing''"]
  have "length (request_line ?v) \<le> max_response_bytes"
    unfolding line_length [OF v]
    by (simp add: existing_result_def member_int_def member_str_def member_bool_def max_response_bytes_def)
  with w show ?thesis by blast
qed

lemma config_net_create:
  "\<exists>peer. pv_create (vpnctl_provisioner (wired sample_vc sample_lib None None (\<lambda>n r. Answered [1] [2])))
     local_server 6 5001 config_net = (Inr peer, \<lparr>nw_host = host_with_config, nw_calls = 1\<rparr>)"
proof -
  let ?fates = "\<lambda>n r. Answered [1] [2]"
  let ?vc = "wired sample_vc sample_lib None None ?fates"
  let ?args = "[(''subscription_id'', uuid_str 6), (''label'', sample_label)]"
  let ?w = "\<lparr>nw_host = host_with_config, nw_calls = 1\<rparr>"
  obtain url where url: "encode_vpn_url stored (utext ''A'') = Inr url" "length url \<le> 100"
    using sample_link by blast
  have "char_of (of_char CHR ''Q'' :: nat) = CHR ''Q''" by (rule char_of_char)
  then have c: "b64encode (utf8_encode (utext ''A'')) = ''QQ==''"
    by (simp add: b64encode_def utf8_encode_def utf8_char_def padding_def std_char_def sextet_char_def)
      (simp add: numeral_2_eq_2)
  have bytes: "b64decode_strict (utext ''QQ=='') = Some [65]" "utf8_decode [65] = Some (utext ''A'')"
    using b64_strict_roundtrip [OF is_bytes_utf8 [OF utext_code_points [of "''A''"]]] c
      utf8_roundtrip [OF utext_code_points [of "''A''"]]
    by (simp_all add: utf8_encode_def utf8_char_def)
  have z: "hl_compress sample_lib = stored" by (simp add: sample_lib_def)
  have u: "validate_uuid sample_lib (utext (uuid_str 6)) = Inr ()"
    using parse_uuid_str [of 6] utext_bytes [of "uuid_str 6"]
    by (simp add: validate_uuid_def narrow_utext)
  have "run_command Create_Peer vpnctl_defaults sample_lib (wire_args ?args) host_with_config =
      (Inr (existing_result sample_label url), host_with_config)"
    by (simp add: arg_wire cmd_create_peer_def act_bind_def from_res_def u works_name [OF sample_label_plain]
        read_client_file_def config_found peer_result_def z url(1) c existing_result_def
        return_act_def del: utext_simps)
  then have r: "run_command Create_Peer vpnctl_defaults sample_lib (wire_args ?args) (nw_host config_net) =
      (Inr (existing_result sample_label url), host_with_config)"
    by (simp add: config_net_def)
  have len: "length sample_label \<le> 64" "length (uuid_str 6) \<le> 64"
    using sample_label_plain by (simp_all add: is_identifier_def uuid_str_def Let_def)
  have "vpnctl_call ?vc local_server ''create-peer'' ?args config_net = (Inr (0, existing_result sample_label url, []), ?w)"
    using call_ok [where args = ?args and lib = sample_lib and st = None and me = None and fates = ?fates
        and vc = ?vc and asked = "[1]" and replied = "[2]", OF _ sample_settings create_size [OF local_server_local len(2,1)]
        local_server_local wired_net _ r]
      existing_size [OF len(1) url(2)]
    by (simp add: serve_commands_def config_net_def)
  moreover have "vc_compress ?vc = stored" by (simp add: wired_def sample_vc_def)
  then have "\<exists>peer. peer_of_reply ?vc sample_label (existing_result sample_label url) = Inr peer"
    using sample_label_plain url(1)
    by (simp add: peer_of_reply_def existing_result_def json_get_def member_str_def member_bool_def utext_inj
        json_identifier_text sanitize_identifier_def identifier_match_def json_member_def json_bytes_def as_text_def
        bytes del: utext_simps)
  ultimately have "\<exists>peer. vpnctl_create_peer ?vc local_server 6 5001 config_net = (Inr peer, ?w)"
    using sample_label_plain
    by (auto simp: vpnctl_create_peer_def run_checked_def sanitize_identifier_def identifier_match_def
        simp flip: sample_label_def)
  then show ?thesis by (auto simp: vpnctl_provisioner_def)
qed

theorem delivered_is_saved_witness:
  "\<exists>peer w'. pv_create (vpnctl_provisioner (wired sample_vc sample_lib None None
      (\<lambda>n r. Answered [1] [2]))) local_server 6 5001 config_net = (Inr peer, w') \<and>
     pp_external_id peer = sample_label \<and> pp_config peer = ''A'' \<and> nw_host w' = host_with_config"
proof -
  obtain peer where p: "pv_create (vpnctl_provisioner (wired sample_vc sample_lib None None (\<lambda>n r. Answered [1] [2])))
      local_server 6 5001 config_net = (Inr peer, \<lparr>nw_host = host_with_config, nw_calls = 1\<rparr>)"
    using config_net_create by blast
  have "char_of (of_char CHR ''A'' :: nat) = CHR ''A''" by (rule char_of_char)
  with delivered_is_saved [OF config_net_order p] p config_found show ?thesis
    by (auto simp: utf8_encode_def utf8_char_def simp flip: sample_label_def)
qed

end

