(* ===== verification/Vpnctl_Addresses.thy ===== *)
theory Vpnctl_Addresses
  imports Vpnctl_Delivery
begin

section \<open>Addresses of clients\<close>

text \<open>
  The address of a new client is one of the server's network that is not the server's and not in
  any \<open>AllowedIPs\<close> of the config or of a block saved for a disabled client; and from then on it
  is in use, in the config and in the saved block.
\<close>

subsection \<open>The address in a new block\<close>

lemma lstrip_word: "l \<noteq> [] \<Longrightarrow> \<not> is_space (hd l) \<Longrightarrow> py_lstrip (l @ r) = l @ r"
  by (cases l) (simp_all add: py_lstrip_def)

text \<open>A line that starts with something else is passed over.\<close>

definition other_line :: "string \<Rightarrow> bool" where
  "other_line l \<longleftrightarrow> l \<noteq> [] \<and> \<not> is_space (hd l) \<and> nl \<notin> set l \<and> (\<forall>r. \<not> starts_with (l @ r) ''AllowedIPs'')"

lemma skip_line: "other_line l \<Longrightarrow> allowed_values (l @ nl # rest) = allowed_values rest"
proof -
  assume o: "other_line l"
  then have "allowed_at (l @ nl # rest) = None"
    by (simp add: allowed_at_def lstrip_word other_line_def)
  moreover have "next_line (l @ nl # rest) = rest"
  proof -
    have "dropWhile (\<lambda>c. c \<noteq> nl) (l @ nl # rest) = nl # rest"
      using o by (subst dropWhile_append2) (auto simp: other_line_def)
    then show ?thesis by (simp add: next_line_def)
  qed
  ultimately show ?thesis
    using o by (subst allowed_values.simps) (simp add: other_line_def)
qed

lemma skip_lines:
  "\<forall>l \<in> set ls. other_line l \<Longrightarrow> allowed_values (text_of_lines ls @ rest) = allowed_values rest"
  by (induction ls) (auto simp: text_of_lines_def skip_line)

lemma last_line:
  assumes "no_space v" "v \<noteq> []"
  shows "allowed_values (''AllowedIPs = '' @ v @ [nl]) = [v]"
proof -
  have "nl \<notin> set v" using assms(1) by (auto simp: no_space_def list_all_iff)
  then have t: "takeWhile (\<lambda>c. c \<noteq> nl) (v @ [nl]) = v" "dropWhile (\<lambda>c. c \<noteq> nl) (v @ [nl]) = [nl]"
    by (subst takeWhile_append2, auto) (subst dropWhile_append2, auto)
  have s: "py_lstrip (v @ [nl]) = v @ [nl]"
    using assms by (intro lstrip_word) (cases v; simp add: no_space_def)+
  have b: "\<not> is_space CHR ''A''" "\<not> is_space CHR ''=''" "is_space CHR '' ''"
    by (simp_all add: is_space_def)
  have "allowed_at (''AllowedIPs = '' @ v @ [nl]) = Some (v, [nl])"
    using s t assms(2) by (simp add: allowed_at_def lstrip_Cons b)
  moreover have "allowed_values (next_line [nl]) = []"
    by (simp add: next_line_def allowed_values.simps)
  ultimately show ?thesis
    by (subst allowed_values.simps) simp
qed

lemma peer_block_values:
  assumes "is_identifier n" "one_word pub" "one_word psk" "no_space ip"
  shows "allowed_values (peer_block n pub psk ip) = [ip @ ''/32'']"
proof -
  have no: "nl \<notin> set w" if "no_space w" for w
    using that by (auto simp: no_space_def list_all_iff)
  have w: "no_space n" "no_space pub" "no_space psk"
    using assms identifier_no_space by (simp_all add: one_word_def no_space_def)
  let ?ls = "[''[Peer]'', ''# '' @ n, ''PublicKey = '' @ pub, ''PresharedKey = '' @ psk]"
  have "\<forall>l \<in> set ?ls. other_line l"
    using w no by (auto simp: other_line_def is_space_def) (simp_all add: nl_def)
  moreover have "peer_block n pub psk ip = text_of_lines ?ls @ ''AllowedIPs = '' @ (ip @ ''/32'') @ [nl]"
    by (simp add: peer_block_def text_of_lines_def)
  moreover have "no_space (ip @ ''/32'')" "ip @ ''/32'' \<noteq> []"
    using assms(4) by (simp_all add: is_space_def)
  ultimately show ?thesis
    using last_line by (simp only: skip_lines)
qed

lemma show_ipv4_read:
  assumes "k < 4294967296"
  shows "ip_interface (py_strip (show_ipv4 k @ ''/32'')) = Some (IPv4 k, 32)"
proof -
  have c: "CHR ''/'' \<notin> set (show_ipv4 k)" "CHR '':'' \<notin> set (show_ipv4 k)"
    using show_ipv4_chars [of "CHR ''/''" k] show_ipv4_chars [of "CHR '':''" k]
    by (auto simp: is_decimal_def)
  have "no_space (show_ipv4 k @ ''/32'')"
    using no_space_show_ip(1) by (simp add: is_space_def)
  then show ?thesis
    using c parse_show_ipv4 [OF assms]
    by (simp add: strip_no_space ip_interface_def split_char_append split_char_word ipv4_prefix_def
        prefix_digits_def is_decimal_def dec_value_def digit_val_def)
qed

lemma peer_block_addresses:
  assumes "is_identifier n" "one_word pub" "one_word psk" "k < 4294967296"
  shows "addresses_in (peer_block n pub psk (show_ipv4 k)) = [IPv4 k]"
proof -
  have "CHR '','' \<notin> set (show_ipv4 k @ ''/32'')"
    using show_ipv4_chars [of "CHR '',''" k] by (auto simp: is_decimal_def)
  then show ?thesis
    using peer_block_values [OF assms(1-3) no_space_show_ip(1)] show_ipv4_read [OF assms(4)]
    by (simp add: addresses_in_def split_char_word List.map_filter_def)
qed

subsection \<open>The address of a new client\<close>

definition server_network :: "string \<Rightarrow> ip_iface option" where
  "server_network conf =
     Option.bind (interface_lines conf) (\<lambda>ls. Option.bind (get_value ls ''Address'')
       (\<lambda>v. ip_interface (py_strip (hd (split_char CHR '','' v)))))"

text \<open>In the server's network, but no address in use; and in use afterwards.\<close>

definition fresh_for :: "vpn_host \<Rightarrow> vpn_host \<Rightarrow> ip \<Rightarrow> bool" where
  "fresh_for h h' a \<longleftrightarrow>
     a \<notin> set (used_addresses (conf_text h) True h) \<and>
     (case server_network (conf_text h) of
        None \<Rightarrow> False
      | Some (srv, p) \<Rightarrow> a \<noteq> srv \<and>
          (case srv of
             IPv4 s \<Rightarrow> (case a of IPv4 k \<Rightarrow> net_base 32 p k = net_base 32 p s | IPv6 k z \<Rightarrow> False) \<and>
               a \<in> set (used_addresses (conf_text h') True h')
           | IPv6 s z \<Rightarrow> True))"

definition address_member :: "ip \<Rightarrow> members \<Rightarrow> bool" where
  "address_member a ms \<longleftrightarrow> map_of ms (utext ''address'') = Some (W_Str (utext (show_ip a @ ''/32'')))"

lemma wp_address:
  "(\<And>ms. address_member a ms \<Longrightarrow> R ms h) \<Longrightarrow> (\<And>e. E e h) \<Longrightarrow>
   wp (peer_result lib n s [member_str ''address'' (show_ip a @ ''/32''), member_bool ''existing'' b]) R E h"
  unfolding peer_result_def
  by (auto intro!: wp_rules simp: address_member_def member_str_def utext_inj simp del: utext_simps
      split: sum.split)

lemma saved_in_use:
  assumes "client_file n ''peer'' h = Some s" "a \<in> set (addresses_in s)"
  shows "a \<in> set (used_addresses conf True h)"
proof -
  have "s \<in> set (saved_blocks h)"
    using assms(1) by (force simp: client_file_def saved_blocks_def dest: map_of_SomeD)
  with assms(2) show ?thesis by (auto simp: used_addresses_def)
qed

lemma interface_network:
  assumes "interface_of cfg conf = Inr (iface, address, port, priv)"
    "ip_interface (py_strip (hd (split_char CHR '','' address))) = Some ifc"
  shows "server_network conf = Some ifc"
  using assms by (auto simp: interface_of_def server_network_def Let_def given_def split: option.splits if_splits)

definition has_block :: "string \<Rightarrow> ip \<Rightarrow> vpn_host \<Rightarrow> bool" where
  "has_block n a h \<longleftrightarrow> (\<exists>pub psk. one_word pub \<and> one_word psk \<and>
     client_file n ''peer'' h = Some (universal_newlines (peer_block n pub psk (show_ip a))))"

lemma wp_save_block:
  assumes "one_word pub" "one_word psk" "\<And>h'. has_block n a h' \<Longrightarrow> R () h'" "\<And>e h'. E e h'"
  shows "wp (save_client n conf (peer_block n pub psk (show_ip a)) c) R E h"
  unfolding save_client_def
  by (intro wp_rules assms) (use assms(1,2) in \<open>auto simp: has_block_def host_simps\<close>)

lemma fresh_forI:
  assumes net: "server_network (conf_text h) = Some (srv, p)"
    "free_host (srv, p) (srv # used_addresses (conf_text h) True h) = Some a"
    and "is_identifier n" "no_space (show_ip a)"
    and "has_block n a h'"
  shows "fresh_for h h' a"
proof -
  obtain pub psk where ok: "one_word pub" "one_word psk"
    and stored_block: "client_file n ''peer'' h' = Some (universal_newlines (peer_block n pub psk (show_ip a)))"
    using assms(5) by (auto simp: has_block_def)
  have saved: "client_file n ''peer'' h' = Some (peer_block n pub psk (show_ip a))"
    using peer_block_of(2) [OF assms(3) ok assms(4)] stored_block by (simp add: block_of_def newlines_id)
  have a: "a \<noteq> srv" "a \<notin> set (used_addresses (conf_text h) True h)"
    using free_host_new [OF net(2)] by simp_all
  show ?thesis
  proof (cases srv)
    case (IPv4 s)
    have "s < 4294967296 \<and> p \<le> 32"
      using net(1) IPv4 by (auto simp: server_network_def bind_eq_Some_conv dest!: ip_interface_ipv4)
    then obtain k where k: "a = IPv4 k" "k < 4294967296" "net_base 32 p k = net_base 32 p s"
      using free_host_ipv4 [OF net(2) [unfolded IPv4]] by metis
    have "a \<in> set (used_addresses (conf_text h') True h')"
      using saved_in_use [OF saved] peer_block_addresses [OF assms(3) ok k(2)] by (simp add: k(1) show_ip_def)
    with a k net(1) IPv4 show ?thesis by (simp add: fresh_for_def)
  next
    case (IPv6 s z)
    with a net(1) show ?thesis by (simp add: fresh_for_def)
  qed
qed

lemma new_client_fresh:
  assumes "awg_keys h" "is_identifier n"
  shows "wp (new_client cfg lib n (conf_text h))
    (\<lambda>ms h'. \<exists>a. address_member a ms \<and> fresh_for h h' a) (\<lambda>e h'. True) h"
proof -
  have key: "one_word (py_strip out)"
    if "vh_awg h k c = Awg_Done 0 out err" "prints_key c" for k c out err
    using key_word [OF assms(1) that] .
  show ?thesis
    unfolding new_client_def Let_def awg_set_peer_def awg_remove_peer_def
    by (intro wp_rules wp_pick wp_endpoint wp_address wp_save_block)
      (auto intro!: exI conjI fresh_forI assms(2) key simp: interface_network host_simps)
qed

text \<open>C11. No two clients get the same address. When \<open>create-peer\<close> makes a new client, the address it
  returns is not the server's and is in no \<open>AllowedIPs\<close> of the server config or of a block saved
  for a client that is disabled at the moment; on an IPv4 server it is an address of the
  server's network, and from then on it counts as used, so no later client gets it.\<close>

theorem new_address_is_free:
  assumes "host_ok h" "plain_id label" "client_file (narrow label) ''conf'' h = None"
    and "cmd_create_peer cfg lib sid label h = (Inr ms, h')"
  shows "\<exists>a. address_member a ms \<and> fresh_for h h' a"
proof -
  have new: "wp (new_client cfg lib n (universal_newlines s)) (\<lambda>ms h'. \<exists>a. address_member a ms \<and> fresh_for h h' a)
      (\<lambda>e h'. True) h" if "vh_conf h = Some s" "is_identifier n" for n s
    using new_client_fresh [OF ok_keys [OF assms(1)] that(2)] by (simp add: conf_textI [OF that(1)])
  have "wp (cmd_create_peer cfg lib sid label) (\<lambda>ms h'. \<exists>a. address_member a ms \<and> fresh_for h h' a)
      (\<lambda>e h'. True) h"
    unfolding cmd_create_peer_def
    by (intro wp_rules) (use assms(2,3) in \<open>auto dest!: validate_cases intro: new simp: plain_id_def\<close>)
  from wp_Inr [OF this assms(4)] show ?thesis .
qed

subsection \<open>Witness\<close>

definition interface_conf :: string where
  "interface_conf = text_of_lines [''[Interface]'', ''Address = 10.0.0.1/30'', ''ListenPort = 1'', ''PrivateKey = K'']"

definition empty_server :: vpn_host where
  "empty_server = sample_vpn_host\<lparr>vh_conf := Some interface_conf\<rparr>"

definition endpoint_conf :: vpnctl_conf where
  "endpoint_conf = [(''ENDPOINT_HOST'', ''h'')]"

lemma empty_server_ok: "host_ok empty_server"
  using sample_host_ok by (simp add: empty_server_def host_ok_def awg_keys_def client_file_def sample_vpn_host_def)

lemma empty_conf: "universal_newlines interface_conf = interface_conf"
  by (simp add: newlines_id interface_conf_def text_of_lines_def nl_def cr_def)

lemma empty_interface:
  "interface_of endpoint_conf interface_conf = Inr ([''Address = 10.0.0.1/30'', ''ListenPort = 1'', ''PrivateKey = K''],
     ''10.0.0.1/30'', ''1'', ''K'')"
  by code_simp

lemma empty_used: "used_addresses interface_conf True empty_server = []"
proof -
  have "allowed_values interface_conf = []"
    using skip_lines [of "[''[Interface]'', ''Address = 10.0.0.1/30'', ''ListenPort = 1'', ''PrivateKey = K'']" "[]"]
    by (simp add: interface_conf_def other_line_def is_space_def nl_def allowed_values.simps [of "[]"])
  then show ?thesis
    by (simp add: used_addresses_def addresses_in_def saved_blocks_def empty_server_def sample_vpn_host_def)
qed

lemma empty_free:
  "ip_interface (py_strip (hd (split_char CHR '','' ''10.0.0.1/30''))) = Some (IPv4 167772161, 30)"
  "free_host (IPv4 167772161, 30) [IPv4 167772161] = Some (IPv4 167772162)"
proof -
  have "py_strip ''10.0.0.1/30'' = ''10.0.0.1/30''" by (rule strip_no_space) (simp add: is_space_def)
  then show "ip_interface (py_strip (hd (split_char CHR '','' ''10.0.0.1/30''))) = Some (IPv4 167772161, 30)"
    by (simp add: ip_reading upt_conv_Cons)
  show "free_host (IPv4 167772161, 30) [IPv4 167772161] = Some (IPv4 167772162)"
    by (simp add: free_host_def host_range_def net_base_def host_at_def first_free.simps)
qed

lemma short_link:
  assumes "length t < 100000"
  obtains url where "encode_vpn_url stored (utext t) = Inr url"
proof -
  have "length (utf8_encode (utext t)) \<le> 2 * length t"
  proof (induction t)
    case (Cons c t)
    have "(of_char c :: nat) < 256" by simp
    then have "(of_char c :: nat) < 2048" by linarith
    then have "length (utf8_char (of_char c)) \<le> 2" by (simp add: utf8_char_def)
    with Cons show ?case by (simp add: utf8_encode_def)
  qed (simp add: utf8_encode_def)
  with assms show thesis
    using that by (simp add: encode_vpn_url_def q_compress_def bind_res_def)
qed

text \<open>A new client on a host on which everything works and \<open>awg\<close> always prints \<open>K\<close>.\<close>

lemma create_runs:
  assumes iface: "interface_of endpoint_conf c = Inr (ls, addr, ''1'', ''K'')"
    and pick: "\<And>g. vh_clients g = [] \<Longrightarrow> pick_address c addr g = (Inr a, g)"
    and len: "length (client_config endpoint_conf ls ''K'' (show_ip a) ''K'' ''K'' ''h:1'') < 100000"
    and host: "h = sample_vpn_host\<lparr>vh_conf := Some c\<rparr>" "universal_newlines c = c" "is_identifier n"
  shows "wp (cmd_create_peer endpoint_conf sample_lib (utext (uuid_str 6)) (utext n))
     (\<lambda>ms h'. host_works h' \<and> (\<forall>i p k q b. Ran (Awg_Set i p k q) b \<in> set (vh_log h') \<longrightarrow> p = ''K''))
     (\<lambda>e h'. False) h"
    (is "wp _ ?R _ _")
proof -
  have k: "py_strip ''K'' = ''K''" by (rule strip_no_space) (simp add: is_space_def)
  have awg: "wp (awg_run c) R E h" if "vh_awg h = vh_awg sample_vpn_host" "R ''K'' (logged (Ran c True) h)" for c R E h
    using that k by (simp add: wp_def awg_run_def sample_vpn_host_def)
  have w: "wp (write_private g s) R E h"
    if "vh_disk h = vh_disk sample_vpn_host" "R () (logged (Wrote g True) (put_file g s h))" for g s R E h
    using that by (simp add: wp_def write_private_def sample_vpn_host_def)
  have r: "wp (peer_result sample_lib n s extra) R E h" if "length s < 100000" "\<And>ms. R ms h" for n s extra R E h
    by (rule short_link [OF that(1)]) (use that(2) in \<open>simp add: peer_result_def sample_lib_def wp_def return_act_def\<close>)
  have u: "validate_uuid sample_lib (utext (uuid_str 6)) = Inr ()"
    using parse_uuid_str [of 6] utext_bytes [of "uuid_str 6"] by (simp add: validate_uuid_def narrow_utext)
  have ph: "wp (pick_address c addr) R E h" if "vh_clients h = []" "R a h" for R E h
    using pick [OF that(1)] that(2) by (simp add: wp_def)
  have hh: "wp (endpoint_host endpoint_conf) R E h" if "R ''h'' h" for R E h
    using that by (simp add: wp_def endpoint_host_def endpoint_conf_def setting_def act_bind_def return_act_def)
  have b: "act_bind (from_res (Inr x)) f = f x" for x and f :: "'x \<Rightarrow> 'y command"
    by (rule ext) (simp add: act_bind_def from_res_def)
  have ok: "host_works sample_vpn_host" using sample_works by (simp add: sample_net_def)
  then have h: "host_works h" "vh_log h = []" "vh_clients h = []" "vh_conf h = Some c" "client_file n ''conf'' h = None"
    "vh_awg h = vh_awg sample_vpn_host" "vh_disk h = vh_disk sample_vpn_host"
    by (simp_all add: host(1) host_works_def client_file_def) (simp_all add: sample_vpn_host_def)
  have "wp (new_client endpoint_conf sample_lib n c) ?R (\<lambda>e h'. False) h" for n
    unfolding new_client_def Let_def awg_set_peer_def awg_remove_peer_def save_client_def iface b prod.case option.case
    by (intro wp_bind wp_res wp_prod wp_on_error ph hh awg w wp_done wp_return r)
      (use len h in \<open>auto simp: host_simps\<close>)
  then show ?thesis
    unfolding cmd_create_peer_def u works_name [OF host(3)]
    by (intro wp_bind wp_res wp_read_client wp_read_conf wp_option) (auto simp: h host(2))
qed

lemma plain_setting: "setting endpoint_conf k = (if k = ''ENDPOINT_HOST'' then ''h'' else [])"
  by (simp add: setting_def endpoint_conf_def)

lemma octet_length: "m < 256 \<Longrightarrow> length (show_nat m) \<le> 3"
  by (subst show_nat.simps, subst show_nat.simps, subst show_nat.simps) (auto simp: show_nat.simps)

lemma empty_create:
  "wp (cmd_create_peer endpoint_conf sample_lib (utext (uuid_str 6)) (utext ''p_7''))
     (\<lambda>ms h'. True) (\<lambda>e h'. False) empty_server"
proof -
  have id: "is_identifier ''p_7''" by (simp add: is_identifier_def identifier_char_def)
  have p: "pick_address interface_conf ''10.0.0.1/30'' h = (Inr (IPv4 167772162), h)"
    if "vh_clients h = []" for h
  proof -
    have "used_addresses interface_conf True h = []"
      using empty_used that by (simp add: used_addresses_def saved_blocks_def)
    then show ?thesis
      using empty_free by (simp add: pick_address_def act_bind_def used_now_def return_act_def)
  qed
  have "length (client_config endpoint_conf [''Address = 10.0.0.1/30'', ''ListenPort = 1'', ''PrivateKey = K'']
      ''K'' (show_ip (IPv4 167772162)) ''K'' ''K'' ''h:1'') < 100000"
  proof -
    have "obfuscation_of [''Address = 10.0.0.1/30'', ''ListenPort = 1'', ''PrivateKey = K''] = []"
      by code_simp
    moreover have "length (show_ip (IPv4 167772162)) \<le> 15"
      using octet_length [of 10] octet_length [of 0] octet_length [of 2] by (simp add: show_ip_def show_ipv4_def)
    ultimately show ?thesis
      by (simp add: client_config_def text_of_lines_def plain_setting)
  qed
  from create_runs [OF empty_interface p this empty_server_def empty_conf id]
  show ?thesis by (rule wp_mono) simp_all
qed

theorem new_address_is_free_witness:
  "\<exists>ms h' a. cmd_create_peer endpoint_conf sample_lib (utext (uuid_str 6)) (utext ''p_7'') empty_server = (Inr ms, h') \<and>
     address_member a ms \<and> fresh_for empty_server h' a"
proof -
  obtain ms h' where r: "cmd_create_peer endpoint_conf sample_lib (utext (uuid_str 6)) (utext ''p_7'') empty_server = (Inr ms, h')"
    using empty_create by (auto simp: wp_def split: prod.splits sum.splits)
  have "plain_id (utext ''p_7'')"
    by (rule plain_utext) (simp add: is_identifier_def identifier_char_def)
  moreover have "client_file (narrow (utext ''p_7'')) ''conf'' empty_server = None"
    by (simp add: client_file_def empty_server_def sample_vpn_host_def)
  ultimately show ?thesis
    using new_address_is_free [OF empty_server_ok _ _ r] r by blast
qed

end
