(* ===== verification/Vpnctl_Retries.thy ===== *)
theory Vpnctl_Retries
  imports Vpnctl_Live Vpnctl_Addresses
begin

section \<open>A create-peer that is tried again\<close>

text \<open>
  \<open>cmd_create_peer\<close> writes the saved block, the server config and the client's config in this
  order, and tells an earlier success by the client's config. When an attempt gets as far as the
  server config and no further (the last write fails, or the host goes down), the block stays,
  and the next attempt adds a second block of the same name with a new key.
\<close>

definition leftover :: "string \<Rightarrow> string \<Rightarrow> vpn_host \<Rightarrow> bool" where
  "leftover n old h \<longleftrightarrow>
     map_of (host_peers h) (Some n) = Some (Some old) \<and> client_file n ''conf'' h = None"

text \<open>The key of a client that was set on the interface between two states of the host.\<close>

definition set_between :: "string \<Rightarrow> vpn_host \<Rightarrow> vpn_host \<Rightarrow> bool" where
  "set_between new h h' \<longleftrightarrow>
     (\<exists>es i psk ips. vh_log h' = vh_log h @ es \<and> Ran (Awg_Set i new psk ips) True \<in> set es)"

definition second_peer :: "string \<Rightarrow> string \<Rightarrow> vpn_host \<Rightarrow> vpn_host \<Rightarrow> bool" where
  "second_peer n old h h' \<longleftrightarrow>
     map_of (host_peers h') (Some n) = Some (Some old) \<and>
     (\<exists>new. set_between new h h' \<and> (\<forall>L. new \<in> live L (vh_log h')))"

lemma block_added:
  assumes "is_identifier n" "one_word pub" "one_word psk" "no_space ip" "map_of (host_peers h) (Some n) = Some (Some old)"
  shows "map_of (conf_peers (universal_newlines (with_block (conf_text h) (peer_block n pub psk ip)))) (Some n)
    = Some (Some old)"
proof -
  note b = peer_block_of [OF assms(1-4)]
  have "cr \<notin> set (with_block (conf_text h) (peer_block n pub psk ip))"
    using b(2) by (intro with_block_no_cr) (simp_all add: block_of_def conf_text_no_cr)
  moreover obtain l ls where "splitlines_keep (peer_block n pub psk ip) = l # ls" "section_header l"
    using b(2) by (auto simp: block_of_def starts_header_def)
  ultimately show ?thesis
    using with_block_peers [OF conf_text_no_cr] assms(5) by (simp add: newlines_id host_peers_def)
qed

lemma new_client_second:
  assumes "awg_keys h" "is_identifier n" "map_of (host_peers h) (Some n) = Some (Some old)"
  shows "wp (new_client cfg lib n (conf_text h)) (\<lambda>ms h'. second_peer n old h h') (\<lambda>e h'. True) h"
proof -
  have key: "one_word (py_strip out)"
    if "vh_awg h k c = Awg_Done 0 out err" "prints_key c" for k c out err
    using key_word [OF assms(1) that] .
  show ?thesis
    unfolding new_client_def Let_def awg_set_peer_def awg_remove_peer_def save_client_def
    by (intro wp_rules wp_pick wp_endpoint wp_result)
      (auto simp: second_peer_def set_between_def host_simps host_peers_def [of "logged _ _"] host_peers_def [of "put_file _ _ _"]
        intro!: block_added assms key)
qed

lemma remove_keeps:
  assumes "map_of (host_peers h) (Some (narrow x)) = Some (Some old)"
  shows "wp (cmd_remove_peer cfg lib x) (\<lambda>ms h'. live L (vh_log h) - {old} \<subseteq> live L (vh_log h')) (\<lambda>e h'. True) h"
proof -
  obtain block where f: "find_peer (conf_text h) (narrow x) = Some (block, Some old)"
    using assms find_peer_map_of [of "conf_text h" "narrow x"] by (auto simp: host_peers_def)
  show ?thesis
    unfolding cmd_remove_peer_def take_off_def awg_remove_peer_def
    by (intro wp_rules) (use f in \<open>auto simp: host_simps conf_textI given_def dest!: validate_cases\<close>)
qed

text \<open>C40. A customer can outlive the removal. If an earlier \<open>create-peer\<close> left its block in the server
  config without the client's config, then the retry succeeds with a second block and a second
  key, the one the customer is sent; and when the customer is removed, \<open>remove-peer\<close> takes both
  blocks out of the config but only the first key off the interface: the customer's key stays.\<close>

theorem retried_create_outlives_removal:
  assumes "host_ok h" "plain_id x" "leftover (narrow x) old h"
    "cmd_create_peer cfg lib sid x h = (Inr ms, h1)" "cmd_remove_peer cfg lib x h1 = (Inr ms', h2)"
  shows "narrow x \<notin> host_on h2 \<and>
    (\<exists>new. set_between new h h1 \<and> (new \<noteq> old \<longrightarrow> new \<in> live L (vh_log h2)))"
proof -
  have m: "map_of (host_peers h) (Some (narrow x)) = Some (Some old)" "client_file (narrow x) ''conf'' h = None"
    using assms(3) by (simp_all add: leftover_def)
  have new: "wp (new_client cfg lib n (universal_newlines s)) (\<lambda>ms h'. second_peer n old h h') (\<lambda>e h'. True) h"
    if "vh_conf h = Some s" "is_identifier n" "n = narrow x" for n s
    using new_client_second [OF ok_keys [OF assms(1)] that(2), of old] m(1) that(3) by (simp add: conf_textI [OF that(1)])
  have "wp (cmd_create_peer cfg lib sid x) (\<lambda>ms h'. second_peer (narrow x) old h h') (\<lambda>e h'. True) h"
    unfolding cmd_create_peer_def
    by (intro wp_rules) (use m(2) assms(2) in \<open>auto dest!: validate_cases intro: new simp: plain_id_def\<close>)
  from wp_Inr [OF this assms(4)]
  obtain k where k: "set_between k h h1" "k \<in> live L (vh_log h1)"
    and p: "map_of (host_peers h1) (Some (narrow x)) = Some (Some old)"
    by (auto simp: second_peer_def)
  have "host_ok h1"
    using wp_Inr [OF create_wp [OF assms(1,2)] assms(4)] assms(1) createdD(2) by blast
  from wp_Inr [OF remove_wp [OF this] assms(5)] have "narrow x \<notin> host_on h2" by (simp add: taken_out_def)
  with wp_Inr [OF remove_keeps [OF p] assms(5), of L] k show ?thesis by blast
qed

subsection \<open>Witness\<close>

text \<open>What a \<open>create-peer\<close> of \<open>p_7\<close> with the key \<open>O\<close> leaves behind when its last write fails.\<close>

definition leftover_lines :: "string list" where
  "leftover_lines = [''[Interface]'', ''Address = 10.0.0.1/29'', ''ListenPort = 1'', ''PrivateKey = K'']"

definition leftover_conf :: string where
  "leftover_conf = with_block (text_of_lines leftover_lines) (peer_block ''p_7'' ''O'' ''S'' ''10.0.0.2'')"

definition leftover_host :: vpn_host where
  "leftover_host = sample_vpn_host\<lparr>vh_conf := Some leftover_conf\<rparr>"

lemma leftover_shape:
  "leftover_conf = text_of_lines leftover_lines @ nl #
     text_of_lines [''[Peer]'', ''# p_7'', ''PublicKey = O'', ''PresharedKey = S''] @ ''AllowedIPs = '' @ ''10.0.0.2/32'' @ [nl]"
  by (simp add: leftover_conf_def with_block_def peer_block_def leftover_lines_def text_of_lines_def rstrip_nl_def nl_def)

lemma leftover_plain: "universal_newlines leftover_conf = leftover_conf"
  by (rule newlines_id) (simp add: leftover_shape leftover_lines_def text_of_lines_def nl_def cr_def)

lemma leftover_interface:
  "interface_of endpoint_conf leftover_conf = Inr ([''Address = 10.0.0.1/29'', ''ListenPort = 1'', ''PrivateKey = K'', ''''],
     ''10.0.0.1/29'', ''1'', ''K'')"
  by code_simp

lemma leftover_used: "vh_clients h = [] \<Longrightarrow> used_addresses leftover_conf True h = [IPv4 167772162]"
proof -
  assume h: "vh_clients h = []"
  let ?b = "text_of_lines [''[Peer]'', ''# p_7'', ''PublicKey = O'', ''PresharedKey = S''] @ ''AllowedIPs = '' @ ''10.0.0.2/32'' @ [nl]"
  have o: "\<forall>l \<in> set [''[Peer]'', ''# p_7'', ''PublicKey = O'', ''PresharedKey = S'']. other_line l"
    "\<forall>l \<in> set leftover_lines. other_line l"
    by (simp_all add: leftover_lines_def other_line_def is_space_def nl_def)
  have l: "allowed_values (''AllowedIPs = '' @ ''10.0.0.2/32'' @ [nl]) = [''10.0.0.2/32'']"
    by (rule last_line) (simp_all add: no_space_def is_space_def)
  have b: "allowed_values ?b = [''10.0.0.2/32'']"
    by (simp only: skip_lines [OF o(1)] l)
  have "allowed_values (nl # ?b) = allowed_values ?b"
    by (subst allowed_values.simps)
      (simp add: allowed_at_def py_lstrip_def is_space_def nl_def next_line_def text_of_lines_def)
  then have "allowed_values leftover_conf = [''10.0.0.2/32'']"
    by (simp only: leftover_shape skip_lines [OF o(2)] b)
  moreover have "py_strip ''10.0.0.2/32'' = ''10.0.0.2/32''" by (rule strip_no_space) (simp add: is_space_def)
  ultimately show ?thesis
    using h by (simp add: used_addresses_def addresses_in_def saved_blocks_def map_filter_def ip_reading upt_conv_Cons)
qed

lemma leftover_pick:
  assumes "vh_clients h = []"
  shows "pick_address leftover_conf ''10.0.0.1/29'' h = (Inr (IPv4 167772163), h)"
proof -
  have "py_strip ''10.0.0.1/29'' = ''10.0.0.1/29''" by (rule strip_no_space) (simp add: is_space_def)
  then have "ip_interface (py_strip (hd (split_char CHR '','' ''10.0.0.1/29''))) = Some (IPv4 167772161, 29)"
    by (simp add: ip_reading upt_conv_Cons)
  moreover have "free_host (IPv4 167772161, 29) [IPv4 167772161, IPv4 167772162] = Some (IPv4 167772163)"
    by (simp add: free_host_def host_range_def net_base_def host_at_def first_free.simps)
  ultimately show ?thesis
    using leftover_used [OF assms] by (simp add: pick_address_def act_bind_def used_now_def return_act_def)
qed

lemma leftover_create:
  "wp (cmd_create_peer endpoint_conf sample_lib (utext (uuid_str 6)) (utext ''p_7''))
     (\<lambda>ms h'. host_works h' \<and> (\<forall>i p k q b. Ran (Awg_Set i p k q) b \<in> set (vh_log h') \<longrightarrow> p = ''K''))
     (\<lambda>e h'. False) leftover_host"
proof (rule create_runs [OF leftover_interface leftover_pick _ leftover_host_def leftover_plain])
  have "obfuscation_of [''Address = 10.0.0.1/29'', ''ListenPort = 1'', ''PrivateKey = K'', ''''] = []"
    by code_simp
  moreover have "length (show_ip (IPv4 167772163)) \<le> 15"
    using octet_length [of 10] octet_length [of 0] octet_length [of 3] by (simp add: show_ip_def show_ipv4_def)
  ultimately show "length (client_config endpoint_conf [''Address = 10.0.0.1/29'', ''ListenPort = 1'', ''PrivateKey = K'', '''']
      ''K'' (show_ip (IPv4 167772163)) ''K'' ''K'' ''h:1'') < 100000"
    by (simp add: client_config_def text_of_lines_def plain_setting)
qed (simp_all add: is_identifier_def identifier_char_def)

lemma leftover_state: "host_ok leftover_host" "leftover ''p_7'' ''O'' leftover_host"
proof -
  show "host_ok leftover_host"
    using sample_host_ok by (simp add: leftover_host_def host_ok_def awg_keys_def client_file_def sample_vpn_host_def)
  have "conf_peers leftover_conf = [(Some ''p_7'', Some ''O'')]" by code_simp
  then show "leftover ''p_7'' ''O'' leftover_host"
    by (simp add: leftover_def host_peers_def conf_text_def leftover_host_def leftover_plain client_file_def
        sample_vpn_host_def)
qed

theorem retried_create_outlives_removal_witness:
  "\<exists>ms h1 ms' h2.
     cmd_create_peer endpoint_conf sample_lib (utext (uuid_str 6)) (utext ''p_7'') leftover_host = (Inr ms, h1) \<and>
     cmd_remove_peer endpoint_conf sample_lib (utext ''p_7'') h1 = (Inr ms', h2) \<and>
     ''p_7'' \<notin> host_on h2 \<and> ''K'' \<in> live {''O''} (vh_log h2)"
proof -
  have id: "is_identifier ''p_7''" by (simp add: is_identifier_def identifier_char_def)
  obtain r h1 where r0: "cmd_create_peer endpoint_conf sample_lib (utext (uuid_str 6)) (utext ''p_7'') leftover_host = (r, h1)"
    by force
  then obtain ms where "r = Inr ms" using wp_Inl [OF leftover_create] by (cases r) blast+
  with r0 have c: "cmd_create_peer endpoint_conf sample_lib (utext (uuid_str 6)) (utext ''p_7'') leftover_host = (Inr ms, h1)"
    by simp
  note h1 = wp_Inr [OF leftover_create c, THEN conjunct1]
    wp_Inr [OF leftover_create c, THEN conjunct2, rule_format]
  obtain ms' h2 where r: "cmd_remove_peer endpoint_conf sample_lib (utext ''p_7'') h1 = (Inr ms', h2)"
    using remove_works [OF h1(1) id, of endpoint_conf sample_lib] by (auto simp: wp_def split: prod.splits sum.splits)
  have "leftover (narrow (utext ''p_7'')) ''O'' leftover_host"
    using leftover_state(2) by (simp only: narrow_utext)
  from retried_create_outlives_removal [OF leftover_state(1) plain_utext [OF id] this c r, of "{''O''}"] narrow_utext [of "''p_7''"]
  obtain new where "set_between new leftover_host h1" "''p_7'' \<notin> host_on h2" "new \<noteq> ''O'' \<longrightarrow> new \<in> live {''O''} (vh_log h2)" by metis
  moreover from this(1) have "new = ''K''" unfolding set_between_def using h1(2) by fastforce
  ultimately show ?thesis using c r by auto
qed

end
