(* ===== verification/Deployment.thy ===== *)
theory Deployment
  imports Worker_Outcomes Vpnctl_Delivery
begin

section \<open>The worker and the VPN host together\<close>

text \<open>
  The worker of \<open>src/app/worker/engine.py\<close> with the provisioner of a deployment: a job of the
  database, the client \<open>vpnctl_client.py\<close>, the network between, the script \<open>vpnctl\<close> and the
  files and the config of the VPN host, as one program. The first part is about jobs that turn
  a customer off, the second about the config files customers are sent.
\<close>

subsection \<open>Turning a customer off\<close>

definition off_job :: "job \<Rightarrow> bool" where
  "off_job j \<longleftrightarrow> job_job_type j = DISABLE_PEER \<or> job_job_type j = REMOVE_PEER"

definition off_call :: "'p provisioner \<Rightarrow> job \<Rightarrow> vpn_server \<Rightarrow> string \<Rightarrow> (unit, 'p) provisioning" where
  "off_call P j = (if job_job_type j = DISABLE_PEER then pv_disable P else pv_remove P)"

definition off_row :: "datetime \<Rightarrow> job \<Rightarrow> subscription \<Rightarrow> subscription" where
  "off_row now j = (if job_job_type j = DISABLE_PEER then disabled now else removed now)"

text \<open>A job for a subscription with a peer that is not renewed, its server in the database.\<close>

definition due_off :: "datetime \<Rightarrow> job \<Rightarrow> db \<Rightarrow> subscription \<Rightarrow> vpn_server \<Rightarrow> string \<Rightarrow> bool" where
  "due_off now j d sub srv x \<longleftrightarrow>
     off_job j \<and> get_sub (job_aggregate_id j) d = Some sub \<and> \<not> renewed now sub j \<and>
     sub_peer_external_id sub = Some x \<and> x \<noteq> [] \<and> get_server (sub_server_id sub) d = Some srv"

lemma off_step:
  assumes "due_off now j (s_db s) sub srv x"
  shows "process_job env now aid (Some j) s =
    act_bind (peer_act (off_call (we_prov env) j srv x)) (\<lambda>_.
    act_bind (set_act (upd_sub (sub_id sub) (off_row now j))) (\<lambda>_.
      system_event now aid (if job_job_type j = DISABLE_PEER then ''subscription.disabled''
        else ''subscription.removed'') (sub_id sub) [])) s"
proof -
  have id: "get_sub (sub_id sub) (s_db s) = Some sub"
    using assms get_sub_id [of "job_aggregate_id j" "s_db s" sub] by (simp add: due_off_def)
  then show ?thesis
    using assms
    by (auto simp: process_job_def disable_peer_step_def remove_peer_step_def peer_off_step_def due_off_def
        off_job_def off_call_def off_row_def has_peer_def mark_disabled_def mark_removed_def act_bind_def
        peer_act_def set_act_def split: sum.split prod.split)
qed

lemma off_row_id [simp]: "sub_id (off_row now j s) = sub_id s"
  by (simp add: off_row_def disabled_def removed_def)

lemma off_row_unique [unique_simps]: "db_unique (upd_sub i (off_row now j) d) = db_unique d"
  by (simp add: off_row_def unique_simps)

lemma event_outside:
  "s_peers (snd (system_event now aid e i m s)) = s_peers s" "s_out (snd (system_event now aid e i m s)) = s_out s"
  by (simp_all add: system_event_def db_act_def split: sum.split prod.split)

lemma off_outcome:
  assumes "due_off now j (s_db s) sub srv x" "get_job jid (s_db s) = Some j"
    and "off_call (we_prov env) j srv x (s_peers s) = (r, p')"
  shows "s_peers (run_job env now aid jid s) = p'"
    and "job_status j \<noteq> SUCCEEDED \<Longrightarrow> get_job jid (s_db (run_job env now aid jid s)) = Some j' \<Longrightarrow>
      job_status j' = SUCCEEDED \<Longrightarrow> r = Inr () \<and> j' = complete_job now j \<and>
      get_sub (sub_id sub) (s_db (run_job env now aid jid s)) = Some (off_row now j sub)"
    and "r = Inr () \<Longrightarrow> db_unique (s_db s) \<Longrightarrow> aid \<notin> aud_id ` set (audits (s_db s)) \<Longrightarrow>
      get_job jid (s_db (run_job env now aid jid s)) = Some (complete_job now j) \<and>
      get_sub (sub_id sub) (s_db (run_job env now aid jid s)) = Some (off_row now j sub)"
proof -
  have id: "get_sub (sub_id sub) (s_db s) = Some sub"
    using assms(1) get_sub_id [of "job_aggregate_id j" "s_db s" sub] by (simp add: due_off_def)
  let ?s1 = "s\<lparr>s_peers := p', s_db := upd_sub (sub_id sub) (off_row now j) (s_db s)\<rparr>"
  let ?ev = "system_event now aid (if job_job_type j = DISABLE_PEER then ''subscription.disabled''
      else ''subscription.removed'') (sub_id sub) [] ?s1"
  have p: "process_job env now aid (Some j) s = (case r of Inl e \<Rightarrow> (Inl e, s\<lparr>s_peers := p'\<rparr>) | Inr u \<Rightarrow> ?ev)"
    using assms(3) by (simp add: off_step [OF assms(1)] act_bind_def peer_act_def set_act_def split: sum.split)
  have fin: "r = Inr () \<and> get_job jid (s_db (run_job env now aid jid s)) = Some (complete_job now j) \<and>
      get_sub (sub_id sub) (s_db (run_job env now aid jid s)) = Some (off_row now j sub)"
    if "process_job env now aid (Some j) s = (Inr u, s2)" for u s2
  proof -
    have r: "r = Inr ()" and s2: "?ev = (Inr u, s2)"
      using that p by (cases r; simp)+
    then obtain a where d: "s_db s2 = add_audit a (upd_sub (sub_id sub) (off_row now j) (s_db s))"
      by (auto simp: system_event_def db_act_def res_simps split: sum.splits prod.splits)
    have run: "run_job env now aid jid s = s2\<lparr>s_db := snd (mark_completed jid now (s_db s2))\<rparr>"
      by (rule run_job_Inr) (simp add: assms(2) that)
    show ?thesis
      using r id assms(2)
      by (simp add: run d row_simps mark_completed_def find_update_row)
  qed
  show "s_peers (run_job env now aid jid s) = p'"
  proof (cases "process_job env now aid (Some j) s")
    case (Pair q s2)
    then have "s2 = snd (process_job env now aid (Some j) s)" by simp
    then have "s_peers s2 = p'" by (simp add: p event_outside split: sum.split)
    with Pair show ?thesis
      using run_job_Inl(2) [of env now aid jid s] run_job_Inr [of env now aid jid s] assms(2)
      by (cases q) auto
  qed
  show "r = Inr () \<and> j' = complete_job now j \<and>
      get_sub (sub_id sub) (s_db (run_job env now aid jid s)) = Some (off_row now j sub)"
    if "job_status j \<noteq> SUCCEEDED" "get_job jid (s_db (run_job env now aid jid s)) = Some j'"
      "job_status j' = SUCCEEDED"
  proof (cases "process_job env now aid (Some j) s")
    case (Pair q s2)
    have "q \<noteq> Inl e" for e
      using failed_job_result [OF assms(2), of env now aid e s2] Pair that(2,3) by (auto split: if_splits)
    then obtain u where "q = Inr u" by (cases q) auto
    with fin [of u s2] Pair that(2) show ?thesis by simp
  qed
  show "get_job jid (s_db (run_job env now aid jid s)) = Some (complete_job now j) \<and>
      get_sub (sub_id sub) (s_db (run_job env now aid jid s)) = Some (off_row now j sub)"
    if "r = Inr ()" "db_unique (s_db s)" "aid \<notin> aud_id ` set (audits (s_db s))"
  proof -
    have "\<exists>s2. ?ev = (Inr (), s2)"
      using that(2,3)
      by (auto simp: system_event_def db_act_def record_event_def bind_res_def flush_def db_unique_add_audit
          new_audit_def unique_simps)
    then show ?thesis using fin p that(1) by auto
  qed
qed

text \<open>Any provisioner that keeps the contract: the job touches this peer only, and a job that is
  recorded as done has taken it off.\<close>

context peer_service
begin

lemma off_job_kept:
  assumes "due_off now j (s_db s) sub srv x" "get_job jid (s_db s) = Some j" "we_prov env = P"
    "invar (s_peers s)" "x \<in> ids"
  shows "invar (s_peers (run_job env now aid jid s)) \<and>
    peers_on (s_peers (run_job env now aid jid s)) - {x} = peers_on (s_peers s) - {x}"
proof -
  obtain r p' where c: "off_call P j srv x (s_peers s) = (r, p')" by force
  then have "invar p' \<and> peers_on p' - {x} = peers_on (s_peers s) - {x}"
    using disable_invar [OF assms(4), of srv x] remove_invar [OF assms(4), of srv x]
      disable_frame [OF assms(4,5), of srv] remove_frame [OF assms(4,5), of srv]
    by (auto simp: off_call_def split: if_splits)
  with c assms(3) show ?thesis by (simp add: off_outcome(1) [OF assms(1,2)])
qed

lemma off_job_done:
  assumes "due_off now j (s_db s) sub srv x" "get_job jid (s_db s) = Some j" "we_prov env = P"
    "invar (s_peers s)" "x \<in> ids" "job_status j \<noteq> SUCCEEDED"
    "get_job jid (s_db (run_job env now aid jid s)) = Some j'" "job_status j' = SUCCEEDED"
  shows "peers_on (s_peers (run_job env now aid jid s)) = peers_on (s_peers s) - {x} \<and>
    get_sub (sub_id sub) (s_db (run_job env now aid jid s)) = Some (off_row now j sub)"
proof -
  obtain r p' where c: "off_call (we_prov env) j srv x (s_peers s) = (r, p')" by force
  note out = off_outcome [OF assms(1,2) c]
  have "r = Inr ()" "get_sub (sub_id sub) (s_db (run_job env now aid jid s)) = Some (off_row now j sub)"
    using out(2) [OF assms(6,7,8)] by simp_all
  with c assms(3) disable_off [OF assms(4,5)] remove_gone [OF assms(4,5)] out(1) show ?thesis
    by (auto simp: off_call_def split: if_splits)
qed

end

text \<open>C7. A customer who no longer pays is turned off, from the job in the database to the server
  config of the VPN host. Whatever fails on the way, a disable or remove job changes no other
  customer's peer; the job is recorded as done only if exactly this customer's peer is out of
  the server config (the subscription then says so too); and it is recorded as done when the
  exchange is answered and the VPN host works.\<close>

theorem expired_customer_turned_off:
  assumes "due_off now j (s_db s) sub srv x" "get_job jid (s_db s) = Some j" "job_status j \<noteq> SUCCEEDED"
    "is_identifier x" "in_order (s_peers s)" "we_prov env = vpnctl_provisioner (wired vc lib st me fates)"
    "s' = run_job env now aid jid s" "get_job jid (s_db s') = Some j'"
  shows "wire_on (s_peers s') - {x} = wire_on (s_peers s) - {x} \<and>
    (job_status j' = SUCCEEDED \<longrightarrow> wire_on (s_peers s') = wire_on (s_peers s) - {x} \<and>
       get_sub (sub_id sub) (s_db s') = Some (off_row now j sub)) \<and>
    (is_local_host (srv_host srv) \<longrightarrow> answered fates (s_peers s) vc srv \<longrightarrow>
       load_settings lib st = Inr cfg \<longrightarrow> host_works (nw_host (s_peers s)) \<longrightarrow>
       db_unique (s_db s) \<longrightarrow> aid \<notin> aud_id ` set (audits (s_db s)) \<longrightarrow> j' = complete_job now j)"
proof (intro conjI impI)
  have x: "x \<in> {x. is_identifier x}" using assms(4) by simp
  show "wire_on (s_peers s') - {x} = wire_on (s_peers s) - {x}"
    using vpn_host.off_job_kept [OF assms(1,2,6,5) x] assms(7) by simp
  assume "job_status j' = SUCCEEDED"
  with vpn_host.off_job_done [OF assms(1,2,6,5) x assms(3)] assms(7,8)
  show "wire_on (s_peers s') = wire_on (s_peers s) - {x}"
    "get_sub (sub_id sub) (s_db s') = Some (off_row now j sub)" by blast+
next
  assume h: "is_local_host (srv_host srv)" "answered fates (s_peers s) vc srv" "load_settings lib st = Inr cfg"
    "host_works (nw_host (s_peers s))" "db_unique (s_db s)" "aid \<notin> aud_id ` set (audits (s_db s))"
  let ?vc = "wired vc lib st me fates"
  obtain w1 where w1: "vpnctl_peer_command ''disable-peer'' ?vc srv x (s_peers s) = (Inr (), w1)"
    by (rule disable_ok_wire [OF assms(5) h(4,3) assms(4) h(1,2)])
  obtain w2 where w2: "vpnctl_peer_command ''remove-peer'' ?vc srv x (s_peers s) = (Inr (), w2)"
    by (rule remove_ok_wire [OF assms(5) h(4,3) assms(4) h(1,2)])
  have "\<exists>w. off_call (we_prov env) j srv x (s_peers s) = (Inr (), w)"
    using w1 w2 by (simp add: off_call_def assms(6) vpnctl_provisioner_def)
  then show "j' = complete_job now j"
    using off_outcome(3) [OF assms(1,2) _ refl h(5,6)] assms(7,8) by auto
qed

subsection \<open>A deployment with one customer\<close>

definition shop_env :: "net_world worker_env" where
  "shop_env =
     \<lparr>we_prov = vpnctl_provisioner (wired sample_vc sample_lib None None (\<lambda>n r. Answered [1] [2])),
      we_tg = (\<lambda>n. True), we_link = link_of stored, we_admin_chat_id = 900, we_worker_id = ''w1''\<rparr>"

definition expired_sub :: subscription where
  "expired_sub = sample_sub\<lparr>sub_peer_external_id := Some ''p_6'', sub_peer_label := Some ''p_6''\<rparr>"

definition expired_session :: "net_world session" where
  "expired_session =
     \<lparr>s_db = sub_db\<lparr>subs := [expired_sub], jobs := [disable_job]\<rparr>, s_peers = sample_net, s_out = []\<rparr>"

theorem expired_customer_turned_off_witness:
  "\<exists>s'. s' = run_job shop_env (noon + 1) 95 8 expired_session \<and> wire_on (s_peers s') = {} \<and>
     get_job 8 (s_db s') = Some (complete_job (noon + 1) disable_job) \<and>
     get_sub 6 (s_db s') = Some (disabled (noon + 1) expired_sub)"
proof -
  let ?s' = "run_job shop_env (noon + 1) 95 8 expired_session"
  have j: "get_job 8 (s_db expired_session) = Some disable_job" "job_status disable_job \<noteq> SUCCEEDED"
    by (simp_all add: expired_session_def disable_job_def sample_db_defs)
  have due: "due_off (noon + 1) disable_job (s_db expired_session) expired_sub sample_server ''p_6''"
    by (simp add: due_off_def off_job_def expired_session_def expired_sub_def disable_job_def renewed_def
        sample_db_defs)
  have "\<exists>j'. get_job 8 (s_db ?s') = Some j'"
  proof (cases "process_job shop_env (noon + 1) 95 (Some disable_job) expired_session")
    case (Pair q s2)
    show ?thesis
    proof (cases q)
      case (Inl e)
      then show ?thesis using failed_job_result [OF j(1)] Pair by blast
    next
      case (Inr u)
      have "run_job shop_env (noon + 1) 95 8 expired_session = s2\<lparr>s_db := snd (mark_completed 8 (noon + 1) (s_db s2))\<rparr>"
        by (rule run_job_Inr) (simp add: j Pair Inr)
      moreover have "jobs (s_db s2) = jobs (s_db expired_session)"
        using job_frame.process_keeps [OF Pair] by (simp add: worker_frame_def)
      ultimately show ?thesis using j(1) by (simp add: row_simps)
    qed
  qed
  then obtain j' where j': "get_job 8 (s_db ?s') = Some j'" by blast
  have u: "db_unique (s_db expired_session)" "95 \<notin> aud_id ` set (audits (s_db expired_session))"
    by (simp_all add: expired_session_def expired_sub_def db_unique_def distinct_opt_def disable_job_def
        sample_db_defs)
  have p: "s_peers expired_session = sample_net" "sub_id expired_sub = 6"
    by (simp_all add: expired_session_def expired_sub_def sample_defs)
  note t = expired_customer_turned_off [OF due j sample_words(1) _ _ refl j', unfolded p, OF sample_in_order,
      of sample_vc sample_lib None None "\<lambda>n r. Answered [1] [2]" vpnctl_defaults]
  have "j' = complete_job (noon + 1) disable_job"
    using t local_server_local sample_works u sample_settings [of sample_lib]
    by (simp add: shop_env_def answered_def local_server_def sample_server_def)
  with t j' show ?thesis
    by (simp add: shop_env_def sample_on complete_job_def off_row_def disable_job_def)
qed

subsection \<open>The files customers are sent\<close>

text \<open>A file to the customer of the job's subscription with the config saved on the VPN host under
  the label of the subscription, or under the name its peer has in the database.\<close>

definition own_config :: "db \<Rightarrow> job \<Rightarrow> net_world \<Rightarrow> int \<Rightarrow> string \<Rightarrow> bool" where
  "own_config d j w chat b \<longleftrightarrow>
     (\<exists>sub srv u n s. get_sub (job_aggregate_id j) d = Some sub \<and>
        get_server (sub_server_id sub) d = Some srv \<and> get_user (sub_user_id sub) d = Some u \<and>
        chat = user_telegram_id u \<and>
        (n = vpnctl_label srv (sub_id sub) (user_telegram_id u) \<or> sub_peer_external_id sub = Some n) \<and>
        client_file n ''conf'' (nw_host w) = Some s \<and> b = map char_of (utf8_encode (utext s)))"

definition own_files :: "db \<Rightarrow> job \<Rightarrow> net_world \<Rightarrow> (out \<times> bool) list \<Rightarrow> bool" where
  "own_files d j w ms = (\<forall>c f b t k ok. (Send_File c f b t k, ok) \<in> set ms \<longrightarrow> own_config d j w c b)"

lemma no_files: "list_all (\<lambda>m. \<not> is_file m) ms \<Longrightarrow> own_files d j w ms"
  by (force simp: own_files_def list_all_iff is_file_def)

lemma one_file:
  "own_config d j w c b \<Longrightarrow> list_all (\<lambda>m. \<not> is_file m) ms \<Longrightarrow> own_files d j w ((Send_File c f b t k, ok) # ms)"
  using no_files [of ms d j w] by (auto simp: own_files_def)

lemma activate_outside:
  "s_peers (snd (activate_rows now aid sub srv peer s)) = s_peers s"
  "s_out (snd (activate_rows now aid sub srv peer s)) = s_out s"
  by (simp_all add: activate_rows_def act_bind_def db_act_def set_act_def event_outside split: sum.split prod.split)

lemma create_files:
  assumes "in_order (s_peers s)" "we_prov env = vpnctl_provisioner (wired vc lib st me fates)"
    "create_peer_step env now aid j s = (r, s1)"
  shows "\<exists>ms. s_out s1 = s_out s @ ms \<and> own_files (s_db s) j (s_peers s1) ms"
proof (cases "create_rows j (s_db s)")
  case (Inl e)
  then have "s1 = s" using assms(3) by (auto simp: create_peer_step_def act_bind_def)
  then show ?thesis using no_files [of "[]"] by simp
next
  case (Inr rows)
  obtain sub srv u where rows: "rows = (sub, srv, u)" by (cases rows)
  obtain q p' where c: "pv_create (we_prov env) srv (sub_id sub) (user_telegram_id u) (s_peers s) = (q, p')"
    by force
  let ?s2 = "s\<lparr>s_peers := p'\<rparr>"
  show ?thesis
  proof (cases q)
    case (Inl e)
    with assms(3) have "s1 = ?s2"
      by (auto simp: create_peer_step_def act_bind_def peer_act_def \<open>create_rows j (s_db s) = Inr rows\<close> rows c)
    then show ?thesis using no_files [of "[]"] by simp
  next
    case peer: (Inr peer)
    obtain a s3 where a: "activate_rows now aid sub srv peer ?s2 = (a, s3)" by force
    have s3: "s_peers s3 = p'" "s_out s3 = s_out s"
      using activate_outside [of now aid sub srv peer ?s2] a by simp_all
    have step: "(case a of Inl e \<Rightarrow> (Inl e, s3) | Inr v \<Rightarrow> deliver_new_peer env sub srv u peer s3) = (r, s1)"
      using assms(3) by (simp add: create_peer_step_def act_bind_def peer_act_def Inr rows c peer a split: sum.splits)
    show ?thesis
    proof (cases a)
      case (Inl e)
      then show ?thesis using step s3 no_files [of "[]"] by auto
    next
      case (Inr v)
      then have d: "deliver_new_peer env sub srv u peer s3 = (r, s1)" using step by simp
      have "own_config (s_db s) j p' (user_telegram_id u) (pp_config peer)"
        using create_delivers [OF assms(1), of vc lib st me fates srv "sub_id sub" "user_telegram_id u" peer p']
          c \<open>create_rows j (s_db s) = Inr rows\<close> rows
        by (auto simp: own_config_def assms(2) peer create_rows_def split: option.splits)
      then show ?thesis
        using deliver_new_peer_result(2,4) [OF d] one_file s3 by fastforce
    qed
  qed
qed

lemma redeliver_result:
  assumes "redeliver_to env sub srv u s = (r, s1)"
  obtains (refused) "s_out s1 = s_out s"
  | (sent) config f ms where
      "pv_config (we_prov env) srv (the (sub_peer_external_id sub)) (s_peers s) = (Inr config, s_peers s1)"
      "s_out s1 = s_out s @ (Send_File (user_telegram_id u) f config
         (get_text ''config_redelivery'' (user_language_code u)
            [(''server_name'', server_name srv (user_language_code u))]) [], we_tg env (length (s_out s))) # ms"
      "list_all (\<lambda>m. \<not> is_file m) ms"
  using assms
  by (auto simp: redeliver_to_def deliver_config_def act_bind_def tg_send_def set_act_def peer_act_def raise_act_def
      Let_def is_file_def split: option.splits if_splits prod.splits sum.splits)

lemma redeliver_files:
  assumes "we_prov env = vpnctl_provisioner (wired vc lib st me fates)" "redeliver_step env j s = (r, s1)"
  shows "\<exists>ms. s_out s1 = s_out s @ ms \<and> own_files (s_db s) j (s_peers s1) ms"
proof (cases "\<exists>sub srv u. get_sub (job_aggregate_id j) (s_db s) = Some sub \<and> has_peer sub \<and>
    get_server (sub_server_id sub) (s_db s) = Some srv \<and> get_user (sub_user_id sub) (s_db s) = Some u")
  case True
  then obtain sub srv u where rows: "get_sub (job_aggregate_id j) (s_db s) = Some sub" "has_peer sub"
    "get_server (sub_server_id sub) (s_db s) = Some srv" "get_user (sub_user_id sub) (s_db s) = Some u" by blast
  then have "redeliver_to env sub srv u s = (r, s1)"
    using assms(2) by (simp add: redeliver_step_def)
  then show ?thesis
  proof (cases rule: redeliver_result)
    case refused
    then show ?thesis using no_files [of "[]"] by simp
  next
    case (sent config f ms)
    obtain n where "sub_peer_external_id sub = Some n"
      using rows(2) by (auto simp: has_peer_def split: option.splits)
    with sent(1) config_delivers [of vc lib st me fates srv n "s_peers s" config "s_peers s1"] rows
    have "own_config (s_db s) j (s_peers s1) (user_telegram_id u) config"
      by (auto simp: own_config_def assms(1))
    with sent(2,3) one_file show ?thesis by fast
  qed
next
  case False
  then have "s1 = s"
    using assms(2) by (auto simp: redeliver_step_def done_act_def split: option.splits if_splits)
  then show ?thesis using no_files [of "[]"] by simp
qed

lemma silent_steps:
  "s_out (snd (peer_off_step now j act mark aid ev s)) = s_out s"
  "s_out (snd (enable_peer_step env now aid j s)) = s_out s"
  by (auto simp: peer_off_step_def enable_peer_step_def act_bind_def peer_act_def set_act_def done_act_def
      event_outside split: option.split sum.split prod.split)

lemma process_files:
  assumes "in_order (s_peers s)" "we_prov env = vpnctl_provisioner (wired vc lib st me fates)"
    "process_job env now aid (Some j) s = (r, s1)"
  shows "\<exists>ms. s_out s1 = s_out s @ ms \<and> own_files (s_db s) j (s_peers s1) ms"
proof -
  have silent: ?thesis if "s_out s1 = s_out s" using that no_files [of "[]"] by simp
  have s1: "s1 = snd (process_job env now aid (Some j) s)" by (simp add: assms(3))
  show ?thesis
  proof (cases "job_job_type j")
    case CREATE_PEER
    with assms(3) create_files [OF assms(1,2)] show ?thesis by (simp add: process_job_def)
  next
    case REDELIVER_CONFIG
    with assms(3) redeliver_files [OF assms(2)] show ?thesis by (simp add: process_job_def)
  qed (rule silent, simp add: s1 process_job_def disable_peer_step_def remove_peer_step_def silent_steps)+
qed

lemma alert_no_file: "\<exists>ms. s_out (snd (alert_admin env t b s)) = s_out s @ ms \<and> list_all (\<lambda>m. \<not> is_file m) ms"
  by (simp add: alert_admin_def act_bind_def tg_send_def done_act_def is_file_def Let_def)

lemma own_files_append: "own_files d j w (ms @ ns) \<longleftrightarrow> own_files d j w ms \<and> own_files d j w ns"
  unfolding own_files_def set_append Un_iff by blast

text \<open>C6. Nobody gets another customer's config. Whatever a job does and however it ends, every file
  it sends goes to the owner of the job's subscription, and is byte for byte the config that the
  VPN host has saved for that subscription: under the label made for it, or under the name its
  peer has in the database. The reply of the network cannot put another client's file there.\<close>

theorem customers_get_own_config:
  assumes "in_order (s_peers s)" "we_prov env = vpnctl_provisioner (wired vc lib st me fates)"
    "get_job jid (s_db s) = Some j" "s' = run_job env now aid jid s"
  shows "\<exists>ms. s_out s' = s_out s @ ms \<and> own_files (s_db s) j (s_peers s') ms"
proof (cases "process_job env now aid (Some j) s")
  case (Pair r s1)
  obtain ms where ms: "s_out s1 = s_out s @ ms" "own_files (s_db s) j (s_peers s1) ms"
    using process_files [OF assms(1,2) Pair] by blast
  have "\<exists>ns. s_out s' = s_out s1 @ ns \<and> list_all (\<lambda>m. \<not> is_file m) ns \<and> s_peers s' = s_peers s1"
  proof (cases r)
    case (Inl e)
    with Pair alert_no_file [of env] show ?thesis
      by (auto simp: assms(3,4) run_job_def alert_admin_same Let_def split: prod.split option.split)
        (metis session.select_convs(3) session.surjective session.update_convs(1))
  next
    case (Inr u)
    with Pair show ?thesis by (simp add: assms(3,4) run_job_def)
  qed
  with ms show ?thesis
    by (auto simp: own_files_append no_files)
qed

text \<open>The customer's peer was made by an attempt the answer of which was lost.\<close>

definition paid_sub :: subscription where
  "paid_sub = sample_sub\<lparr>sub_status := S_PROVISIONING, sub_peer_external_id := None, sub_peer_label := None\<rparr>"

definition paid_session :: "net_world session" where
  "paid_session = \<lparr>s_db = job_db\<lparr>subs := [paid_sub]\<rparr>, s_peers = config_net, s_out = []\<rparr>"

theorem customers_get_own_config_witness:
  "\<exists>f t k. (Send_File 5001 f ''A'' t k, True) \<in> set (s_out (run_job shop_env 41 95 8 paid_session))"
proof -
  let ?s' = "run_job shop_env 41 95 8 paid_session"
  have srv: "local_server = sample_server"
    by (simp add: local_server_def sample_server_def)
  obtain peer where c: "pv_create (we_prov shop_env) sample_server (sub_id paid_sub) (user_telegram_id sample_user)
      (s_peers paid_session) = (Inr peer, \<lparr>nw_host = host_with_config, nw_calls = 1\<rparr>)"
    using config_net_create by (auto simp: shop_env_def srv paid_sub_def paid_session_def sample_defs)
  have rows: "get_job 8 (s_db paid_session) = Some sample_job" "job_job_type sample_job = CREATE_PEER"
    "get_sub (job_aggregate_id sample_job) (s_db paid_session) = Some paid_sub"
    "get_server (sub_server_id paid_sub) (s_db paid_session) = Some sample_server"
    "get_user (sub_user_id paid_sub) (s_db paid_session) = Some sample_user"
    by (simp_all add: paid_session_def paid_sub_def sample_db_defs)
  have u: "db_unique (s_db paid_session)" "95 \<notin> aud_id ` set (audits (s_db paid_session))"
    "\<forall>r \<in> set (subs (s_db paid_session)). sub_id r \<noteq> sub_id paid_sub \<longrightarrow>
      sub_peer_external_id r \<noteq> Some (pp_external_id peer) \<and> sub_peer_label r \<noteq> Some (pp_label peer)"
    by (simp_all add: paid_session_def paid_sub_def db_unique_def distinct_opt_def sample_db_defs)
  have tg: "we_tg shop_env n" "user_telegram_id sample_user = 5001" "sub_id paid_sub = 6"
    "sub_peer_external_id paid_sub = None" for n
    by (simp_all add: shop_env_def paid_sub_def sample_defs)
  obtain f b t k where sent: "(Send_File 5001 f b t k, True) \<in> set (s_out ?s')"
    and w: "s_peers ?s' = \<lparr>nw_host = host_with_config, nw_calls = 1\<rparr>"
    using create_job_result [OF rows c u refl, of 41] by (fastforce simp: tg)
  have "s_out paid_session = []" "in_order (s_peers paid_session)"
    using config_net_order by (simp_all add: paid_session_def)
  with customers_get_own_config [OF _ _ rows(1) refl, of shop_env sample_vc sample_lib None None
      "\<lambda>n r. Answered [1] [2]" 41 95]
  have "own_files (s_db paid_session) sample_job (s_peers ?s') (s_out ?s')"
    by (auto simp: shop_env_def)
  with sent have "own_config (s_db paid_session) sample_job (s_peers ?s') 5001 b"
    unfolding own_files_def by blast
  then have "b = map char_of (utf8_encode (utext ''A''))"
    using rows(3-5) config_found by (auto simp: own_config_def w tg srv sample_label_def)
  moreover have "char_of (of_char CHR ''A'' :: nat) = CHR ''A''" by (rule char_of_char)
  ultimately have "b = ''A''" by (simp add: utf8_encode_def utf8_char_def)
  with sent show ?thesis by blast
qed

end
