(* ===== verification/Audit_Safe.thy ===== *)
theory Audit_Safe
  imports Bot_System
begin

section \<open>The audit log holds no secrets\<close>

text \<open>
  \<open>audit_repo.py\<close> sanitises the metadata of the events recorded through it, but
  \<open>order_repo.py\<close> enters its events past it (\<open>approve_order_atomic\<close>, \<open>_approve_renewal\<close>,
  \<open>reject_order\<close>). The theory proves for the whole system that the log stays clean all the
  same: the ledger of \<open>Ledger\<close> takes a clean event only, every step refines postings to it, so a
  clean log is an invariant of every run. What is under a secret key and what a link is are
  said without the code (\<open>secret_key\<close>, \<open>has_link\<close>).
\<close>

definition clean_log :: "db \<Rightarrow> bool" where
  "clean_log d \<longleftrightarrow> db_unique d \<and> (\<forall>r \<in> set (orders d). \<not> has_link (ord_code r)) \<and>
     (\<forall>e \<in> set (audits d). clean_event e)"

lemma clean_log_ledger: "clean_log d \<longleftrightarrow> db_unique d \<and> clean_ledger (books d)"
  by (simp add: clean_log_def clean_ledger_def books_def)

lemma empty_clean: "clean_log empty_db"
  by (simp add: clean_log_def db_unique_empty) (simp add: empty_db_def)

lemma evolves_clean: "evolves d d' \<Longrightarrow> clean_log d \<Longrightarrow> clean_log d'"
  using posts_clean by (auto simp: evolves_def clean_log_ledger)

text \<open>C25. No secret reaches the audit log. The empty database has a clean log, and in every state
  reached from one with a clean log, by any updates, polls, jobs, checks and restarts, every
  audit event is clean, whoever wrote it: a value under a key that holds one of the words
  secret, token, password, key and private, in small or capital letters, is the mark
  \<open>[REDACTED]\<close>, and no text holds the link of a config. And sanitising takes out no more: an
  event recorded through the audit repository is the last of the log and has the keys given, in
  order, each with its value but for the mark under a secret key and the redaction of texts.\<close>

theorem audit_log_clean:
  assumes "sys_step\<^sup>*\<^sup>* s s'" "clean_log (sy_db s)"
  shows "clean_log (sy_db s') \<and> clean_log (sy_db (fresh_system p)) \<and>
    (case record_event now aid actor tg ev ent i meta (sy_db s') of
       Inl e \<Rightarrow> e = IntegrityError \<and> aid \<in> aud_id ` set (audits (sy_db s'))
     | Inr d' \<Rightarrow> \<exists>e. audits d' = audits (sy_db s') @ [e] \<and> clean_event e \<and>
         list_all2 stored_entry meta (aud_metadata e))"
proof (intro conjI)
  show c: "clean_log (sy_db s')"
    using evolves_clean [OF steps_evolve [OF assms(1)] assms(2)] .
  show "clean_log (sy_db (fresh_system p))"
    using empty_clean by (simp add: fresh_system_def sy_db_def)
  show "case record_event now aid actor tg ev ent i meta (sy_db s') of
       Inl e \<Rightarrow> e = IntegrityError \<and> aid \<in> aud_id ` set (audits (sy_db s'))
     | Inr d' \<Rightarrow> \<exists>e. audits d' = audits (sy_db s') @ [e] \<and> clean_event e \<and>
         list_all2 stored_entry meta (aud_metadata e)"
  proof (cases "record_event now aid actor tg ev ent i meta (sy_db s')")
    case (Inl e)
    with c show ?thesis
      by (auto simp: record_event_def flush_def clean_log_def db_unique_def add_audit_def new_audit_def
          split: if_splits)
  next
    case (Inr d')
    with record_event_stores [OF Inr] show ?thesis by auto
  qed
qed

text \<open>The witness: a press of an administrator, and an event with a token in its metadata.\<close>

lemma order_db_clean: "clean_log order_db"
proof -
  have "\<not> has_link ''ORD-AAAAAA''" by (rule no_colon_no_link) simp
  then show ?thesis
    by (simp add: clean_log_def order_db_unique) (simp add: sample_db_defs)
qed

theorem audit_log_clean_witness:
  "clean_log (sy_db approved_system) \<and>
   (\<exists>d' e. record_event 40 95 A_SYSTEM None ''test'' ''job'' None
        [(''Api_Token'', JStr ''t0p''), (''days'', JInt 3)] order_db = Inr d' \<and>
      audits d' = [e] \<and> aud_metadata e = [(''Api_Token'', JStr ''[REDACTED]''), (''days'', JInt 3)])"
proof
  have c: "clean_log (sy_db review_system)" by (simp add: order_db_clean)
  show "clean_log (sy_db approved_system)"
    using audit_log_clean [OF r_into_rtranclp [of sys_step, OF approved_step] c, THEN conjunct1] .
  let ?m = "[(''Api_Token'', JStr ''t0p''), (''days'', JInt 3)]"
  let ?r = "record_event 40 95 A_SYSTEM None ''test'' ''job'' None ?m order_db"
  have a: "audits order_db = []" by (simp add: sample_db_defs)
  have k: "secret_key ''Api_Token''" "\<not> secret_key ''days''"
    unfolding names_secret_iff [symmetric] by (code_simp, code_simp)
  from audit_log_clean [OF rtranclp.rtrancl_refl [of sys_step] c, where p = "()" and now = 40 and
      aid = 95 and actor = A_SYSTEM and tg = None and ev = "''test''" and ent = "''job''" and
      i = None and meta = ?m] a
  obtain d' e where "?r = Inr d'" "audits d' = [e]" "list_all2 stored_entry ?m (aud_metadata e)"
    by (auto split: sum.splits)
  moreover from this(3) have "aud_metadata e = [(''Api_Token'', JStr ''[REDACTED]''), (''days'', JInt 3)]"
    by (auto simp: list_all2_Cons1 k)
  ultimately show "\<exists>d' e. ?r = Inr d' \<and> audits d' = [e] \<and>
      aud_metadata e = [(''Api_Token'', JStr ''[REDACTED]''), (''days'', JInt 3)]" by blast
qed

text \<open>What keeps the rejections clean is the constant the handler passes: \<open>reject_order\<close> itself
  stores the reason in the log as it is given.\<close>

lemma reason_stored_as_given:
  "\<exists>ro d' e. reject_order 40 95 4 900 (Some ''vpn://AAAA'') order_db = Inr ((True, ro), d') \<and> audits d' = [e] \<and>
     (''reason'', JStr ''vpn://AAAA'') \<in> set (aud_metadata e) \<and> \<not> clean_event e"
proof -
  have "has_link ''vpn://AAAA''" by (simp add: is_link_def is_url_char_def is_alnum_def)
  then have n: "\<not> clean_event e" if "(''reason'', JStr ''vpn://AAAA'') \<in> set (aud_metadata e)" for e
    using that by (auto simp: clean_event_def simp del: has_link.simps)
  have "\<exists>ro d' e. reject_order 40 95 4 900 (Some ''vpn://AAAA'') order_db = Inr ((True, ro), d') \<and> audits d' = [e] \<and>
     (''reason'', JStr ''vpn://AAAA'') \<in> set (aud_metadata e)"
    by (simp add: reject_order_def rejected_row_def rejection_audit_def approve_defs sample_db_defs)
  then show ?thesis using n by blast
qed

end
