(* ===== verification/Spec2Isabelle.thy ===== *)
theory Spec2Isabelle
  imports Worker_Outcomes Scheduler Customer_Orders Retry_Safe Order_Review Dispatch_Safe
    Vpnctl_Safe Schema Worker_Termination Bot_System Redaction_Safe Reconciliation Db_Session Texts_Safe
    Vpnctl_Access Vpnctl_Retries Deployment Audit_Safe
begin

text \<open>
  A model of the AmneziaWG VPN shop bot (\<open>src/src/app\<close>) and of the script its VPN hosts run
  (\<open>src/scripts/provisioner/vpnctl\<close>), and the properties that make them correct.

  \<^bold>\<open>The program.\<close> A Telegram bot sells VPN subscriptions. A customer picks a server and a plan,
  which makes an order, and sends a receipt; an administrator approves or rejects it; an
  approval makes a subscription and a provisioning job, or extends a subscription. A worker
  claims jobs from the database and has a provisioner create, disable, enable or remove the
  peer on the VPN host, and sends the config to the customer. A scheduler reminds customers of
  the expiry, queues the disabling of expired peers and the removal of those past the grace
  period. The three share one SQLite database and nothing else; bot and worker also share the
  provisioner. In a deployment that is the client of vpnctl: each call is one request, over a
  Unix socket or TCP, to the script on the VPN host, which checks the caller, edits the server
  config and the files of its clients and runs \<open>awg\<close>.

  \<^bold>\<open>How it is modelled.\<close> A row is a record with the fields of its model class, an enumeration a
  datatype, a UUID a word of 128 bits, a time a number of microseconds, money a number of
  hundredths, the database a record of the tables as lists of rows in the order of insertion.
  A repository method is a function from the database to a result and a new database, or to the
  exception it raises (\<open>exn + 'a\<close>); \<open>utc_now()\<close>, drawn UUIDs and random draws are arguments.
  UNIQUE constraints are checked by \<open>flush\<close> (\<open>db_unique\<close>). A handler, a job and a check are
  attempts on a state, returning or raising; the state holds the rows as changed so far and
  as committed, the conversation and the calls to Telegram with their answers, so what is
  lost by a rollback, and what is sent before it, is part of the model. A command of vpnctl is
  an attempt on a host: the server config, the files, and the log of every run of \<open>awg\<close> and
  every write; what \<open>awg\<close>, the disk, \<open>ip\<close> and \<open>tailscale\<close> answer may depend on all that was done
  before. Telegram and, for the client alone, the bytes a socket delivers are parameters, with
  no assumption about them. For client and script together (\<open>host_net\<close>) an exchange has one of
  three fates: the request is lost before the script sees it, the answer is lost after the
  work was done, or both arrive, cut into pieces of any size.

  \<^bold>\<open>Theories.\<close>
  \<^item> \<open>Bot_Prelude\<close>, \<open>Py_Text\<close>: results, exceptions, lookup and update of rows, ordering; the
    methods of \<open>str\<close>, numbers and UUIDs as text.
  \<^item> \<open>Bot_Db\<close> (\<open>db/models\<close>), \<open>Bot_Samples\<close>: the tables, the codec of enumeration columns, the
    constraints; rows for the witnesses.
  \<^item> \<open>Job_Queue\<close>, \<open>Audit_Log\<close>, \<open>Subscriptions\<close>, \<open>Orders\<close>, \<open>Tickets\<close>, \<open>Catalog\<close>
    (\<open>db/repositories\<close>, \<open>bot/main.py\<close>): the repositories, one definition per method, and the
    seeding at start. A claim excludes every other for five minutes; an order is approved once;
    a new subscription, its job and its audit event come together; a restart keeps pauses.
  \<^item> \<open>Redaction\<close>, \<open>Redaction_Safe\<close> (\<open>utils/logging.py\<close>): regular expressions with
    backtracking, the eight substitutions, the log processor; no config link survives.
  \<^item> \<open>Settings\<close> (\<open>config/settings.py\<close>): variables of the environment to server settings.
  \<^item> \<open>Codec\<close> (\<open>utils/amnezia_codec.py\<close>): UTF-8, base64, the frame of Qt, with the compressor
    as a parameter; decoding inverts encoding.
  \<^item> \<open>Provisioner\<close>, \<open>Vpnctl_Client\<close>, \<open>Py_Json\<close>, \<open>Vpnctl_Safe\<close>
    (\<open>integrations/provisioning\<close>): the interface, the mock, and the client of vpnctl down to
    the JSON it sends and reads. Requests are one line and read back to what was asked; the
    token leaves the host only over TCP; which failures are permanent; what a hostile reply
    can bring about.
  \<^item> \<open>Py_Ip\<close>, \<open>Vpnctl_Conf\<close>, \<open>Vpnctl_Text\<close>, \<open>Vpnctl_Host\<close>, \<open>Vpnctl_Commands\<close>, \<open>Vpnctl_Serve\<close>
    (\<open>scripts/provisioner/vpnctl\<close>): addresses and networks as \<open>ipaddress\<close> reads them; sections,
    values and blocks of the server config, and what becomes of its peers and of the text of
    its other sections when a block is added or taken out; settings, files and runs of \<open>awg\<close>; the six commands; one request from its
    bytes to the bytes of the response, the check of the caller included.
  \<^item> \<open>Vpnctl_Logic\<close>, \<open>Vpnctl_Clients\<close>: weakest preconditions of commands, with their errors; what
    a command leaves alone and what it does to the client it names. \<open>Vpnctl_Access\<close>: nothing is
    done over TCP without address, token and tags; a request touches one client: the files of
    the others and the text of the config outside that client's blocks stay as they are
    (\<open>touches\<close>, \<open>other_sections\<close>).
    \<open>Vpnctl_Addresses\<close>: a new address is free. \<open>Vpnctl_Live\<close>, \<open>Vpnctl_Retries\<close>: the keys on the
    running interface, where removing takes the key off and two retries go wrong.
  \<^item> \<open>Vpnctl_Wire\<close>, \<open>Vpnctl_System\<close>, \<open>Vpnctl_Works\<close>, \<open>Vpnctl_Delivery\<close>, \<open>Deployment\<close>: client, network
    and script together; that they keep the contract of a provisioner whatever is lost, succeed
    when nothing is, and deliver the file that was saved; and the worker on top of them, from a
    job of the database to the server config and to the file the customer is sent.
  \<^item> \<open>Sessions\<close>, \<open>Worker\<close>, \<open>Worker_Outcomes\<close>, \<open>Worker_Termination\<close> (\<open>worker/engine.py\<close>): a poll
    and its five kinds of job. A failed job undoes its database changes and not what it did
    to the VPN host; every claimed job is settled; a renewal survives an expiry job queued
    before it; polls come to rest.
  \<^item> \<open>Scheduler\<close> (\<open>scheduler/service.py\<close>): the three checks. Each expired subscription gets one
    disabling job however often the check runs, and each reminder is sent at most once.
  \<^item> \<open>Bot_Ui\<close>, \<open>Usage\<close>, \<open>Chat\<close>, \<open>Chat_Samples\<close>, \<open>Customer\<close>, \<open>Customer_Orders\<close>, \<open>Support_Desk\<close>,
    \<open>Admin_Base\<close>, \<open>Admin\<close>, \<open>Order_Review\<close>, \<open>Admin_Jobs\<close>, \<open>Retry_Safe\<close> (\<open>bot/handlers\<close>,
    \<open>bot/keyboards\<close>, \<open>bot/ui.py\<close>, \<open>bot/usage.py\<close>): every handler whole, in the order of
    its calls, guards, commits and messages.
  \<^item> \<open>Dispatch\<close>, \<open>Dispatch_Safe\<close> (\<open>bot/middleware\<close>, the router filters, \<open>build_dispatcher\<close>): which
    handler an update reaches, throttling, the user middleware, a whole update. Nobody but an
    administrator changes anything through an administrator's handler; a blocked user
    reaches no handler.
  \<^item> \<open>Texts\<close>, \<open>Texts_Safe\<close> (\<open>bot/locales/strings.py\<close>): the templates and their formatting; every
    message that is sent fills every field of its template in both languages.
  \<^item> \<open>Ledger\<close>, \<open>Bot_System\<close>: the abstract specification, a ledger of books that are only
    appended to, each entry under the rules of its book, and the system as a step relation
    over updates, polls, jobs, checks and restarts, which refines it. \<open>Audit_Safe\<close>: one of the
    rules, that no audit event holds a secret, gives that the log of every reached state is
    clean, also with what \<open>order_repo.py\<close> writes past the audit repository.
  \<^item> \<open>Schema\<close> (\<open>db/migrations/versions\<close>): the operations of the three revisions, compared with
    the tables the models declare.
  \<^item> \<open>Reconciliation\<close> (\<open>utils/reconciliation.py\<close>, \<open>utils/health.py\<close>), \<open>Db_Session\<close>
    (\<open>db/session.py\<close>): operator's tools; the engine, the session factory and transactions.

  \<^bold>\<open>Interfaces.\<close> \<open>enum_column\<close> (an enumeration and its column values; for the six status and
  type columns), \<open>db_table\<close> (lookup after insert and update; for each table), \<open>session_frame\<close> and
  \<open>chat_frame\<close> (a relation that a piece of work keeps, rule by rule), extended by \<open>job_writes\<close>,
  \<open>check_writes\<close> and \<open>commit_frame\<close> (the writes a job, a check, a handler is made of; interpreted
  on the frames of the worker and the scheduler and on the refinement of the ledger),
  \<open>peer_service\<close> (what the worker relies on of a provisioner; for the mock, \<open>mock_peers\<close>, and for
  client, network and script together, \<open>vpn_host\<close>; \<open>Deployment\<close> adds what a job makes of it),
  \<open>speech\<close> (a handler or action sends only what satisfies a predicate; for complete messages),
  \<open>queueing\<close> (a check that queues a job for each subscription without one) and \<open>harmless_sub\<close>
  (a substitution that makes no new link; for the last three patterns).

  \<^bold>\<open>Bounds.\<close> A request has at most 4096 bytes and a reply at most 1 MiB, as in the code; requests
  and replies of the commands on a peer are shown to stay below (\<open>request_size\<close>, \<open>done_size\<close>). The
  JSON reader has fuel; the length of the text is enough for every text the
  client writes (\<open>loads_dumps\<close>). A chain of migrations is followed for as many steps as there
  are revisions. All other recursion is structural or has a measure; the bound of
  \<open>polls_come_to_rest\<close> is the number of attempts the queued jobs have left.

  \<^bold>\<open>Atomicity.\<close> A step of \<open>Bot_System\<close> is a whole update, claim, job, poll or check. In the
  code another task may run while one waits for Telegram or a VPN host; claiming is modelled
  as the single UPDATE it is, and \<open>claims_exclusive\<close> is about any interleaving of claims. A
  command of vpnctl holds the file lock from its first read to its last write and is one step.

  \<^bold>\<open>Not modelled.\<close> \<open>migrations/env.py\<close> and the \<open>main\<close> functions (connections, signals and the
  loops of asyncio, the command line of vpnctl); the time stamp of the health report; the
  configuration of structlog; foreign keys, which SQLite does not check. A column nobody reads
  is left out of its record. A row is read as it was last committed: that the worker keeps one
  session, with the rows it has loaded, through a poll (\<open>expire_on_commit=False\<close>) is not
  modelled. Of vpnctl: a reply that arrives in part, errors of reading a file
  that is there or of removing one, of making the directory and taking the lock, a request nested so deeply that Python's own limit on
  recursion ends it, shell quoting in \<open>AWG_BIN\<close>; texts are of characters below 256, and results
  of Python's library that only go into a message (\<open>repr\<close>, \<open>sorted\<close>) are parameters.

  \<^bold>\<open>Plan.\<close> Nothing of the program's own logic is left out that is not glue to a library. What
  could be refined further is the atomicity above: steps finer than a transaction.
\<close>

end
